(* ===== verification/Prelude.thy ===== *)
theory Prelude
  imports Main "HOL-Library.Word" "HOL-Library.Monad_Syntax"
begin

text \<open>
  The vocabulary and the automation the components share: 64-bit registers seen through a
  32-bit data bus (\<open>get_half\<close>, \<open>set_half\<close>), bit slices of an address, and the theorem
  collections that carry the component proofs.
  Fallible code (signed overflow of a C \<open>int\<close>, an unknown value on a bus, a loop that does
  not return) has type \<^typ>\<open>'a option\<close>, written in the do-notation of the library.
\<close>

unbundle bit_operations_syntax

subsection \<open>Collections\<close>

named_theorems half_simps \<open>reading and writing one 32-bit half of a 64-bit register\<close>
named_theorems rtl_defs \<open>definitions of the combinational and clocked blocks of the RTL\<close>
named_theorems rtl_simps \<open>field-wise effect of one clock cycle\<close>

subsection \<open>Machine types\<close>

type_synonym u32 = "32 word"
type_synonym u64 = "64 word"

lemma unat_of_nat_u32: "n < 4294967296 \<Longrightarrow> unat (of_nat n :: u32) = n"
  by (simp add: unat_of_nat take_bit_nat_eq_self)

subsection \<open>Halves of a 64-bit register\<close>

text \<open>\<open>get_half h w\<close> is the 32-bit half of \<open>w\<close> that address bit 2 selects: the high one
  when \<open>h\<close> holds; \<open>set_half h v w\<close> replaces that half by \<open>v\<close>.\<close>

definition get_half :: "bool \<Rightarrow> u64 \<Rightarrow> u32" where
  "get_half h w = ucast (drop_bit (if h then 32 else 0) w)"

definition set_half :: "bool \<Rightarrow> u32 \<Rightarrow> u64 \<Rightarrow> u64" where
  "set_half h v w =
     (if h then push_bit 32 (ucast v) OR (w AND mask 32)
      else (w AND NOT (mask 32)) OR ucast v)"

lemma bit_get_half: "bit (get_half h w) n \<longleftrightarrow> n < 32 \<and> bit w ((if h then 32 else 0) + n)"
  by (auto simp: get_half_def bit_simps)

lemma bit_set_half:
  "bit (set_half h v w) n \<longleftrightarrow>
     (if h then (if n < 32 then bit w n else n < 64 \<and> bit v (n - 32))
      else (if n < 32 then bit v n else bit w n))"
  by (auto simp: set_half_def bit_simps dest: bit_imp_le_length)

lemma get_set_half_same [half_simps, simp]: "get_half h (set_half h v w) = v"
  by (rule bit_word_eqI) (auto simp: bit_get_half bit_set_half)

lemma get_set_half_other [half_simps, simp]:
  "h \<noteq> h' \<Longrightarrow> get_half h (set_half h' v w) = get_half h w"
  by (rule bit_word_eqI) (auto simp: bit_get_half bit_set_half)

lemma set_half_overwrite [half_simps, simp]: "set_half h v (set_half h v' w) = set_half h v w"
  by (rule bit_word_eqI) (auto simp: bit_set_half)

lemma half_eqI:
  assumes "get_half False v = get_half False w" and "get_half True v = get_half True w"
  shows "v = w"
proof (rule bit_word_eqI)
  fix n assume n: "n < LENGTH(64)"
  have "bit (get_half False v) n = bit (get_half False w) n"
    and "bit (get_half True v) (n - 32) = bit (get_half True w) (n - 32)"
    using assms by simp_all
  then show "bit v n = bit w n"
    using n by (cases "n < 32") (auto simp: bit_get_half)
qed

lemma set_half_get_half [half_simps, simp]:
  "set_half True (get_half True w) (set_half False (get_half False w) v) = w"
  "set_half False (get_half False w) (set_half True (get_half True w) v) = w"
  by (rule half_eqI; simp)+

text \<open>The expressions C code uses for the halves: masking, shifting, and assembling.\<close>

lemma low_half_c [half_simps]: "ucast (w AND 0xFFFFFFFF :: u64) = get_half False w"
proof -
  have low: "w AND 0xFFFFFFFF = take_bit 32 w"
    by (simp add: take_bit_eq_mask mask_eq_exp_minus_1)
  show ?thesis
    unfolding low by (intro bit_word_eqI) (auto simp: bit_get_half bit_simps)
qed

lemma high_half_c [half_simps]: "ucast (drop_bit 32 w) = get_half True w"
  by (simp add: get_half_def)

definition join_halves :: "u32 \<Rightarrow> u32 \<Rightarrow> u64" where
  "join_halves hi lo = push_bit 32 (ucast hi) OR ucast lo"

lemma join_halves_c [half_simps]: "ucast lo OR push_bit 32 (ucast hi) = join_halves hi lo"
  by (simp add: join_halves_def or.commute)

lemma get_half_join_halves [half_simps, simp]:
  "get_half True (join_halves hi lo) = hi" "get_half False (join_halves hi lo) = lo"
  by (intro bit_word_eqI; auto simp: join_halves_def bit_get_half bit_simps dest: bit_imp_le_length)+

lemma join_halves_get_half [half_simps, simp]:
  "join_halves (get_half True w) (get_half False w) = w"
  by (rule half_eqI) simp_all

text \<open>Updating one half of one entry of a list of registers (a write past the end is dropped).\<close>

lemma nth_update_half_other [half_simps]:
  "i \<noteq> j \<or> h \<noteq> h' \<Longrightarrow> get_half h (xs[i := set_half h' v (xs ! i)] ! j) = get_half h (xs ! j)"
  by (cases "i < length xs") (auto simp: nth_list_update list_update_beyond)

text \<open>The same halves as numbers: the low half is the remainder, the high half the quotient.\<close>

lemma unat_get_half_low: "unat (get_half False w) = unat w mod 2 ^ 32"
  by (simp add: get_half_def unsigned_ucast_eq take_bit_eq_mod)

lemma unat_get_half_high: "unat (get_half True w) = unat w div 2 ^ 32"
proof -
  have "unat w < 2 ^ LENGTH(64)"
    by (rule unsigned_less)
  then have "unat w div 2 ^ 32 < 2 ^ 32"
    by (simp add: less_mult_imp_div_less)
  then show ?thesis
    by (simp add: get_half_def unsigned_ucast_eq take_bit_eq_mod drop_bit_eq_div unat_div)
qed

lemma unat_halves: "unat w = unat (get_half True w) * 2 ^ 32 + unat (get_half False w)"
  by (simp only: unat_get_half_low unat_get_half_high div_mult_mod_eq)

lemma unat_join_halves: "unat (join_halves hi lo) = unat hi * 2 ^ 32 + unat lo"
  by (subst unat_halves) simp

subsection \<open>Halves of a running counter\<close>

text \<open>Fewer than \<open>2 ^ 32\<close> increments carry into the high half at most once.\<close>

lemma mod_square_div:
  fixes a b :: nat
  assumes "0 < b"
  shows "a mod (b * b) div b = a div b mod b"
  using assms by (simp add: mod_mult2_eq)

lemma add_div_carry:
  fixes x m b :: nat
  assumes "m < b"
  shows "(x + m) div b = x div b + (if x mod b + m < b then 0 else 1)"
proof -
  have "(x + m) div b = x div b + (x mod b + m) div b"
    using assms by (simp add: div_add1_eq [of x m b])
  moreover have "(x mod b + m) div b = 1" if "\<not> x mod b + m < b"
  proof (rule div_nat_eqI)
    show "b * 1 \<le> x mod b + m" using that by simp
    have "x mod b < b" using assms by (intro mod_less_divisor) simp
    then have "x mod b + m < b + b" using assms by (rule add_strict_mono)
    then show "x mod b + m < b * Suc 1" by simp
  qed
  ultimately show ?thesis by auto
qed

lemma unat_add_of_nat_u64: "unat (x + of_nat m :: u64) = (unat x + m) mod 2 ^ 64"
  by (simp add: unat_word_ariths unat_of_nat take_bit_eq_mod mod_simps)

lemma get_half_low_add: "get_half False (x + of_nat m) = get_half False x + of_nat m"
  by (simp add: word_unat_eq_iff unat_get_half_low unat_add_of_nat_u64 unat_word_ariths
      unat_of_nat take_bit_eq_mod mod_mod_cancel mod_simps)

lemma get_half_high_add:
  assumes "m < 2 ^ 32"
  shows "get_half True (x + of_nat m) =
    get_half True x + (if unat (get_half False x) + m < 2 ^ 32 then 0 else 1)"
proof -
  let ?c = "if unat x mod 2 ^ 32 + m < 2 ^ 32 then 0 else 1 :: nat"
  have "unat (get_half True (x + of_nat m)) = (unat x + m) mod (2 ^ 32 * 2 ^ 32) div 2 ^ 32"
    by (simp add: unat_get_half_high unat_add_of_nat_u64)
  also have "\<dots> = (unat x div 2 ^ 32 + ?c) mod 2 ^ 32"
    using assms by (simp only: mod_square_div add_div_carry zero_less_power zero_less_numeral)
  also have "\<dots> = unat (get_half True x + of_nat ?c)"
    by (simp add: unat_get_half_high unat_word_ariths)
  finally show ?thesis
    by (simp add: word_unat_eq_iff unat_get_half_low)
qed

lemma join_halves_add:
  assumes "m < 2 ^ 32" and "unat lo + m < 2 ^ 32"
  shows "join_halves hi (lo + of_nat m) = join_halves hi lo + of_nat m"
  by (rule half_eqI) (use assms in \<open>simp_all add: get_half_low_add get_half_high_add\<close>)

text \<open>A high half that is the same at two instants less than \<open>2 ^ 32\<close> apart is the same at every
  instant between them; if it differs, the one carry of that span has happened.\<close>

lemma same_high_between:
  assumes "m \<le> n" and "n < 2 ^ 32" and "get_half True (x + of_nat n) = get_half True x"
  shows "get_half True (x + of_nat m) = get_half True x"
  using assms by (auto simp: get_half_high_add split: if_splits)

lemma differs_high_after:
  assumes "k \<le> m" and "m \<le> n" and "n < 2 ^ 32" and "get_half True (x + of_nat k) \<noteq> get_half True x"
  shows "get_half True (x + of_nat m) = get_half True (x + of_nat n)"
  using assms by (auto simp: get_half_high_add split: if_splits)

text \<open>The same, for three instants of one counter.\<close>

lemma torn_free_join:
  assumes "i \<le> j" and "j \<le> k" and "k < 2 ^ 32"
    and "get_half True (t + of_nat i) = get_half True (t + of_nat k)"
  shows "join_halves (get_half True (t + of_nat i)) (get_half False (t + of_nat j)) = t + of_nat j"
proof -
  have j: "t + of_nat j = t + of_nat i + of_nat (j - i)" and k: "t + of_nat k = t + of_nat i + of_nat (k - i)"
    using assms(1,2) by simp_all
  have "get_half True (t + of_nat j) = get_half True (t + of_nat i)"
    using assms(4) unfolding j k
    by (intro same_high_between [of "j - i" "k - i"]) (use assms in auto)
  then show ?thesis
    by (intro half_eqI) simp_all
qed

lemma second_round_agrees:
  assumes "i \<le> k" and "k \<le> i'" and "i' \<le> k'" and "k' < 2 ^ 32"
    and "get_half True (t + of_nat i) \<noteq> get_half True (t + of_nat k)"
  shows "get_half True (t + of_nat i') = get_half True (t + of_nat k')"
proof -
  have shift: "t + of_nat n = t + of_nat i + of_nat (n - i)" if "i \<le> n" for n
    using that by simp
  show ?thesis
    using assms differs_high_after [of "k - i" "i' - i" "k' - i" "t + of_nat i"]
    by (simp only: shift [of k] shift [of i'] shift [of k'])
qed

end
