(* ===== verification/Clint_RTL.thy ===== *)
theory Clint_RTL
  imports Prelude
begin

text \<open>
  The hardware: the Verilog of the \<open>snippets\<close> and the \<open>comb\<close> block of \<open>iob_clint.py\<close>, one
  definition per \<open>always\<close> block or continuous assignment, composed into one clock cycle.
  A vector indexed by the hart is a list (\<open>msip_reg\<close>, \<open>mtimecmp\<close>); a read that can hit an
  index outside the vector (unknown bits \<open>x\<close> in Verilog) is \<open>None\<close>; a write outside is dropped,
  as Verilog drops it.
  The cells that are not in the repository, the \<open>iob_counter\<close> core and the flip-flops the
  generator infers for signals assigned through \<open>_nxt\<close> and \<open>_en\<close>, are a parameter
  (\<open>cells\<close>); \<open>cells_ok\<close> states their documented behaviour.
\<close>

subsection \<open>Parameters, ports and registers\<close>

text \<open>The \<open>confs\<close> the Verilog depends on (\<open>DATA_W\<close> is 32 and \<open>ADDR_W\<close> 16, as the bus port
  fixes them).\<close>

record params =
  N_CORES :: nat
  FREQ :: nat

definition default_params :: params where
  "default_params = \<lparr>N_CORES = 1, FREQ = 100000000\<rparr>"

record clint_in =
  arst_i :: bool
  cke_i :: bool
  iob_valid_i :: bool
  iob_addr_i :: "16 word"
  iob_wdata_i :: u32
  iob_wstrb_i :: "4 word"

record clint =
  iob_rdata_reg :: "u32 option"
  mtimecmp :: "u64 list"
  mtime :: u64
  msip_reg :: "bool list"
  increment_timer_r :: bool
  iob_rvalid :: bool
  counter :: "10 word"

text \<open>\<open>dff arst cke en d q\<close> and \<open>iob_counter arst cke rst en q\<close> are the values of a cell's
  register after a clock edge.\<close>

record cells =
  dff :: "bool \<Rightarrow> bool \<Rightarrow> bool \<Rightarrow> bool \<Rightarrow> bool \<Rightarrow> bool"
  iob_counter :: "bool \<Rightarrow> bool \<Rightarrow> bool \<Rightarrow> bool \<Rightarrow> 10 word \<Rightarrow> 10 word"

definition cells_ok :: "cells \<Rightarrow> bool" where
  "cells_ok C \<longleftrightarrow>
     (\<forall>cke en d q. dff C True cke en d q = False) \<and>
     (\<forall>cke en d q. dff C False cke en d q = (if cke \<and> en then d else q)) \<and>
     (\<forall>cke rst en q. iob_counter C True cke rst en q = 0) \<and>
     (\<forall>cke rst en q. iob_counter C False cke rst en q =
        (if cke then if rst then 0 else if en then q + 1 else q else q))"

definition std_cells :: cells where
  "std_cells =
     \<lparr>dff = (\<lambda>arst cke en d q. if arst then False else if cke \<and> en then d else q),
      iob_counter = (\<lambda>arst cke rst en q.
        if arst then 0 else if cke then if rst then 0 else if en then q + 1 else q else q)\<rparr>"

lemma cells_ok_std_cells [simp]: "cells_ok std_cells"
  by (simp add: cells_ok_def std_cells_def)

subsection \<open>Address decoding\<close>

text \<open>\<open>localparam\<close>s of the snippet; \<open>$clog2\<close> is the number of bits that count up to \<open>n\<close>.\<close>

fun clog2 :: "nat \<Rightarrow> nat" where
  "clog2 n = (if n \<le> 1 then 0 else Suc (clog2 ((n + 1) div 2)))"

declare clog2.simps [simp del]

definition AddrSelWidth :: "params \<Rightarrow> nat" where
  "AddrSelWidth P = (if N_CORES P = 1 then 1 else clog2 (N_CORES P))"

definition MSIBase :: nat where "MSIBase = 0"
definition MTimeCMPBase :: nat where "MTimeCMPBase = 0x4000"
definition MTimeBase :: nat where "MTimeBase = 0xbff8"

text \<open>A part-select \<open>a[hi:lo]\<close> of the address, as a number.\<close>

definition slice :: "nat \<Rightarrow> nat \<Rightarrow> 16 word \<Rightarrow> nat" where
  "slice hi lo a = unat (take_bit (Suc hi - lo) (drop_bit lo a))"

definition msip_index :: "params \<Rightarrow> 16 word \<Rightarrow> nat" where
  "msip_index P a = slice (AddrSelWidth P + 1) 2 a"

definition mtimecmp_index :: "params \<Rightarrow> 16 word \<Rightarrow> nat" where
  "mtimecmp_index P a = slice (AddrSelWidth P + 2) 3 a"

definition nth_opt :: "'a list \<Rightarrow> nat \<Rightarrow> 'a option" where
  "nth_opt xs i = (if i < length xs then Some (xs ! i) else None)"

definition write_en :: "clint_in \<Rightarrow> bool" where
  "write_en i \<longleftrightarrow> iob_wstrb_i i \<noteq> 0"

subsection \<open>The clocked blocks\<close>

text \<open>Address decoder: the read data register follows the address in every cycle.\<close>

definition next_rdata :: "params \<Rightarrow> clint_in \<Rightarrow> clint \<Rightarrow> u32 option" where
  "next_rdata P i s =
     (let a = unat (iob_addr_i i) in
      if arst_i i then Some 0
      else if a < MTimeCMPBase then
        map_option of_bool (nth_opt (msip_reg s) (msip_index P (iob_addr_i i)))
      else if a < MTimeBase then
        map_option (get_half (bit (iob_addr_i i) 2))
          (nth_opt (mtimecmp s) (mtimecmp_index P (iob_addr_i i)))
      else Some (get_half (bit (iob_addr_i i) 2) (mtime s)))"

text \<open>The prescaler: \<open>FREQ / 100000 - 1\<close> is a 32-bit expression, unsigned because \<open>counter\<close> is.\<close>

definition tick_limit :: "params \<Rightarrow> u32" where
  "tick_limit P = of_nat (FREQ P div 100000) - 1"

definition counter_e :: "params \<Rightarrow> clint \<Rightarrow> bool" where
  "counter_e P s \<longleftrightarrow> (ucast (counter s) :: u32) < tick_limit P"

definition increment_timer :: "params \<Rightarrow> clint \<Rightarrow> bool" where
  "increment_timer P s \<longleftrightarrow> (ucast (counter s) :: u32) = tick_limit P"

text \<open>\<open>mtimecmp\<close>, with the write decoder in its enable condition.\<close>

definition mtimecmp_hit :: "params \<Rightarrow> clint_in \<Rightarrow> bool" where
  "mtimecmp_hit P i \<longleftrightarrow> iob_valid_i i \<and> write_en i \<and>
     MTimeCMPBase \<le> unat (iob_addr_i i) \<and> unat (iob_addr_i i) < MTimeCMPBase + 8 * N_CORES P"

definition next_mtimecmp :: "params \<Rightarrow> clint_in \<Rightarrow> clint \<Rightarrow> u64 list" where
  "next_mtimecmp P i s =
     (if arst_i i then replicate (N_CORES P) (- 1)
      else if mtimecmp_hit P i then
        (let k = mtimecmp_index P (iob_addr_i i) in
         (mtimecmp s)[k := set_half (bit (iob_addr_i i) 2) (iob_wdata_i i) (mtimecmp s ! k)])
      else mtimecmp s)"

text \<open>\<open>mtime\<close>: a bus write has priority over the increment.\<close>

definition mtime_hit :: "clint_in \<Rightarrow> bool" where
  "mtime_hit i \<longleftrightarrow> iob_valid_i i \<and> write_en i \<and>
     MTimeBase \<le> unat (iob_addr_i i) \<and> unat (iob_addr_i i) < MTimeBase + 8"

definition next_mtime :: "clint_in \<Rightarrow> clint \<Rightarrow> u64" where
  "next_mtime i s =
     (if arst_i i then 0
      else if mtime_hit i then set_half (bit (iob_addr_i i) 2) (iob_wdata_i i) (mtime s)
      else if increment_timer_r s then mtime s + 1
      else mtime s)"

text \<open>\<open>msip\<close>.\<close>

definition msip_hit :: "params \<Rightarrow> clint_in \<Rightarrow> bool" where
  "msip_hit P i \<longleftrightarrow> iob_valid_i i \<and> write_en i \<and>
     MSIBase \<le> unat (iob_addr_i i) \<and> unat (iob_addr_i i) < MSIBase + 4 * N_CORES P"

definition next_msip :: "params \<Rightarrow> clint_in \<Rightarrow> clint \<Rightarrow> bool list" where
  "next_msip P i s =
     (if arst_i i then replicate (N_CORES P) False
      else if msip_hit P i then
        (msip_reg s)[msip_index P (iob_addr_i i) := bit (iob_wdata_i i) 0]
      else msip_reg s)"

text \<open>The \<open>comb\<close> block: inputs of the inferred flip-flops and of the counter.\<close>

definition next_rvalid :: "cells \<Rightarrow> clint_in \<Rightarrow> clint \<Rightarrow> bool" where
  "next_rvalid C i s = dff C (arst_i i) (cke_i i) (\<not> write_en i) (iob_valid_i i) (iob_rvalid s)"

definition next_increment_timer_r :: "cells \<Rightarrow> params \<Rightarrow> clint_in \<Rightarrow> clint \<Rightarrow> bool" where
  "next_increment_timer_r C P i s =
     dff C (arst_i i) (cke_i i) True (increment_timer P s) (increment_timer_r s)"

definition next_counter :: "cells \<Rightarrow> params \<Rightarrow> clint_in \<Rightarrow> clint \<Rightarrow> 10 word" where
  "next_counter C P i s =
     iob_counter C (arst_i i) (cke_i i) (\<not> counter_e P s) (counter_e P s) (counter s)"

text \<open>One rising clock edge: all registers at once, from the old state.\<close>

definition clint_cycle :: "cells \<Rightarrow> params \<Rightarrow> clint_in \<Rightarrow> clint \<Rightarrow> clint" where
  "clint_cycle C P i s =
     \<lparr>iob_rdata_reg = next_rdata P i s,
      mtimecmp = next_mtimecmp P i s,
      mtime = next_mtime i s,
      msip_reg = next_msip P i s,
      increment_timer_r = next_increment_timer_r C P i s,
      iob_rvalid = next_rvalid C i s,
      counter = next_counter C P i s\<rparr>"

text \<open>The outputs.\<close>

definition mtip_o :: "params \<Rightarrow> bool \<Rightarrow> clint \<Rightarrow> bool list" where
  "mtip_o P arst s =
     (if arst then replicate (N_CORES P) False
      else map (\<lambda>k. mtimecmp s ! k \<le> mtime s) [0..<N_CORES P])"

definition msip_o :: "clint \<Rightarrow> bool list" where
  "msip_o s = msip_reg s"

definition iob_ready_o :: "clint \<Rightarrow> bool" where
  "iob_ready_o s = True"

text \<open>Several cycles, one input each.\<close>

fun clint_run :: "cells \<Rightarrow> params \<Rightarrow> clint_in list \<Rightarrow> clint \<Rightarrow> clint" where
  "clint_run C P [] s = s"
| "clint_run C P (i # is) s = clint_run C P is (clint_cycle C P i s)"

lemma clint_run_append: "clint_run C P (xs @ ys) s = clint_run C P ys (clint_run C P xs s)"
  by (induction xs arbitrary: s) auto

lemmas clint_cycle_blocks [rtl_defs] =
  clint_cycle_def next_rdata_def next_mtimecmp_def next_mtime_def next_msip_def
  next_increment_timer_r_def next_rvalid_def next_counter_def Let_def

lemma clint_cycle_simps [rtl_simps, simp]:
  "iob_rdata_reg (clint_cycle C P i s) = next_rdata P i s"
  "mtimecmp (clint_cycle C P i s) = next_mtimecmp P i s"
  "mtime (clint_cycle C P i s) = next_mtime i s"
  "msip_reg (clint_cycle C P i s) = next_msip P i s"
  "increment_timer_r (clint_cycle C P i s) = next_increment_timer_r C P i s"
  "iob_rvalid (clint_cycle C P i s) = next_rvalid C i s"
  "counter (clint_cycle C P i s) = next_counter C P i s"
  by (simp_all add: clint_cycle_def)

subsection \<open>Valid parameters and well-formed states\<close>

text \<open>\<open>N_CORES\<close> ranges over what its \<open>confs\<close> entry allows.\<close>

definition params_ok :: "params \<Rightarrow> bool" where
  "params_ok P \<longleftrightarrow> 1 \<le> N_CORES P \<and> N_CORES P \<le> 8"

definition clint_wf :: "params \<Rightarrow> clint \<Rightarrow> bool" where
  "clint_wf P s \<longleftrightarrow> length (mtimecmp s) = N_CORES P \<and> length (msip_reg s) = N_CORES P"

lemma length_next_mtimecmp: "clint_wf P s \<Longrightarrow> length (next_mtimecmp P i s) = N_CORES P"
  by (simp add: clint_wf_def next_mtimecmp_def Let_def)

lemma length_next_msip: "clint_wf P s \<Longrightarrow> length (next_msip P i s) = N_CORES P"
  by (simp add: clint_wf_def next_msip_def)

lemma clint_wf_cycle [intro]: "clint_wf P s \<Longrightarrow> clint_wf P (clint_cycle C P i s)"
  by (simp add: clint_wf_def length_next_mtimecmp length_next_msip)

lemma clint_wf_reset: "arst_i i \<Longrightarrow> clint_wf P (clint_cycle C P i s)"
  by (simp add: clint_wf_def next_mtimecmp_def next_msip_def)

lemma clint_wf_run [intro]: "clint_wf P s \<Longrightarrow> clint_wf P (clint_run C P is s)"
  by (induction "is" arbitrary: s) auto

subsection \<open>The decoder as arithmetic on the address\<close>

lemma le_two_power_clog2: "n \<le> 2 ^ clog2 n"
proof (induction n rule: clog2.induct)
  case (1 n)
  show ?case
  proof (cases "n \<le> 1")
    case True
    then show ?thesis by (simp add: clog2.simps [of n])
  next
    case False
    with 1 have "(n + 1) div 2 \<le> 2 ^ clog2 ((n + 1) div 2)" by simp
    then show ?thesis using False by (simp add: clog2.simps [of n])
  qed
qed

lemma N_CORES_cases:
  assumes "params_ok P"
  obtains "N_CORES P = 1" | "N_CORES P = 2" | "N_CORES P = 3" | "N_CORES P = 4"
    | "N_CORES P = 5" | "N_CORES P = 6" | "N_CORES P = 7" | "N_CORES P = 8"
  using assms by (force simp: params_ok_def)

lemma N_CORES_le_AddrSel: "params_ok P \<Longrightarrow> N_CORES P \<le> 2 ^ AddrSelWidth P"
  by (simp add: AddrSelWidth_def le_two_power_clog2)

lemma AddrSelWidth_cases: "params_ok P \<Longrightarrow> AddrSelWidth P \<in> {1, 2, 3}"
  by (erule N_CORES_cases) (simp_all add: AddrSelWidth_def clog2.simps)

lemma slice_eq: "slice hi lo a = unat a div 2 ^ lo mod 2 ^ (Suc hi - lo)"
  unfolding slice_def unsigned_take_bit_eq unat_drop_bit_eq
  by (simp only: take_bit_eq_mod drop_bit_eq_div)

lemma msip_index_eq:
  assumes "params_ok P" and "unat a < 4 * N_CORES P"
  shows "msip_index P a = unat a div 4" and "msip_index P a < N_CORES P"
proof -
  have "unat a div 4 < N_CORES P" using assms(2) by auto
  moreover from this have "unat a div 4 < 2 ^ AddrSelWidth P"
    using N_CORES_le_AddrSel [OF assms(1)] by simp
  ultimately show "msip_index P a = unat a div 4" and "msip_index P a < N_CORES P"
    by (simp_all add: msip_index_def slice_eq)
qed

lemma mtimecmp_index_eq:
  assumes "params_ok P" and "0x4000 \<le> unat a" and "unat a < 0x4000 + 8 * N_CORES P"
  shows "mtimecmp_index P a = (unat a - 0x4000) div 8" and "mtimecmp_index P a < N_CORES P"
proof -
  obtain b where b: "unat a = 0x4000 + b" using assms(2) by (metis le_Suc_ex)
  have lt: "b div 8 < N_CORES P" using assms(3) b by auto
  then have "b div 8 < 2 ^ AddrSelWidth P"
    using N_CORES_le_AddrSel [OF assms(1)] by simp
  moreover have "(2::nat) ^ AddrSelWidth P dvd 0x800"
    using AddrSelWidth_cases [OF assms(1)] by auto
  then obtain c where c: "(0x800::nat) = 2 ^ AddrSelWidth P * c" by (rule dvdE)
  ultimately have "(0x800 + b div 8) mod 2 ^ AddrSelWidth P = b div 8"
    unfolding c by simp
  moreover have "(0x4000 + b) div 8 = 0x800 + b div 8" by simp
  ultimately have "mtimecmp_index P a = b div 8"
    by (simp add: mtimecmp_index_def slice_eq b)
  with lt b show "mtimecmp_index P a = (unat a - 0x4000) div 8"
    and "mtimecmp_index P a < N_CORES P" by simp_all
qed

lemma addr_bit2: "bit (a :: 16 word) 2 \<longleftrightarrow> odd (unat a div 4)"
proof -
  have "bit a 2 \<longleftrightarrow> bit (unat a) 2" by (auto simp: bit_unsigned_iff dest: bit_imp_le_length)
  then show ?thesis by (simp add: bit_iff_odd)
qed

subsection \<open>Concrete inputs and a concrete state, for evaluation\<close>

definition demo_input :: "bool \<Rightarrow> bool \<Rightarrow> 16 word \<Rightarrow> u32 \<Rightarrow> 4 word \<Rightarrow> clint_in" where
  "demo_input rst valid a d strb =
     \<lparr>arst_i = rst, cke_i = True, iob_valid_i = valid, iob_addr_i = a, iob_wdata_i = d,
      iob_wstrb_i = strb\<rparr>"

definition demo_clint :: clint where
  "demo_clint =
     \<lparr>iob_rdata_reg = Some 0, mtimecmp = [- 1], mtime = 41, msip_reg = [False],
      increment_timer_r = True, iob_rvalid = False, counter = 0\<rparr>"

lemmas demo_defs = demo_input_def demo_clint_def default_params_def

end
