(* ===== verification/Clint_Timer.thy ===== *)
theory Clint_Timer
  imports Clint_RTL
begin

text \<open>
  The prescaler of \<open>iob_clint.py\<close> (\<open>counter\<close>, \<open>counter_e\<close>, \<open>increment_timer\<close>,
  \<open>increment_timer_r\<close>) and the free-running \<open>mtime\<close>: the exact tick period, and the range of
  \<open>FREQ\<close> for which the 10-bit counter can reach its limit at all.
\<close>

subsection \<open>The tick period\<close>

definition tick_period :: "params \<Rightarrow> nat" where
  "tick_period P = FREQ P div 100000"

definition ticking :: "params \<Rightarrow> bool" where
  "ticking P \<longleftrightarrow> 1 \<le> tick_period P \<and> tick_period P \<le> 1024"

text \<open>A cycle in which the clock runs and the bus does not write \<open>mtime\<close>.\<close>

definition free_running :: "clint_in \<Rightarrow> bool" where
  "free_running i \<longleftrightarrow> \<not> arst_i i \<and> cke_i i \<and> \<not> mtime_hit i"

lemma unat_counter_less: "unat (c :: 10 word) < 1024"
proof -
  have "unat c < 2 ^ LENGTH(10)" by (rule unsigned_less)
  then show ?thesis by simp
qed

lemma unat_ucast_counter: "unat (ucast (c :: 10 word) :: u32) = unat c"
  using unat_counter_less [of c] by (simp add: unsigned_ucast_eq take_bit_nat_eq_self)

lemma unat_tick_limit:
  assumes "ticking P"
  shows "unat (tick_limit P) = tick_period P - 1"
proof -
  have "tick_limit P = of_nat (tick_period P - 1)"
    using assms by (simp add: tick_limit_def tick_period_def ticking_def)
  moreover have "tick_period P - 1 < 4294967296"
    using assms unfolding ticking_def by linarith
  ultimately show ?thesis
    by (simp only: unat_of_nat_u32)
qed

lemma counter_e_iff: "ticking P \<Longrightarrow> counter_e P s \<longleftrightarrow> unat (counter s) < tick_period P - 1"
  by (simp add: counter_e_def word_less_nat_alt unat_tick_limit unat_ucast_counter)

lemma increment_timer_iff:
  "ticking P \<Longrightarrow> increment_timer P s \<longleftrightarrow> unat (counter s) = tick_period P - 1"
  by (simp add: increment_timer_def word_unat_eq_iff unat_tick_limit unat_ucast_counter)

subsection \<open>The state after \<open>n\<close> cycles\<close>

text \<open>The timer \<open>n\<close> cycles after an instant at which the prescaler was 0 and \<open>mtime\<close> was \<open>t\<close>.\<close>

definition timer_at :: "params \<Rightarrow> u64 \<Rightarrow> nat \<Rightarrow> clint \<Rightarrow> bool" where
  "timer_at P t n s \<longleftrightarrow>
     unat (counter s) = n mod tick_period P \<and>
     increment_timer_r s = (0 < n \<and> n mod tick_period P = 0) \<and>
     mtime s = t + of_nat ((n - 1) div tick_period P)"

lemma timer_at_reset:
  assumes "cells_ok C" and "arst_i i"
  shows "timer_at P 0 0 (clint_cycle C P i s)"
  using assms
  by (simp add: timer_at_def next_counter_def next_increment_timer_r_def next_mtime_def cells_ok_def)

lemma next_counter_eq:
  assumes "cells_ok C" and "ticking P" and "free_running i"
    and "unat (counter s) = n mod tick_period P"
  shows "unat (next_counter C P i s) = Suc n mod tick_period P"
proof (cases "n mod tick_period P < tick_period P - 1")
  case True
  then have "unat (counter s) + 1 < 1024"
    using assms(2,4) unfolding ticking_def by linarith
  then have "unat (counter s + 1) = unat (counter s) + 1"
    by (simp add: unat_word_ariths)
  then show ?thesis
    using True assms by (simp add: next_counter_def cells_ok_def free_running_def counter_e_iff mod_Suc)
next
  case False
  then have "Suc (n mod tick_period P) = tick_period P"
    using assms(2) mod_less_divisor [of "tick_period P" n] unfolding ticking_def by linarith
  then show ?thesis
    using False assms by (simp add: next_counter_def cells_ok_def free_running_def counter_e_iff mod_Suc)
qed

lemma pred_div_step:
  fixes m n :: nat
  assumes "0 < m"
  shows "n div m = (n - 1) div m + (if 0 < n \<and> n mod m = 0 then 1 else 0)"
proof (cases n)
  case (Suc k)
  then show ?thesis using assms by (simp add: div_Suc)
qed simp

lemma timer_at_step:
  assumes "cells_ok C" and "ticking P" and "free_running i" and "timer_at P t n s"
  shows "timer_at P t (Suc n) (clint_cycle C P i s)"
proof -
  have pos: "0 < tick_period P" using assms(2) by (simp add: ticking_def)
  have "unat (next_counter C P i s) = Suc n mod tick_period P"
    using assms by (intro next_counter_eq) (simp_all add: timer_at_def)
  moreover have "next_increment_timer_r C P i s = (Suc n mod tick_period P = 0)"
    using assms pos
    by (auto simp: next_increment_timer_r_def cells_ok_def free_running_def increment_timer_iff
        timer_at_def mod_Suc)
  moreover have "next_mtime i s = t + of_nat (n div tick_period P)"
    using assms pred_div_step [OF pos, of n]
    by (simp add: next_mtime_def free_running_def timer_at_def)
  ultimately show ?thesis by (simp add: timer_at_def)
qed

lemma timer_at_run:
  assumes "cells_ok C" and "ticking P"
  shows "list_all free_running is \<Longrightarrow> timer_at P t n s \<Longrightarrow>
    timer_at P t (n + length is) (clint_run C P is s)"
proof (induction "is" arbitrary: n s)
  case (Cons i "is")
  then show ?case using timer_at_step [OF assms] by (fastforce dest: Cons.IH)
qed simp

subsection \<open>The state at an arbitrary instant\<close>

text \<open>What the prescaler always satisfies, and the cycles it is past its last 0.\<close>

definition prescaler_ok :: "params \<Rightarrow> clint \<Rightarrow> bool" where
  "prescaler_ok P s \<longleftrightarrow>
     unat (counter s) < tick_period P \<and> (increment_timer_r s \<longrightarrow> counter s = 0)"

definition phase :: "params \<Rightarrow> clint \<Rightarrow> nat" where
  "phase P s = (if increment_timer_r s then tick_period P else unat (counter s))"

lemma prescaler_ok_cycle:
  assumes "cells_ok C" and "ticking P" and "prescaler_ok P s"
  shows "prescaler_ok P (clint_cycle C P i s)"
proof -
  have "unat (next_counter C P i s) < tick_period P \<and>
      (next_increment_timer_r C P i s \<longrightarrow> next_counter C P i s = 0)"
  proof (cases "arst_i i \<or> \<not> cke_i i")
    case True
    then show ?thesis using assms
      by (cases "arst_i i")
        (auto simp: next_counter_def next_increment_timer_r_def cells_ok_def prescaler_ok_def ticking_def)
  next
    case False
    have "unat (counter s + 1) = unat (counter s) + 1" if "unat (counter s) < tick_period P - 1"
    proof -
      have "unat (counter s) + 1 < 1024" using that assms(2) unfolding ticking_def by linarith
      then show ?thesis by (simp add: unat_word_ariths)
    qed
    then show ?thesis using False assms
      by (auto simp: next_counter_def next_increment_timer_r_def cells_ok_def prescaler_ok_def
          counter_e_iff increment_timer_iff ticking_def)
  qed
  then show ?thesis by (simp add: prescaler_ok_def)
qed

lemma timer_at_phase:
  assumes "ticking P" and "prescaler_ok P s"
  shows "timer_at P (mtime s) (phase P s) s"
  using assms by (auto simp: timer_at_def phase_def prescaler_ok_def ticking_def)

lemma phase_le: "prescaler_ok P s \<Longrightarrow> phase P s \<le> tick_period P"
  by (auto simp: phase_def prescaler_ok_def)

text \<open>From any such state, \<open>mtime\<close> runs at the same rate.\<close>

lemma mtime_run:
  assumes "cells_ok C" and "ticking P" and "prescaler_ok P s" and "list_all free_running is"
  shows "mtime (clint_run C P is s) =
    mtime s + of_nat ((phase P s + length is - 1) div tick_period P)"
  using timer_at_run [OF assms(1,2,4) timer_at_phase [OF assms(2,3)]] by (simp add: timer_at_def)

subsection \<open>A frequency the prescaler cannot divide\<close>

text \<open>Outside \<open>ticking\<close> the limit lies above every value of the 10-bit counter, so
  \<open>increment_timer\<close> never holds.\<close>

lemma counter_below_limit:
  assumes "\<not> ticking P" and "FREQ P < 2 ^ 32"
  shows "unat (c :: 10 word) < unat (tick_limit P)"
proof (cases "tick_period P = 0")
  case True
  then have "tick_limit P = - 1" by (simp add: tick_limit_def tick_period_def)
  then show ?thesis using unat_counter_less [of c]
    by (simp add: unsigned_minus_1_eq_mask mask_eq_exp_minus_1)
next
  case False
  then have "tick_limit P = of_nat (tick_period P - 1)"
    by (simp add: tick_limit_def tick_period_def)
  moreover have "tick_period P - 1 < 4294967296"
    using assms(2) div_le_dividend [of "FREQ P" 100000] by (simp add: tick_period_def)
  ultimately have "unat (tick_limit P) = tick_period P - 1"
    by (simp only: unat_of_nat_u32)
  then show ?thesis using unat_counter_less [of c] False assms(1) unfolding ticking_def by linarith
qed

lemma no_increment_timer:
  "\<not> ticking P \<Longrightarrow> FREQ P < 2 ^ 32 \<Longrightarrow> \<not> increment_timer P s"
  using counter_below_limit [of P "counter s"]
  by (simp add: increment_timer_def word_unat_eq_iff unat_ucast_counter)

lemma stuck_run:
  assumes "cells_ok C" and "\<not> ticking P" and "FREQ P < 2 ^ 32"
  shows "list_all free_running is \<Longrightarrow> \<not> increment_timer_r s \<Longrightarrow> mtime (clint_run C P is s) = mtime s"
proof (induction "is" arbitrary: s)
  case (Cons i "is")
  have "\<not> increment_timer_r (clint_cycle C P i s)" and "next_mtime i s = mtime s"
    using Cons.prems assms no_increment_timer [OF assms(2,3), of s]
    by (simp_all add: next_increment_timer_r_def cells_ok_def free_running_def next_mtime_def)
  with Cons show ?case by simp
qed simp

subsection \<open>Properties\<close>

text \<open>C6: the prescaler keeps the documented rate. From a reset, after any number of cycles in
  which the clock is enabled and the bus does not write \<open>mtime\<close> (it may read and write
  everything else), \<open>mtime\<close> is exactly the number of completed periods of \<open>FREQ / 100000\<close>
  cycles, that is one tick per 10 us; the pipeline register delays it by one cycle.\<close>

theorem mtime_counts_periods:
  assumes "cells_ok C" and "ticking P" and "arst_i r" and "list_all free_running is"
  shows "mtime (clint_run C P is (clint_cycle C P r s)) =
         of_nat ((length is - 1) div tick_period P)"
  using timer_at_run [OF assms(1,2,4) timer_at_reset [OF assms(1,3)]]
  by (simp add: timer_at_def)

lemma mtime_counts_periods_witness:
  "mtime (clint_run std_cells default_params (replicate 2501 (demo_input False False 0 0 0))
     (clint_cycle std_cells default_params (demo_input True False 0 0 0) demo_clint)) = 2"
proof -
  have "ticking default_params" and "tick_period default_params = 1000"
    by (simp_all add: ticking_def tick_period_def default_params_def)
  moreover have "list_all free_running (replicate 2501 (demo_input False False 0 0 0))"
    by (simp add: list_all_iff free_running_def mtime_hit_def demo_input_def)
  ultimately show ?thesis
    using mtime_counts_periods [of std_cells default_params "demo_input True False 0 0 0"
        "replicate 2501 (demo_input False False 0 0 0)" demo_clint]
    by (simp add: demo_input_def)
qed

text \<open>C34: the range of clock frequencies the device works at. For every \<open>FREQ\<close> below 100 kHz
  or from 102.5 MHz on, the comparison limit does not fit the 10-bit counter, and \<open>mtime\<close> stays
  at 0 for ever after a reset.\<close>

theorem mtime_stuck_at_zero:
  assumes "cells_ok C" and "FREQ P < 100000 \<or> 102500000 \<le> FREQ P" and "FREQ P < 2 ^ 32"
    and "arst_i r" and "list_all free_running is"
  shows "mtime (clint_run C P is (clint_cycle C P r s)) = 0"
proof -
  have "\<not> ticking P" using assms(2) by (auto simp: ticking_def tick_period_def)
  moreover have "\<not> increment_timer_r (clint_cycle C P r s)"
    and "mtime (clint_cycle C P r s) = 0"
    using assms(1,4) by (simp_all add: next_increment_timer_r_def next_mtime_def cells_ok_def)
  ultimately show ?thesis using stuck_run [OF assms(1) _ assms(3,5)] by simp
qed

lemma mtime_stuck_at_zero_witness:
  "mtime (clint_run std_cells \<lparr>N_CORES = 1, FREQ = 125000000\<rparr> (replicate 5000 (demo_input False False 0 0 0))
     (clint_cycle std_cells \<lparr>N_CORES = 1, FREQ = 125000000\<rparr> (demo_input True False 0 0 0) demo_clint)) = 0"
  by (rule mtime_stuck_at_zero)
    (simp_all add: list_all_iff free_running_def mtime_hit_def demo_input_def)

end
