(* ===== verification/Clint_Spec.thy ===== *)
theory Clint_Spec
  imports Clint_RTL
begin

text \<open>
  What the device promises to software: the memory map of the README (MSIP, MTIMECMP, MTIME) as
  an abstract state machine whose time ticks at will, and the simulation: every clock cycle of
  the RTL is one abstract step.
\<close>

subsection \<open>The abstract device\<close>

record aclint =
  a_mtime :: u64
  a_mtimecmp :: "u64 list"
  a_msip :: "bool list"

text \<open>A write of the bus: the offset in the device and the data word.\<close>

type_synonym bus_write = "nat \<times> u32"

text \<open>Registers are named by their hart (and half), not by an address.\<close>

datatype reg = Msip nat | Mtimecmp nat bool | Mtime bool

definition decode :: "nat \<Rightarrow> nat \<Rightarrow> reg option" where
  "decode n a =
     (if a < 4 * n then Some (Msip (a div 4))
      else if 0x4000 \<le> a \<and> a < 0x4000 + 8 * n then
        Some (Mtimecmp ((a - 0x4000) div 8) (odd (a div 4)))
      else if 0xbff8 \<le> a \<and> a < 0xc000 then Some (Mtime (odd (a div 4)))
      else None)"

fun reg_write :: "reg \<Rightarrow> u32 \<Rightarrow> aclint \<Rightarrow> aclint" where
  "reg_write (Msip k) v A = A\<lparr>a_msip := (a_msip A)[k := bit v 0]\<rparr>"
| "reg_write (Mtimecmp k h) v A =
     A\<lparr>a_mtimecmp := (a_mtimecmp A)[k := set_half h v (a_mtimecmp A ! k)]\<rparr>"
| "reg_write (Mtime h) v A = A\<lparr>a_mtime := set_half h v (a_mtime A)\<rparr>"

definition tick :: "aclint \<Rightarrow> aclint" where
  "tick A = A\<lparr>a_mtime := a_mtime A + 1\<rparr>"

text \<open>Steps: time may pass in any step but one that writes \<open>mtime\<close>.\<close>

inductive aclint_step :: "nat \<Rightarrow> bus_write option \<Rightarrow> aclint \<Rightarrow> aclint \<Rightarrow> bool" for n where
  idle: "aclint_step n None A A"
| time: "aclint_step n None A (tick A)"
| unmapped: "decode n a = None \<Longrightarrow> aclint_step n None A A' \<Longrightarrow> aclint_step n (Some (a, v)) A A'"
| wr: "decode n a = Some r \<Longrightarrow> aclint_step n (Some (a, v)) A (reg_write r v A)"
| wr_time: "decode n a = Some r \<Longrightarrow> (\<forall>h. r \<noteq> Mtime h) \<Longrightarrow>
     aclint_step n (Some (a, v)) A (tick (reg_write r v A))"

inductive_cases aclint_step_NoneE: "aclint_step n None A A'"
inductive_cases aclint_step_SomeE: "aclint_step n (Some (a, v)) A A'"

lemmas aclint_step_intros = aclint_step.intros

subsection \<open>The RTL as an abstract device\<close>

definition abs_clint :: "clint \<Rightarrow> aclint" where
  "abs_clint s = \<lparr>a_mtime = mtime s, a_mtimecmp = mtimecmp s, a_msip = msip_reg s\<rparr>"

definition bus_write_of :: "clint_in \<Rightarrow> bus_write option" where
  "bus_write_of i =
     (if iob_valid_i i \<and> write_en i then Some (unat (iob_addr_i i), iob_wdata_i i) else None)"

definition reset_aclint :: "params \<Rightarrow> aclint" where
  "reset_aclint P =
     \<lparr>a_mtime = 0, a_mtimecmp = replicate (N_CORES P) (- 1), a_msip = replicate (N_CORES P) False\<rparr>"

text \<open>The three decoders of the RTL are the three ranges of \<open>decode\<close>.\<close>

lemma hit_decode:
  assumes "params_ok P"
  shows "msip_hit P i \<longleftrightarrow> (\<exists>v. bus_write_of i = Some (unat (iob_addr_i i), v)) \<and>
           decode (N_CORES P) (unat (iob_addr_i i)) = Some (Msip (msip_index P (iob_addr_i i)))"
    and "mtimecmp_hit P i \<longleftrightarrow> (\<exists>v. bus_write_of i = Some (unat (iob_addr_i i), v)) \<and>
           decode (N_CORES P) (unat (iob_addr_i i)) =
             Some (Mtimecmp (mtimecmp_index P (iob_addr_i i)) (bit (iob_addr_i i) 2))"
    and "mtime_hit i \<longleftrightarrow> (\<exists>v. bus_write_of i = Some (unat (iob_addr_i i), v)) \<and>
           decode (N_CORES P) (unat (iob_addr_i i)) = Some (Mtime (bit (iob_addr_i i) 2))"
proof -
  have n: "N_CORES P \<le> 8" using assms by (simp add: params_ok_def)
  note idx = msip_index_eq [OF assms, of "iob_addr_i i"]
    mtimecmp_index_eq [OF assms, of "iob_addr_i i"]
  show "msip_hit P i \<longleftrightarrow> (\<exists>v. bus_write_of i = Some (unat (iob_addr_i i), v)) \<and>
           decode (N_CORES P) (unat (iob_addr_i i)) = Some (Msip (msip_index P (iob_addr_i i)))"
    using idx by (auto simp: msip_hit_def bus_write_of_def decode_def MSIBase_def)
  show "mtimecmp_hit P i \<longleftrightarrow> (\<exists>v. bus_write_of i = Some (unat (iob_addr_i i), v)) \<and>
           decode (N_CORES P) (unat (iob_addr_i i)) =
             Some (Mtimecmp (mtimecmp_index P (iob_addr_i i)) (bit (iob_addr_i i) 2))"
    using idx n by (auto simp: mtimecmp_hit_def bus_write_of_def decode_def MTimeCMPBase_def addr_bit2)
  show "mtime_hit i \<longleftrightarrow> (\<exists>v. bus_write_of i = Some (unat (iob_addr_i i), v)) \<and>
           decode (N_CORES P) (unat (iob_addr_i i)) = Some (Mtime (bit (iob_addr_i i) 2))"
    using n by (auto simp: mtime_hit_def bus_write_of_def decode_def MTimeBase_def addr_bit2)
qed

text \<open>The three ranges are disjoint, so at most one decoder fires.\<close>

lemma decode_cases:
  assumes "params_ok P"
  obtains (none) "\<not> msip_hit P i" "\<not> mtimecmp_hit P i" "\<not> mtime_hit i"
      "bus_write_of i = None \<or> decode (N_CORES P) (unat (iob_addr_i i)) = None"
    | (msip) "msip_hit P i" "\<not> mtimecmp_hit P i" "\<not> mtime_hit i"
      "decode (N_CORES P) (unat (iob_addr_i i)) = Some (Msip (msip_index P (iob_addr_i i)))"
    | (mtimecmp) "\<not> msip_hit P i" "mtimecmp_hit P i" "\<not> mtime_hit i"
      "decode (N_CORES P) (unat (iob_addr_i i)) =
         Some (Mtimecmp (mtimecmp_index P (iob_addr_i i)) (bit (iob_addr_i i) 2))"
    | (mtime) "\<not> msip_hit P i" "\<not> mtimecmp_hit P i" "mtime_hit i"
      "decode (N_CORES P) (unat (iob_addr_i i)) = Some (Mtime (bit (iob_addr_i i) 2))"
proof (cases "msip_hit P i \<or> mtimecmp_hit P i \<or> mtime_hit i")
  case True
  then show ?thesis
    using that(2-4) by (auto simp: hit_decode [OF assms])
next
  case False
  have n: "N_CORES P \<le> 8" using assms by (simp add: params_ok_def)
  have "bus_write_of i = None \<or> decode (N_CORES P) (unat (iob_addr_i i)) = None"
    using False n
    by (auto simp: msip_hit_def mtimecmp_hit_def mtime_hit_def bus_write_of_def decode_def
        MSIBase_def MTimeCMPBase_def MTimeBase_def)
  with False show ?thesis using that(1) by blast
qed

lemma bus_write_of_hit:
  "msip_hit P i \<or> mtimecmp_hit P i \<or> mtime_hit i \<Longrightarrow>
     bus_write_of i = Some (unat (iob_addr_i i), iob_wdata_i i)"
  by (auto simp: msip_hit_def mtimecmp_hit_def mtime_hit_def bus_write_of_def)

text \<open>The three software-visible registers after one cycle without reset.\<close>

lemma abs_cycle:
  assumes "\<not> arst_i i"
  shows "abs_clint (clint_cycle C P i s) =
    \<lparr>a_mtime =
       (if mtime_hit i then set_half (bit (iob_addr_i i) 2) (iob_wdata_i i) (mtime s)
        else if increment_timer_r s then mtime s + 1 else mtime s),
     a_mtimecmp =
       (if mtimecmp_hit P i then
          (let k = mtimecmp_index P (iob_addr_i i) in
           (mtimecmp s)[k := set_half (bit (iob_addr_i i) 2) (iob_wdata_i i) (mtimecmp s ! k)])
        else mtimecmp s),
     a_msip =
       (if msip_hit P i then (msip_reg s)[msip_index P (iob_addr_i i) := bit (iob_wdata_i i) 0]
        else msip_reg s)\<rparr>"
  using assms by (simp add: abs_clint_def next_mtime_def next_mtimecmp_def next_msip_def)

lemma abs_reset: "arst_i i \<Longrightarrow> abs_clint (clint_cycle C P i s) = reset_aclint P"
  by (simp add: abs_clint_def reset_aclint_def next_mtime_def next_mtimecmp_def next_msip_def)

lemma aclint_step_idleI:
  "w = None \<or> (\<exists>a v. w = Some (a, v) \<and> decode n a = None) \<Longrightarrow>
   A' = A \<or> A' = tick A \<Longrightarrow> aclint_step n w A A'"
  by (auto intro: aclint_step_intros)

text \<open>The simulation.\<close>

lemma cycle_refines:
  assumes "params_ok P" and "\<not> arst_i i"
  shows "aclint_step (N_CORES P) (bus_write_of i) (abs_clint s) (abs_clint (clint_cycle C P i s))"
  using assms(1)
proof (cases rule: decode_cases [of P i])
  case none
  have "abs_clint (clint_cycle C P i s) = abs_clint s
      \<or> abs_clint (clint_cycle C P i s) = tick (abs_clint s)"
    using none assms(2) by (simp add: abs_cycle) (simp add: abs_clint_def tick_def)
  moreover have "bus_write_of i = None
      \<or> (\<exists>a v. bus_write_of i = Some (a, v) \<and> decode (N_CORES P) a = None)"
    using none(4) by (auto simp: bus_write_of_def)
  ultimately show ?thesis by (intro aclint_step_idleI)
next
  case msip
  then show ?thesis
    using assms(2) bus_write_of_hit [of P i] aclint_step.wr [OF msip(4), of "iob_wdata_i i" "abs_clint s"]
      aclint_step.wr_time [OF msip(4), of "iob_wdata_i i" "abs_clint s"]
    by (simp add: abs_cycle) (simp add: abs_clint_def tick_def)
next
  case mtimecmp
  then show ?thesis
    using assms(2) bus_write_of_hit [of P i] aclint_step.wr [OF mtimecmp(4), of "iob_wdata_i i" "abs_clint s"]
      aclint_step.wr_time [OF mtimecmp(4), of "iob_wdata_i i" "abs_clint s"]
    by (simp add: abs_cycle) (simp add: abs_clint_def tick_def Let_def)
next
  case mtime
  then show ?thesis
    using assms(2) bus_write_of_hit [of P i] aclint_step.wr [OF mtime(4), of "iob_wdata_i i" "abs_clint s"]
    by (simp add: abs_cycle) (simp add: abs_clint_def)
qed

text \<open>C5: refinement. Without a reset, every clock cycle of the RTL, whatever the bus presents,
  is one step of the abstract CLINT: a write changes exactly the register its address decodes to
  (all of \<open>mtimecmp\<close>'s or \<open>mtime\<close>'s addressed half, bit 0 only for \<open>msip\<close>), an unmapped
  write or a read changes nothing, and \<open>mtime\<close> moves by at most one tick.\<close>

theorem clint_cycle_refines:
  assumes "params_ok P" and "\<not> arst_i i"
  shows "aclint_step (N_CORES P) (bus_write_of i) (abs_clint s) (abs_clint (clint_cycle C P i s))"
  using assms by (rule cycle_refines)

lemma clint_cycle_refines_witness:
  "aclint_step 1 (Some (0x4004, 5)) (abs_clint demo_clint)
     (abs_clint (clint_cycle std_cells default_params (demo_input False True 0x4004 5 15) demo_clint))"
  using clint_cycle_refines [of default_params "demo_input False True 0x4004 5 15" demo_clint std_cells]
  by (simp add: params_ok_def demo_input_def default_params_def bus_write_of_def write_en_def)

subsection \<open>Registers remember the last write\<close>

text \<open>What software reads from a register: an \<open>msip\<close> word shows its one bit.\<close>

fun reg_read :: "reg \<Rightarrow> aclint \<Rightarrow> u32" where
  "reg_read (Msip k) A = of_bool (a_msip A ! k)"
| "reg_read (Mtimecmp k h) A = get_half h (a_mtimecmp A ! k)"
| "reg_read (Mtime h) A = get_half h (a_mtime A)"

fun reg_valid :: "nat \<Rightarrow> reg \<Rightarrow> bool" where
  "reg_valid n (Msip k) = (k < n)"
| "reg_valid n (Mtimecmp k h) = (k < n)"
| "reg_valid n (Mtime h) = True"

definition is_time :: "reg \<Rightarrow> bool" where
  "is_time r = (case r of Mtime h \<Rightarrow> True | _ \<Rightarrow> False)"

text \<open>The bits of a register that exist: only bit 0 of an \<open>msip\<close> word.\<close>

fun reg_mask :: "reg \<Rightarrow> u32 \<Rightarrow> u32" where
  "reg_mask (Msip k) v = of_bool (bit v 0)"
| "reg_mask _ v = v"

definition aclint_wf :: "nat \<Rightarrow> aclint \<Rightarrow> bool" where
  "aclint_wf n A \<longleftrightarrow> length (a_mtimecmp A) = n \<and> length (a_msip A) = n"

lemma aclint_wf_simps [simp]:
  "aclint_wf n (reg_write r v A) = aclint_wf n A" "aclint_wf n (tick A) = aclint_wf n A"
  by (cases r; simp add: aclint_wf_def) (simp add: aclint_wf_def tick_def)

lemma aclint_wf_step: "aclint_step n w A A' \<Longrightarrow> aclint_wf n A' = aclint_wf n A"
  by (induction rule: aclint_step.induct) simp_all

lemma reg_read_write_same:
  "aclint_wf n A \<Longrightarrow> reg_valid n r \<Longrightarrow> reg_read r (reg_write r v A) = reg_mask r v"
  by (cases r) (simp_all add: aclint_wf_def)

lemma reg_read_write_other: "r \<noteq> r' \<Longrightarrow> reg_read r (reg_write r' v A) = reg_read r A"
  by (cases r; cases r') (auto simp: nth_update_half_other)

lemma reg_read_tick: "\<not> is_time r \<Longrightarrow> reg_read r (tick A) = reg_read r A"
  by (cases r) (simp_all add: is_time_def tick_def)

lemma decode_valid: "decode n a = Some r \<Longrightarrow> reg_valid n r"
  by (auto simp: decode_def split: if_splits)

text \<open>The value a register must show after a list of bus writes.\<close>

definition effect :: "nat \<Rightarrow> reg \<Rightarrow> bus_write option \<Rightarrow> u32 \<Rightarrow> u32" where
  "effect n r w v = (case w of Some (a, d) \<Rightarrow> if decode n a = Some r then reg_mask r d else v | None \<Rightarrow> v)"

definition last_written :: "nat \<Rightarrow> reg \<Rightarrow> bus_write option list \<Rightarrow> u32 \<Rightarrow> u32" where
  "last_written n r ws v = fold (effect n r) ws v"

lemma aclint_step_effect:
  assumes "aclint_step n w A A'" and "aclint_wf n A" and "\<not> is_time r" and "reg_valid n r"
  shows "reg_read r A' = effect n r w (reg_read r A)"
  using assms
proof (induction rule: aclint_step.induct)
  case (wr a r' v A)
  then show ?case
    by (cases "r' = r") (auto simp: effect_def reg_read_write_same reg_read_write_other)
next
  case (wr_time a r' v A)
  then show ?case
    by (cases "r' = r") (auto simp: effect_def reg_read_tick reg_read_write_same reg_read_write_other)
qed (simp_all add: effect_def reg_read_tick)

lemma run_last_written:
  assumes "params_ok P" and "\<not> is_time r" and "reg_valid (N_CORES P) r"
  shows "list_all (\<lambda>i. \<not> arst_i i) is \<Longrightarrow> clint_wf P s \<Longrightarrow>
    reg_read r (abs_clint (clint_run C P is s)) =
      last_written (N_CORES P) r (map bus_write_of is) (reg_read r (abs_clint s))"
proof (induction "is" arbitrary: s)
  case (Cons i "is")
  then have "reg_read r (abs_clint (clint_cycle C P i s)) =
      effect (N_CORES P) r (bus_write_of i) (reg_read r (abs_clint s))"
    using aclint_step_effect [OF cycle_refines [OF assms(1), of i s C]] assms(2,3)
    by (simp add: aclint_wf_def abs_clint_def clint_wf_def)
  with Cons show ?case by (simp add: last_written_def clint_wf_cycle)
qed (simp add: last_written_def)

lemma reset_run_last_written:
  assumes "params_ok P" and "arst_i rst" and "list_all (\<lambda>i. \<not> arst_i i) is"
    and "k < N_CORES P"
  shows "get_half h (mtimecmp (clint_run C P is (clint_cycle C P rst s)) ! k) =
           last_written (N_CORES P) (Mtimecmp k h) (map bus_write_of is) (- 1)"
    and "of_bool (msip_reg (clint_run C P is (clint_cycle C P rst s)) ! k) =
           last_written (N_CORES P) (Msip k) (map bus_write_of is) 0"
proof -
  have run: "reg_read r (abs_clint (clint_run C P is (clint_cycle C P rst s))) =
      last_written (N_CORES P) r (map bus_write_of is) (reg_read r (reset_aclint P))"
    if "\<not> is_time r" and "reg_valid (N_CORES P) r" for r
    using run_last_written [OF assms(1) that assms(3) clint_wf_reset [OF assms(2)], of C C s]
    by (simp add: abs_reset [OF assms(2)])
  have "get_half h (- 1) = - 1" by (rule bit_word_eqI) (simp add: bit_get_half)
  then have "reg_read (Mtimecmp k h) (reset_aclint P) = - 1"
    and "reg_read (Msip k) (reset_aclint P) = 0"
    using assms(4) by (simp_all add: reset_aclint_def)
  then show "get_half h (mtimecmp (clint_run C P is (clint_cycle C P rst s)) ! k) =
           last_written (N_CORES P) (Mtimecmp k h) (map bus_write_of is) (- 1)"
    and "of_bool (msip_reg (clint_run C P is (clint_cycle C P rst s)) ! k) =
           last_written (N_CORES P) (Msip k) (map bus_write_of is) 0"
    using run [of "Mtimecmp k h"] run [of "Msip k"] assms(4)
    by (simp_all only: reg_read.simps abs_clint_def aclint.select_convs is_time_def reg.case
        reg_valid.simps simp_thms)
qed

text \<open>C13: registers are registers. From a reset, after any bus traffic, each \<open>mtimecmp\<close> word
  reads as the last value written to its address (all ones if none was) and each \<open>msip\<close> word as
  bit 0 of the last value written to it (0 if none was), independently of all other traffic.\<close>

theorem registers_hold_last_write:
  assumes "params_ok P" and "arst_i rst" and "list_all (\<lambda>i. \<not> arst_i i) is"
    and "k < N_CORES P"
  shows "get_half h (mtimecmp (clint_run C P is (clint_cycle C P rst s)) ! k) =
           last_written (N_CORES P) (Mtimecmp k h) (map bus_write_of is) (- 1) \<and>
         of_bool (msip_reg (clint_run C P is (clint_cycle C P rst s)) ! k) =
           last_written (N_CORES P) (Msip k) (map bus_write_of is) 0"
  using reset_run_last_written [OF assms] by blast

lemma registers_hold_last_write_witness:
  "get_half True (mtimecmp (clint_run std_cells default_params
     [demo_input False True 0x4004 5 15, demo_input False True 0x4000 9 15, demo_input False True 0x4004 6 1]
     (clint_cycle std_cells default_params (demo_input True False 0 0 0) demo_clint)) ! 0) = 6"
  using registers_hold_last_write [of default_params "demo_input True False 0 0 0"
      "[demo_input False True 0x4004 5 15, demo_input False True 0x4000 9 15,
        demo_input False True 0x4004 6 1]" 0 True std_cells demo_clint]
  by (simp add: params_ok_def demo_input_def default_params_def last_written_def effect_def decode_def
      bus_write_of_def write_en_def)

subsection \<open>Time passing\<close>

definition advance :: "nat \<Rightarrow> aclint \<Rightarrow> aclint" where
  "advance n A = A\<lparr>a_mtime := a_mtime A + of_nat n\<rparr>"

lemma advance_simps [simp]:
  "a_mtime (advance n A) = a_mtime A + of_nat n"
  "a_mtimecmp (advance n A) = a_mtimecmp A"
  "a_msip (advance n A) = a_msip A"
  "advance 0 A = A"
  "advance m (advance n A) = advance (n + m) A"
  "aclint_wf k (advance n A) = aclint_wf k A"
  by (simp_all add: advance_def aclint_wf_def)

lemma tick_advance: "tick A = advance 1 A"
  by (simp add: tick_def advance_def)

lemma aclint_step_idle_advance: "aclint_step n None A A' \<Longrightarrow> \<exists>d\<le>1. A' = advance d A"
  by (erule aclint_step_NoneE) (auto simp: tick_advance intro: exI [of _ 0] exI [of _ "Suc 0"])

lemma aclint_step_write_advance:
  assumes "aclint_step n (Some (a, v)) A A'" and "decode n a = Some r"
  shows "\<exists>d\<le>1. A' = advance d (reg_write r v A)"
  using assms
  by (auto elim!: aclint_step_SomeE simp: tick_advance intro: exI [of _ 0] exI [of _ "Suc 0"])

text \<open>\<open>passes m xs A\<close>: the recorded states \<open>xs\<close> are \<open>A\<close> with at most \<open>m\<close> ticks.\<close>

definition passes :: "nat \<Rightarrow> aclint list \<Rightarrow> aclint \<Rightarrow> bool" where
  "passes m xs A \<longleftrightarrow> (\<forall>X\<in>set xs. \<exists>n\<le>m. X = advance n A)"

lemma passes_Nil [simp]: "passes m [] A"
  by (simp add: passes_def)

lemma passes_append [simp]: "passes m (xs @ ys) A \<longleftrightarrow> passes m xs A \<and> passes m ys A"
  by (auto simp: passes_def)

lemma passes_mono: "passes m xs A \<Longrightarrow> m \<le> n \<Longrightarrow> passes n xs A"
  by (meson order_trans passes_def)

lemma passes_advance: "passes m xs (advance d A) \<Longrightarrow> passes (d + m) xs A"
  unfolding passes_def by (metis add_le_cancel_left advance_simps(5))

lemma passes_one: "e \<le> m \<Longrightarrow> passes m [advance e A] A"
  by (auto simp: passes_def)

text \<open>Writes to registers other than the time commute with its passing.\<close>

lemma reg_write_advance:
  "\<not> is_time r \<Longrightarrow> reg_write r v (advance n A) = advance n (reg_write r v A)"
  by (cases r) (simp_all add: is_time_def advance_def)

lemma is_time_simps [simp]:
  "\<not> is_time (Msip k)" "\<not> is_time (Mtimecmp k h)" "is_time (Mtime h)"
  by (simp_all add: is_time_def)

end
