(* ===== verification/Clint_Bus.thy ===== *)
theory Clint_Bus
  imports Clint_Spec Clint_Timer
begin

text \<open>
  The bus side of the device: the bus-functional tasks of \<open>iob_clint_tb.v\<close> (\<open>set_inputs\<close>,
  \<open>wait_responce\<close>, \<open>get_time\<close>) and the platform on which the C driver runs. The processor and
  the interconnect are not in the repository; of them the model keeps that every access of the
  driver is one such transaction, after a number of idle clock cycles that nobody controls: the
  list \<open>delays\<close> of the platform state gives that number for each access (0 when it is
  exhausted). The platform also records the state after every clock cycle, so that what happens
  in the middle of a driver function can be stated.
\<close>

subsection \<open>The platform\<close>

record soc =
  rtl :: clint
  delays :: "nat list"
  history :: "clint list"

text \<open>Inputs while a request is presented, and afterwards (\<open>iob_valid\<close> and \<open>iob_wstrb\<close> are 0,
  address and data keep their values).\<close>

definition bus_request :: "16 word \<Rightarrow> u32 \<Rightarrow> 4 word \<Rightarrow> clint_in" where
  "bus_request a d strb =
     \<lparr>arst_i = False, cke_i = True, iob_valid_i = True, iob_addr_i = a, iob_wdata_i = d,
      iob_wstrb_i = strb\<rparr>"

definition bus_idle :: "16 word \<Rightarrow> u32 \<Rightarrow> clint_in" where
  "bus_idle a d =
     \<lparr>arst_i = False, cke_i = True, iob_valid_i = False, iob_addr_i = a, iob_wdata_i = d,
      iob_wstrb_i = 0\<rparr>"

definition soc_cycle :: "cells \<Rightarrow> params \<Rightarrow> clint_in \<Rightarrow> soc \<Rightarrow> soc" where
  "soc_cycle C P i \<sigma> =
     (let s = clint_cycle C P i (rtl \<sigma>) in \<sigma>\<lparr>rtl := s, history := s # history \<sigma>\<rparr>)"

fun soc_idle :: "cells \<Rightarrow> params \<Rightarrow> clint_in \<Rightarrow> nat \<Rightarrow> soc \<Rightarrow> soc" where
  "soc_idle C P i 0 \<sigma> = \<sigma>"
| "soc_idle C P i (Suc n) \<sigma> = soc_idle C P i n (soc_cycle C P i \<sigma>)"

subsection \<open>The bus-functional tasks\<close>

definition set_inputs :: "cells \<Rightarrow> params \<Rightarrow> 16 word \<Rightarrow> u32 \<Rightarrow> 4 word \<Rightarrow> soc \<Rightarrow> soc" where
  "set_inputs C P a d strb \<sigma> = soc_cycle C P (bus_request a d strb) \<sigma>"

text \<open>The loop \<open>while (iob_rvalid != 1)\<close> runs on the idle bus; it may never end.\<close>

partial_function (option) wait_responce ::
  "cells \<Rightarrow> params \<Rightarrow> clint_in \<Rightarrow> soc \<Rightarrow> (u32 option \<times> soc) option" where
  "wait_responce C P i \<sigma> =
     (if iob_rvalid (rtl \<sigma>) then Some (iob_rdata_reg (rtl \<sigma>), \<sigma>)
      else wait_responce C P i (soc_cycle C P i \<sigma>))"

declare wait_responce.simps [code]

lemma wait_responce_now:
  "iob_rvalid (rtl \<sigma>) \<Longrightarrow> wait_responce C P i \<sigma> = Some (iob_rdata_reg (rtl \<sigma>), \<sigma>)"
  by (simp add: wait_responce.simps)

text \<open>A read, and the task \<open>get_time\<close> of two reads; unknown data is no result.\<close>

definition bus_read :: "cells \<Rightarrow> params \<Rightarrow> 16 word \<Rightarrow> soc \<Rightarrow> (u32 \<times> soc) option" where
  "bus_read C P a \<sigma> = do {
     (x, \<sigma>) \<leftarrow> wait_responce C P (bus_idle a 0) (set_inputs C P a 0 0 \<sigma>);
     v \<leftarrow> x;
     Some (v, \<sigma>)
   }"

definition get_time :: "cells \<Rightarrow> params \<Rightarrow> soc \<Rightarrow> (u64 \<times> soc) option" where
  "get_time C P \<sigma> = do {
     (lo, \<sigma>) \<leftarrow> bus_read C P 49144 \<sigma>;
     (hi, \<sigma>) \<leftarrow> bus_read C P (49144 + 4) \<sigma>;
     Some (set_half True hi (set_half False lo 0), \<sigma>)
   }"

subsection \<open>Accesses of the processor\<close>

definition take_delay :: "soc \<Rightarrow> nat" where
  "take_delay \<sigma> = (case delays \<sigma> of [] \<Rightarrow> 0 | n # _ \<Rightarrow> n)"

definition before_access :: "cells \<Rightarrow> params \<Rightarrow> soc \<Rightarrow> soc" where
  "before_access C P \<sigma> =
     soc_idle C P (bus_idle 0 0) (take_delay \<sigma>) (\<sigma>\<lparr>delays := tl (delays \<sigma>)\<rparr>)"

definition soc_load32 :: "cells \<Rightarrow> params \<Rightarrow> 16 word \<Rightarrow> soc \<Rightarrow> (u32 \<times> soc) option" where
  "soc_load32 C P a \<sigma> = bus_read C P a (before_access C P \<sigma>)"

definition soc_store32 :: "cells \<Rightarrow> params \<Rightarrow> 16 word \<Rightarrow> u32 \<Rightarrow> soc \<Rightarrow> soc option" where
  "soc_store32 C P a v \<sigma> = Some (set_inputs C P a v 15 (before_access C P \<sigma>))"

subsection \<open>Effect of a transaction\<close>

text \<open>What the platform must satisfy: working cells, allowed parameters, vectors of the right
  length, a prescaler in range, and idle gaps of at most \<open>D\<close> cycles.\<close>

definition soc_ok :: "cells \<Rightarrow> params \<Rightarrow> nat \<Rightarrow> soc \<Rightarrow> bool" where
  "soc_ok C P D \<sigma> \<longleftrightarrow> cells_ok C \<and> params_ok P \<and> clint_wf P (rtl \<sigma>) \<and>
     (ticking P \<longrightarrow> prescaler_ok P (rtl \<sigma>)) \<and> (\<forall>n\<in>set (delays \<sigma>). n \<le> D)"

definition view :: "soc \<Rightarrow> aclint" where
  "view \<sigma> = abs_clint (rtl \<sigma>)"

definition views :: "soc \<Rightarrow> aclint list" where
  "views \<sigma> = map abs_clint (history \<sigma>)"

lemma soc_cycle_simps [simp]:
  "rtl (soc_cycle C P i \<sigma>) = clint_cycle C P i (rtl \<sigma>)"
  "delays (soc_cycle C P i \<sigma>) = delays \<sigma>"
  "views (soc_cycle C P i \<sigma>) = view (soc_cycle C P i \<sigma>) # views \<sigma>"
  by (simp_all add: soc_cycle_def view_def views_def Let_def)

lemma soc_ok_cycle [intro]: "soc_ok C P D \<sigma> \<Longrightarrow> soc_ok C P D (soc_cycle C P i \<sigma>)"
  by (auto simp: soc_ok_def prescaler_ok_cycle)

lemma soc_cycle_refines:
  "soc_ok C P D \<sigma> \<Longrightarrow> \<not> arst_i i \<Longrightarrow>
   aclint_step (N_CORES P) (bus_write_of i) (view \<sigma>) (view (soc_cycle C P i \<sigma>))"
  using cycle_refines by (simp add: soc_ok_def view_def)

lemma bus_not_reset [simp]: "\<not> arst_i (bus_idle a d)" "\<not> arst_i (bus_request a d strb)"
  by (simp_all add: bus_idle_def bus_request_def)

lemma bus_write_of_simps [simp]:
  "bus_write_of (bus_idle a d) = None"
  "bus_write_of (bus_request a d 0) = None"
  "strb \<noteq> 0 \<Longrightarrow> bus_write_of (bus_request a d strb) = Some (unat a, d)"
  by (simp_all add: bus_write_of_def bus_idle_def bus_request_def write_en_def)

lemma idle_cycle:
  assumes "soc_ok C P D \<sigma>" and "\<not> arst_i i" and "bus_write_of i = None"
  obtains d where "d \<le> 1" "view (soc_cycle C P i \<sigma>) = advance d (view \<sigma>)"
  using aclint_step_idle_advance soc_cycle_refines [OF assms(1,2)] assms(3) by metis

lemma soc_idle_effect:
  assumes "soc_ok C P D \<sigma>"
  shows "\<exists>d\<le>n. \<exists>xs. view (soc_idle C P (bus_idle a v) n \<sigma>) = advance d (view \<sigma>) \<and>
     views (soc_idle C P (bus_idle a v) n \<sigma>) = xs @ views \<sigma> \<and> passes d xs (view \<sigma>) \<and>
     soc_ok C P D (soc_idle C P (bus_idle a v) n \<sigma>)"
  using assms
proof (induction n arbitrary: \<sigma>)
  case 0
  then show ?case by simp
next
  case (Suc n)
  let ?t = "soc_cycle C P (bus_idle a v) \<sigma>"
  obtain e where e: "e \<le> 1" "view ?t = advance e (view \<sigma>)"
    using idle_cycle [OF Suc.prems bus_not_reset(1) bus_write_of_simps(1)] .
  obtain d xs where d: "d \<le> n"
      "view (soc_idle C P (bus_idle a v) n ?t) = advance d (view ?t)"
      "views (soc_idle C P (bus_idle a v) n ?t) = xs @ views ?t" "passes d xs (view ?t)"
      "soc_ok C P D (soc_idle C P (bus_idle a v) n ?t)"
    using Suc.IH [of ?t] Suc.prems by blast
  have "passes (e + d) (xs @ [view ?t]) (view \<sigma>)"
    using passes_advance [of d xs e "view \<sigma>"] passes_one [of e "e + d" "view \<sigma>"] d(4) e(2) by simp
  then show ?case
    using d e by (intro exI [of _ "e + d"] conjI exI [of _ "xs @ [view ?t]"]) auto
qed

subsection \<open>Reads\<close>

lemma next_rdata_register:
  assumes "params_ok P" and "clint_wf P s" and "\<not> arst_i i"
    and "decode (N_CORES P) (unat (iob_addr_i i)) = Some r"
  shows "next_rdata P i s = Some (reg_read r (abs_clint s))"
  using assms msip_index_eq [OF assms(1), of "iob_addr_i i"]
    mtimecmp_index_eq [OF assms(1), of "iob_addr_i i"]
  by (auto simp: next_rdata_def Let_def decode_def MTimeCMPBase_def MTimeBase_def addr_bit2 nth_opt_def
      clint_wf_def abs_clint_def params_ok_def split: if_splits)

lemma next_rvalid_read:
  "cells_ok C \<Longrightarrow> next_rvalid C (bus_request a d 0) s"
  by (simp add: next_rvalid_def cells_ok_def bus_request_def write_en_def)

text \<open>A read request is answered in the next cycle, so the polling task ends at once.\<close>

lemma bus_read_wf:
  assumes "cells_ok C" and "params_ok P" and "clint_wf P (rtl \<sigma>)"
    and "decode (N_CORES P) (unat a) = Some r"
  shows "bus_read C P a \<sigma> =
    Some (reg_read r (view \<sigma>), soc_cycle C P (bus_request a 0 0) \<sigma>)"
proof -
  have "next_rdata P (bus_request a 0 0) (rtl \<sigma>) = Some (reg_read r (view \<sigma>))"
    using next_rdata_register [OF assms(2,3), of "bus_request a 0 0" r] assms(4)
    by (simp add: view_def) (simp add: bus_request_def)
  then show ?thesis
    using next_rvalid_read [OF assms(1)] by (simp add: bus_read_def set_inputs_def wait_responce.simps)
qed

lemma bus_read_eq:
  assumes "soc_ok C P D \<sigma>" and "decode (N_CORES P) (unat a) = Some r"
  shows "bus_read C P a \<sigma> =
    Some (reg_read r (view \<sigma>), soc_cycle C P (bus_request a 0 0) \<sigma>)"
  using bus_read_wf assms by (simp add: soc_ok_def)

subsection \<open>The contract of a processor access\<close>

lemma before_access_effect:
  assumes "soc_ok C P D \<sigma>"
  shows "\<exists>d\<le>D. \<exists>xs. view (before_access C P \<sigma>) = advance d (view \<sigma>) \<and>
     views (before_access C P \<sigma>) = xs @ views \<sigma> \<and> passes d xs (view \<sigma>) \<and>
     soc_ok C P D (before_access C P \<sigma>)"
proof -
  let ?s = "\<sigma>\<lparr>delays := tl (delays \<sigma>)\<rparr>"
  have ok: "soc_ok C P D ?s" and le: "take_delay \<sigma> \<le> D"
    using assms by (cases "delays \<sigma>"; simp add: soc_ok_def take_delay_def)+
  have "view ?s = view \<sigma>" and "views ?s = views \<sigma>"
    by (simp_all add: view_def views_def)
  then show ?thesis
    using soc_idle_effect [OF ok, of "take_delay \<sigma>" 0 0] le
    unfolding before_access_def by (metis order_trans)
qed

lemma soc_load32_effect:
  assumes "soc_ok C P D \<sigma>" and "decode (N_CORES P) (unat a) = Some r"
  shows "\<exists>d e xs \<sigma>'. soc_load32 C P a \<sigma> = Some (reg_read r (advance d (view \<sigma>)), \<sigma>') \<and>
     d + e \<le> D + 1 \<and> view \<sigma>' = advance (d + e) (view \<sigma>) \<and> soc_ok C P D \<sigma>' \<and>
     views \<sigma>' = xs @ views \<sigma> \<and> passes (d + e) xs (view \<sigma>)"
proof -
  let ?t = "before_access C P \<sigma>" and ?u = "soc_cycle C P (bus_request a 0 0) (before_access C P \<sigma>)"
  obtain d xs where d: "d \<le> D" "view ?t = advance d (view \<sigma>)" "views ?t = xs @ views \<sigma>"
      "passes d xs (view \<sigma>)" "soc_ok C P D ?t"
    using before_access_effect [OF assms(1)] by blast
  obtain e where e: "e \<le> 1" "view ?u = advance e (view ?t)"
    using idle_cycle [OF d(5) bus_not_reset(2) bus_write_of_simps(2)] .
  have "passes (d + e) (view ?u # xs) (view \<sigma>)"
    using d e by (auto simp: passes_def intro: le_trans [OF _ le_add1])
  moreover have "soc_load32 C P a \<sigma> = Some (reg_read r (advance d (view \<sigma>)), ?u)"
    using bus_read_eq [OF d(5) assms(2)] d(2) by (simp add: soc_load32_def)
  ultimately show ?thesis
    using d e by (intro exI [of _ d] exI [of _ e] exI [of _ "view ?u # xs"] exI [of _ ?u]) auto
qed

lemma soc_store32_effect:
  assumes "soc_ok C P D \<sigma>" and "decode (N_CORES P) (unat a) = Some r"
  shows "\<exists>d e xs ys \<sigma>'. soc_store32 C P a v \<sigma> = Some \<sigma>' \<and> d + e \<le> D + 1 \<and>
     view \<sigma>' = advance e (reg_write r v (advance d (view \<sigma>))) \<and> soc_ok C P D \<sigma>' \<and>
     views \<sigma>' = ys @ xs @ views \<sigma> \<and> passes d xs (view \<sigma>) \<and>
     passes e ys (reg_write r v (advance d (view \<sigma>)))"
proof -
  let ?t = "before_access C P \<sigma>" and ?u = "soc_cycle C P (bus_request a v 15) (before_access C P \<sigma>)"
  obtain d xs where d: "d \<le> D" "view ?t = advance d (view \<sigma>)" "views ?t = xs @ views \<sigma>"
      "passes d xs (view \<sigma>)" "soc_ok C P D ?t"
    using before_access_effect [OF assms(1)] by blast
  have "aclint_step (N_CORES P) (Some (unat a, v)) (view ?t) (view ?u)"
    using soc_cycle_refines [OF d(5), of "bus_request a v 15"] by simp
  then obtain e where e: "e \<le> 1" "view ?u = advance e (reg_write r v (view ?t))"
    using aclint_step_write_advance assms(2) by blast
  have "passes e [view ?u] (reg_write r v (view ?t))"
    using e by (auto simp: passes_def)
  then show ?thesis
    using d e
    by (intro exI [of _ d] exI [of _ e] exI [of _ xs] exI [of _ "[view ?u]"] exI [of _ ?u])
      (auto simp: soc_store32_def set_inputs_def)
qed

end
