(* ===== verification/Clint_Interface.thy ===== *)
theory Clint_Interface
  imports Clint_Timer Clint_Bus
begin

text \<open>
  What the device shows at its ports: the exact cycle of a timer interrupt, the values after a
  reset, the bus reads, and two deviations of the bus interface.
\<close>

subsection \<open>The timer interrupt\<close>

lemma join_set_halves: "set_half True (get_half True w) (set_half False (get_half False w) 0) = w"
  by simp

text \<open>C7: the timer interrupt is on time. From a reset, after any bus traffic that does not write
  \<open>mtime\<close>, the interrupt line of hart \<open>k\<close> is high exactly when the compare value assembled from
  the last words written to its two addresses (all ones where none was) is at most the number of
  completed 10 us periods.\<close>

theorem timer_interrupt_exact:
  assumes "cells_ok C" and "params_ok P" and "ticking P" and "arst_i rst"
    and "list_all free_running is" and "k < N_CORES P"
  shows "mtip_o P False (clint_run C P is (clint_cycle C P rst s)) ! k \<longleftrightarrow>
    join_halves (last_written (N_CORES P) (Mtimecmp k True) (map bus_write_of is) (- 1))
      (last_written (N_CORES P) (Mtimecmp k False) (map bus_write_of is) (- 1))
    \<le> of_nat ((length is - 1) div tick_period P)"
proof -
  let ?s = "clint_run C P is (clint_cycle C P rst s)"
  have "list_all (\<lambda>i. \<not> arst_i i) is"
    using assms(5) by (auto simp: list_all_iff free_running_def)
  note cmp = reset_run_last_written(1) [OF assms(2,4) this assms(6), of _ C s]
  have "mtime ?s = of_nat ((length is - 1) div tick_period P)"
    using timer_at_run [OF assms(1,3,5) timer_at_reset [OF assms(1,4)]] by (simp add: timer_at_def)
  then show ?thesis
    using assms(6) by (simp add: mtip_o_def cmp [symmetric])
qed

lemma timer_interrupt_exact_witness:
  "mtip_o default_params False (clint_run std_cells default_params
     (demo_input False True 0x4004 0 15 # demo_input False True 0x4000 2 15
        # replicate 2499 (demo_input False False 0 0 0))
     (clint_cycle std_cells default_params (demo_input True False 0 0 0) demo_clint)) ! 0"
proof -
  have tick: "ticking default_params" "tick_period default_params = 1000"
    by (simp_all add: ticking_def tick_period_def default_params_def)
  have ws: "map bus_write_of (replicate n (demo_input False False 0 0 0)) = replicate n None" for n
    by (simp add: bus_write_of_def demo_input_def write_en_def)
  have eff: "last_written 1 r (replicate n None) v = v" for n r v
    by (induction n) (simp_all add: last_written_def effect_def)
  then have "last_written 1 (Mtimecmp 0 h) (Some (0x4004, 0) # Some (0x4000, 2) # replicate 2499 None) (- 1)
      = (if h then 0 else 2)" for h
    by (simp add: last_written_def effect_def decode_def)
  then show ?thesis
    using timer_interrupt_exact [of std_cells default_params "demo_input True False 0 0 0"
        "demo_input False True 0x4004 0 15 # demo_input False True 0x4000 2 15
          # replicate 2499 (demo_input False False 0 0 0)" 0 demo_clint] tick ws [of 2499]
    by (simp add: params_ok_def default_params_def list_all_iff free_running_def mtime_hit_def
        MTimeBase_def demo_input_def bus_write_of_def write_en_def join_halves_def)
qed

subsection \<open>Reset\<close>

text \<open>C32: the reset values of the README. A reset puts \<open>mtime\<close> to 0, every \<open>mtimecmp\<close> to all ones
  and every \<open>msip\<close> to 0, so that after it neither kind of interrupt is pending; no read response
  is pending either, and no interrupt is raised during it.\<close>

theorem reset_clears_interrupts:
  assumes "cells_ok C" and "arst_i rst"
  shows "mtime (clint_cycle C P rst s) = 0 \<and>
    mtimecmp (clint_cycle C P rst s) = replicate (N_CORES P) (- 1) \<and>
    mtip_o P True s = replicate (N_CORES P) False \<and>
    mtip_o P False (clint_cycle C P rst s) = replicate (N_CORES P) False \<and>
    msip_o (clint_cycle C P rst s) = replicate (N_CORES P) False \<and>
    \<not> iob_rvalid (clint_cycle C P rst s)"
  using assms
  by (auto simp: next_mtime_def next_mtimecmp_def next_msip_def next_rvalid_def cells_ok_def mtip_o_def
      msip_o_def intro!: nth_equalityI)

lemma reset_clears_interrupts_witness:
  "mtip_o default_params False (clint_cycle std_cells default_params (demo_input True True 0 1 15) demo_clint)
     = [False]"
  using reset_clears_interrupts [of std_cells "demo_input True True 0 1 15" default_params demo_clint]
  by (simp add: demo_input_def default_params_def)

subsection \<open>Reads\<close>

text \<open>C33: a bus read. A read request to an implemented register is answered after exactly one clock
  cycle, with the value the register had when the request was made, and changes nothing (time
  may tick once).\<close>

theorem bus_read_returns_register:
  assumes "soc_ok C P D \<sigma>" and "decode (N_CORES P) (unat a) = Some r"
  shows "\<exists>\<sigma>' d. bus_read C P a \<sigma> = Some (reg_read r (view \<sigma>), \<sigma>') \<and>
    history \<sigma>' = rtl \<sigma>' # history \<sigma> \<and> d \<le> 1 \<and> view \<sigma>' = advance d (view \<sigma>)"
proof -
  obtain d where "d \<le> 1" "view (soc_cycle C P (bus_request a 0 0) \<sigma>) = advance d (view \<sigma>)"
    using idle_cycle [OF assms(1) bus_not_reset(2) bus_write_of_simps(2)] .
  moreover have "history (soc_cycle C P (bus_request a 0 0) \<sigma>) =
      rtl (soc_cycle C P (bus_request a 0 0) \<sigma>) # history \<sigma>"
    by (simp add: soc_cycle_def Let_def)
  ultimately show ?thesis using bus_read_eq [OF assms] by blast
qed

text \<open>A platform at rest in the concrete state.\<close>

definition demo_soc :: "u64 \<Rightarrow> soc" where
  "demo_soc t = \<lparr>rtl = demo_clint\<lparr>mtime := t\<rparr>, delays = [], history = []\<rparr>"

lemma demo_soc_ok: "soc_ok std_cells default_params 0 (demo_soc t)"
  by (simp add: soc_ok_def demo_soc_def demo_defs params_ok_def clint_wf_def prescaler_ok_def
      tick_period_def)

lemma bus_read_returns_register_witness:
  "\<exists>\<sigma>'. bus_read std_cells default_params 0xBFFC (demo_soc 0x700000001) = Some (7, \<sigma>')"
proof -
  have "decode (N_CORES default_params) (unat (0xBFFC :: 16 word)) = Some (Mtime True)"
    by (simp add: decode_def default_params_def)
  from bus_read_returns_register [OF demo_soc_ok [of "0x700000001"] this] show ?thesis
    by (auto simp: view_def abs_clint_def demo_soc_def get_half_def)
qed

text \<open>The task \<open>get_time\<close> of the testbench. It always returns; unless the low word of \<open>mtime\<close>
  is all ones at the call, the result is the time at the call.\<close>

lemma get_time_correct:
  assumes "soc_ok C P D \<sigma>" and "get_half False (mtime (rtl \<sigma>)) \<noteq> 0xFFFFFFFF"
  shows "\<exists>\<sigma>'. get_time C P \<sigma> = Some (mtime (rtl \<sigma>), \<sigma>')"
proof -
  let ?t = "mtime (rtl \<sigma>)" and ?u = "soc_cycle C P (bus_request 49144 0 0) \<sigma>"
  have "N_CORES P \<le> 8" using assms(1) by (simp add: soc_ok_def params_ok_def)
  then have dec: "decode (N_CORES P) (unat (49144 :: 16 word)) = Some (Mtime False)"
    "decode (N_CORES P) (unat (49148 :: 16 word)) = Some (Mtime True)"
    by (simp_all add: decode_def)
  obtain d where d: "d \<le> 1" "view ?u = advance d (view \<sigma>)"
    using idle_cycle [OF assms(1) bus_not_reset(2) bus_write_of_simps(2)] .
  have "unat (get_half False ?t) \<noteq> unat (0xFFFFFFFF :: u32)"
    using assms(2) by (metis word_unat_eq_iff)
  moreover have "unat (get_half False ?t) < 2 ^ 32"
    using unsigned_less [of "get_half False ?t"] by simp
  ultimately have "unat (get_half False ?t) + d < 2 ^ 32"
    using d(1) by simp
  then have "get_half True (?t + of_nat d) = get_half True ?t"
    using d(1) get_half_high_add [of d ?t] by simp
  moreover have "a_mtime (view ?u) = ?t + of_nat d"
    by (simp only: d(2) advance_simps) (simp add: view_def abs_clint_def)
  ultimately have "bus_read C P 49148 ?u = Some (get_half True ?t, soc_cycle C P (bus_request 49148 0 0) ?u)"
    using bus_read_eq [OF soc_ok_cycle [OF assms(1)] dec(2), of "bus_request 49144 0 0"] by simp
  moreover have "bus_read C P 49144 \<sigma> = Some (get_half False ?t, ?u)"
    using bus_read_eq [OF assms(1) dec(1)] by (simp add: view_def abs_clint_def)
  ultimately show ?thesis by (simp add: get_time_def)
qed

lemma get_time_correct_witness:
  "\<exists>\<sigma>'. get_time std_cells default_params (demo_soc 0x7FFFFFFFE) = Some (0x7FFFFFFFE, \<sigma>')"
  using get_time_correct [OF demo_soc_ok [of "0x7FFFFFFFE"]] by (simp add: demo_soc_def get_half_def)

subsection \<open>Deviations of the bus interface\<close>

text \<open>C40: byte strobes are ignored. Any write with a non-zero strobe has the effect of a write of
  the whole word: a byte or halfword store changes all 32 bits of the register.\<close>

theorem write_strobes_ignored:
  assumes "strb \<noteq> 0"
  shows "clint_cycle C P (i\<lparr>iob_wstrb_i := strb\<rparr>) s = clint_cycle C P (i\<lparr>iob_wstrb_i := 15\<rparr>) s"
proof -
  have "write_en (i\<lparr>iob_wstrb_i := strb\<rparr>)" and "write_en (i\<lparr>iob_wstrb_i := 15\<rparr>)"
    using assms by (simp_all add: write_en_def)
  then show ?thesis
    by (simp add: rtl_defs mtimecmp_hit_def mtime_hit_def msip_hit_def)
qed

lemma write_strobes_ignored_witness:
  "mtimecmp (clint_cycle std_cells default_params (demo_input False True 0x4000 7 1) demo_clint) =
   mtimecmp (clint_cycle std_cells default_params (demo_input False True 0x4000 7 15) demo_clint)"
  using write_strobes_ignored [of 1 std_cells default_params "demo_input False True 0x4000 7 0" demo_clint]
  by (simp add: demo_input_def)

text \<open>C39: a read response is repeated. When a write request follows a read request directly, the
  enable of \<open>iob_rvalid\<close> is off, so the signal stays high for a second cycle: the one read is
  acknowledged twice, and the data of the second cycle is that of the written address.\<close>

theorem rvalid_repeats_after_write:
  assumes "cells_ok C" and "\<not> arst_i i \<and> cke_i i \<and> iob_valid_i i \<and> \<not> write_en i"
    and "\<not> arst_i j \<and> cke_i j \<and> iob_valid_i j \<and> write_en j"
  shows "iob_rvalid (clint_run C P [i] s) \<and> iob_rvalid (clint_run C P [i, j] s) \<and>
    iob_rdata_reg (clint_run C P [i, j] s) = next_rdata P j (clint_run C P [i] s)"
  using assms by (simp add: next_rvalid_def cells_ok_def)

lemma rvalid_repeats_after_write_witness:
  "iob_rvalid (clint_run std_cells default_params
     [demo_input False True 0xBFF8 0 0, demo_input False True 0x4000 7 15] demo_clint)"
  using rvalid_repeats_after_write [of std_cells "demo_input False True 0xBFF8 0 0"
      "demo_input False True 0x4000 7 15" default_params demo_clint]
  by (simp add: demo_input_def write_en_def)

end
