(* ===== verification/Clint_Deadline.thy ===== *)
theory Clint_Deadline
  imports Clint_Bus
begin

text \<open>
  The device as the testbenches set it up: one compare value for hart 0, then nothing but the
  running clock. The exact time after any number of cycles since the reset, whatever \<open>FREQ\<close> is,
  and the interrupt lines.
\<close>

subsection \<open>The time since the reset\<close>

text \<open>Ticks in \<open>n\<close> cycles: none where the prescaler cannot reach its limit.\<close>

definition ticks :: "params \<Rightarrow> nat \<Rightarrow> nat" where
  "ticks P n = (if ticking P then (n - 1) div tick_period P else 0)"

definition clocked :: "params \<Rightarrow> nat \<Rightarrow> clint \<Rightarrow> bool" where
  "clocked P n s \<longleftrightarrow>
     (if ticking P then timer_at P 0 n s else \<not> increment_timer_r s \<and> mtime s = 0)"

lemma ticks_le: "ticks P n \<le> n"
  by (simp add: ticks_def le_trans [OF div_le_dividend])

lemma clocked_mtime: "clocked P n s \<Longrightarrow> mtime s = of_nat (ticks P n)"
  by (simp add: clocked_def ticks_def timer_at_def split: if_splits)

lemma clocked_reset: "cells_ok C \<Longrightarrow> arst_i i \<Longrightarrow> clocked P 0 (clint_cycle C P i s)"
  by (simp add: clocked_def timer_at_reset next_increment_timer_r_def next_mtime_def cells_ok_def)

lemma clocked_step:
  assumes "cells_ok C" and "FREQ P < 2 ^ 32" and "free_running i" and "clocked P n s"
  shows "clocked P (Suc n) (clint_cycle C P i s)"
proof (cases "ticking P")
  case True
  then show ?thesis using timer_at_step [OF assms(1) True assms(3)] assms(4) by (simp add: clocked_def)
next
  case False
  then show ?thesis
    using assms no_increment_timer [OF False assms(2), of s]
    by (simp add: clocked_def next_increment_timer_r_def next_mtime_def cells_ok_def free_running_def)
qed

lemma clocked_run:
  assumes "cells_ok C" and "FREQ P < 2 ^ 32"
  shows "list_all free_running is \<Longrightarrow> clocked P n s \<Longrightarrow>
    clocked P (n + length is) (clint_run C P is s)"
proof (induction "is" arbitrary: n s)
  case (Cons i "is")
  then show ?case using clocked_step [OF assms] by (fastforce dest: Cons.IH)
qed simp

lemma clint_run_replicate: "clint_run C P (replicate n i) s = (clint_cycle C P i ^^ n) s"
  by (induction n arbitrary: s) (simp_all add: funpow_Suc_right del: funpow.simps)

text \<open>With the clock enable low, the time does not run at all.\<close>

lemma disabled_run:
  assumes "cells_ok C"
  shows "list_all (\<lambda>i. \<not> arst_i i \<and> cke_i i = False \<and> \<not> mtime_hit i) is \<Longrightarrow> \<not> increment_timer_r s \<Longrightarrow>
    mtime (clint_run C P is s) = mtime s"
proof (induction "is" arbitrary: s)
  case (Cons i "is")
  have "\<not> increment_timer_r (clint_cycle C P i s)" and "next_mtime i s = mtime s"
    using Cons.prems assms by (simp_all add: next_increment_timer_r_def cells_ok_def next_mtime_def)
  with Cons show ?case by simp
qed simp

subsection \<open>One compare value\<close>

definition armed :: "params \<Rightarrow> nat \<Rightarrow> clint \<Rightarrow> bool" where
  "armed P d s \<longleftrightarrow> clint_wf P s \<and>
     (\<forall>k<N_CORES P. mtimecmp s ! k = (if k = 0 then of_nat d else - 1) \<and> \<not> msip_reg s ! k)"

lemma unat_of_nat_small: "n < 2 ^ 61 \<Longrightarrow> unat (of_nat n :: u64) = n"
  by (simp add: unat_of_nat take_bit_nat_eq_self)

lemma armed_mtip:
  assumes "params_ok P" and "armed P d s" and "mtime s = of_nat t" and "d < 2 ^ 61" and "t < 2 ^ 61"
  shows "True \<in> set (mtip_o P False s) \<longleftrightarrow> d \<le> t"
proof -
  note small = unat_of_nat_small [OF assms(4)] unat_of_nat_small [OF assms(5)]
  have "mtimecmp s ! k \<le> mtime s \<longleftrightarrow> k = 0 \<and> d \<le> t" if "k < N_CORES P" for k
    using that assms(2,5)
    by (simp add: armed_def assms(3) word_le_nat_alt small unsigned_minus_1_eq_mask mask_eq_exp_minus_1)
  moreover have "0 < N_CORES P" using assms(1) by (simp add: params_ok_def)
  ultimately show ?thesis by (auto simp: mtip_o_def)
qed

lemma armed_msip: "armed P d s \<Longrightarrow> True \<notin> set (msip_o s)"
  by (auto simp: armed_def clint_wf_def msip_o_def in_set_conv_nth)

text \<open>Cycles without a write keep the registers.\<close>

lemma idle_registers:
  assumes "\<not> arst_i i" and "bus_write_of i = None"
  shows "next_mtimecmp P i s = mtimecmp s" and "next_msip P i s = msip_reg s" and "\<not> mtime_hit i"
  using assms bus_write_of_hit [of P i]
  by (auto simp: next_mtimecmp_def next_msip_def)

lemma armed_cycle:
  assumes "armed P d s" and "\<not> arst_i i" and "bus_write_of i = None"
  shows "armed P d (clint_cycle C P i s)"
  using assms clint_wf_cycle by (simp add: armed_def idle_registers)

text \<open>After the two writes of the compare value.\<close>

lemma deadline_effects:
  assumes "params_ok P" and "k < N_CORES P"
  shows "last_written (N_CORES P) (Mtimecmp k h)
           (replicate m None @ Some (0x4000, d) # Some (0x4004, 0) # replicate n None) (- 1) =
         (if k = 0 then if h then 0 else d else - 1)"
    and "last_written (N_CORES P) (Msip k)
           (replicate m None @ Some (0x4000, d) # Some (0x4004, 0) # replicate n None) 0 = 0"
proof -
  have none: "(effect N r None ^^ n) v = v" for N r v n
    by (induction n) (simp_all add: effect_def)
  have "N_CORES P \<le> 8" "0 < N_CORES P" using assms by (simp_all add: params_ok_def)
  then have dec: "decode (N_CORES P) 0x4000 = Some (Mtimecmp 0 False)"
    "decode (N_CORES P) 0x4004 = Some (Mtimecmp 0 True)"
    by (simp_all add: decode_def)
  show "last_written (N_CORES P) (Mtimecmp k h)
           (replicate m None @ Some (0x4000, d) # Some (0x4004, 0) # replicate n None) (- 1) =
         (if k = 0 then if h then 0 else d else - 1)"
    by (auto simp: last_written_def none effect_def dec)
  show "last_written (N_CORES P) (Msip k)
           (replicate m None @ Some (0x4000, d) # Some (0x4004, 0) # replicate n None) 0 = 0"
    by (simp add: last_written_def none effect_def dec)
qed

lemma armed_run:
  assumes "params_ok P" and "arst_i rst" and "list_all (\<lambda>i. \<not> arst_i i) is"
    and "map bus_write_of is =
      replicate m None @ Some (0x4000, of_nat d) # Some (0x4004, 0) # replicate n None"
    and "d < 2 ^ 32"
  shows "armed P d (clint_run C P is (clint_cycle C P rst s))"
proof -
  let ?s = "clint_run C P is (clint_cycle C P rst s)"
  have ones: "get_half h (- 1) = - 1" for h
    by (rule bit_word_eqI) (simp add: bit_get_half)
  have "unat (of_nat d :: u64) = d" "unat (of_nat d :: u32) = d"
    using assms(5) by (simp_all add: unat_of_nat take_bit_nat_eq_self)
  then have halves: "get_half True (of_nat d) = 0" "get_half False (of_nat d) = of_nat d"
    using assms(5) by (simp_all add: word_unat_eq_iff unat_get_half_high unat_get_half_low)
  note run = reset_run_last_written [OF assms(1-3), unfolded assms(4)]
  have "mtimecmp ?s ! k = (if k = 0 then of_nat d else - 1) \<and> \<not> msip_reg ?s ! k" if k: "k < N_CORES P" for k
  proof
    note eff = deadline_effects [OF assms(1) k]
    show "mtimecmp ?s ! k = (if k = 0 then of_nat d else - 1)"
      by (rule half_eqI) (simp_all add: run(1) [OF k] eff ones halves)
    show "\<not> msip_reg ?s ! k"
      using run(2) [OF k] eff(2) by (metis of_bool_eq_0_iff)
  qed
  then show ?thesis using clint_wf_reset [OF assms(2)] by (auto simp: armed_def)
qed

end
