(* ===== verification/Verilog_Tb.thy ===== *)
theory Verilog_Tb
  imports Complex_Main Clint_Deadline
begin

text \<open>
  The \<open>initial\<close> block of \<open>iob_clint_tb.v\<close>, with the bus tasks of \<open>Clint_Bus\<close>, around the RTL. Every
  wait of the block is for a rising clock edge (and \<open>#1\<close> after it), so its time is counted in
  clock cycles. Its outcome on the RTL is proved for every clock frequency.
\<close>

subsection \<open>State\<close>

text \<open>Real-valued parameters, in units of the \<open>timescale\<close> (1 ns).\<close>

definition clk_per :: rat where "clk_per = 1000000000 / 100000000"
definition rtc_per :: rat where "rtc_per = 1000000000 / 100000"

text \<open>A \<open>real\<close> assigned to an \<open>integer\<close> or a 32-bit argument is rounded.\<close>

definition to_u32 :: "rat \<Rightarrow> u32" where
  "to_u32 x = of_int (round x)"

datatype display = Display string | Display_count string u64

text \<open>The registers of the testbench; \<open>bench\<close> is the device under test.\<close>

record vtb =
  bench :: soc
  vtb_addr :: "16 word"
  vtb_wdata :: u32
  vtb_i :: int
  failed :: int
  displays :: "display list"
  test_log :: "string option"

definition show_line :: "display \<Rightarrow> vtb \<Rightarrow> vtb" where
  "show_line x t = t\<lparr>displays := displays t @ [x]\<rparr>"

text \<open>\<open>@(posedge clk_i)\<close> with no request, and the task \<open>set_inputs\<close>.\<close>

definition wait_posedge :: "cells \<Rightarrow> params \<Rightarrow> vtb \<Rightarrow> vtb" where
  "wait_posedge C P t =
     t\<lparr>bench := soc_cycle C P (bus_idle (vtb_addr t) (vtb_wdata t)) (bench t)\<rparr>"

definition vtb_set_inputs :: "cells \<Rightarrow> params \<Rightarrow> 16 word \<Rightarrow> u32 \<Rightarrow> 4 word \<Rightarrow> vtb \<Rightarrow> vtb" where
  "vtb_set_inputs C P a d strb t =
     t\<lparr>bench := set_inputs C P a d strb (bench t), vtb_addr := a, vtb_wdata := d\<rparr>"

definition vtb_get_time :: "cells \<Rightarrow> params \<Rightarrow> vtb \<Rightarrow> (u64 \<times> vtb) option" where
  "vtb_get_time C P t = do {
     (v, \<sigma>) \<leftarrow> get_time C P (bench t);
     Some (v, t\<lparr>bench := \<sigma>, vtb_addr := 49144 + 4, vtb_wdata := 0\<rparr>)
   }"

definition vtb_mtip :: "params \<Rightarrow> vtb \<Rightarrow> bool" where
  "vtb_mtip P t \<longleftrightarrow> True \<in> set (mtip_o P False (rtl (bench t)))"

definition vtb_msip :: "vtb \<Rightarrow> bool" where
  "vtb_msip t \<longleftrightarrow> True \<in> set (msip_o (rtl (bench t)))"

subsection \<open>The initial block\<close>

definition reset_inputs :: clint_in where
  "reset_inputs =
     \<lparr>arst_i = True, cke_i = True, iob_valid_i = False, iob_addr_i = 0, iob_wdata_i = 0,
      iob_wstrb_i = 0\<rparr>"

text \<open>Reset (its rising edge, and 100 clock edges), ten idle cycles, and the deadline.\<close>

definition vtb_setup :: "cells \<Rightarrow> params \<Rightarrow> clint \<Rightarrow> vtb" where
  "vtb_setup C P s =
     (let \<sigma> = soc_idle C P reset_inputs (Suc 100) \<lparr>rtl = s, delays = [], history = []\<rparr>;
          t = \<lparr>bench = \<sigma>, vtb_addr = 0, vtb_wdata = 0, vtb_i = 0, failed = 0, displays = [],
               test_log = None\<rparr>;
          t = (wait_posedge C P ^^ 10) t;
          t = vtb_set_inputs C P 16384 200 15 t;
          t = vtb_set_inputs C P (16384 + 4) 0 15 t
      in show_line (Display ''Timer Interrupt set.'') t)"

definition on_mtip :: "cells \<Rightarrow> params \<Rightarrow> vtb \<Rightarrow> vtb option" where
  "on_mtip C P t =
     (if vtb_mtip P t then do {
        let t = show_line (Display ''Machine Timer Interrupt is trigered.'') t;
        let t = vtb_set_inputs C P 0 1 15 t;
        (timer_read, t) \<leftarrow> vtb_get_time C P t;
        let t = show_line (Display_count ''Timer count: %0d.'' timer_read) t;
        let t = vtb_set_inputs C P 49144 0 15 t;
        Some (vtb_set_inputs C P 16384 (to_u32 (rtc_per * 100)) 15 t)
      } else Some t)"

definition on_msip :: "cells \<Rightarrow> params \<Rightarrow> vtb \<Rightarrow> vtb" where
  "on_msip C P t =
     (if vtb_msip t then
        vtb_set_inputs C P 0 0 15 (show_line (Display ''Machine Software Interrupt is trigered.'') t)
      else t)"

text \<open>The end of a round: one clock cycle, and the elapsed time.\<close>

definition advance_i :: "cells \<Rightarrow> params \<Rightarrow> vtb \<Rightarrow> vtb" where
  "advance_i C P t =
     (wait_posedge C P t)\<lparr>vtb_i := sint (to_u32 (of_int (vtb_i t) + clk_per))\<rparr>"

definition vtb_body :: "cells \<Rightarrow> params \<Rightarrow> vtb \<Rightarrow> vtb option" where
  "vtb_body C P t = map_option (\<lambda>t. advance_i C P (on_msip C P t)) (on_mtip C P t)"

definition vtb_finish :: "cells \<Rightarrow> params \<Rightarrow> vtb \<Rightarrow> vtb" where
  "vtb_finish C P t =
     (let t = show_line (Display ''Testbench finished!'') (wait_posedge C P t) in
      t\<lparr>test_log := Some (if failed t = 0 then ''Test passed!'' else ''Test failed!'')\<rparr>)"

partial_function (option) vtb_loop :: "cells \<Rightarrow> params \<Rightarrow> vtb \<Rightarrow> vtb option" where
  "vtb_loop C P t =
     (case vtb_body C P t of
        None \<Rightarrow> None
      | Some t \<Rightarrow>
          if of_int (vtb_i t) > rtc_per * 250 then Some (vtb_finish C P t) else vtb_loop C P t)"

definition initial_block :: "cells \<Rightarrow> params \<Rightarrow> clint \<Rightarrow> vtb option" where
  "initial_block C P s = vtb_loop C P (vtb_setup C P s)"

subsection \<open>Running the clock\<close>

definition idle_inputs :: "vtb \<Rightarrow> clint_in" where
  "idle_inputs t = bus_idle (vtb_addr t) (vtb_wdata t)"

lemma idle_inputs_simps [simp]:
  "\<not> arst_i (idle_inputs t)" "bus_write_of (idle_inputs t) = None"
  by (simp_all add: idle_inputs_def)

lemma rtl_vtb [simp]:
  "rtl (bench (wait_posedge C P t)) = clint_cycle C P (idle_inputs t) (rtl (bench t))"
  "rtl (bench (vtb_set_inputs C P a d strb t)) = clint_cycle C P (bus_request a d strb) (rtl (bench t))"
  "rtl (bench (show_line x t)) = rtl (bench t)"
  "rtl (bench (advance_i C P t)) = clint_cycle C P (idle_inputs t) (rtl (bench t))"
  by (simp_all add: wait_posedge_def vtb_set_inputs_def show_line_def advance_i_def set_inputs_def
      idle_inputs_def)

lemma soc_idle_rtl: "rtl (soc_idle C P i n \<sigma>) = (clint_cycle C P i ^^ n) (rtl \<sigma>)"
  by (induction n arbitrary: \<sigma>) (simp_all add: funpow_Suc_right del: funpow.simps)

lemma wait_posedge_run:
  "rtl (bench ((wait_posedge C P ^^ n) t)) = (clint_cycle C P (idle_inputs t) ^^ n) (rtl (bench t)) \<and>
   idle_inputs ((wait_posedge C P ^^ n) t) = idle_inputs t \<and> vtb_i ((wait_posedge C P ^^ n) t) = vtb_i t \<and>
   displays ((wait_posedge C P ^^ n) t) = displays t \<and> failed ((wait_posedge C P ^^ n) t) = failed t"
  by (induction n) (simp_all add: idle_inputs_def wait_posedge_def)

lemma advance_i_run:
  "rtl (bench ((advance_i C P ^^ n) t)) = (clint_cycle C P (idle_inputs t) ^^ n) (rtl (bench t)) \<and>
   idle_inputs ((advance_i C P ^^ n) t) = idle_inputs t \<and>
   displays ((advance_i C P ^^ n) t) = displays t \<and> failed ((advance_i C P ^^ n) t) = failed t"
  by (induction n) (simp_all add: idle_inputs_def advance_i_def wait_posedge_def)

lemma advance_i_time:
  assumes "vtb_i t = 10 * int a" and "a < 2 ^ 20"
  shows "vtb_i (advance_i C P t) = 10 * int (Suc a)"
proof -
  have "of_int (vtb_i t) + clk_per = of_int (10 * int (Suc a))"
    by (simp add: assms(1) clk_per_def)
  then have "vtb_i (advance_i C P t) = sint (of_int (10 * int (Suc a)) :: u32)"
    by (simp only: advance_i_def to_u32_def round_of_int) simp
  then show ?thesis
    using assms(2) by (simp only: sint_sbintrunc') (simp add: signed_take_bit_int_eq_self)
qed

subsection \<open>Rounds without an interrupt\<close>

definition quiet :: "params \<Rightarrow> vtb \<Rightarrow> bool" where
  "quiet P t \<longleftrightarrow> \<not> vtb_mtip P t \<and> \<not> vtb_msip t"

lemma loop_quiet_round:
  assumes "quiet P t" and "vtb_i t = 10 * int a" and "a < 2 ^ 20"
  shows "vtb_loop C P t =
    (if 250000 \<le> a then Some (vtb_finish C P (advance_i C P t)) else vtb_loop C P (advance_i C P t))"
proof -
  have "vtb_body C P t = Some (advance_i C P t)"
    using assms(1) by (simp add: quiet_def vtb_body_def on_mtip_def on_msip_def)
  moreover have "of_int (vtb_i (advance_i C P t)) > rtc_per * 250 \<longleftrightarrow> 250000 \<le> a"
    by (simp only: advance_i_time [OF assms(2,3)]) (auto simp: rtc_per_def)
  ultimately show ?thesis by (subst vtb_loop.simps) simp
qed

lemma loop_quiet_rounds:
  assumes "vtb_i t = 10 * int a"
  shows "\<forall>j<k. quiet P ((advance_i C P ^^ j) t) \<Longrightarrow> a + k \<le> 250000 \<Longrightarrow>
    vtb_loop C P t = vtb_loop C P ((advance_i C P ^^ k) t) \<and>
    vtb_i ((advance_i C P ^^ k) t) = 10 * int (a + k)"
proof (induction k)
  case (Suc k)
  let ?u = "(advance_i C P ^^ k) t"
  have u: "vtb_loop C P t = vtb_loop C P ?u" "vtb_i ?u = 10 * int (a + k)" and q: "quiet P ?u"
    using Suc by simp_all
  have "vtb_loop C P ?u = vtb_loop C P (advance_i C P ?u)"
    using loop_quiet_round [OF q u(2)] Suc.prems(2) by simp
  moreover have "vtb_i (advance_i C P ?u) = 10 * int (Suc (a + k))"
    using advance_i_time [OF u(2)] Suc.prems(2) by simp
  ultimately show ?case using u(1) by simp
qed (use assms in simp)

lemma loop_quiet_end:
  assumes "vtb_i t = 10 * int a" and "a \<le> 250000"
    and "\<forall>j\<le>250000 - a. quiet P ((advance_i C P ^^ j) t)" and "failed t = 0"
  shows "\<exists>t'. vtb_loop C P t = Some t' \<and> test_log t' = Some ''Test passed!'' \<and>
    displays t' = displays t @ [Display ''Testbench finished!'']"
proof -
  let ?u = "(advance_i C P ^^ (250000 - a)) t"
  have u: "vtb_loop C P t = vtb_loop C P ?u" "vtb_i ?u = 10 * int 250000"
    using loop_quiet_rounds [OF assms(1), of "250000 - a"] assms(2,3) by simp_all
  have "vtb_loop C P ?u = Some (vtb_finish C P (advance_i C P ?u))"
    using loop_quiet_round [OF _ u(2)] assms(3) by simp
  moreover have "displays (advance_i C P ?u) = displays t" "failed (advance_i C P ?u) = 0"
    using advance_i_run [of "250000 - a" C P t] assms(4) by (simp_all add: advance_i_def wait_posedge_def)
  ultimately show ?thesis
    using u(1) by (simp add: vtb_finish_def show_line_def wait_posedge_def Let_def)
qed

subsection \<open>The set-up\<close>

lemma set_up_rtl:
  obtains s' where "rtl (bench (vtb_setup C P s)) =
      clint_run C P (replicate 10 (bus_idle 0 0) @ [bus_request 0x4000 200 15, bus_request 0x4004 0 15])
        (clint_cycle C P reset_inputs s')"
    "vtb_i (vtb_setup C P s) = 0" "failed (vtb_setup C P s) = 0"
    "displays (vtb_setup C P s) = [Display ''Timer Interrupt set.'']"
proof -
  let ?t = "\<lparr>bench = soc_idle C P reset_inputs (Suc 100) \<lparr>rtl = s, delays = [], history = []\<rparr>,
    vtb_addr = 0, vtb_wdata = 0, vtb_i = 0, failed = 0, displays = [], test_log = None\<rparr>"
  have "rtl (bench ?t) = clint_cycle C P reset_inputs ((clint_cycle C P reset_inputs ^^ 100) s)"
    by (simp only: vtb.select_convs soc_idle_rtl soc.select_convs funpow.simps o_apply)
  then show ?thesis
    using wait_posedge_run [of 10 C P ?t]
    by (intro that [of "(clint_cycle C P reset_inputs ^^ 100) s"])
      (simp_all add: vtb_setup_def Let_def show_line_def vtb_set_inputs_def set_inputs_def
        clint_run_append clint_run_replicate idle_inputs_def del: funpow.simps soc_idle.simps)
qed

lemma free_running_bus [simp]:
  "free_running (bus_idle a d)" "free_running (idle_inputs t)"
  "free_running (bus_request a d strb) \<longleftrightarrow> \<not> (strb \<noteq> 0 \<and> 0xBFF8 \<le> unat a \<and> unat a < 0xC000)"
  by (auto simp: free_running_def mtime_hit_def bus_idle_def idle_inputs_def bus_request_def
      write_en_def MTimeBase_def)

text \<open>The device after \<open>n\<close> idle cycles behind the set-up.\<close>

lemma after_set_up:
  assumes "cells_ok C" and "params_ok P" and "FREQ P < 2 ^ 32"
    and t_def: "t = vtb_setup C P s"
  shows "armed P 200 ((clint_cycle C P (idle_inputs t) ^^ n) (rtl (bench t)))"
    and "clocked P (12 + n) ((clint_cycle C P (idle_inputs t) ^^ n) (rtl (bench t)))"
proof -
  let ?is = "replicate 10 (bus_idle 0 0) @ [bus_request 0x4000 200 15, bus_request 0x4004 0 15] @
    replicate n (idle_inputs t)"
  have rst: "arst_i reset_inputs" by (simp add: reset_inputs_def)
  obtain s' where "rtl (bench t) =
      clint_run C P (replicate 10 (bus_idle 0 0) @ [bus_request 0x4000 200 15, bus_request 0x4004 0 15])
        (clint_cycle C P reset_inputs s')"
    using set_up_rtl unfolding t_def by metis
  then have run: "(clint_cycle C P (idle_inputs t) ^^ n) (rtl (bench t)) =
      clint_run C P ?is (clint_cycle C P reset_inputs s')"
    by (simp only: append_assoc [symmetric] clint_run_append) (simp add: clint_run_replicate)
  have "map bus_write_of ?is =
      replicate 10 None @ Some (0x4000, of_nat 200) # Some (0x4004, 0) # replicate n None"
    by simp
  from armed_run [OF assms(2) rst _ this]
  show "armed P 200 ((clint_cycle C P (idle_inputs t) ^^ n) (rtl (bench t)))"
    by (simp add: run list_all_iff)
  have "list_all free_running ?is" by (simp add: list_all_iff)
  from clocked_run [OF assms(1,3) this clocked_reset [OF assms(1) rst]]
  show "clocked P (12 + n) ((clint_cycle C P (idle_inputs t) ^^ n) (rtl (bench t)))"
    by (simp add: run add.commute)
qed

lemma armed_quiet:
  assumes "params_ok P" and "armed P d (rtl (bench t))" and "mtime (rtl (bench t)) = of_nat m"
    and "m < d" and "d < 2 ^ 61"
  shows "quiet P t"
  using armed_mtip [OF assms(1-3)] armed_msip [OF assms(2)] assms(4,5)
  by (simp add: quiet_def vtb_mtip_def vtb_msip_def)

text \<open>Rounds that begin with few ticks behind a deadline stay quiet.\<close>

lemma armed_idle_run:
  assumes "armed P d s" and "mtime s = of_nat m"
  shows "\<exists>m'\<le>m + n. armed P d ((clint_cycle C P (idle_inputs t) ^^ n) s) \<and>
    mtime ((clint_cycle C P (idle_inputs t) ^^ n) s) = of_nat m'"
proof (induction n)
  case (Suc n)
  let ?s = "(clint_cycle C P (idle_inputs t) ^^ n) s"
  obtain m' where m': "m' \<le> m + n" "armed P d ?s" "mtime ?s = of_nat m'" using Suc by blast
  have "mtime (clint_cycle C P (idle_inputs t) ?s) = of_nat m' \<or>
      mtime (clint_cycle C P (idle_inputs t) ?s) = of_nat (Suc m')"
    using m'(3) idle_registers(3) [of "idle_inputs t"] by (simp add: next_mtime_def add.commute)
  then show ?case
    using m'(1) armed_cycle [OF m'(2), of "idle_inputs t" C] by (auto intro: exI [of _ m'] exI [of _ "Suc m'"])
qed (use assms in auto)

subsection \<open>Answering the timer interrupt\<close>

lemma request_step:
  assumes "params_ok P" and "decode (N_CORES P) (unat a) = Some r" and "strb \<noteq> 0"
  shows "\<exists>d\<le>1. abs_clint (clint_cycle C P (bus_request a v strb) s) =
    advance d (reg_write r v (abs_clint s))"
  using cycle_refines [OF assms(1), of "bus_request a v strb" s C] assms(2,3)
    aclint_step_write_advance by simp

lemma read_step:
  assumes "params_ok P"
  shows "\<exists>d\<le>1. abs_clint (clint_cycle C P (bus_request a v 0) s) = advance d (abs_clint s)"
  using cycle_refines [OF assms, of "bus_request a v 0" s C] aclint_step_idle_advance by simp

lemma decode_tb:
  assumes "params_ok P"
  shows "decode (N_CORES P) 0 = Some (Msip 0)" "decode (N_CORES P) 16384 = Some (Mtimecmp 0 False)"
    "decode (N_CORES P) 49144 = Some (Mtime False)" "decode (N_CORES P) 49148 = Some (Mtime True)"
  using assms by (auto simp: params_ok_def decode_def)

lemma get_time_eq:
  assumes "cells_ok C" and "params_ok P" and "clint_wf P (rtl \<sigma>)"
  defines "\<sigma>' \<equiv> soc_cycle C P (bus_request 49144 0 0) \<sigma>"
  shows "get_time C P \<sigma> =
    Some (join_halves (get_half True (mtime (rtl \<sigma>'))) (get_half False (mtime (rtl \<sigma>))),
      soc_cycle C P (bus_request 49148 0 0) \<sigma>')"
proof -
  have "bus_read C P 49144 \<sigma> = Some (get_half False (mtime (rtl \<sigma>)), \<sigma>')"
    using bus_read_wf [OF assms(1-3), of 49144] decode_tb [OF assms(2)]
    by (simp add: \<sigma>'_def view_def abs_clint_def)
  moreover have "clint_wf P (rtl \<sigma>')" using assms(3) by (auto simp: \<sigma>'_def)
  then have "bus_read C P 49148 \<sigma>' =
      Some (get_half True (mtime (rtl \<sigma>')), soc_cycle C P (bus_request 49148 0 0) \<sigma>')"
    using bus_read_wf [OF assms(1,2), of \<sigma>' 49148] decode_tb [OF assms(2)]
    by (simp add: view_def abs_clint_def)
  moreover have "set_half True hi (set_half False lo 0) = join_halves hi lo" for hi lo
    by (rule half_eqI) simp_all
  ultimately show ?thesis by (simp add: get_time_def)
qed

lemma armed_abs:
  "armed P d s \<longleftrightarrow> aclint_wf (N_CORES P) (abs_clint s) \<and>
     (\<forall>k<N_CORES P. a_mtimecmp (abs_clint s) ! k = (if k = 0 then of_nat d else - 1) \<and>
        \<not> a_msip (abs_clint s) ! k)"
  by (simp add: armed_def aclint_wf_def clint_wf_def abs_clint_def)

lemma small_time_halves:
  assumes "n < 2 ^ 32"
  shows "get_half True (of_nat n) = 0" and "join_halves 0 (get_half False (of_nat n)) = of_nat n"
proof -
  have "unat (of_nat n :: u64) = n" using assms by (simp add: unat_of_nat take_bit_nat_eq_self)
  then show high: "get_half True (of_nat n) = 0"
    using assms by (simp add: word_unat_eq_iff unat_get_half_high)
  show "join_halves 0 (get_half False (of_nat n)) = of_nat n"
    by (rule half_eqI) (simp_all add: high)
qed

text \<open>The device through the six transactions of the handlers.\<close>

definition handled :: "cells \<Rightarrow> params \<Rightarrow> clint \<Rightarrow> clint" where
  "handled C P s = clint_run C P
     [bus_request 0 1 15, bus_request 49144 0 0, bus_request 49148 0 0, bus_request 49144 0 15,
      bus_request 16384 1000000 15] s"

lemma handled_effect:
  assumes "params_ok P" and "armed P 200 s" and "mtime s = of_nat t" and "t < 2 ^ 31"
  shows "True \<in> set (msip_o (handled C P s))"
    and "armed P 1000000 (clint_cycle C P (bus_request 0 0 15) (handled C P s))"
    and "\<exists>m\<le>3. mtime (clint_cycle C P (bus_request 0 0 15) (handled C P s)) = of_nat m"
proof -
  let ?c = "clint_cycle C P"
  define s1 where "s1 = ?c (bus_request 0 1 15) s"
  define s2 where "s2 = ?c (bus_request 49144 0 0) s1"
  define s3 where "s3 = ?c (bus_request 49148 0 0) s2"
  define s4 where "s4 = ?c (bus_request 49144 0 15) s3"
  define s5 where "s5 = ?c (bus_request 16384 1000000 15) s4"
  define s6 where "s6 = ?c (bus_request 0 0 15) s5"
  have s5: "handled C P s = s5" by (simp add: handled_def s1_def s2_def s3_def s4_def s5_def)
  note dec = decode_tb [OF assms(1)]
  obtain d1 where d1: "d1 \<le> 1" "abs_clint s1 = advance d1 (reg_write (Msip 0) 1 (abs_clint s))"
    using request_step [OF assms(1), of 0 "Msip 0" 15 C 1 s] dec(1) by (auto simp: s1_def)
  obtain d2 where d2: "d2 \<le> 1" "abs_clint s2 = advance d2 (abs_clint s1)"
    using read_step [OF assms(1), of C 49144 0 s1] by (auto simp: s2_def)
  obtain d3 where d3: "d3 \<le> 1" "abs_clint s3 = advance d3 (abs_clint s2)"
    using read_step [OF assms(1), of C 49148 0 s2] by (auto simp: s3_def)
  obtain d4 where d4: "d4 \<le> 1" "abs_clint s4 = advance d4 (reg_write (Mtime False) 0 (abs_clint s3))"
    using request_step [OF assms(1), of 49144 "Mtime False" 15 C 0 s3] dec(3) by (auto simp: s4_def)
  obtain d5 where d5: "d5 \<le> 1"
      "abs_clint s5 = advance d5 (reg_write (Mtimecmp 0 False) 1000000 (abs_clint s4))"
    using request_step [OF assms(1), of 16384 "Mtimecmp 0 False" 15 C 1000000 s4] dec(2)
    by (auto simp: s5_def)
  obtain d6 where d6: "d6 \<le> 1" "abs_clint s6 = advance d6 (reg_write (Msip 0) 0 (abs_clint s5))"
    using request_step [OF assms(1), of 0 "Msip 0" 15 C 0 s5] dec(1) by (auto simp: s6_def)
  have N: "0 < N_CORES P" using assms(1) by (simp add: params_ok_def)
  have wf: "aclint_wf (N_CORES P) (abs_clint s)" using assms(2) by (simp add: armed_abs)
  have "a_mtime (abs_clint s3) = of_nat (t + (d1 + d2 + d3))"
    by (simp add: d1 d2 d3 add.assoc) (simp add: abs_clint_def assms(3))
  moreover have "t + (d1 + d2 + d3) < 2 ^ 32" using assms(4) d1(1) d2(1) d3(1) by simp
  ultimately have "get_half True (a_mtime (abs_clint s3)) = 0"
    using small_time_halves(1) by metis
  moreover have "get_half h 0 = 0" for h by (simp add: get_half_def)
  ultimately have "set_half False 0 (a_mtime (abs_clint s3)) = 0"
    by (intro half_eqI) simp_all
  then have "a_mtime (abs_clint s6) = of_nat (d4 + d5 + d6)"
    by (simp add: d4 d5 d6 add.assoc)
  moreover have "d4 + d5 + d6 \<le> 3" using d4(1) d5(1) d6(1) by simp
  ultimately show "\<exists>m\<le>3. mtime (clint_cycle C P (bus_request 0 0 15) (handled C P s)) = of_nat m"
    unfolding s5 s6_def [symmetric] by (auto simp: abs_clint_def)
  have msip: "a_msip (abs_clint s5) = (a_msip (abs_clint s))[0 := True]"
    by (simp add: d1 d2 d3 d4 d5)
  then have "a_msip (abs_clint s5) ! 0" using wf N by (simp add: aclint_wf_def)
  moreover have "length (a_msip (abs_clint s5)) = N_CORES P" using wf msip by (simp add: aclint_wf_def)
  ultimately show "True \<in> set (msip_o (handled C P s))"
    unfolding s5 using N by (metis abs_clint_def aclint.select_convs(3) msip_o_def nth_mem)
  have cmp: "a_mtimecmp (abs_clint s6) = (a_mtimecmp (abs_clint s))[0 := set_half False 1000000 (a_mtimecmp (abs_clint s) ! 0)]"
    by (simp add: d1 d2 d3 d4 d5 d6)
  have "get_half True (1000000 :: u64) = 0" "get_half True (200 :: u64) = 0"
    "get_half False (1000000 :: u64) = 1000000"
    by (simp_all add: get_half_def)
  then have "set_half False 1000000 (200 :: u64) = 1000000"
    by (intro half_eqI) simp_all
  then show "armed P 1000000 (clint_cycle C P (bus_request 0 0 15) (handled C P s))"
    unfolding s5 s6_def [symmetric] armed_abs
    using assms(2) wf N cmp msip by (auto simp: armed_abs d6 aclint_wf_def nth_list_update)
qed

lemma interrupt_round:
  assumes "cells_ok C" and "params_ok P" and "FREQ P < 2 ^ 32"
    and "armed P 200 (rtl (bench t))" and "clocked P n (rtl (bench t))" and "n < 2 ^ 30"
    and "vtb_mtip P t" and "vtb_i t = 10 * int a" and "a < 2 ^ 20"
  shows "\<exists>t' m. vtb_body C P t = Some t' \<and> vtb_i t' = 10 * int (Suc a) \<and> failed t' = failed t \<and>
    displays t' = displays t @
      [Display ''Machine Timer Interrupt is trigered.'',
       Display_count ''Timer count: %0d.'' (of_nat (ticks P (Suc n))),
       Display ''Machine Software Interrupt is trigered.''] \<and>
    armed P 1000000 (rtl (bench t')) \<and> m \<le> 4 \<and> mtime (rtl (bench t')) = of_nat m"
proof -
  let ?s = "rtl (bench t)"
  let ?t1 = "vtb_set_inputs C P 0 1 15 (show_line (Display ''Machine Timer Interrupt is trigered.'') t)"
  have wf: "clint_wf P (rtl (bench ?t1))" using assms(4) by (auto simp: armed_def)
  have c1: "clocked P (Suc n) (rtl (bench ?t1))"
    using clocked_step [OF assms(1,3) _ assms(5), of "bus_request 0 1 15"] by simp
  then have c2: "clocked P (Suc (Suc n)) (clint_cycle C P (bus_request 49144 0 0) (rtl (bench ?t1)))"
    using clocked_step [OF assms(1,3) _ c1, of "bus_request 49144 0 0"] by simp
  have le: "ticks P (Suc n) < 2 ^ 32" "ticks P (Suc (Suc n)) < 2 ^ 32" "ticks P n < 2 ^ 31"
    using ticks_le [of P "Suc n"] ticks_le [of P "Suc (Suc n)"] ticks_le [of P n] assms(6) by simp_all
  have "get_time C P (bench ?t1) = Some (of_nat (ticks P (Suc n)),
      soc_cycle C P (bus_request 49148 0 0) (soc_cycle C P (bus_request 49144 0 0) (bench ?t1)))"
    unfolding get_time_eq [OF assms(1,2) wf] soc_cycle_simps(1)
    by (simp only: clocked_mtime [OF c1] clocked_mtime [OF c2] small_time_halves le)
  moreover have "to_u32 (rtc_per * 100) = 1000000"
    by (simp add: to_u32_def rtc_per_def round_of_int [of 1000000, simplified])
  ultimately obtain t5 where t5: "on_mtip C P t = Some t5" "rtl (bench t5) = handled C P ?s"
      "vtb_i t5 = vtb_i t" "failed t5 = failed t"
      "displays t5 = displays t @ [Display ''Machine Timer Interrupt is trigered.'',
         Display_count ''Timer count: %0d.'' (of_nat (ticks P (Suc n)))]"
    using assms(7) by (simp add: on_mtip_def vtb_get_time_def Let_def handled_def)
      (simp add: vtb_set_inputs_def show_line_def)
  have "mtime ?s = of_nat (ticks P n)" using clocked_mtime [OF assms(5)] .
  note handled = handled_effect [OF assms(2,4) this le(3)]
  let ?t6 = "on_msip C P t5"
  have t6: "rtl (bench ?t6) = clint_cycle C P (bus_request 0 0 15) (handled C P ?s)"
      "vtb_i ?t6 = vtb_i t" "failed ?t6 = failed t"
      "displays ?t6 = displays t5 @ [Display ''Machine Software Interrupt is trigered.'']"
    using handled(1) t5 by (simp_all add: on_msip_def vtb_msip_def)
      (simp_all add: vtb_set_inputs_def show_line_def)
  obtain m where m: "m \<le> 3" "mtime (rtl (bench ?t6)) = of_nat m" using handled(3) t6(1) by auto
  have armed: "armed P 1000000 (rtl (bench ?t6))" using handled(2) t6(1) by simp
  obtain m' where m': "m' \<le> m + 1" "armed P 1000000 (rtl (bench (advance_i C P ?t6)))"
      "mtime (rtl (bench (advance_i C P ?t6))) = of_nat m'"
    using armed_idle_run [OF armed m(2), of 1 C ?t6] by auto
  have "vtb_body C P t = Some (advance_i C P ?t6)" using t5(1) by (simp add: vtb_body_def)
  moreover have "vtb_i (advance_i C P ?t6) = 10 * int (Suc a)"
    using advance_i_time [OF _ assms(9)] t6(2) assms(8) by simp
  moreover have "failed (advance_i C P ?t6) = failed t" "displays (advance_i C P ?t6) = displays ?t6"
    using t6(3) by (simp_all add: advance_i_def wait_posedge_def)
  ultimately show ?thesis
    using m' m(1) t5(5) t6(4) by (intro exI [of _ "advance_i C P ?t6"] exI [of _ m']) simp
qed

lemma ticks_deadline:
  assumes "ticking P"
  shows "200 \<le> ticks P (12 + j) \<longleftrightarrow> 200 * tick_period P \<le> 11 + j"
  using assms by (simp add: ticks_def ticking_def less_eq_div_iff_mult_less_eq)

lemma quiet_after_set_up:
  assumes "cells_ok C" and "params_ok P" and "FREQ P < 2 ^ 32" and "ticks P (12 + j) < 200"
  shows "quiet P ((advance_i C P ^^ j) (vtb_setup C P s))"
proof -
  let ?u = "(advance_i C P ^^ j) (vtb_setup C P s)"
  have "armed P 200 (rtl (bench ?u))" and "clocked P (12 + j) (rtl (bench ?u))"
    using after_set_up [OF assms(1-3) refl, of j s] advance_i_run [of j C P "vtb_setup C P s"] by simp_all
  from armed_quiet [OF assms(2) this(1) clocked_mtime [OF this(2)] assms(4)] show ?thesis by simp
qed

lemma quiet_after_interrupt:
  assumes "params_ok P" and "armed P 1000000 (rtl (bench t))" and "m \<le> 4"
    and "mtime (rtl (bench t)) = of_nat m" and "j \<le> 250000"
  shows "quiet P ((advance_i C P ^^ j) t)"
proof -
  obtain m' where m': "m' \<le> m + j" "armed P 1000000 (rtl (bench ((advance_i C P ^^ j) t)))"
      "mtime (rtl (bench ((advance_i C P ^^ j) t))) = of_nat m'"
    using armed_idle_run [OF assms(2,4), of j C t] advance_i_run [of j C P t] by auto
  from armed_quiet [OF assms(1) m'(2,3)] m'(1) assms(3,5) show ?thesis by simp
qed

lemma interrupt_seen:
  assumes "cells_ok C" and "params_ok P" and "FREQ P < 2 ^ 32" and "ticking P"
  shows "\<exists>t. initial_block C P s = Some t \<and> test_log t = Some ''Test passed!'' \<and>
    displays t =
      [Display ''Timer Interrupt set.'', Display ''Machine Timer Interrupt is trigered.'',
       Display_count ''Timer count: %0d.'' (of_nat (ticks P (200 * tick_period P + 2))),
       Display ''Machine Software Interrupt is trigered.'', Display ''Testbench finished!'']"
proof -
  let ?t = "vtb_setup C P s"
  define j where "j = 200 * tick_period P - 11"
  have j: "11 + j = 200 * tick_period P" "j \<le> 204789"
    using assms(4) unfolding j_def ticking_def by linarith+
  obtain s' where start: "vtb_i ?t = 0" "failed ?t = 0" "displays ?t = [Display ''Timer Interrupt set.'']"
    using set_up_rtl by metis
  let ?u = "(advance_i C P ^^ j) ?t"
  have "ticks P (12 + i) < 200" if "i < j" for i
    using ticks_deadline [OF assms(4), of i] that j(1) by linarith
  then have "\<forall>i<j. quiet P ((advance_i C P ^^ i) ?t)"
    using quiet_after_set_up [OF assms(1-3)] by blast
  from loop_quiet_rounds [of ?t 0, OF _ this] have u: "vtb_loop C P ?t = vtb_loop C P ?u"
      "vtb_i ?u = 10 * int j"
    using start(1) j(2) by simp_all
  have armed: "armed P 200 (rtl (bench ?u))" and clocked: "clocked P (12 + j) (rtl (bench ?u))"
    using after_set_up [OF assms(1-3) refl, of j s] advance_i_run [of j C P ?t] by simp_all
  have "ticks P (12 + j) < 2 ^ 61" using ticks_le [of P "12 + j"] j(2) by simp
  then have "vtb_mtip P ?u"
    using armed_mtip [OF assms(2) armed clocked_mtime [OF clocked]] ticks_deadline [OF assms(4), of j] j(1)
    by (simp add: vtb_mtip_def)
  from interrupt_round [OF assms(1-3) armed clocked _ this u(2)] j(2) obtain w m where
    w: "vtb_body C P ?u = Some w" "vtb_i w = 10 * int (Suc j)" "failed w = failed ?u"
      "displays w = displays ?u @
        [Display ''Machine Timer Interrupt is trigered.'',
         Display_count ''Timer count: %0d.'' (of_nat (ticks P (Suc (12 + j)))),
         Display ''Machine Software Interrupt is trigered.'']"
      "armed P 1000000 (rtl (bench w))" "m \<le> 4" "mtime (rtl (bench w)) = of_nat m"
    by auto
  have "of_int (vtb_i w) \<le> rtc_per * 250" using w(2) j(2) by (simp add: rtc_per_def)
  then have "vtb_loop C P ?u = vtb_loop C P w" using w(1) by (subst vtb_loop.simps) simp
  moreover have "\<forall>i\<le>250000 - Suc j. quiet P ((advance_i C P ^^ i) w)"
    using quiet_after_interrupt [OF assms(2) w(5-7)] by simp
  then have "\<exists>t'. vtb_loop C P w = Some t' \<and> test_log t' = Some ''Test passed!'' \<and>
      displays t' = displays w @ [Display ''Testbench finished!'']"
    using loop_quiet_end [OF w(2)] j(2) w(3) start(2) advance_i_run [of j C P ?t] by simp
  moreover have "displays ?u = displays ?t" using advance_i_run [of j C P ?t] by simp
  moreover have "Suc (12 + j) = 200 * tick_period P + 2" using j(1) by simp
  ultimately show ?thesis using u(1) w(4) start(3) by (auto simp: initial_block_def)
qed

subsection \<open>Properties\<close>

text \<open>C27: the outcome of the Verilog testbench on the RTL, at every clock frequency. It always ends
  and always reports that the test passed. Where the prescaler works, it sees the timer interrupt
  once, at tick 200, then the software interrupt that it raises; where the prescaler cannot work
  and \<open>mtime\<close> never moves, no interrupt comes and the report is the same.\<close>

theorem verilog_testbench_outcome:
  assumes "cells_ok C" and "params_ok P" and "FREQ P < 2 ^ 32"
  shows "\<exists>t. initial_block C P s = Some t \<and> test_log t = Some ''Test passed!'' \<and>
    displays t = Display ''Timer Interrupt set.'' #
      (if ticking P then
         [Display ''Machine Timer Interrupt is trigered.'',
          Display_count ''Timer count: %0d.'' (if tick_period P = 1 then 201 else 200),
          Display ''Machine Software Interrupt is trigered.'']
       else []) @ [Display ''Testbench finished!'']"
proof (cases "ticking P")
  case True
  have "Suc (200 * p) div p = (if p = 1 then 201 else 200)" if "1 \<le> p" for p :: nat
    using that by (auto intro: div_nat_eqI)
  then have "of_nat (ticks P (200 * tick_period P + 2)) = (if tick_period P = 1 then 201 else 200 :: u64)"
    using True by (simp add: ticks_def ticking_def)
  then show ?thesis using interrupt_seen [OF assms True, of s] True by simp
next
  case False
  let ?t = "vtb_setup C P s"
  have start: "vtb_i ?t = 10 * int 0" "failed ?t = 0" "displays ?t = [Display ''Timer Interrupt set.'']"
    using set_up_rtl [of C P s] by auto
  have "quiet P ((advance_i C P ^^ j) ?t)" for j
    using quiet_after_set_up [OF assms] False by (simp add: ticks_def)
  then show ?thesis
    using loop_quiet_end [OF start(1) _ _ start(2)] start(3) False by (simp add: initial_block_def)
qed

lemma verilog_testbench_outcome_witness:
  "\<exists>t. initial_block std_cells \<lparr>N_CORES = 1, FREQ = 125000000\<rparr> demo_clint = Some t \<and>
     test_log t = Some ''Test passed!'' \<and>
     displays t = [Display ''Timer Interrupt set.'', Display ''Testbench finished!'']"
  using verilog_testbench_outcome [of std_cells "\<lparr>N_CORES = 1, FREQ = 125000000\<rparr>" demo_clint]
  by (simp add: params_ok_def ticking_def tick_period_def)

end
