(* ===== verification/Verilator_Tb.thy ===== *)
theory Verilator_Tb
  imports Prelude
begin

text \<open>
  The Verilator testbench \<open>iob_clint_tb.cpp\<close>, function by function. The class \<open>Viob_clint_sim_wrapper\<close>
  that Verilator generates is a parameter: its method \<open>eval\<close>, from the input pins and the object's
  state to the output pins and the new state. The testbench relies on it through the locale
  \<open>verilated_dut\<close>, which \<open>Verilator_RTL\<close> interprets on the RTL.
  Undefined behaviour is an error value of the testbench; a loop that does not return is \<open>None\<close>.
\<close>

subsection \<open>State\<close>

text \<open>The pins by the names the testbench uses. A one-bit pin is a \<open>bool\<close>.\<close>

record pins =
  clk_i :: bool
  rtc :: bool
  pin_arst_i :: bool
  iob_avalid :: bool
  iob_addr :: "16 word"
  iob_wdata :: u32
  iob_wstrb :: "4 word"

record outs =
  iob_ready :: bool
  iob_rdata :: u32
  mtip :: "8 word"
  msip :: "8 word"

type_synonym 'd evaluator = "pins \<Rightarrow> 'd \<Rightarrow> outs \<times> 'd"

text \<open>A call of \<open>printf\<close>: its string (without the newline), and the \<open>%ld\<close> argument if it has one.\<close>

datatype message = Printf string | Printf_ld string int

record 'd tb =
  main_time :: u64
  pins :: pins
  outs :: outs
  dut :: 'd
  printed :: "message list"

datatype tb_error = Signed_overflow | Out_of_bounds_store

type_synonym 'a outcome = "(tb_error + 'a) option"

definition andthen :: "'a outcome \<Rightarrow> ('a \<Rightarrow> 'b outcome) \<Rightarrow> 'b outcome" where
  "andthen m f = (case m of None \<Rightarrow> None | Some (Inl e) \<Rightarrow> Some (Inl e) | Some (Inr x) \<Rightarrow> f x)"

lemma andthen_simps [simp]:
  "andthen None f = None" "andthen (Some (Inl e)) f = Some (Inl e)" "andthen (Some (Inr x)) f = f x"
  by (simp_all add: andthen_def)

definition tb_print :: "message \<Rightarrow> 'd tb \<Rightarrow> 'd tb" where
  "tb_print x tb = tb\<lparr>printed := printed tb @ [x]\<rparr>"

subsection \<open>Macros\<close>

definition CLK_PERIOD :: int where "CLK_PERIOD = 10"
definition RTC_PERIOD :: int where "RTC_PERIOD = 30517"
definition MSIP_BASE_cpp :: int where "MSIP_BASE_cpp = 0"
definition MTIMECMP_BASE_cpp :: int where "MTIMECMP_BASE_cpp = 16384"
definition MTIME_BASE_cpp :: int where "MTIME_BASE_cpp = 49144"

subsection \<open>Clock and real-time clock\<close>

definition dut_eval :: "'d evaluator \<Rightarrow> 'd tb \<Rightarrow> 'd tb" where
  "dut_eval E tb = (let (o', d') = E (pins tb) (dut tb) in tb\<lparr>outs := o', dut := d'\<rparr>)"

text \<open>One round of the loop in \<open>Timer\<close>: a nanosecond.\<close>

definition Timer_body :: "'d evaluator \<Rightarrow> 'd tb \<Rightarrow> 'd tb" where
  "Timer_body E tb =
     (let p = pins tb;
          p = (if main_time tb mod of_int (CLK_PERIOD div 2) = 0 then p\<lparr>clk_i := \<not> clk_i p\<rparr> else p);
          p = (if main_time tb mod of_int (RTC_PERIOD div 2) = 0 then p\<lparr>rtc := \<not> rtc p\<rparr> else p);
          tb = dut_eval E (tb\<lparr>pins := p\<rparr>)
      in tb\<lparr>main_time := main_time tb + 1\<rparr>)"

text \<open>The counter \<open>i\<close> is an \<open>int\<close>, compared with an \<open>unsigned int\<close>.\<close>

function Timer_loop :: "'d evaluator \<Rightarrow> u32 \<Rightarrow> int \<Rightarrow> 'd tb \<Rightarrow> tb_error + 'd tb" where
  "Timer_loop E ns i tb =
     (if i < uint ns then
        let tb = Timer_body E tb in
        if i = 2 ^ 31 - 1 then Inl Signed_overflow else Timer_loop E ns (i + 1) tb
      else Inr tb)"
  by pat_completeness auto
termination
  by (relation "measure (\<lambda>(E, ns, i, tb). nat (uint ns - i))") auto

declare Timer_loop.simps [simp del]

definition Timer :: "'d evaluator \<Rightarrow> u32 \<Rightarrow> 'd tb \<Rightarrow> tb_error + 'd tb" where
  "Timer E ns tb = Timer_loop E ns 0 tb"

subsection \<open>Bus transactions\<close>

partial_function (option) wait_responce_cpp :: "'d evaluator \<Rightarrow> 'd tb \<Rightarrow> (u32 \<times> 'd tb) outcome" where
  "wait_responce_cpp E tb =
     (if \<not> iob_ready (outs tb) then
        (case Timer E (of_int CLK_PERIOD) tb of
           Inl e \<Rightarrow> Some (Inl e)
         | Inr tb \<Rightarrow> wait_responce_cpp E tb)
      else Some (Inr (iob_rdata (outs tb), tb)))"

definition set_inputs_cpp :: "'d evaluator \<Rightarrow> int \<Rightarrow> int \<Rightarrow> int \<Rightarrow> 'd tb \<Rightarrow> (u32 \<times> 'd tb) outcome" where
  "set_inputs_cpp E address data strb tb =
     (let tb = tb\<lparr>pins := (pins tb)\<lparr>iob_avalid := True, iob_addr := of_int address,
                 iob_wdata := of_int data, iob_wstrb := of_int strb\<rparr>\<rparr> in
      andthen (Some (Timer E (of_int CLK_PERIOD) tb)) (\<lambda>tb.
      let tb = tb\<lparr>pins := (pins tb)\<lparr>iob_avalid := False\<rparr>\<rparr> in
      wait_responce_cpp E tb))"

text \<open>A store of four bytes at a byte offset from the start of a 64-bit variable (little-endian). The
  offset of \<open>p + n\<close> for a pointer to a 64-bit object is \<open>8 * n\<close>. A store through an \<open>int\<close> pointer into
  a 64-bit object violates the aliasing rules of C++; inside the object it is taken the way compilers
  lay it out without that assumption (\<open>-fno-strict-aliasing\<close>), so only a store outside the object,
  which no option defines, is an error.\<close>

definition store_int :: "int \<Rightarrow> u32 \<Rightarrow> u64 \<Rightarrow> u64 outcome" where
  "store_int off v x =
     (if 0 \<le> off \<and> off + 4 \<le> 8 then
        Some (Inr ((x AND NOT (push_bit (nat (8 * off)) (mask 32))) OR push_bit (nat (8 * off)) (ucast v)))
      else Some (Inl Out_of_bounds_store))"

definition get_time_cpp :: "'d evaluator \<Rightarrow> 'd tb \<Rightarrow> (u64 \<times> 'd tb) outcome" where
  "get_time_cpp E tb =
     (let read_time = 0 in
      andthen (set_inputs_cpp E MTIME_BASE_cpp 0 0 tb) (\<lambda>(v, tb).
      andthen (store_int (8 * 0) v read_time) (\<lambda>read_time.
      andthen (set_inputs_cpp E (MTIME_BASE_cpp + 4) 0 0 tb) (\<lambda>(v, tb).
      andthen (store_int (8 * 4) v read_time) (\<lambda>read_time.
      Some (Inr (read_time, tb)))))))"

subsection \<open>The main function\<close>

text \<open>\<open>dut->arst_i = !(dut->arst_i)\<close>.\<close>

definition toggle_arst :: "'d tb \<Rightarrow> 'd tb" where
  "toggle_arst tb = tb\<lparr>pins := (pins tb)\<lparr>pin_arst_i := \<not> pin_arst_i (pins tb)\<rparr>\<rparr>"

definition handle_mtip :: "'d evaluator \<Rightarrow> 'd tb \<Rightarrow> 'd tb outcome" where
  "handle_mtip E tb =
     (if mtip (outs tb) > 0 then
        let tb = tb_print (Printf ''Machine Timer Interrupt is trigered'') tb in
        andthen (set_inputs_cpp E MSIP_BASE_cpp 1 15 tb) (\<lambda>(_, tb).
        andthen (get_time_cpp E tb) (\<lambda>(read_time, tb).
        let tb = tb_print (Printf_ld ''Timer count: %ld'' (sint read_time)) tb in
        andthen (set_inputs_cpp E MTIME_BASE_cpp 0 15 tb) (\<lambda>(_, tb).
        andthen (set_inputs_cpp E MTIMECMP_BASE_cpp (RTC_PERIOD * 100) 15 tb) (\<lambda>(_, tb).
        Some (Inr tb)))))
      else Some (Inr tb))"

definition handle_msip :: "'d evaluator \<Rightarrow> 'd tb \<Rightarrow> 'd tb outcome" where
  "handle_msip E tb =
     (if msip (outs tb) > 0 then
        let tb = tb_print (Printf ''Machine Software Interrupt is trigered'') tb in
        andthen (set_inputs_cpp E MSIP_BASE_cpp 0 15 tb) (\<lambda>(_, tb). Some (Inr tb))
      else Some (Inr tb))"

definition main_body :: "'d evaluator \<Rightarrow> 'd tb \<Rightarrow> 'd tb outcome" where
  "main_body E tb =
     andthen (handle_mtip E tb) (\<lambda>tb.
     andthen (handle_msip E tb) (\<lambda>tb.
     Some (Timer E (of_int CLK_PERIOD) tb)))"

partial_function (option) main_loop :: "'d evaluator \<Rightarrow> 'd tb \<Rightarrow> 'd tb outcome" where
  "main_loop E tb =
     (case main_body E tb of
        None \<Rightarrow> None
      | Some (Inl e) \<Rightarrow> Some (Inl e)
      | Some (Inr tb) \<Rightarrow>
          if main_time tb > of_int (RTC_PERIOD * 10050) then Some (Inr tb) else main_loop E tb)"

text \<open>\<open>main\<close>, from the outputs and the state of a new object to what is printed before \<open>exit(0)\<close>;
  without the VCD trace.\<close>

definition main_start :: "'d evaluator \<Rightarrow> outs \<Rightarrow> 'd \<Rightarrow> 'd tb outcome" where
  "main_start E o0 d0 =
     (let tb = \<lparr>main_time = 0,
                pins = \<lparr>clk_i = False, rtc = False, pin_arst_i = False, iob_avalid = False,
                        iob_addr = 0, iob_wdata = 0, iob_wstrb = 0\<rparr>,
                outs = o0, dut = d0, printed = []\<rparr>;
          tb = dut_eval E tb in
      andthen (Some (Timer E (of_int CLK_PERIOD) tb)) (\<lambda>tb.
      andthen (Some (Timer E (of_int CLK_PERIOD) (toggle_arst tb))) (\<lambda>tb.
      andthen (set_inputs_cpp E MTIMECMP_BASE_cpp 10000 15 (toggle_arst tb)) (\<lambda>(_, tb).
      andthen (set_inputs_cpp E (MTIMECMP_BASE_cpp + 4) 0 15 tb) (\<lambda>(_, tb).
      Some (Inr (tb_print (Printf ''Timer Interrupt is set.'') tb)))))))"

definition main_cpp :: "'d evaluator \<Rightarrow> outs \<Rightarrow> 'd \<Rightarrow> message list outcome" where
  "main_cpp E o0 d0 =
     andthen (main_start E o0 d0) (\<lambda>tb.
     andthen (main_loop E tb) (\<lambda>tb.
     andthen (Some (Timer E (of_int CLK_PERIOD) tb)) (\<lambda>tb.
     Some (Inr (printed (tb_print (Printf ''Testbench finished!'') tb))))))"

subsection \<open>What a call of \<open>Timer\<close> runs\<close>

lemma Timer_loop_rounds:
  assumes "uint ns < 2 ^ 31"
  shows "uint ns = i + int n \<Longrightarrow> Timer_loop E ns i tb = Inr ((Timer_body E ^^ n) tb)"
proof (induction n arbitrary: i tb)
  case 0
  then show ?case by (simp add: Timer_loop.simps)
next
  case (Suc n)
  have "Timer_loop E ns i tb = Timer_loop E ns (i + 1) (Timer_body E tb)"
    using Suc.prems assms by (subst Timer_loop.simps) (simp add: Let_def)
  with Suc show ?case by (simp add: funpow_Suc_right del: funpow.simps)
qed

lemma Timer_CLK_PERIOD: "Timer E (of_int CLK_PERIOD) tb = Inr ((Timer_body E ^^ 10) tb)"
  using Timer_loop_rounds [of 10 0 10] by (simp add: Timer_def CLK_PERIOD_def)

lemma of_nat_mod_u64:
  assumes "n < 2 ^ 64"
  shows "(of_nat n :: u64) mod 5 = 0 \<longleftrightarrow> n mod 5 = 0"
  using assms by (simp add: word_unat_eq_iff unat_mod unat_of_nat take_bit_nat_eq_self)

subsection \<open>Pins\<close>

text \<open>The pins apart from the two clocks.\<close>

definition inputs :: "pins \<Rightarrow> pins" where
  "inputs p = p\<lparr>clk_i := False, rtc := False\<rparr>"

lemma inputs_avalid: "inputs (p\<lparr>iob_avalid := b\<rparr>) = (inputs p)\<lparr>iob_avalid := b\<rparr>"
  by (cases p) (simp add: inputs_def)

lemma arst_inputs: "inputs p = i \<Longrightarrow> pin_arst_i i = pin_arst_i p"
  by (auto simp: inputs_def)

definition request_pins :: "int \<Rightarrow> int \<Rightarrow> int \<Rightarrow> pins \<Rightarrow> pins" where
  "request_pins a d strb i =
     i\<lparr>iob_avalid := True, iob_addr := of_int a, iob_wdata := of_int d, iob_wstrb := of_int strb\<rparr>"

definition low_pins :: pins where
  "low_pins = \<lparr>clk_i = False, rtc = False, pin_arst_i = False, iob_avalid = False,
     iob_addr = 0, iob_wdata = 0, iob_wstrb = 0\<rparr>"

definition cmp_low :: pins where
  "cmp_low = request_pins MTIMECMP_BASE_cpp 10000 15 low_pins"

definition cmp_high :: pins where
  "cmp_high = request_pins (MTIMECMP_BASE_cpp + 4) 0 15 (cmp_low\<lparr>iob_avalid := False\<rparr>)"

definition cmp_idle :: pins where
  "cmp_idle = cmp_high\<lparr>iob_avalid := False\<rparr>"

lemmas pin_defs = low_pins_def cmp_low_def cmp_high_def cmp_idle_def request_pins_def

definition no_interrupt :: "outs \<Rightarrow> bool" where
  "no_interrupt x \<longleftrightarrow> mtip x = 0 \<and> msip x = 0"

lemma printed_toggle_arst [simp]: "printed (toggle_arst tb) = printed tb"
  by (simp add: toggle_arst_def)

subsection \<open>What the testbench relies on\<close>

text \<open>A rising edge of the clock or of the reset makes one step of the device, on the pins of that
  moment; the outputs show the device's state after it. The device is always ready.\<close>

locale verilated_dut =
  fixes E :: "'d evaluator"
    and core :: "'d \<Rightarrow> 's"
    and clk_seen arst_seen :: "'d \<Rightarrow> bool"
    and edge :: "pins \<Rightarrow> 's \<Rightarrow> 's"
    and shown :: "bool \<Rightarrow> 's \<Rightarrow> outs"
  assumes eval_levels: "clk_seen (snd (E p d)) = clk_i p" "arst_seen (snd (E p d)) = pin_arst_i p"
    and eval_outs: "fst (E p d) = shown (pin_arst_i p) (core (snd (E p d)))"
    and eval_core: "core (snd (E p d)) =
      (if clk_i p \<and> \<not> clk_seen d \<or> pin_arst_i p \<and> \<not> arst_seen d then edge p (core d) else core d)"
    and edge_clocks: "edge (p\<lparr>clk_i := b\<rparr>) s = edge p s" "edge (p\<lparr>rtc := b\<rparr>) s = edge p s"
    and always_ready: "iob_ready (shown a s)"
begin

text \<open>\<open>tb'\<close> is the testbench at time \<open>n\<close>, on the pins of \<open>tb\<close> apart from the clocks, with the device in
  state \<open>s\<close> and the clock level \<open>c\<close>.\<close>

definition held :: "'d tb \<Rightarrow> 's \<Rightarrow> bool \<Rightarrow> nat \<Rightarrow> 'd tb \<Rightarrow> bool" where
  "held tb s c n tb' \<longleftrightarrow>
     inputs (pins tb') = inputs (pins tb) \<and> clk_i (pins tb') = c \<and> core (dut tb') = s \<and>
     clk_seen (dut tb') = c \<and> arst_seen (dut tb') = pin_arst_i (pins tb') \<and>
     outs tb' = shown (pin_arst_i (pins tb')) s \<and> main_time tb' = of_nat n \<and>
     printed tb' = printed tb"

text \<open>The clock is low at the start of a period.\<close>

definition period_start :: "nat \<Rightarrow> 'd tb \<Rightarrow> bool" where
  "period_start n tb \<longleftrightarrow> \<not> clk_i (pins tb) \<and> \<not> clk_seen (dut tb) \<and>
     main_time tb = of_nat n \<and> n mod 10 = 0 \<and> n < 2 ^ 63"

lemmas eval_facts = eval_levels eval_outs eval_core edge_clocks

lemma rise_ns:
  assumes "period_start n tb"
  shows "held tb (edge (pins tb) (core (dut tb))) True (Suc n) (Timer_body E tb)"
proof -
  have "(of_nat n :: u64) mod 5 = 0"
    using assms of_nat_mod_u64 [of n] mod_mod_cancel [of 5 10 n] by (simp add: period_start_def)
  then show ?thesis
    using assms by (auto simp: period_start_def held_def Timer_body_def dut_eval_def CLK_PERIOD_def
        inputs_def Let_def case_prod_beta eval_facts)
qed

lemma quiet_ns:
  assumes "held tb s c n tb'" and "n mod 5 \<noteq> 0" and "n < 2 ^ 64"
  shows "held tb s c (Suc n) (Timer_body E tb')"
proof -
  have "(of_nat n :: u64) mod 5 \<noteq> 0" using assms of_nat_mod_u64 by simp
  then show ?thesis
    using assms(1) by (auto simp: held_def Timer_body_def dut_eval_def CLK_PERIOD_def inputs_def
        Let_def case_prod_beta eval_facts)
qed

lemma fall_ns:
  assumes "held tb s True n tb'" and "n mod 5 = 0" and "n < 2 ^ 64"
  shows "held tb s False (Suc n) (Timer_body E tb')"
proof -
  have "(of_nat n :: u64) mod 5 = 0" using assms of_nat_mod_u64 by simp
  then show ?thesis
    using assms(1) by (auto simp: held_def Timer_body_def dut_eval_def CLK_PERIOD_def inputs_def
        Let_def case_prod_beta eval_facts)
qed

lemma quiet_run:
  assumes "held tb s c n tb'" and "\<forall>j<k. (n + j) mod 5 \<noteq> 0" and "n + k < 2 ^ 64"
  shows "held tb s c (n + k) ((Timer_body E ^^ k) tb')"
  using assms(2,3)
proof (induction k)
  case (Suc k)
  then show ?case using quiet_ns [of tb s c "n + k"] by simp
qed (use assms(1) in simp)

text \<open>Ten nanoseconds are one period of the clock.\<close>

lemma Timer_period:
  assumes "period_start n tb"
  obtains tb' where "Timer E (of_int CLK_PERIOD) tb = Inr tb'"
    "held tb (edge (pins tb) (core (dut tb))) False (n + 10) tb'"
proof -
  let ?s = "edge (pins tb) (core (dut tb))" and ?f = "Timer_body E"
  have n: "n mod 5 = 0" "n < 2 ^ 63"
    using assms mod_mod_cancel [of 5 10 n] by (simp_all add: period_start_def)
  have off: "\<forall>j<4. (n + Suc i + j) mod 5 \<noteq> 0" if "i mod 5 = 0" for i
    using n(1) that by presburger
  have "held tb ?s True (Suc n + 4) ((?f ^^ 4) (?f tb))"
    using quiet_run [OF rise_ns [OF assms], of 4] off [of 0] n(2) by simp
  then have "held tb ?s False (Suc (Suc n + 4)) (?f ((?f ^^ 4) (?f tb)))"
  proof (rule fall_ns)
    show "(Suc n + 4) mod 5 = 0" using n(1) by presburger
  qed (use n(2) in simp)
  then have "held tb ?s False (Suc (Suc n + 4) + 4) ((?f ^^ 4) (?f ((?f ^^ 4) (?f tb))))"
    using off [of 5] n(2) by (intro quiet_run) (simp_all add: add.commute [of n])
  then have "held tb ?s False (n + 10) ((?f ^^ 10) tb)"
    by (simp add: eval_nat_numeral)
  then show ?thesis using that Timer_CLK_PERIOD by blast
qed

text \<open>The testbench at the start of a period, at time \<open>n\<close>, with inputs \<open>i\<close> and the device in state \<open>s\<close>.\<close>

definition at :: "nat \<Rightarrow> pins \<Rightarrow> 's \<Rightarrow> 'd tb \<Rightarrow> bool" where
  "at n i s tb \<longleftrightarrow> period_start n tb \<and> inputs (pins tb) = i \<and> core (dut tb) = s"

definition showing :: "pins \<Rightarrow> 's \<Rightarrow> 'd tb \<Rightarrow> bool" where
  "showing i s tb \<longleftrightarrow> outs tb = shown (pin_arst_i i) s"

lemma edge_inputs: "edge (inputs p) s = edge p s"
  by (simp add: inputs_def edge_clocks)

lemma Timer_at:
  assumes "at n i s tb" and "n < 2 ^ 62"
  obtains tb' where "Timer E (of_int CLK_PERIOD) tb = Inr tb'" "at (n + 10) i (edge i s) tb'"
    "showing i (edge i s) tb'" "printed tb' = printed tb"
proof -
  have start: "period_start n tb" and i: "inputs (pins tb) = i" and s: "core (dut tb) = s"
    using assms(1) by (simp_all add: at_def)
  obtain tb' where tb': "Timer E (of_int CLK_PERIOD) tb = Inr tb'"
      "held tb (edge (pins tb) (core (dut tb))) False (n + 10) tb'"
    by (rule Timer_period [OF start])
  have "edge (pins tb) (core (dut tb)) = edge i s"
    using edge_inputs i s by metis
  then show ?thesis
    using that [of tb'] tb' i start assms(2) arst_inputs [of "pins tb'" i]
    by (simp add: held_def at_def showing_def period_start_def mod_add_eq)
qed

subsection \<open>Transactions and \<open>get_time\<close>\<close>

lemma ready_now: "showing i s tb \<Longrightarrow>
    wait_responce_cpp E tb = Some (Inr (iob_rdata (shown (pin_arst_i i) s), tb))"
  by (simp add: wait_responce_cpp.simps showing_def always_ready)

lemma set_inputs_at:
  assumes "at n i s tb" and "n < 2 ^ 62"
  obtains tb' where
    "set_inputs_cpp E a d strb tb =
       Some (Inr (iob_rdata (shown (pin_arst_i i) (edge (request_pins a d strb i) s)), tb'))"
    "at (n + 10) ((request_pins a d strb i)\<lparr>iob_avalid := False\<rparr>) (edge (request_pins a d strb i) s) tb'"
    "showing i (edge (request_pins a d strb i) s) tb'" "printed tb' = printed tb"
proof -
  let ?i = "request_pins a d strb i"
  let ?tb = "tb\<lparr>pins := (pins tb)\<lparr>iob_avalid := True, iob_addr := of_int a, iob_wdata := of_int d,
    iob_wstrb := of_int strb\<rparr>\<rparr>"
  have "at n ?i s ?tb"
    using assms(1) by (auto simp: at_def period_start_def inputs_def request_pins_def)
  from Timer_at [OF this assms(2)] obtain u where
    u: "Timer E (of_int CLK_PERIOD) ?tb = Inr u" "at (n + 10) ?i (edge ?i s) u"
      "showing ?i (edge ?i s) u" "printed u = printed ?tb" .
  let ?u = "u\<lparr>pins := (pins u)\<lparr>iob_avalid := False\<rparr>\<rparr>"
  have "showing i (edge ?i s) ?u"
    using u(3) by (simp add: showing_def request_pins_def)
  moreover have "at (n + 10) (?i\<lparr>iob_avalid := False\<rparr>) (edge ?i s) ?u"
    using u(2) by (simp add: at_def period_start_def inputs_avalid)
  ultimately show ?thesis
    using that [of ?u] u(1,4) ready_now by (simp add: set_inputs_cpp_def Let_def)
qed

lemma set_inputs_returns:
  assumes "at n i s tb" and "n < 2 ^ 62" and "i' = request_pins a d strb i"
  obtains v tb' where "set_inputs_cpp E a d strb tb = Some (Inr (v, tb'))"
    "at (n + 10) (i'\<lparr>iob_avalid := False\<rparr>) (edge i' s) tb'" "showing i (edge i' s) tb'"
    "printed tb' = printed tb"
  using set_inputs_at [OF assms(1,2)] unfolding assms(3) by metis

text \<open>The second store of \<open>get_time\<close> is always reached, and never inside the variable.\<close>

lemma get_time_store:
  assumes "at n i s tb" and "n < 2 ^ 60"
  shows "get_time_cpp E tb = Some (Inl Out_of_bounds_store)"
proof -
  have n: "n < 2 ^ 62" "n + 10 < 2 ^ 62" using assms(2) by simp_all
  obtain v u j t where u: "set_inputs_cpp E MTIME_BASE_cpp 0 0 tb = Some (Inr (v, u))"
      "at (n + 10) j t u"
    using set_inputs_returns [OF assms(1) n(1) refl] by metis
  obtain v' w where "set_inputs_cpp E (MTIME_BASE_cpp + 4) 0 0 u = Some (Inr (v', w))"
    using set_inputs_returns [OF u(2) n(2) refl] by metis
  with u show ?thesis by (simp add: get_time_cpp_def store_int_def)
qed

subsection \<open>The main loop\<close>

lemma main_body_quiet:
  "no_interrupt (outs tb) \<Longrightarrow> main_body E tb = Some (Timer E (of_int CLK_PERIOD) tb)"
  by (simp add: main_body_def handle_mtip_def handle_msip_def no_interrupt_def)

lemma unat_main_time: "at n i s tb \<Longrightarrow> unat (main_time tb) = n"
  by (simp add: at_def period_start_def unat_of_nat take_bit_nat_eq_self)

lemma main_loop_step:
  assumes "at n i s tb" and "n < 2 ^ 60" and "no_interrupt (outs tb)"
  obtains tb' where "main_loop E tb =
      (if 306695850 < n + 10 then Some (Inr tb') else main_loop E tb')"
    "at (n + 10) i (edge i s) tb'" "showing i (edge i s) tb'" "printed tb' = printed tb"
proof -
  have n: "n < 2 ^ 62" using assms(2) by simp
  obtain tb' where tb': "Timer E (of_int CLK_PERIOD) tb = Inr tb'" "at (n + 10) i (edge i s) tb'"
      "showing i (edge i s) tb'" "printed tb' = printed tb"
    using Timer_at [OF assms(1) n] .
  have "main_time tb' > of_int (RTC_PERIOD * 10050) \<longleftrightarrow> 306695850 < n + 10"
    using unat_main_time [OF tb'(2)] by (simp add: RTC_PERIOD_def word_less_nat_alt)
  then show ?thesis
    using that [of tb'] tb' main_body_quiet [OF assms(3)] main_loop.simps [of E tb] by simp
qed

lemma main_loop_quiet:
  assumes "at n i s tb" and "showing i s tb"
    and "\<forall>j<k. no_interrupt (shown (pin_arst_i i) ((edge i ^^ j) s))" and "n + 10 * k \<le> 306695850"
  obtains tb' where "main_loop E tb = main_loop E tb'" "at (n + 10 * k) i ((edge i ^^ k) s) tb'"
    "showing i ((edge i ^^ k) s) tb'" "printed tb' = printed tb"
  using assms
proof (induction k arbitrary: thesis)
  case (Suc k)
  have "\<forall>j<k. no_interrupt (shown (pin_arst_i i) ((edge i ^^ j) s))" and "n + 10 * k \<le> 306695850"
    using Suc.prems(4,5) by simp_all
  from Suc.IH [OF _ Suc.prems(2,3) this] obtain u where
    u: "main_loop E tb = main_loop E u" "at (n + 10 * k) i ((edge i ^^ k) s) u"
      "showing i ((edge i ^^ k) s) u" "printed u = printed tb" .
  have quiet: "no_interrupt (outs u)" using u(3) Suc.prems(4) by (simp add: showing_def)
  have n: "n + 10 * k < 2 ^ 60" using Suc.prems(5) by simp
  obtain tb' where tb': "main_loop E u =
      (if 306695850 < n + 10 * k + 10 then Some (Inr tb') else main_loop E tb')"
      "at (n + 10 * k + 10) i (edge i ((edge i ^^ k) s)) tb'" "showing i (edge i ((edge i ^^ k) s)) tb'"
      "printed tb' = printed u"
    using main_loop_step [OF u(2) n quiet] .
  show ?case
  proof (rule Suc.prems(1))
    show "main_loop E tb = main_loop E tb'" using u(1) tb'(1) Suc.prems(5) by simp
    show "at (n + 10 * Suc k) i ((edge i ^^ Suc k) s) tb'" using tb'(2) by (simp add: add.commute add.left_commute)
    show "showing i ((edge i ^^ Suc k) s) tb'" using tb'(3) by simp
    show "printed tb' = printed tb" using tb'(4) u(4) by simp
  qed
qed auto

lemma main_loop_error:
  assumes "at n i s tb" and "showing i s tb"
    and "\<forall>j<k. no_interrupt (shown (pin_arst_i i) ((edge i ^^ j) s))" and "n + 10 * k \<le> 306695850"
    and "mtip (shown (pin_arst_i i) ((edge i ^^ k) s)) \<noteq> 0"
  shows "main_loop E tb = Some (Inl Out_of_bounds_store)"
proof -
  obtain u where u: "main_loop E tb = main_loop E u" "at (n + 10 * k) i ((edge i ^^ k) s) u"
      "showing i ((edge i ^^ k) s) u"
    using main_loop_quiet [OF assms(1-4)] by blast
  let ?u = "tb_print (Printf ''Machine Timer Interrupt is trigered'') u"
  have "at (n + 10 * k) i ((edge i ^^ k) s) ?u"
    using u(2) by (simp add: at_def period_start_def tb_print_def)
  moreover have n: "n + 10 * k < 2 ^ 62" "n + 10 * k + 10 < 2 ^ 60" using assms(4) by simp_all
  ultimately obtain v w j t where w: "set_inputs_cpp E MSIP_BASE_cpp 1 15 ?u = Some (Inr (v, w))"
      "at (n + 10 * k + 10) j t w"
    by (metis set_inputs_returns)
  note w(1)
  moreover have "get_time_cpp E w = Some (Inl Out_of_bounds_store)"
    by (rule get_time_store [OF w(2) n(2)])
  ultimately have "handle_mtip E u = Some (Inl Out_of_bounds_store)"
    using u(3) assms(5) by (simp add: handle_mtip_def Let_def showing_def word_neq_0_conv)
  then have "main_body E u = Some (Inl Out_of_bounds_store)"
    by (simp add: main_body_def)
  then show ?thesis using u(1) main_loop.simps [of E u] by simp
qed

lemma main_loop_end:
  assumes "at n i s tb" and "showing i s tb"
    and "\<forall>j\<le>k. no_interrupt (shown (pin_arst_i i) ((edge i ^^ j) s))"
    and "n + 10 * k \<le> 306695850" and "306695850 < n + 10 * k + 10"
  obtains tb' m t where "main_loop E tb = Some (Inr tb')" "at m i t tb'" "m < 2 ^ 62"
    "printed tb' = printed tb"
proof -
  have "\<forall>j<k. no_interrupt (shown (pin_arst_i i) ((edge i ^^ j) s))" using assms(3) by simp
  then obtain u where u: "main_loop E tb = main_loop E u" "at (n + 10 * k) i ((edge i ^^ k) s) u"
      "showing i ((edge i ^^ k) s) u" "printed u = printed tb"
    using main_loop_quiet [OF assms(1,2) _ assms(4)] by blast
  have n: "n + 10 * k < 2 ^ 60" using assms(4) by simp
  have "no_interrupt (outs u)" using u(3) assms(3) by (simp add: showing_def)
  from main_loop_step [OF u(2) n this] obtain w t where
    w: "main_loop E u = (if 306695850 < n + 10 * k + 10 then Some (Inr w) else main_loop E w)"
      "at (n + 10 * k + 10) i t w" "printed w = printed u" .
  show ?thesis
    by (rule that [OF _ w(2)]) (use w u assms(4,5) in simp_all)
qed

subsection \<open>The whole program\<close>

lemma toggle_arst_at:
  "at n i s tb \<Longrightarrow> at n (i\<lparr>pin_arst_i := \<not> pin_arst_i i\<rparr>) s (toggle_arst tb)"
  by (cases "pins tb") (auto simp: at_def period_start_def toggle_arst_def inputs_def)

definition after_setup :: "'s \<Rightarrow> 's" where
  "after_setup s = edge cmp_high (edge cmp_low (edge (low_pins\<lparr>pin_arst_i := True\<rparr>) s))"

lemma main_start_at:
  obtains tb s where "main_start E o0 d0 = Some (Inr tb)"
    "at 40 cmp_idle (after_setup s) tb"
    "showing cmp_idle (after_setup s) tb"
    "printed tb = [Printf ''Timer Interrupt is set.'']"
proof -
  let ?rst = "low_pins\<lparr>pin_arst_i := True\<rparr>"
  let ?t0 = "dut_eval E \<lparr>main_time = 0, pins = low_pins, outs = o0, dut = d0, printed = []\<rparr>"
  have t0: "at 0 low_pins (core (dut ?t0)) ?t0" "printed ?t0 = []"
    by (simp_all add: at_def period_start_def dut_eval_def Let_def case_prod_beta eval_facts
        inputs_def low_pins_def)
  define s where "s = edge low_pins (core (dut ?t0))"
  have "(0::nat) < 2 ^ 62" by simp
  from Timer_at [OF t0(1) this] obtain t1 where
    t1: "Timer E (of_int CLK_PERIOD) ?t0 = Inr t1" "at 10 low_pins s t1" "printed t1 = []"
    unfolding s_def by (metis t0(2) add_0)
  have n: "(20::nat) < 2 ^ 62" "(20::nat) + 10 = 30" "(30::nat) < 2 ^ 62" "(30::nat) + 10 = 40"
    by simp_all
  have "at 10 ?rst s (toggle_arst t1)"
    using toggle_arst_at [OF t1(2)] by (simp add: low_pins_def)
  from Timer_at [OF this] obtain t2 where
    t2: "Timer E (of_int CLK_PERIOD) (toggle_arst t1) = Inr t2" "at 20 ?rst (edge ?rst s) t2"
      "printed t2 = []"
    using t1(3) by (auto simp: toggle_arst_def)
  have "at 20 low_pins (edge ?rst s) (toggle_arst t2)"
    using toggle_arst_at [OF t2(2)] by (simp add: low_pins_def)
  then obtain t3 v where
    t3: "set_inputs_cpp E MTIMECMP_BASE_cpp 10000 15 (toggle_arst t2) = Some (Inr (v, t3))"
      "at 30 (cmp_low\<lparr>iob_avalid := False\<rparr>) (edge cmp_low (edge ?rst s)) t3" "printed t3 = []"
    using set_inputs_returns [OF _ _ cmp_low_def] t2(3)
    using n by (metis printed_toggle_arst)
  obtain t4 w where
    t4: "set_inputs_cpp E (MTIMECMP_BASE_cpp + 4) 0 15 t3 = Some (Inr (w, t4))"
      "at 40 cmp_idle (edge cmp_high (edge cmp_low (edge ?rst s))) t4"
      "showing (cmp_low\<lparr>iob_avalid := False\<rparr>) (edge cmp_high (edge cmp_low (edge ?rst s))) t4" "printed t4 = []"
    using set_inputs_returns [OF t3(2) _ cmp_high_def] t3(3) unfolding cmp_idle_def
    using n by metis
  show ?thesis
  proof (rule that)
    show "main_start E o0 d0 = Some (Inr (tb_print (Printf ''Timer Interrupt is set.'') t4))"
      using t1(1) t2(1) t3(1) t4(1) by (simp add: main_start_def low_pins_def Let_def)
  qed (use t4 in \<open>simp_all add: after_setup_def tb_print_def at_def period_start_def showing_def pin_defs\<close>)
qed

lemma main_cpp_outcome:
  obtains s where
    "\<And>k. \<forall>j<k. no_interrupt (shown False ((edge cmp_idle ^^ j) (after_setup s))) \<Longrightarrow>
       40 + 10 * k \<le> 306695850 \<Longrightarrow>
       mtip (shown False ((edge cmp_idle ^^ k) (after_setup s))) \<noteq> 0 \<Longrightarrow>
       main_cpp E o0 d0 = Some (Inl Out_of_bounds_store)"
    "\<forall>j\<le>30669581. no_interrupt (shown False ((edge cmp_idle ^^ j) (after_setup s))) \<Longrightarrow>
       main_cpp E o0 d0 = Some (Inr [Printf ''Timer Interrupt is set.'', Printf ''Testbench finished!''])"
proof -
  have arst: "pin_arst_i cmp_idle = False" by (simp add: pin_defs)
  obtain tb s where tb: "main_start E o0 d0 = Some (Inr tb)"
    "at 40 cmp_idle (after_setup s) tb"
    "showing cmp_idle (after_setup s) tb"
    "printed tb = [Printf ''Timer Interrupt is set.'']"
    by (rule main_start_at)
  show ?thesis
  proof (rule that [of s])
    fix k
    assume "\<forall>j<k. no_interrupt (shown False ((edge cmp_idle ^^ j) (after_setup s)))"
      "40 + 10 * k \<le> 306695850"
      "mtip (shown False ((edge cmp_idle ^^ k) (after_setup s))) \<noteq> 0"
    then show "main_cpp E o0 d0 = Some (Inl Out_of_bounds_store)"
      using main_loop_error [OF tb(2,3), of k] tb(1) by (simp add: arst main_cpp_def)
  next
    assume q: "\<forall>j\<le>30669581. no_interrupt (shown False ((edge cmp_idle ^^ j) (after_setup s)))"
    obtain u m t where u: "main_loop E tb = Some (Inr u)" "at m cmp_idle t u" "m < 2 ^ 62"
        "printed u = printed tb"
      using main_loop_end [OF tb(2,3), of 30669581] q arst by auto
    obtain w where "Timer E (of_int CLK_PERIOD) u = Inr w" "printed w = printed u"
      using Timer_at [OF u(2,3)] .
    then show "main_cpp E o0 d0 = Some (Inr [Printf ''Timer Interrupt is set.'', Printf ''Testbench finished!''])"
      using tb(1,4) u(1,4) by (simp add: main_cpp_def tb_print_def)
  qed
qed

end

end
