(* ===== verification/Verilator_RTL.thy ===== *)
theory Verilator_RTL
  imports Verilator_Tb Clint_Deadline
begin

text \<open>
  The Verilator testbench around the RTL: the interpretation of \<open>verilated_dut\<close> by the clock cycle
  of \<open>Clint_RTL\<close>, the outcome of the program for every clock frequency, and the agreement of its
  transactions with those of the Verilog testbench.
\<close>

subsection \<open>The RTL as a Verilated object\<close>

text \<open>The RTL behind the pins: its registers and the clock and reset levels of the last evaluation. The
  testbench does not build against the wrapper of the repository as it is: it names the pins
  \<open>iob_avalid\<close>, \<open>iob_ready\<close>, \<open>iob_rdata\<close>, \<open>mtip\<close> and \<open>msip\<close>, the wrapper \<open>iob_valid_i\<close>, \<open>iob_ready_o\<close>
  and so on. Here it runs with each pin under the testbench's name, and with the pin it never drives,
  \<open>cke_i\<close>, at a constant level \<open>cke\<close>, whichever: every property holds for both. \<open>X\<close> is what a
  two-state simulator shows for unknown read data.\<close>

record rtl_dut =
  rtl_state :: clint
  clk_level :: bool
  arst_level :: bool

definition pins_in :: "bool \<Rightarrow> pins \<Rightarrow> clint_in" where
  "pins_in cke p =
     \<lparr>arst_i = pin_arst_i p, cke_i = cke, iob_valid_i = iob_avalid p, iob_addr_i = iob_addr p,
      iob_wdata_i = iob_wdata p, iob_wstrb_i = iob_wstrb p\<rparr>"

definition lines :: "bool list \<Rightarrow> 8 word" where
  "lines bs = horner_sum of_bool 2 bs"

definition rtl_outs :: "params \<Rightarrow> u32 \<Rightarrow> bool \<Rightarrow> clint \<Rightarrow> outs" where
  "rtl_outs P X a s =
     \<lparr>iob_ready = iob_ready_o s, iob_rdata = (case iob_rdata_reg s of None \<Rightarrow> X | Some v \<Rightarrow> v),
      mtip = lines (mtip_o P a s), msip = lines (msip_o s)\<rparr>"

definition rtl_eval :: "cells \<Rightarrow> params \<Rightarrow> bool \<Rightarrow> u32 \<Rightarrow> rtl_dut evaluator" where
  "rtl_eval C P cke X p d =
     (let s = (if clk_i p \<and> \<not> clk_level d \<or> pin_arst_i p \<and> \<not> arst_level d
               then clint_cycle C P (pins_in cke p) (rtl_state d) else rtl_state d)
      in (rtl_outs P X (pin_arst_i p) s,
          \<lparr>rtl_state = s, clk_level = clk_i p, arst_level = pin_arst_i p\<rparr>))"

interpretation vdut: verilated_dut "rtl_eval C P cke X" rtl_state clk_level arst_level
    "\<lambda>p. clint_cycle C P (pins_in cke p)" "rtl_outs P X"
  by unfold_locales (simp_all add: rtl_eval_def rtl_outs_def pins_in_def iob_ready_o_def Let_def)

text \<open>A cycle with a constant clock enable.\<close>

lemma clock_enable_cycle:
  assumes "cells_ok C" and "\<not> arst_i i" and "cke_i i"
  shows "iob_rdata_reg (clint_cycle C P (i\<lparr>cke_i := b\<rparr>) s) = iob_rdata_reg (clint_cycle C P i s)"
    and "mtime (clint_cycle C P (i\<lparr>cke_i := b\<rparr>) s) = mtime (clint_cycle C P i s)"
    and "mtimecmp (clint_cycle C P (i\<lparr>cke_i := b\<rparr>) s) = mtimecmp (clint_cycle C P i s)"
    and "msip_reg (clint_cycle C P (i\<lparr>cke_i := b\<rparr>) s) = msip_reg (clint_cycle C P i s)"
    and "if b then clint_cycle C P (i\<lparr>cke_i := b\<rparr>) s = clint_cycle C P i s
      else iob_rvalid (clint_cycle C P (i\<lparr>cke_i := b\<rparr>) s) = iob_rvalid s \<and>
        increment_timer_r (clint_cycle C P (i\<lparr>cke_i := b\<rparr>) s) = increment_timer_r s \<and>
        counter (clint_cycle C P (i\<lparr>cke_i := b\<rparr>) s) = counter s"
  using assms
  by (cases i; simp add: rtl_defs mtime_hit_def mtimecmp_hit_def msip_hit_def write_en_def cells_ok_def)+

subsection \<open>The interrupt lines\<close>

lemma lines_eq_0:
  assumes "length bs \<le> 8"
  shows "lines bs = 0 \<longleftrightarrow> True \<notin> set bs"
proof -
  have "lines bs = 0 \<longleftrightarrow> (\<forall>n<8. \<not> bit (lines bs) n)"
    by (auto intro: bit_word_eqI)
  also have "\<dots> \<longleftrightarrow> (\<forall>n<length bs. \<not> bs ! n)"
    using assms by (auto simp: lines_def bit_horner_sum_bit_word_iff)
  finally show ?thesis by (metis in_set_conv_nth)
qed

definition set_up_inputs :: "bool \<Rightarrow> nat \<Rightarrow> clint_in list" where
  "set_up_inputs cke n =
     pins_in cke cmp_low # pins_in cke cmp_high # replicate n (pins_in cke cmp_idle)"

text \<open>The time after the set-up: ticks at the documented rate where the clock is enabled and the
  prescaler works, 0 otherwise.\<close>

lemma cmp_pins:
  "pins_in cke cmp_low = (bus_request 0x4000 10000 15)\<lparr>cke_i := cke\<rparr>"
  "pins_in cke cmp_high = (bus_request 0x4004 0 15)\<lparr>cke_i := cke\<rparr>"
  "pins_in cke cmp_idle = (bus_idle 0x4004 0)\<lparr>cke_i := cke, iob_wstrb_i := 15\<rparr>"
  by (simp_all add: pins_in_def pin_defs bus_request_def bus_idle_def MTIMECMP_BASE_cpp_def)

lemma set_up_inputs_facts:
  "list_all (\<lambda>i. \<not> arst_i i \<and> cke_i i = cke \<and> \<not> mtime_hit i) (set_up_inputs cke n)"
  "map bus_write_of (set_up_inputs cke n) =
     Some (0x4000, 10000) # Some (0x4004, 0) # replicate n None"
  "length (set_up_inputs cke n) = n + 2"
  by (simp_all add: set_up_inputs_def cmp_pins list_all_iff mtime_hit_def MTimeBase_def bus_request_def
      bus_idle_def bus_write_of_def write_en_def)

lemma set_up_time:
  assumes "cells_ok C" and "FREQ P < 2 ^ 32" and "arst_i rst"
  shows "mtime (clint_run C P (set_up_inputs cke n) (clint_cycle C P rst s)) =
    of_nat (if cke then ticks P (n + 2) else 0)"
proof (cases cke)
  case True
  then have "list_all free_running (set_up_inputs cke n)"
    using set_up_inputs_facts(1) [of cke n] by (simp add: list_all_iff free_running_def)
  from clocked_run [OF assms(1,2) this clocked_reset [OF assms(1,3)]] show ?thesis
    using True clocked_mtime set_up_inputs_facts(3) [of cke n] by simp
next
  case False
  have "\<not> increment_timer_r (clint_cycle C P rst s)" "mtime (clint_cycle C P rst s) = 0"
    using assms(1,3) by (simp_all add: next_increment_timer_r_def next_mtime_def cells_ok_def)
  then show ?thesis using False disabled_run [OF assms(1)] set_up_inputs_facts(1) [of cke n] by simp
qed

text \<open>The interrupt lines: software interrupts stay low, and the timer interrupt of hart 0 rises with
  its deadline.\<close>

lemma set_up_outs:
  assumes "cells_ok C" and "params_ok P" and "FREQ P < 2 ^ 32" and "arst_i rst" and "n < 2 ^ 60"
  shows "mtip (rtl_outs P X False (clint_run C P (set_up_inputs cke n) (clint_cycle C P rst s))) = 0
      \<longleftrightarrow> \<not> (cke \<and> ticking P \<and> 10000 * tick_period P \<le> Suc n)"
    and "msip (rtl_outs P X False (clint_run C P (set_up_inputs cke n) (clint_cycle C P rst s))) = 0"
proof -
  let ?s = "clint_run C P (set_up_inputs cke n) (clint_cycle C P rst s)"
  define t where "t = (if cke then ticks P (n + 2) else 0)"
  have N: "N_CORES P \<le> 8" using assms(2) by (simp add: params_ok_def)
  have "list_all (\<lambda>i. \<not> arst_i i) (set_up_inputs cke n)"
    using set_up_inputs_facts(1) [of cke n] by (auto simp: list_all_iff)
  then have armed: "armed P 10000 ?s"
    using set_up_inputs_facts(2) [of cke n] by (intro armed_run [OF assms(2,4), of _ 0]) simp_all
  have "t < 2 ^ 61" using ticks_le [of P "n + 2"] assms(5) by (simp add: t_def)
  then have "True \<in> set (mtip_o P False ?s) \<longleftrightarrow> 10000 \<le> t"
    using armed_mtip [OF assms(2) armed] set_up_time [OF assms(1,3,4)] by (simp add: t_def)
  moreover have "10000 \<le> t \<longleftrightarrow> cke \<and> ticking P \<and> 10000 * tick_period P \<le> Suc n"
    by (auto simp: t_def ticks_def ticking_def less_eq_div_iff_mult_less_eq)
  moreover have "length (mtip_o P False ?s) \<le> 8" using N by (simp add: mtip_o_def)
  ultimately show "mtip (rtl_outs P X False ?s) = 0 \<longleftrightarrow>
      \<not> (cke \<and> ticking P \<and> 10000 * tick_period P \<le> Suc n)"
    by (simp add: rtl_outs_def lines_eq_0)
  show "msip (rtl_outs P X False ?s) = 0"
    using armed armed_msip N by (simp add: rtl_outs_def lines_eq_0 msip_o_def armed_def clint_wf_def)
qed

subsection \<open>Properties\<close>

text \<open>C28: the outcome of the Verilator testbench on the RTL. It always ends. Where the clock enable is
  high and the prescaler works, the timer interrupt it waits for arrives, and answering it runs
  into the store outside \<open>read_time\<close>: undefined behaviour. Otherwise no interrupt ever comes, and
  the program reports that it has finished.\<close>

theorem verilator_testbench_outcome:
  assumes "cells_ok C" and "params_ok P" and "FREQ P < 2 ^ 32"
  shows "main_cpp (rtl_eval C P cke X) o0 d0 =
    (if cke \<and> ticking P then Some (Inl Out_of_bounds_store)
     else Some (Inr [Printf ''Timer Interrupt is set.'', Printf ''Testbench finished!'']))"
proof -
  let ?rst = "pins_in cke (low_pins\<lparr>pin_arst_i := True\<rparr>)"
  obtain s where s:
    "\<And>k. \<forall>j<k. no_interrupt (rtl_outs P X False (clint_run C P (set_up_inputs cke j) (clint_cycle C P ?rst s))) \<Longrightarrow>
       40 + 10 * k \<le> 306695850 \<Longrightarrow>
       mtip (rtl_outs P X False (clint_run C P (set_up_inputs cke k) (clint_cycle C P ?rst s))) \<noteq> 0 \<Longrightarrow>
       main_cpp (rtl_eval C P cke X) o0 d0 = Some (Inl Out_of_bounds_store)"
    "\<forall>j\<le>30669581. no_interrupt (rtl_outs P X False (clint_run C P (set_up_inputs cke j) (clint_cycle C P ?rst s))) \<Longrightarrow>
       main_cpp (rtl_eval C P cke X) o0 d0 =
         Some (Inr [Printf ''Timer Interrupt is set.'', Printf ''Testbench finished!''])"
    using vdut.main_cpp_outcome [where C = C and P = P and cke = cke and X = X]
    by (simp add: vdut.after_setup_def set_up_inputs_def clint_run_replicate) metis
  have "arst_i ?rst" by (simp add: pins_in_def)
  note outs = set_up_outs [OF assms this]
  let ?p = "10000 * tick_period P"
  show ?thesis
  proof (cases "cke \<and> ticking P")
    case True
    then have "1 \<le> tick_period P" "tick_period P \<le> 1024" by (simp_all add: ticking_def)
    then have p: "1 \<le> ?p" "?p \<le> 10240000" by simp_all
    have "main_cpp (rtl_eval C P cke X) o0 d0 = Some (Inl Out_of_bounds_store)"
    proof (rule s(1) [of "?p - 1"])
      show "\<forall>j<?p - 1. no_interrupt (rtl_outs P X False (clint_run C P (set_up_inputs cke j) (clint_cycle C P ?rst s)))"
        using p by (auto simp: no_interrupt_def outs)
      show "mtip (rtl_outs P X False (clint_run C P (set_up_inputs cke (?p - 1)) (clint_cycle C P ?rst s))) \<noteq> 0"
        by (subst outs(1)) (use p True in simp_all)
    qed (use p in simp)
    then show ?thesis using True by simp
  next
    case False
    then have "main_cpp (rtl_eval C P cke X) o0 d0 =
        Some (Inr [Printf ''Timer Interrupt is set.'', Printf ''Testbench finished!''])"
      by (intro s(2)) (auto simp: no_interrupt_def outs)
    with False show ?thesis by auto
  qed
qed

lemma verilator_testbench_outcome_witness:
  "main_cpp (rtl_eval std_cells default_params True 0) (rtl_outs default_params 0 False demo_clint)
     \<lparr>rtl_state = demo_clint, clk_level = False, arst_level = False\<rparr> = Some (Inl Out_of_bounds_store)"
  using verilator_testbench_outcome [of std_cells default_params True 0 "rtl_outs default_params 0 False demo_clint"]
  by (simp add: default_params_def params_ok_def ticking_def tick_period_def)

text \<open>C29: the transactions of the two testbenches agree. \<open>set_inputs\<close> of the C++ testbench, called with
  the clock low and outside a reset, always returns, at whichever level the clock enable is that the
  C++ testbench leaves undriven; it takes one clock period of simulated time and runs the RTL through
  one clock cycle. The software-visible registers and the read data are then the ones that the Verilog
  task \<open>set_inputs\<close> leaves with the same arguments (it drives the clock enable high); with a high
  enable so is the whole state, with a low one the valid flag and the prescaler stand still. Where
  it reads an implemented register, it returns the value that the Verilog tasks read.\<close>

theorem testbench_transactions_agree:
  assumes "\<not> clk_i (pins tb) \<and> \<not> clk_level (dut tb) \<and> \<not> pin_arst_i (pins tb)"
    and "main_time tb = of_nat n" and "n mod 10 = 0" and "n < 2 ^ 62"
    and "rtl \<sigma> = rtl_state (dut tb)" and "soc_ok C P D \<sigma>"
    and "s = rtl_state (dut tb)" and "s' = rtl (set_inputs C P (of_int a) (of_int d) (of_int strb) \<sigma>)"
  shows "\<exists>v tb' t. set_inputs_cpp (rtl_eval C P cke X) a d strb tb = Some (Inr (v, tb')) \<and>
    t = rtl_state (dut tb') \<and> main_time tb' = of_nat (n + 10) \<and>
    iob_rdata_reg t = iob_rdata_reg s' \<and> mtime t = mtime s' \<and> mtimecmp t = mtimecmp s' \<and>
    msip_reg t = msip_reg s' \<and>
    (if cke then t = s'
     else iob_rvalid t = iob_rvalid s \<and> increment_timer_r t = increment_timer_r s \<and> counter t = counter s) \<and>
    (d = 0 \<and> strb = 0 \<and> decode (N_CORES P) (unat (of_int a :: 16 word)) \<noteq> None \<longrightarrow>
      (\<exists>\<sigma>'. bus_read C P (of_int a) \<sigma> = Some (v, \<sigma>')))"
proof -
  let ?i = "inputs (pins tb)" and ?req = "request_pins a d strb (inputs (pins tb))"
  let ?bus = "bus_request (of_int a) (of_int d) (of_int strb)"
  have rst: "pin_arst_i ?i = False" using assms(1) by (simp add: inputs_def)
  have req: "pins_in cke ?req = ?bus\<lparr>cke_i := cke\<rparr>"
    using rst by (simp add: pins_in_def request_pins_def bus_request_def)
  let ?t = "clint_cycle C P (pins_in cke ?req) (rtl_state (dut tb))"
  have "vdut.at n ?i (rtl_state (dut tb)) tb"
    using assms by (simp add: vdut.at_def vdut.period_start_def)
  from vdut.set_inputs_at [OF this assms(4), where C = C and P = P and cke = cke and X = X]
  obtain tb' where tb': "set_inputs_cpp (rtl_eval C P cke X) a d strb tb =
        Some (Inr (iob_rdata (rtl_outs P X False ?t), tb'))"
      "vdut.at (n + 10) (?req\<lparr>iob_avalid := False\<rparr>) ?t tb'"
    unfolding rst by metis
  have s': "s' = clint_cycle C P ?bus s"
    using assms(5,7,8) by (simp add: set_inputs_def)
  have C: "cells_ok C" using assms(6) by (simp add: soc_ok_def)
  have cycle: "?t = clint_cycle C P (?bus\<lparr>cke_i := cke\<rparr>) s" by (simp only: req assms(7))
  have regs: "iob_rdata_reg ?t = iob_rdata_reg s'" "mtime ?t = mtime s'" "mtimecmp ?t = mtimecmp s'"
      "msip_reg ?t = msip_reg s'"
      "if cke then ?t = s'
       else iob_rvalid ?t = iob_rvalid s \<and> increment_timer_r ?t = increment_timer_r s \<and> counter ?t = counter s"
    unfolding s' cycle by (rule clock_enable_cycle [OF C]; simp add: bus_request_def)+
  have "bus_read C P (of_int a) \<sigma> = Some (iob_rdata (rtl_outs P X False ?t),
      soc_cycle C P (bus_request (of_int a) 0 0) \<sigma>)"
    if "d = 0" "strb = 0" "decode (N_CORES P) (unat (of_int a :: 16 word)) = Some r" for r
  proof -
    have "iob_rdata_reg s' = Some (reg_read r (view \<sigma>))"
      using next_rdata_register [of P "rtl \<sigma>" "bus_request (of_int a) 0 0" r] assms(5-7) that s'
      by (simp add: soc_ok_def view_def) (simp add: bus_request_def)
    then show ?thesis
      using bus_read_eq [OF assms(6) that(3)] regs(1) by (simp add: rtl_outs_def)
  qed
  moreover have "rtl_state (dut tb') = ?t" "main_time tb' = of_nat (n + 10)"
    using tb'(2) by (simp_all add: vdut.at_def vdut.period_start_def)
  ultimately show ?thesis
    using tb'(1) regs by (intro exI [of _ "iob_rdata (rtl_outs P X False ?t)"] exI [of _ tb'] exI [of _ ?t]) auto
qed

lemma testbench_transactions_agree_witness:
  "\<forall>cke. \<exists>v tb'. set_inputs_cpp (rtl_eval std_cells default_params cke 0) 0xBFF8 0 0
      \<lparr>main_time = 20, pins = low_pins, outs = rtl_outs default_params 0 False demo_clint,
       dut = \<lparr>rtl_state = demo_clint, clk_level = False, arst_level = False\<rparr>, printed = []\<rparr> =
      Some (Inr (v, tb')) \<and> main_time tb' = 30"
proof -
  let ?tb = "\<lparr>main_time = 20, pins = low_pins, outs = rtl_outs default_params 0 False demo_clint,
    dut = \<lparr>rtl_state = demo_clint, clk_level = False, arst_level = False\<rparr>, printed = []\<rparr>"
  let ?soc = "\<lparr>rtl = demo_clint, delays = [], history = []\<rparr>"
  have "soc_ok std_cells default_params 0 ?soc"
    by (simp add: soc_ok_def demo_defs params_ok_def clint_wf_def prescaler_ok_def tick_period_def)
  moreover have "\<not> clk_i (pins ?tb) \<and> \<not> clk_level (dut ?tb) \<and> \<not> pin_arst_i (pins ?tb)"
    by (simp add: low_pins_def)
  ultimately show ?thesis
    using testbench_transactions_agree [of ?tb 20 ?soc std_cells default_params 0 _ _ "0xBFF8" 0 0]
    by (simp del: word_of_int_numeral split del: if_split) blast
qed

end
