(* ===== verification/Riscv_ISA.thy ===== *)
theory Riscv_ISA
  imports Prelude
begin

text \<open>
  The instructions the inline assembly of \<open>riscv-csr.h\<close> consists of: the Zicsr instructions
  and their pseudo-instructions, on a hart whose registers are a parameter (\<open>hart\<close>). A control
  and status register is its 12-bit address in the instruction, the constants \<open>CSR_...\<close> are the
  assembler's names for them. The access rules are those of the privileged architecture outside
  virtual machines: an access needs the privilege in bits 9:8 of the address, a write needs bits
  11:10 not to be 11, the registers 7B0 to 7BF are there in debug mode only; the user counters
  need their bits in \<open>mcounteren\<close> and \<open>scounteren\<close>, the floating-point registers need
  \<open>mstatus.FS\<close> not to be Off, \<open>satp\<close> and \<open>hgatp\<close> need \<open>mstatus.TVM\<close> to be clear; anything else is
  an illegal instruction. \<open>mode_of\<close> is the privilege that counts for accesses, Machine in debug
  mode, and \<open>Hypervisor\<close> is the supervisor mode of a hart with the hypervisor extension (HS).
  Not modelled: virtual machines (V = 1: \<open>hcounteren\<close>, VTVM, virtual-instruction exceptions), the
  gates of later extensions (Smstateen, Zfinx), and the interrupt line behind \<open>mip.SEIP\<close>, which a
  read sees and a read-modify-write does not.
\<close>

subsection \<open>Register addresses\<close>

type_synonym csr = "12 word"

definition CSR_MISA :: csr where "CSR_MISA = 0x301"
definition CSR_MVENDORID :: csr where "CSR_MVENDORID = 0xF11"
definition CSR_MARCHID :: csr where "CSR_MARCHID = 0xF12"
definition CSR_MIMPID :: csr where "CSR_MIMPID = 0xF13"
definition CSR_MHARTID :: csr where "CSR_MHARTID = 0xF14"
definition CSR_MSTATUS :: csr where "CSR_MSTATUS = 0x300"
definition CSR_MSTATUSH :: csr where "CSR_MSTATUSH = 0x310"
definition CSR_MTVEC :: csr where "CSR_MTVEC = 0x305"
definition CSR_MEDELEG :: csr where "CSR_MEDELEG = 0x302"
definition CSR_MIDELEG :: csr where "CSR_MIDELEG = 0x303"
definition CSR_MIP :: csr where "CSR_MIP = 0x344"
definition CSR_MIE :: csr where "CSR_MIE = 0x304"
definition CSR_MCOUNTINHIBIT :: csr where "CSR_MCOUNTINHIBIT = 0x320"
definition CSR_MCYCLE :: csr where "CSR_MCYCLE = 0xB00"
definition CSR_MINSTRET :: csr where "CSR_MINSTRET = 0xB02"
definition CSR_MHPMCOUNTER3 :: csr where "CSR_MHPMCOUNTER3 = 0xB03"
definition CSR_MHPMEVENT3 :: csr where "CSR_MHPMEVENT3 = 0x323"
definition CSR_MCOUNTEREN :: csr where "CSR_MCOUNTEREN = 0x306"
definition CSR_SCOUNTEREN :: csr where "CSR_SCOUNTEREN = 0x106"
definition CSR_MSCRATCH :: csr where "CSR_MSCRATCH = 0x340"
definition CSR_MEPC :: csr where "CSR_MEPC = 0x341"
definition CSR_MCAUSE :: csr where "CSR_MCAUSE = 0x342"
definition CSR_MTVAL :: csr where "CSR_MTVAL = 0x343"
definition CSR_SSCRATCH :: csr where "CSR_SSCRATCH = 0x140"
definition CSR_SEPC :: csr where "CSR_SEPC = 0x141"
definition CSR_SCAUSE :: csr where "CSR_SCAUSE = 0x142"
definition CSR_SSTATUS :: csr where "CSR_SSTATUS = 0x100"
definition CSR_STVEC :: csr where "CSR_STVEC = 0x105"
definition CSR_SIDELEG :: csr where "CSR_SIDELEG = 0x103"
definition CSR_SEDELEG :: csr where "CSR_SEDELEG = 0x102"
definition CSR_SIP :: csr where "CSR_SIP = 0x144"
definition CSR_SIE :: csr where "CSR_SIE = 0x104"
definition CSR_USTATUS :: csr where "CSR_USTATUS = 0x000"
definition CSR_UIP :: csr where "CSR_UIP = 0x044"
definition CSR_UIE :: csr where "CSR_UIE = 0x004"
definition CSR_USCRATCH :: csr where "CSR_USCRATCH = 0x040"
definition CSR_UEPC :: csr where "CSR_UEPC = 0x041"
definition CSR_UCAUSE :: csr where "CSR_UCAUSE = 0x042"
definition CSR_UTVEC :: csr where "CSR_UTVEC = 0x005"
definition CSR_UTVAL :: csr where "CSR_UTVAL = 0x043"
definition CSR_FFLAGS :: csr where "CSR_FFLAGS = 0x001"
definition CSR_FRM :: csr where "CSR_FRM = 0x002"
definition CSR_FCSR :: csr where "CSR_FCSR = 0x003"
definition CSR_CYCLE :: csr where "CSR_CYCLE = 0xC00"
definition CSR_TIME :: csr where "CSR_TIME = 0xC01"
definition CSR_INSTRET :: csr where "CSR_INSTRET = 0xC02"
definition CSR_HPMCOUNTER3 :: csr where "CSR_HPMCOUNTER3 = 0xC03"
definition CSR_HPMCOUNTER4 :: csr where "CSR_HPMCOUNTER4 = 0xC04"
definition CSR_HPMCOUNTER31 :: csr where "CSR_HPMCOUNTER31 = 0xC1F"
definition CSR_CYCLEH :: csr where "CSR_CYCLEH = 0xC80"
definition CSR_TIMEH :: csr where "CSR_TIMEH = 0xC81"
definition CSR_INSTRETH :: csr where "CSR_INSTRETH = 0xC82"
definition CSR_HPMCOUNTER3H :: csr where "CSR_HPMCOUNTER3H = 0xC83"
definition CSR_HPMCOUNTER4H :: csr where "CSR_HPMCOUNTER4H = 0xC84"
definition CSR_HPMCOUNTER31H :: csr where "CSR_HPMCOUNTER31H = 0xC9F"
definition CSR_STVAL :: csr where "CSR_STVAL = 0x143"
definition CSR_SATP :: csr where "CSR_SATP = 0x180"
definition CSR_HSTATUS :: csr where "CSR_HSTATUS = 0x600"
definition CSR_HEDELEG :: csr where "CSR_HEDELEG = 0x602"
definition CSR_HIDELEG :: csr where "CSR_HIDELEG = 0x603"
definition CSR_HCOUNTEREN :: csr where "CSR_HCOUNTEREN = 0x606"
definition CSR_HGATP :: csr where "CSR_HGATP = 0x680"
definition CSR_HTIMEDELTA :: csr where "CSR_HTIMEDELTA = 0x605"
definition CSR_HTIMEDELTAH :: csr where "CSR_HTIMEDELTAH = 0x615"
definition CSR_VSSTATUS :: csr where "CSR_VSSTATUS = 0x200"
definition CSR_VSIE :: csr where "CSR_VSIE = 0x204"
definition CSR_VSTVEC :: csr where "CSR_VSTVEC = 0x205"
definition CSR_VSSCRATCH :: csr where "CSR_VSSCRATCH = 0x240"
definition CSR_VSEPC :: csr where "CSR_VSEPC = 0x241"
definition CSR_VSCAUSE :: csr where "CSR_VSCAUSE = 0x242"
definition CSR_VSTVAL :: csr where "CSR_VSTVAL = 0x243"
definition CSR_VSIP :: csr where "CSR_VSIP = 0x244"
definition CSR_VSATP :: csr where "CSR_VSATP = 0x280"
definition CSR_MBASE :: csr where "CSR_MBASE = 0x380"
definition CSR_MBOUND :: csr where "CSR_MBOUND = 0x381"
definition CSR_MIBASE :: csr where "CSR_MIBASE = 0x382"
definition CSR_MIBOUND :: csr where "CSR_MIBOUND = 0x383"
definition CSR_MDBASE :: csr where "CSR_MDBASE = 0x384"
definition CSR_MDBOUND :: csr where "CSR_MDBOUND = 0x385"
definition CSR_PMPCFG0 :: csr where "CSR_PMPCFG0 = 0x3A0"
definition CSR_PMPCFG1 :: csr where "CSR_PMPCFG1 = 0x3A1"
definition CSR_PMPCFG2 :: csr where "CSR_PMPCFG2 = 0x3A2"
definition CSR_PMPCFG3 :: csr where "CSR_PMPCFG3 = 0x3A3"
definition CSR_PMPADDR0 :: csr where "CSR_PMPADDR0 = 0x3B0"
definition CSR_PMPADDR1 :: csr where "CSR_PMPADDR1 = 0x3B1"
definition CSR_PMPADDR15 :: csr where "CSR_PMPADDR15 = 0x3BF"
definition CSR_MHPMCOUNTER4 :: csr where "CSR_MHPMCOUNTER4 = 0xB04"
definition CSR_MHPMCOUNTER31 :: csr where "CSR_MHPMCOUNTER31 = 0xB1F"
definition CSR_MCYCLEH :: csr where "CSR_MCYCLEH = 0xB80"
definition CSR_MINSTRETH :: csr where "CSR_MINSTRETH = 0xB82"
definition CSR_MHPMCOUNTER3H :: csr where "CSR_MHPMCOUNTER3H = 0xB83"
definition CSR_MHPMCOUNTER4H :: csr where "CSR_MHPMCOUNTER4H = 0xB84"
definition CSR_MHPMCOUNTER31H :: csr where "CSR_MHPMCOUNTER31H = 0xB9F"
definition CSR_MHPMEVENT4 :: csr where "CSR_MHPMEVENT4 = 0x324"
definition CSR_MHPMEVENT31 :: csr where "CSR_MHPMEVENT31 = 0x33F"
definition CSR_TSELECT :: csr where "CSR_TSELECT = 0x7A0"
definition CSR_TDATA1 :: csr where "CSR_TDATA1 = 0x7A1"
definition CSR_TDATA2 :: csr where "CSR_TDATA2 = 0x7A2"
definition CSR_TDATA3 :: csr where "CSR_TDATA3 = 0x7A3"
definition CSR_DCSR :: csr where "CSR_DCSR = 0x7B0"
definition CSR_DPC :: csr where "CSR_DPC = 0x7B1"
definition CSR_DSCRATCH0 :: csr where "CSR_DSCRATCH0 = 0x7B2"
definition CSR_DSCRATCH1 :: csr where "CSR_DSCRATCH1 = 0x7B3"
definition CSR_HIE :: csr where "CSR_HIE = 0x604"
definition CSR_HGEIE :: csr where "CSR_HGEIE = 0x607"
definition CSR_HTVAL :: csr where "CSR_HTVAL = 0x643"
definition CSR_HIP :: csr where "CSR_HIP = 0x644"
definition CSR_HTINST :: csr where "CSR_HTINST = 0x64A"
definition CSR_HGEIP :: csr where "CSR_HGEIP = 0xE12"
definition CSR_MTINST :: csr where "CSR_MTINST = 0x34A"
definition CSR_MTVAL2 :: csr where "CSR_MTVAL2 = 0x34B"

lemmas csr_addresses =
  CSR_MISA_def CSR_MVENDORID_def CSR_MARCHID_def CSR_MIMPID_def CSR_MHARTID_def CSR_MSTATUS_def
  CSR_MSTATUSH_def CSR_MTVEC_def CSR_MEDELEG_def CSR_MIDELEG_def CSR_MIP_def CSR_MIE_def
  CSR_MCOUNTINHIBIT_def CSR_MCYCLE_def CSR_MINSTRET_def CSR_MHPMCOUNTER3_def CSR_MHPMEVENT3_def
  CSR_MCOUNTEREN_def CSR_SCOUNTEREN_def CSR_MSCRATCH_def CSR_MEPC_def CSR_MCAUSE_def CSR_MTVAL_def
  CSR_SSCRATCH_def CSR_SEPC_def CSR_SCAUSE_def CSR_SSTATUS_def CSR_STVEC_def CSR_SIDELEG_def
  CSR_SEDELEG_def CSR_SIP_def CSR_SIE_def CSR_USTATUS_def CSR_UIP_def CSR_UIE_def CSR_USCRATCH_def
  CSR_UEPC_def CSR_UCAUSE_def CSR_UTVEC_def CSR_UTVAL_def CSR_FFLAGS_def CSR_FRM_def CSR_FCSR_def
  CSR_CYCLE_def CSR_TIME_def CSR_INSTRET_def CSR_HPMCOUNTER3_def CSR_HPMCOUNTER4_def
  CSR_HPMCOUNTER31_def CSR_CYCLEH_def CSR_TIMEH_def CSR_INSTRETH_def CSR_HPMCOUNTER3H_def
  CSR_HPMCOUNTER4H_def CSR_HPMCOUNTER31H_def CSR_STVAL_def CSR_SATP_def CSR_HSTATUS_def
  CSR_HEDELEG_def CSR_HIDELEG_def CSR_HCOUNTEREN_def CSR_HGATP_def CSR_HTIMEDELTA_def
  CSR_HTIMEDELTAH_def CSR_VSSTATUS_def CSR_VSIE_def CSR_VSTVEC_def CSR_VSSCRATCH_def CSR_VSEPC_def
  CSR_VSCAUSE_def CSR_VSTVAL_def CSR_VSIP_def CSR_VSATP_def CSR_MBASE_def CSR_MBOUND_def
  CSR_MIBASE_def CSR_MIBOUND_def CSR_MDBASE_def CSR_MDBOUND_def CSR_PMPCFG0_def CSR_PMPCFG1_def
  CSR_PMPCFG2_def CSR_PMPCFG3_def CSR_PMPADDR0_def CSR_PMPADDR1_def CSR_PMPADDR15_def
  CSR_MHPMCOUNTER4_def CSR_MHPMCOUNTER31_def CSR_MCYCLEH_def CSR_MINSTRETH_def
  CSR_MHPMCOUNTER3H_def CSR_MHPMCOUNTER4H_def CSR_MHPMCOUNTER31H_def CSR_MHPMEVENT4_def
  CSR_MHPMEVENT31_def CSR_TSELECT_def CSR_TDATA1_def CSR_TDATA2_def CSR_TDATA3_def CSR_DCSR_def
  CSR_DPC_def CSR_DSCRATCH0_def CSR_DSCRATCH1_def CSR_HIE_def CSR_HGEIE_def CSR_HTVAL_def
  CSR_HIP_def CSR_HTINST_def CSR_HGEIP_def CSR_MTINST_def CSR_MTVAL2_def

subsection \<open>The C types of register values\<close>

text \<open>Widths of \<open>uint_xlen_t\<close>, \<open>uint_csr32_t\<close> and \<open>uint_csr64_t\<close>; any other XLEN does not compile.\<close>

record csr_types =
  uint_xlen_t :: nat
  uint_csr32_t :: nat
  uint_csr64_t :: nat

definition csr_types_of :: "nat \<Rightarrow> csr_types option" where
  "csr_types_of xlen =
     (if xlen = 32 then Some \<lparr>uint_xlen_t = 32, uint_csr32_t = 32, uint_csr64_t = 32\<rparr>
      else if xlen = 64 then Some \<lparr>uint_xlen_t = 64, uint_csr32_t = 32, uint_csr64_t = 64\<rparr>
      else None)"

text \<open>So \<open>uint_xlen_t\<close> and \<open>uint_csr64_t\<close> are words of the hart's width, \<open>uint_csr32_t\<close> is a 32-bit word.\<close>

lemma csr_types_words:
  assumes "csr_types_of LENGTH('x::len) = Some t"
  shows "uint_xlen_t t = LENGTH('x)" and "uint_csr64_t t = LENGTH('x)" and "uint_csr32_t t = LENGTH(32)"
  using assms by (auto simp: csr_types_of_def split: if_splits)

subsection \<open>The hart\<close>

datatype mode = User | Supervisor | Hypervisor | Machine

primrec rank :: "mode \<Rightarrow> nat" where
  "rank User = 0"
| "rank Supervisor = 1"
| "rank Hypervisor = 2"
| "rank Machine = 3"

lemma rank_inject: "rank a = rank b \<longleftrightarrow> a = b"
  by (cases a; cases b) simp_all

instantiation mode :: linorder
begin

definition less_eq_mode :: "mode \<Rightarrow> mode \<Rightarrow> bool" where
  "less_eq_mode a b \<longleftrightarrow> rank a \<le> rank b"

definition less_mode :: "mode \<Rightarrow> mode \<Rightarrow> bool" where
  "less_mode a b \<longleftrightarrow> rank a < rank b"

instance
  by standard (auto simp: less_eq_mode_def less_mode_def rank_inject)

end

text \<open>\<open>csr_value c h\<close> is what an instruction reads from a register, \<open>csr_assign c v h\<close> the hart
  after a write of \<open>v\<close>; a register may drop or adapt the bits it does not implement.\<close>

record ('h, 'w) hart =
  csr_value :: "csr \<Rightarrow> 'h \<Rightarrow> 'w"
  csr_assign :: "csr \<Rightarrow> 'w \<Rightarrow> 'h \<Rightarrow> 'h"
  csr_present :: "csr \<Rightarrow> 'h \<Rightarrow> bool"
  mode_of :: "'h \<Rightarrow> mode"
  debug_mode :: "'h \<Rightarrow> bool"

datatype failure = Does_Not_Assemble | Illegal_Instruction

type_synonym ('a, 'h) exec = "'h \<Rightarrow> failure + ('a \<times> 'h)"

subsection \<open>Access rules\<close>

definition csr_level :: "csr \<Rightarrow> mode" where
  "csr_level c =
     (let l = drop_bit 8 c AND 3 in
      if l = 0 then User else if l = 1 then Supervisor else if l = 2 then Hypervisor else Machine)"

definition csr_read_only :: "csr \<Rightarrow> bool" where
  "csr_read_only c \<longleftrightarrow> drop_bit 10 c = 3"

definition csr_debug_only :: "csr \<Rightarrow> bool" where
  "csr_debug_only c \<longleftrightarrow> drop_bit 4 c = 0x7B"

text \<open>The bit of \<open>mcounteren\<close> and \<open>scounteren\<close> for a user counter (C00 to C1F, C80 to C9F).\<close>

definition counter_bit :: "csr \<Rightarrow> nat option" where
  "counter_bit c =
     (if drop_bit 5 c = 0x60 \<or> drop_bit 5 c = 0x64 then Some (unat (take_bit 5 c)) else None)"

definition counter_open :: "('h, 'x::len word) hart \<Rightarrow> csr \<Rightarrow> 'h \<Rightarrow> bool" where
  "counter_open H c h \<longleftrightarrow> (case counter_bit c of
       Some n \<Rightarrow>
         (mode_of H h < Machine \<and> csr_present H CSR_MCOUNTEREN h \<longrightarrow>
            bit (csr_value H CSR_MCOUNTEREN h) n) \<and>
         (mode_of H h = User \<and> csr_present H CSR_SCOUNTEREN h \<longrightarrow>
            bit (csr_value H CSR_SCOUNTEREN h) n)
     | None \<Rightarrow> True)"

text \<open>\<open>mstatus.FS\<close>, bits 14:13, for \<open>fflags\<close>, \<open>frm\<close> and \<open>fcsr\<close>.\<close>

definition float_open :: "('h, 'x::len word) hart \<Rightarrow> csr \<Rightarrow> 'h \<Rightarrow> bool" where
  "float_open H c h \<longleftrightarrow>
     (c \<in> {CSR_FFLAGS, CSR_FRM, CSR_FCSR} \<longrightarrow> drop_bit 13 (csr_value H CSR_MSTATUS h) AND 3 \<noteq> 0)"

text \<open>\<open>mstatus.TVM\<close>, bit 20, for \<open>satp\<close> and \<open>hgatp\<close>.\<close>

definition translation_open :: "('h, 'x::len word) hart \<Rightarrow> csr \<Rightarrow> 'h \<Rightarrow> bool" where
  "translation_open H c h \<longleftrightarrow>
     (c \<in> {CSR_SATP, CSR_HGATP} \<and> mode_of H h < Machine \<longrightarrow> \<not> bit (csr_value H CSR_MSTATUS h) 20)"

definition csr_enabled :: "('h, 'x::len word) hart \<Rightarrow> csr \<Rightarrow> 'h \<Rightarrow> bool" where
  "csr_enabled H c h \<longleftrightarrow> counter_open H c h \<and> float_open H c h \<and> translation_open H c h"

definition permitted :: "('h, 'x::len word) hart \<Rightarrow> csr \<Rightarrow> bool \<Rightarrow> 'h \<Rightarrow> bool" where
  "permitted H c wr h \<longleftrightarrow>
     csr_present H c h \<and> csr_level c \<le> mode_of H h \<and> (csr_debug_only c \<longrightarrow> debug_mode H h) \<and>
     csr_enabled H c h \<and> (wr \<longrightarrow> \<not> csr_read_only c)"

text \<open>No machine-level register has a gate.\<close>

lemma machine_level_enabled:
  assumes "csr_level c = Machine"
  shows "csr_enabled H c h"
proof -
  have "counter_bit c = None"
  proof (rule ccontr)
    assume "counter_bit c \<noteq> None"
    then have c: "drop_bit 5 c = 0x60 \<or> drop_bit 5 c = 0x64"
      by (auto simp: counter_bit_def split: if_splits)
    have "drop_bit 8 c = drop_bit 3 (drop_bit 5 c)" by simp
    also have "\<dots> = 0xC" using c by (elim disjE) simp_all
    finally show False using assms by (simp add: csr_level_def)
  qed
  moreover have "c \<notin> {CSR_FFLAGS, CSR_FRM, CSR_FCSR, CSR_SATP, CSR_HGATP}"
    using assms by (auto simp: csr_level_def csr_addresses)
  ultimately show ?thesis
    by (simp add: csr_enabled_def counter_open_def float_open_def translation_open_def)
qed

lemma permitted_write: "permitted H c True h \<Longrightarrow> permitted H c False h"
  by (simp add: permitted_def)

subsection \<open>Instructions\<close>

text \<open>All of them read the register; \<open>wr\<close> says whether the instruction also writes, with \<open>f\<close> of
  the old value.\<close>

definition csr_access ::
  "('h, 'x::len word) hart \<Rightarrow> csr \<Rightarrow> bool \<Rightarrow> ('x word \<Rightarrow> 'x word) \<Rightarrow> ('x word, 'h) exec" where
  "csr_access H c wr f h =
     (if permitted H c wr h then
        Inr (csr_value H c h, if wr then csr_assign H c (f (csr_value H c h)) h else h)
      else Inl Illegal_Instruction)"

text \<open>A result register that is converted, and one that is discarded (\<open>zero\<close>).\<close>

definition map_exec :: "('a \<Rightarrow> 'b) \<Rightarrow> failure + ('a \<times> 'h) \<Rightarrow> failure + ('b \<times> 'h)" where
  "map_exec f r = (case r of Inl e \<Rightarrow> Inl e | Inr (a, h) \<Rightarrow> Inr (f a, h))"

definition discard :: "failure + ('a \<times> 'h) \<Rightarrow> failure + (unit \<times> 'h)" where
  "discard = map_exec (\<lambda>_. ())"

lemma map_exec_simps [simp]:
  "map_exec f (Inl e) = Inl e" "map_exec f (Inr (a, h)) = Inr (f a, h)"
  "discard (Inl e) = Inl e" "discard (Inr (a, h)) = Inr ((), h)"
  by (simp_all add: map_exec_def discard_def)

definition csrr :: "('h, 'x::len word) hart \<Rightarrow> csr \<Rightarrow> ('x word, 'h) exec" where
  "csrr H c = csr_access H c False id"

definition csrrw :: "('h, 'x::len word) hart \<Rightarrow> csr \<Rightarrow> 'x word \<Rightarrow> ('x word, 'h) exec" where
  "csrrw H c v = csr_access H c True (\<lambda>_. v)"

definition csrrs :: "('h, 'x::len word) hart \<Rightarrow> csr \<Rightarrow> 'x word \<Rightarrow> ('x word, 'h) exec" where
  "csrrs H c m = csr_access H c True (\<lambda>v. v OR m)"

definition csrrc :: "('h, 'x::len word) hart \<Rightarrow> csr \<Rightarrow> 'x word \<Rightarrow> ('x word, 'h) exec" where
  "csrrc H c m = csr_access H c True (\<lambda>v. v AND NOT m)"

definition csrw :: "('h, 'x::len word) hart \<Rightarrow> csr \<Rightarrow> 'x word \<Rightarrow> (unit, 'h) exec" where
  "csrw H c v h = discard (csrrw H c v h)"

text \<open>The immediate forms take an assembly-time constant of 5 bits; with 0 the set and clear forms
  do not write.\<close>

definition with_uimm :: "(int \<Rightarrow> (unit, 'h) exec) \<Rightarrow> int \<Rightarrow> (unit, 'h) exec" where
  "with_uimm f n h = (if 0 \<le> n \<and> n < 32 then f n h else Inl Does_Not_Assemble)"

definition csrwi :: "('h, 'x::len word) hart \<Rightarrow> csr \<Rightarrow> int \<Rightarrow> (unit, 'h) exec" where
  "csrwi H c = with_uimm (\<lambda>n h. discard (csr_access H c True (\<lambda>_. of_int n) h))"

definition csrsi :: "('h, 'x::len word) hart \<Rightarrow> csr \<Rightarrow> int \<Rightarrow> (unit, 'h) exec" where
  "csrsi H c = with_uimm (\<lambda>n h. discard (csr_access H c (n \<noteq> 0) (\<lambda>v. v OR of_int n) h))"

definition csrci :: "('h, 'x::len word) hart \<Rightarrow> csr \<Rightarrow> int \<Rightarrow> (unit, 'h) exec" where
  "csrci H c = with_uimm (\<lambda>n h. discard (csr_access H c (n \<noteq> 0) (\<lambda>v. v AND NOT (of_int n)) h))"

lemmas zicsr_defs =
  csrr_def csrrw_def csrrs_def csrrc_def csrw_def csrwi_def csrsi_def csrci_def csr_access_def
  with_uimm_def

text \<open>A \<open>uint32_t\<close> argument in a register: of RV64 registers the ABI keeps it sign-extended.\<close>

definition reg_of_u32 :: "u32 \<Rightarrow> 'x::len word" where
  "reg_of_u32 v = scast v"

subsection \<open>Fields\<close>

text \<open>The four macros of a field, \<open>..._BIT_OFFSET\<close>, \<open>..._BIT_WIDTH\<close>, \<open>..._BIT_MASK\<close> and
  \<open>..._ALL_SET_MASK\<close>.\<close>

record 'w field =
  bit_offset :: nat
  bit_width :: nat
  bit_mask :: 'w
  all_set_mask :: 'w

definition field_consistent :: "('x::len word) field \<Rightarrow> bool" where
  "field_consistent F \<longleftrightarrow>
     all_set_mask F = mask (bit_width F) \<and> bit_mask F = push_bit (bit_offset F) (mask (bit_width F)) \<and>
     bit_offset F + bit_width F \<le> LENGTH('x)"

end
