(* ===== verification/Csr_Machine.thy ===== *)
theory Csr_Machine
  imports Riscv_ISA
begin

text \<open>
  The accessors of \<open>riscv-csr.h\<close> from \<open>misa\<close> to \<open>mtval\<close>:
  the machine-mode setup, interrupt, counter-enable and trap-handling registers.
  One definition per inline function and macro, one record per group of field macros, in the
  order of the header.
\<close>

subsection \<open>misa: Machine ISA\<close>

definition csr_read_misa :: "('h, 'x::len word) hart \<Rightarrow> ('x word, 'h) exec" where
  "csr_read_misa H = csrr H CSR_MISA"

definition csr_write_misa ::
  "('h, 'x::len word) hart \<Rightarrow> 'x word \<Rightarrow> (unit, 'h) exec" where
  "csr_write_misa H value = csrw H CSR_MISA value"

definition csr_read_write_misa ::
  "('h, 'x::len word) hart \<Rightarrow> 'x word \<Rightarrow> ('x word, 'h) exec" where
  "csr_read_write_misa H new_value = csrrw H CSR_MISA new_value"

subsection \<open>mvendorid: Machine Vendor ID\<close>

definition csr_read_mvendorid :: "('h, 'x::len word) hart \<Rightarrow> (u32, 'h) exec" where
  "csr_read_mvendorid H h = map_exec ucast (csrr H CSR_MVENDORID h)"

subsection \<open>marchid: Machine Architecture ID\<close>

definition csr_read_marchid :: "('h, 'x::len word) hart \<Rightarrow> ('x word, 'h) exec" where
  "csr_read_marchid H = csrr H CSR_MARCHID"

subsection \<open>mimpid: Machine Implementation ID\<close>

definition csr_read_mimpid :: "('h, 'x::len word) hart \<Rightarrow> ('x word, 'h) exec" where
  "csr_read_mimpid H = csrr H CSR_MIMPID"

subsection \<open>mhartid: Hardware Thread ID\<close>

definition csr_read_mhartid :: "('h, 'x::len word) hart \<Rightarrow> ('x word, 'h) exec" where
  "csr_read_mhartid H = csrr H CSR_MHARTID"

subsection \<open>mstatus: Machine Status\<close>

definition csr_read_mstatus :: "('h, 'x::len word) hart \<Rightarrow> ('x word, 'h) exec" where
  "csr_read_mstatus H = csrr H CSR_MSTATUS"

definition csr_write_mstatus ::
  "('h, 'x::len word) hart \<Rightarrow> 'x word \<Rightarrow> (unit, 'h) exec" where
  "csr_write_mstatus H value = csrw H CSR_MSTATUS value"

definition csr_read_write_mstatus ::
  "('h, 'x::len word) hart \<Rightarrow> 'x word \<Rightarrow> ('x word, 'h) exec" where
  "csr_read_write_mstatus H new_value = csrrw H CSR_MSTATUS new_value"

definition csr_set_bits_mstatus ::
  "('h, 'x::len word) hart \<Rightarrow> 'x word \<Rightarrow> (unit, 'h) exec" where
  "csr_set_bits_mstatus H bits = (\<lambda>h. discard (csrrs H CSR_MSTATUS bits h))"

definition csr_clr_bits_mstatus ::
  "('h, 'x::len word) hart \<Rightarrow> 'x word \<Rightarrow> (unit, 'h) exec" where
  "csr_clr_bits_mstatus H bits = (\<lambda>h. discard (csrrc H CSR_MSTATUS bits h))"

definition csr_read_set_bits_mstatus ::
  "('h, 'x::len word) hart \<Rightarrow> 'x word \<Rightarrow> ('x word, 'h) exec" where
  "csr_read_set_bits_mstatus H bits = csrrs H CSR_MSTATUS bits"

definition csr_read_clr_bits_mstatus ::
  "('h, 'x::len word) hart \<Rightarrow> 'x word \<Rightarrow> ('x word, 'h) exec" where
  "csr_read_clr_bits_mstatus H bits = csrrc H CSR_MSTATUS bits"

definition CSR_WRITE_IMM_MSTATUS ::
  "('h, 'x::len word) hart \<Rightarrow> int \<Rightarrow> (unit, 'h) exec" where
  "CSR_WRITE_IMM_MSTATUS H = csrwi H CSR_MSTATUS"

definition CSR_SET_BITS_IMM_MSTATUS ::
  "('h, 'x::len word) hart \<Rightarrow> int \<Rightarrow> (unit, 'h) exec" where
  "CSR_SET_BITS_IMM_MSTATUS H = csrsi H CSR_MSTATUS"

definition CSR_CLR_BITS_IMM_MSTATUS ::
  "('h, 'x::len word) hart \<Rightarrow> int \<Rightarrow> (unit, 'h) exec" where
  "CSR_CLR_BITS_IMM_MSTATUS H = csrci H CSR_MSTATUS"

definition MSTATUS_MIE :: "('x::len word) field" where
  "MSTATUS_MIE = \<lparr>bit_offset = 3, bit_width = 1,
     bit_mask = 0x8, all_set_mask = 0x1\<rparr>"

definition MSTATUS_SIE :: "('x::len word) field" where
  "MSTATUS_SIE = \<lparr>bit_offset = 2, bit_width = 1,
     bit_mask = 0x4, all_set_mask = 0x1\<rparr>"

definition MSTATUS_MPIE :: "('x::len word) field" where
  "MSTATUS_MPIE = \<lparr>bit_offset = 7, bit_width = 1,
     bit_mask = 0x80, all_set_mask = 0x1\<rparr>"

definition MSTATUS_SPIE :: "('x::len word) field" where
  "MSTATUS_SPIE = \<lparr>bit_offset = 5, bit_width = 1,
     bit_mask = 0x20, all_set_mask = 0x1\<rparr>"

definition MSTATUS_MPRV :: "('x::len word) field" where
  "MSTATUS_MPRV = \<lparr>bit_offset = 17, bit_width = 1,
     bit_mask = 0x20000, all_set_mask = 0x1\<rparr>"

definition MSTATUS_MPP :: "('x::len word) field" where
  "MSTATUS_MPP = \<lparr>bit_offset = 11, bit_width = 2,
     bit_mask = 0x1800, all_set_mask = 0x3\<rparr>"

definition MSTATUS_SPP :: "('x::len word) field" where
  "MSTATUS_SPP = \<lparr>bit_offset = 8, bit_width = 1,
     bit_mask = 0x100, all_set_mask = 0x1\<rparr>"

subsection \<open>mstatush: Additional machine status register, RV32 only\<close>

definition csr_read_mstatush :: "('h, 'x::len word) hart \<Rightarrow> ('x word, 'h) exec" where
  "csr_read_mstatush H = csrr H CSR_MSTATUSH"

definition csr_write_mstatush ::
  "('h, 'x::len word) hart \<Rightarrow> 'x word \<Rightarrow> (unit, 'h) exec" where
  "csr_write_mstatush H value = csrw H CSR_MSTATUSH value"

definition csr_read_write_mstatush ::
  "('h, 'x::len word) hart \<Rightarrow> 'x word \<Rightarrow> ('x word, 'h) exec" where
  "csr_read_write_mstatush H new_value = csrrw H CSR_MSTATUSH new_value"

subsection \<open>mtvec: Machine Trap Vector Base Address\<close>

definition csr_read_mtvec :: "('h, 'x::len word) hart \<Rightarrow> ('x word, 'h) exec" where
  "csr_read_mtvec H = csrr H CSR_MTVEC"

definition csr_write_mtvec ::
  "('h, 'x::len word) hart \<Rightarrow> 'x word \<Rightarrow> (unit, 'h) exec" where
  "csr_write_mtvec H value = csrw H CSR_MTVEC value"

definition csr_read_write_mtvec ::
  "('h, 'x::len word) hart \<Rightarrow> 'x word \<Rightarrow> ('x word, 'h) exec" where
  "csr_read_write_mtvec H new_value = csrrw H CSR_MTVEC new_value"

definition csr_set_bits_mtvec ::
  "('h, 'x::len word) hart \<Rightarrow> 'x word \<Rightarrow> (unit, 'h) exec" where
  "csr_set_bits_mtvec H bits = (\<lambda>h. discard (csrrs H CSR_MTVEC bits h))"

definition csr_clr_bits_mtvec ::
  "('h, 'x::len word) hart \<Rightarrow> 'x word \<Rightarrow> (unit, 'h) exec" where
  "csr_clr_bits_mtvec H bits = (\<lambda>h. discard (csrrc H CSR_MTVEC bits h))"

definition csr_read_set_bits_mtvec ::
  "('h, 'x::len word) hart \<Rightarrow> 'x word \<Rightarrow> ('x word, 'h) exec" where
  "csr_read_set_bits_mtvec H bits = csrrs H CSR_MTVEC bits"

definition csr_read_clr_bits_mtvec ::
  "('h, 'x::len word) hart \<Rightarrow> 'x word \<Rightarrow> ('x word, 'h) exec" where
  "csr_read_clr_bits_mtvec H bits = csrrc H CSR_MTVEC bits"

definition CSR_WRITE_IMM_MTVEC ::
  "('h, 'x::len word) hart \<Rightarrow> int \<Rightarrow> (unit, 'h) exec" where
  "CSR_WRITE_IMM_MTVEC H = csrwi H CSR_MTVEC"

definition CSR_SET_BITS_IMM_MTVEC ::
  "('h, 'x::len word) hart \<Rightarrow> int \<Rightarrow> (unit, 'h) exec" where
  "CSR_SET_BITS_IMM_MTVEC H = csrsi H CSR_MTVEC"

definition CSR_CLR_BITS_IMM_MTVEC ::
  "('h, 'x::len word) hart \<Rightarrow> int \<Rightarrow> (unit, 'h) exec" where
  "CSR_CLR_BITS_IMM_MTVEC H = csrci H CSR_MTVEC"

definition MTVEC_BASE :: "('x::len word) field" where
  "MTVEC_BASE = \<lparr>bit_offset = 2, bit_width = (LENGTH('x) - 1) - 2 + 1,
     bit_mask = push_bit 2 (push_bit (((LENGTH('x) - 1) - 2 + 1) - 1) 1),
     all_set_mask = push_bit 0 (push_bit (((LENGTH('x) - 1) - 2 + 1) - 1) 1)\<rparr>"

definition MTVEC_MODE :: "('x::len word) field" where
  "MTVEC_MODE = \<lparr>bit_offset = 0, bit_width = 2,
     bit_mask = 0x3, all_set_mask = 0x3\<rparr>"

subsection \<open>medeleg: Machine Exception Delegation\<close>

definition csr_read_medeleg :: "('h, 'x::len word) hart \<Rightarrow> ('x word, 'h) exec" where
  "csr_read_medeleg H = csrr H CSR_MEDELEG"

definition csr_write_medeleg ::
  "('h, 'x::len word) hart \<Rightarrow> 'x word \<Rightarrow> (unit, 'h) exec" where
  "csr_write_medeleg H value = csrw H CSR_MEDELEG value"

definition csr_read_write_medeleg ::
  "('h, 'x::len word) hart \<Rightarrow> 'x word \<Rightarrow> ('x word, 'h) exec" where
  "csr_read_write_medeleg H new_value = csrrw H CSR_MEDELEG new_value"

subsection \<open>mideleg: Machine Interrupt Delegation\<close>

definition csr_read_mideleg :: "('h, 'x::len word) hart \<Rightarrow> ('x word, 'h) exec" where
  "csr_read_mideleg H = csrr H CSR_MIDELEG"

definition csr_write_mideleg ::
  "('h, 'x::len word) hart \<Rightarrow> 'x word \<Rightarrow> (unit, 'h) exec" where
  "csr_write_mideleg H value = csrw H CSR_MIDELEG value"

definition csr_read_write_mideleg ::
  "('h, 'x::len word) hart \<Rightarrow> 'x word \<Rightarrow> ('x word, 'h) exec" where
  "csr_read_write_mideleg H new_value = csrrw H CSR_MIDELEG new_value"

subsection \<open>mip: Machine Interrupt Pending\<close>

definition csr_read_mip :: "('h, 'x::len word) hart \<Rightarrow> ('x word, 'h) exec" where
  "csr_read_mip H = csrr H CSR_MIP"

definition csr_write_mip ::
  "('h, 'x::len word) hart \<Rightarrow> 'x word \<Rightarrow> (unit, 'h) exec" where
  "csr_write_mip H value = csrw H CSR_MIP value"

definition csr_read_write_mip ::
  "('h, 'x::len word) hart \<Rightarrow> 'x word \<Rightarrow> ('x word, 'h) exec" where
  "csr_read_write_mip H new_value = csrrw H CSR_MIP new_value"

definition csr_set_bits_mip ::
  "('h, 'x::len word) hart \<Rightarrow> 'x word \<Rightarrow> (unit, 'h) exec" where
  "csr_set_bits_mip H bits = (\<lambda>h. discard (csrrs H CSR_MIP bits h))"

definition csr_clr_bits_mip ::
  "('h, 'x::len word) hart \<Rightarrow> 'x word \<Rightarrow> (unit, 'h) exec" where
  "csr_clr_bits_mip H bits = (\<lambda>h. discard (csrrc H CSR_MIP bits h))"

definition csr_read_set_bits_mip ::
  "('h, 'x::len word) hart \<Rightarrow> 'x word \<Rightarrow> ('x word, 'h) exec" where
  "csr_read_set_bits_mip H bits = csrrs H CSR_MIP bits"

definition csr_read_clr_bits_mip ::
  "('h, 'x::len word) hart \<Rightarrow> 'x word \<Rightarrow> ('x word, 'h) exec" where
  "csr_read_clr_bits_mip H bits = csrrc H CSR_MIP bits"

definition CSR_WRITE_IMM_MIP ::
  "('h, 'x::len word) hart \<Rightarrow> int \<Rightarrow> (unit, 'h) exec" where
  "CSR_WRITE_IMM_MIP H = csrwi H CSR_MIP"

definition CSR_SET_BITS_IMM_MIP ::
  "('h, 'x::len word) hart \<Rightarrow> int \<Rightarrow> (unit, 'h) exec" where
  "CSR_SET_BITS_IMM_MIP H = csrsi H CSR_MIP"

definition CSR_CLR_BITS_IMM_MIP ::
  "('h, 'x::len word) hart \<Rightarrow> int \<Rightarrow> (unit, 'h) exec" where
  "CSR_CLR_BITS_IMM_MIP H = csrci H CSR_MIP"

definition MIP_MSI :: "('x::len word) field" where
  "MIP_MSI = \<lparr>bit_offset = 3, bit_width = 1,
     bit_mask = 0x8, all_set_mask = 0x1\<rparr>"

definition MIP_MTI :: "('x::len word) field" where
  "MIP_MTI = \<lparr>bit_offset = 7, bit_width = 1,
     bit_mask = 0x80, all_set_mask = 0x1\<rparr>"

definition MIP_MEI :: "('x::len word) field" where
  "MIP_MEI = \<lparr>bit_offset = 11, bit_width = 1,
     bit_mask = 0x800, all_set_mask = 0x1\<rparr>"

definition MIP_SSI :: "('x::len word) field" where
  "MIP_SSI = \<lparr>bit_offset = 1, bit_width = 1,
     bit_mask = 0x2, all_set_mask = 0x1\<rparr>"

definition MIP_STI :: "('x::len word) field" where
  "MIP_STI = \<lparr>bit_offset = 5, bit_width = 1,
     bit_mask = 0x20, all_set_mask = 0x1\<rparr>"

definition MIP_SEI :: "('x::len word) field" where
  "MIP_SEI = \<lparr>bit_offset = 9, bit_width = 1,
     bit_mask = 0x200, all_set_mask = 0x1\<rparr>"

definition MIP_USI :: "('x::len word) field" where
  "MIP_USI = \<lparr>bit_offset = 0, bit_width = 1,
     bit_mask = 0x1, all_set_mask = 0x1\<rparr>"

definition MIP_UTI :: "('x::len word) field" where
  "MIP_UTI = \<lparr>bit_offset = 4, bit_width = 1,
     bit_mask = 0x10, all_set_mask = 0x1\<rparr>"

definition MIP_UEI :: "('x::len word) field" where
  "MIP_UEI = \<lparr>bit_offset = 8, bit_width = 1,
     bit_mask = 0x100, all_set_mask = 0x1\<rparr>"

definition MIP_PLATFORM_DEFINED :: "('x::len word) field" where
  "MIP_PLATFORM_DEFINED = \<lparr>bit_offset = 16, bit_width = LENGTH('x) - 16 + 1,
     bit_mask = push_bit 16 (push_bit ((LENGTH('x) - 16 + 1) - 1) 1),
     all_set_mask = push_bit 0 (push_bit ((LENGTH('x) - 16 + 1) - 1) 1)\<rparr>"

subsection \<open>mie: Machine Interrupt Enable\<close>

definition csr_read_mie :: "('h, 'x::len word) hart \<Rightarrow> ('x word, 'h) exec" where
  "csr_read_mie H = csrr H CSR_MIE"

definition csr_write_mie ::
  "('h, 'x::len word) hart \<Rightarrow> 'x word \<Rightarrow> (unit, 'h) exec" where
  "csr_write_mie H value = csrw H CSR_MIE value"

definition csr_read_write_mie ::
  "('h, 'x::len word) hart \<Rightarrow> 'x word \<Rightarrow> ('x word, 'h) exec" where
  "csr_read_write_mie H new_value = csrrw H CSR_MIE new_value"

definition csr_set_bits_mie ::
  "('h, 'x::len word) hart \<Rightarrow> 'x word \<Rightarrow> (unit, 'h) exec" where
  "csr_set_bits_mie H bits = (\<lambda>h. discard (csrrs H CSR_MIE bits h))"

definition csr_clr_bits_mie ::
  "('h, 'x::len word) hart \<Rightarrow> 'x word \<Rightarrow> (unit, 'h) exec" where
  "csr_clr_bits_mie H bits = (\<lambda>h. discard (csrrc H CSR_MIE bits h))"

definition csr_read_set_bits_mie ::
  "('h, 'x::len word) hart \<Rightarrow> 'x word \<Rightarrow> ('x word, 'h) exec" where
  "csr_read_set_bits_mie H bits = csrrs H CSR_MIE bits"

definition csr_read_clr_bits_mie ::
  "('h, 'x::len word) hart \<Rightarrow> 'x word \<Rightarrow> ('x word, 'h) exec" where
  "csr_read_clr_bits_mie H bits = csrrc H CSR_MIE bits"

definition CSR_WRITE_IMM_MIE ::
  "('h, 'x::len word) hart \<Rightarrow> int \<Rightarrow> (unit, 'h) exec" where
  "CSR_WRITE_IMM_MIE H = csrwi H CSR_MIE"

definition CSR_SET_BITS_IMM_MIE ::
  "('h, 'x::len word) hart \<Rightarrow> int \<Rightarrow> (unit, 'h) exec" where
  "CSR_SET_BITS_IMM_MIE H = csrsi H CSR_MIE"

definition CSR_CLR_BITS_IMM_MIE ::
  "('h, 'x::len word) hart \<Rightarrow> int \<Rightarrow> (unit, 'h) exec" where
  "CSR_CLR_BITS_IMM_MIE H = csrci H CSR_MIE"

definition MIE_MSI :: "('x::len word) field" where
  "MIE_MSI = \<lparr>bit_offset = 3, bit_width = 1,
     bit_mask = 0x8, all_set_mask = 0x1\<rparr>"

definition MIE_MTI :: "('x::len word) field" where
  "MIE_MTI = \<lparr>bit_offset = 7, bit_width = 1,
     bit_mask = 0x80, all_set_mask = 0x1\<rparr>"

definition MIE_MEI :: "('x::len word) field" where
  "MIE_MEI = \<lparr>bit_offset = 11, bit_width = 1,
     bit_mask = 0x800, all_set_mask = 0x1\<rparr>"

definition MIE_SSI :: "('x::len word) field" where
  "MIE_SSI = \<lparr>bit_offset = 1, bit_width = 1,
     bit_mask = 0x2, all_set_mask = 0x1\<rparr>"

definition MIE_STI :: "('x::len word) field" where
  "MIE_STI = \<lparr>bit_offset = 5, bit_width = 1,
     bit_mask = 0x20, all_set_mask = 0x1\<rparr>"

definition MIE_SEI :: "('x::len word) field" where
  "MIE_SEI = \<lparr>bit_offset = 9, bit_width = 1,
     bit_mask = 0x200, all_set_mask = 0x1\<rparr>"

definition MIE_USI :: "('x::len word) field" where
  "MIE_USI = \<lparr>bit_offset = 0, bit_width = 1,
     bit_mask = 0x1, all_set_mask = 0x1\<rparr>"

definition MIE_UTI :: "('x::len word) field" where
  "MIE_UTI = \<lparr>bit_offset = 4, bit_width = 1,
     bit_mask = 0x10, all_set_mask = 0x1\<rparr>"

definition MIE_UEI :: "('x::len word) field" where
  "MIE_UEI = \<lparr>bit_offset = 8, bit_width = 1,
     bit_mask = 0x100, all_set_mask = 0x1\<rparr>"

definition MIE_PLATFORM_DEFINED :: "('x::len word) field" where
  "MIE_PLATFORM_DEFINED = \<lparr>bit_offset = 16, bit_width = LENGTH('x) - 16 + 1,
     bit_mask = push_bit 16 (push_bit ((LENGTH('x) - 16 + 1) - 1) 1),
     all_set_mask = push_bit 0 (push_bit ((LENGTH('x) - 16 + 1) - 1) 1)\<rparr>"

subsection \<open>mcountinhibit: Machine Counter Inhibit\<close>

definition csr_read_mcountinhibit :: "('h, 'x::len word) hart \<Rightarrow> (u32, 'h) exec" where
  "csr_read_mcountinhibit H h = map_exec ucast (csrr H CSR_MCOUNTINHIBIT h)"

definition csr_write_mcountinhibit ::
  "('h, 'x::len word) hart \<Rightarrow> u32 \<Rightarrow> (unit, 'h) exec" where
  "csr_write_mcountinhibit H value = csrw H CSR_MCOUNTINHIBIT (reg_of_u32 value)"

definition csr_read_write_mcountinhibit ::
  "('h, 'x::len word) hart \<Rightarrow> u32 \<Rightarrow> (u32, 'h) exec" where
  "csr_read_write_mcountinhibit H new_value h =
     map_exec ucast (csrrw H CSR_MCOUNTINHIBIT (reg_of_u32 new_value) h)"

definition csr_set_bits_mcountinhibit ::
  "('h, 'x::len word) hart \<Rightarrow> u32 \<Rightarrow> (unit, 'h) exec" where
  "csr_set_bits_mcountinhibit H bits =
     (\<lambda>h. discard (csrrs H CSR_MCOUNTINHIBIT (reg_of_u32 bits) h))"

definition csr_clr_bits_mcountinhibit ::
  "('h, 'x::len word) hart \<Rightarrow> u32 \<Rightarrow> (unit, 'h) exec" where
  "csr_clr_bits_mcountinhibit H bits =
     (\<lambda>h. discard (csrrc H CSR_MCOUNTINHIBIT (reg_of_u32 bits) h))"

definition csr_read_set_bits_mcountinhibit ::
  "('h, 'x::len word) hart \<Rightarrow> u32 \<Rightarrow> (u32, 'h) exec" where
  "csr_read_set_bits_mcountinhibit H bits h =
     map_exec ucast (csrrs H CSR_MCOUNTINHIBIT (reg_of_u32 bits) h)"

definition csr_read_clr_bits_mcountinhibit ::
  "('h, 'x::len word) hart \<Rightarrow> u32 \<Rightarrow> (u32, 'h) exec" where
  "csr_read_clr_bits_mcountinhibit H bits h =
     map_exec ucast (csrrc H CSR_MCOUNTINHIBIT (reg_of_u32 bits) h)"

definition CSR_WRITE_IMM_MCOUNTINHIBIT ::
  "('h, 'x::len word) hart \<Rightarrow> int \<Rightarrow> (unit, 'h) exec" where
  "CSR_WRITE_IMM_MCOUNTINHIBIT H = csrwi H CSR_MCOUNTINHIBIT"

definition CSR_SET_BITS_IMM_MCOUNTINHIBIT ::
  "('h, 'x::len word) hart \<Rightarrow> int \<Rightarrow> (unit, 'h) exec" where
  "CSR_SET_BITS_IMM_MCOUNTINHIBIT H = csrsi H CSR_MCOUNTINHIBIT"

definition CSR_CLR_BITS_IMM_MCOUNTINHIBIT ::
  "('h, 'x::len word) hart \<Rightarrow> int \<Rightarrow> (unit, 'h) exec" where
  "CSR_CLR_BITS_IMM_MCOUNTINHIBIT H = csrci H CSR_MCOUNTINHIBIT"

definition MCOUNTINHIBIT_CY :: "('x::len word) field" where
  "MCOUNTINHIBIT_CY = \<lparr>bit_offset = 0, bit_width = 1,
     bit_mask = 0x1, all_set_mask = 0x1\<rparr>"

definition MCOUNTINHIBIT_IR :: "('x::len word) field" where
  "MCOUNTINHIBIT_IR = \<lparr>bit_offset = 2, bit_width = 1,
     bit_mask = 0x4, all_set_mask = 0x1\<rparr>"

definition MCOUNTINHIBIT_HPM :: "('x::len word) field" where
  "MCOUNTINHIBIT_HPM = \<lparr>bit_offset = 3, bit_width = 29,
     bit_mask = 0xfffffff8, all_set_mask = 0x1fffffff\<rparr>"

subsection \<open>mcycle: Clock Cycles Executed Counter\<close>

definition csr_read_mcycle :: "('h, 'x::len word) hart \<Rightarrow> (u64, 'h) exec" where
  "csr_read_mcycle H h = map_exec ucast (csrr H CSR_MCYCLE h)"

definition csr_write_mcycle ::
  "('h, 'x::len word) hart \<Rightarrow> 'x word \<Rightarrow> (unit, 'h) exec" where
  "csr_write_mcycle H value = csrw H CSR_MCYCLE value"

definition csr_read_write_mcycle ::
  "('h, 'x::len word) hart \<Rightarrow> u64 \<Rightarrow> (u64, 'h) exec" where
  "csr_read_write_mcycle H new_value h = map_exec ucast (csrrw H CSR_MCYCLE (ucast new_value) h)"

subsection \<open>minstret: Number of Instructions Retired Counter\<close>

definition csr_read_minstret :: "('h, 'x::len word) hart \<Rightarrow> (u64, 'h) exec" where
  "csr_read_minstret H h = map_exec ucast (csrr H CSR_MINSTRET h)"

definition csr_write_minstret ::
  "('h, 'x::len word) hart \<Rightarrow> 'x word \<Rightarrow> (unit, 'h) exec" where
  "csr_write_minstret H value = csrw H CSR_MINSTRET value"

definition csr_read_write_minstret ::
  "('h, 'x::len word) hart \<Rightarrow> u64 \<Rightarrow> (u64, 'h) exec" where
  "csr_read_write_minstret H new_value h =
     map_exec ucast (csrrw H CSR_MINSTRET (ucast new_value) h)"

subsection \<open>mhpmcounter3: Event Counters\<close>

definition csr_read_mhpmcounter3 :: "('h, 'x::len word) hart \<Rightarrow> (u64, 'h) exec" where
  "csr_read_mhpmcounter3 H h = map_exec ucast (csrr H CSR_MHPMCOUNTER3 h)"

definition csr_write_mhpmcounter3 ::
  "('h, 'x::len word) hart \<Rightarrow> 'x word \<Rightarrow> (unit, 'h) exec" where
  "csr_write_mhpmcounter3 H value = csrw H CSR_MHPMCOUNTER3 value"

definition csr_read_write_mhpmcounter3 ::
  "('h, 'x::len word) hart \<Rightarrow> u64 \<Rightarrow> (u64, 'h) exec" where
  "csr_read_write_mhpmcounter3 H new_value h =
     map_exec ucast (csrrw H CSR_MHPMCOUNTER3 (ucast new_value) h)"

subsection \<open>mhpmevent3: Event Counter Event Select\<close>

definition csr_read_mhpmevent3 :: "('h, 'x::len word) hart \<Rightarrow> ('x word, 'h) exec" where
  "csr_read_mhpmevent3 H = csrr H CSR_MHPMEVENT3"

definition csr_write_mhpmevent3 ::
  "('h, 'x::len word) hart \<Rightarrow> 'x word \<Rightarrow> (unit, 'h) exec" where
  "csr_write_mhpmevent3 H value = csrw H CSR_MHPMEVENT3 value"

definition csr_read_write_mhpmevent3 ::
  "('h, 'x::len word) hart \<Rightarrow> 'x word \<Rightarrow> ('x word, 'h) exec" where
  "csr_read_write_mhpmevent3 H new_value = csrrw H CSR_MHPMEVENT3 new_value"

subsection \<open>mcounteren: Counter Enable\<close>

definition csr_read_mcounteren :: "('h, 'x::len word) hart \<Rightarrow> (u32, 'h) exec" where
  "csr_read_mcounteren H h = map_exec ucast (csrr H CSR_MCOUNTEREN h)"

definition csr_write_mcounteren ::
  "('h, 'x::len word) hart \<Rightarrow> u32 \<Rightarrow> (unit, 'h) exec" where
  "csr_write_mcounteren H value = csrw H CSR_MCOUNTEREN (reg_of_u32 value)"

definition csr_read_write_mcounteren ::
  "('h, 'x::len word) hart \<Rightarrow> u32 \<Rightarrow> (u32, 'h) exec" where
  "csr_read_write_mcounteren H new_value h =
     map_exec ucast (csrrw H CSR_MCOUNTEREN (reg_of_u32 new_value) h)"

definition csr_set_bits_mcounteren ::
  "('h, 'x::len word) hart \<Rightarrow> u32 \<Rightarrow> (unit, 'h) exec" where
  "csr_set_bits_mcounteren H bits =
     (\<lambda>h. discard (csrrs H CSR_MCOUNTEREN (reg_of_u32 bits) h))"

definition csr_clr_bits_mcounteren ::
  "('h, 'x::len word) hart \<Rightarrow> u32 \<Rightarrow> (unit, 'h) exec" where
  "csr_clr_bits_mcounteren H bits =
     (\<lambda>h. discard (csrrc H CSR_MCOUNTEREN (reg_of_u32 bits) h))"

definition csr_read_set_bits_mcounteren ::
  "('h, 'x::len word) hart \<Rightarrow> u32 \<Rightarrow> (u32, 'h) exec" where
  "csr_read_set_bits_mcounteren H bits h =
     map_exec ucast (csrrs H CSR_MCOUNTEREN (reg_of_u32 bits) h)"

definition csr_read_clr_bits_mcounteren ::
  "('h, 'x::len word) hart \<Rightarrow> u32 \<Rightarrow> (u32, 'h) exec" where
  "csr_read_clr_bits_mcounteren H bits h =
     map_exec ucast (csrrc H CSR_MCOUNTEREN (reg_of_u32 bits) h)"

definition CSR_WRITE_IMM_MCOUNTEREN ::
  "('h, 'x::len word) hart \<Rightarrow> int \<Rightarrow> (unit, 'h) exec" where
  "CSR_WRITE_IMM_MCOUNTEREN H = csrwi H CSR_MCOUNTEREN"

definition CSR_SET_BITS_IMM_MCOUNTEREN ::
  "('h, 'x::len word) hart \<Rightarrow> int \<Rightarrow> (unit, 'h) exec" where
  "CSR_SET_BITS_IMM_MCOUNTEREN H = csrsi H CSR_MCOUNTEREN"

definition CSR_CLR_BITS_IMM_MCOUNTEREN ::
  "('h, 'x::len word) hart \<Rightarrow> int \<Rightarrow> (unit, 'h) exec" where
  "CSR_CLR_BITS_IMM_MCOUNTEREN H = csrci H CSR_MCOUNTEREN"

definition MCOUNTEREN_CY :: "('x::len word) field" where
  "MCOUNTEREN_CY = \<lparr>bit_offset = 0, bit_width = 1,
     bit_mask = 0x1, all_set_mask = 0x1\<rparr>"

definition MCOUNTEREN_TM :: "('x::len word) field" where
  "MCOUNTEREN_TM = \<lparr>bit_offset = 1, bit_width = 1,
     bit_mask = 0x2, all_set_mask = 0x1\<rparr>"

definition MCOUNTEREN_IR :: "('x::len word) field" where
  "MCOUNTEREN_IR = \<lparr>bit_offset = 2, bit_width = 1,
     bit_mask = 0x4, all_set_mask = 0x1\<rparr>"

definition MCOUNTEREN_HPM :: "('x::len word) field" where
  "MCOUNTEREN_HPM = \<lparr>bit_offset = 3, bit_width = 29,
     bit_mask = 0xfffffff8, all_set_mask = 0x1fffffff\<rparr>"

subsection \<open>scounteren: Counter Enable\<close>

definition csr_read_scounteren :: "('h, 'x::len word) hart \<Rightarrow> ('x word, 'h) exec" where
  "csr_read_scounteren H = csrr H CSR_SCOUNTEREN"

definition csr_write_scounteren ::
  "('h, 'x::len word) hart \<Rightarrow> 'x word \<Rightarrow> (unit, 'h) exec" where
  "csr_write_scounteren H value = csrw H CSR_SCOUNTEREN value"

definition csr_read_write_scounteren ::
  "('h, 'x::len word) hart \<Rightarrow> 'x word \<Rightarrow> ('x word, 'h) exec" where
  "csr_read_write_scounteren H new_value = csrrw H CSR_SCOUNTEREN new_value"

subsection \<open>mscratch: Machine Mode Scratch Register\<close>

definition csr_read_mscratch :: "('h, 'x::len word) hart \<Rightarrow> ('x word, 'h) exec" where
  "csr_read_mscratch H = csrr H CSR_MSCRATCH"

definition csr_write_mscratch ::
  "('h, 'x::len word) hart \<Rightarrow> 'x word \<Rightarrow> (unit, 'h) exec" where
  "csr_write_mscratch H value = csrw H CSR_MSCRATCH value"

definition csr_read_write_mscratch ::
  "('h, 'x::len word) hart \<Rightarrow> 'x word \<Rightarrow> ('x word, 'h) exec" where
  "csr_read_write_mscratch H new_value = csrrw H CSR_MSCRATCH new_value"

subsection \<open>mepc: Machine Exception Program Counter\<close>

definition csr_read_mepc :: "('h, 'x::len word) hart \<Rightarrow> ('x word, 'h) exec" where
  "csr_read_mepc H = csrr H CSR_MEPC"

definition csr_write_mepc ::
  "('h, 'x::len word) hart \<Rightarrow> 'x word \<Rightarrow> (unit, 'h) exec" where
  "csr_write_mepc H value = csrw H CSR_MEPC value"

definition csr_read_write_mepc ::
  "('h, 'x::len word) hart \<Rightarrow> 'x word \<Rightarrow> ('x word, 'h) exec" where
  "csr_read_write_mepc H new_value = csrrw H CSR_MEPC new_value"

subsection \<open>mcause: Machine Exception Cause\<close>

definition csr_read_mcause :: "('h, 'x::len word) hart \<Rightarrow> ('x word, 'h) exec" where
  "csr_read_mcause H = csrr H CSR_MCAUSE"

definition csr_write_mcause ::
  "('h, 'x::len word) hart \<Rightarrow> 'x word \<Rightarrow> (unit, 'h) exec" where
  "csr_write_mcause H value = csrw H CSR_MCAUSE value"

definition csr_read_write_mcause ::
  "('h, 'x::len word) hart \<Rightarrow> 'x word \<Rightarrow> ('x word, 'h) exec" where
  "csr_read_write_mcause H new_value = csrrw H CSR_MCAUSE new_value"

definition csr_set_bits_mcause ::
  "('h, 'x::len word) hart \<Rightarrow> 'x word \<Rightarrow> (unit, 'h) exec" where
  "csr_set_bits_mcause H bits = (\<lambda>h. discard (csrrs H CSR_MCAUSE bits h))"

definition csr_clr_bits_mcause ::
  "('h, 'x::len word) hart \<Rightarrow> 'x word \<Rightarrow> (unit, 'h) exec" where
  "csr_clr_bits_mcause H bits = (\<lambda>h. discard (csrrc H CSR_MCAUSE bits h))"

definition csr_read_set_bits_mcause ::
  "('h, 'x::len word) hart \<Rightarrow> 'x word \<Rightarrow> ('x word, 'h) exec" where
  "csr_read_set_bits_mcause H bits = csrrs H CSR_MCAUSE bits"

definition csr_read_clr_bits_mcause ::
  "('h, 'x::len word) hart \<Rightarrow> 'x word \<Rightarrow> ('x word, 'h) exec" where
  "csr_read_clr_bits_mcause H bits = csrrc H CSR_MCAUSE bits"

definition CSR_WRITE_IMM_MCAUSE ::
  "('h, 'x::len word) hart \<Rightarrow> int \<Rightarrow> (unit, 'h) exec" where
  "CSR_WRITE_IMM_MCAUSE H = csrwi H CSR_MCAUSE"

definition CSR_SET_BITS_IMM_MCAUSE ::
  "('h, 'x::len word) hart \<Rightarrow> int \<Rightarrow> (unit, 'h) exec" where
  "CSR_SET_BITS_IMM_MCAUSE H = csrsi H CSR_MCAUSE"

definition CSR_CLR_BITS_IMM_MCAUSE ::
  "('h, 'x::len word) hart \<Rightarrow> int \<Rightarrow> (unit, 'h) exec" where
  "CSR_CLR_BITS_IMM_MCAUSE H = csrci H CSR_MCAUSE"

definition MCAUSE_INTERRUPT :: "('x::len word) field" where
  "MCAUSE_INTERRUPT = \<lparr>bit_offset = LENGTH('x) - 1, bit_width = 1,
     bit_mask = push_bit (LENGTH('x) - 1) 1, all_set_mask = 0x1\<rparr>"

definition MCAUSE_EXCEPTION_CODE :: "('x::len word) field" where
  "MCAUSE_EXCEPTION_CODE = \<lparr>bit_offset = 0, bit_width = (LENGTH('x) - 2) - 0 + 1,
     bit_mask = push_bit 0 (push_bit (((LENGTH('x) - 2) - 0 + 1) - 1) 1),
     all_set_mask = push_bit 0 (push_bit (((LENGTH('x) - 2) - 0 + 1) - 1) 1)\<rparr>"

subsection \<open>mtval: Machine Trap Value\<close>

definition csr_read_mtval :: "('h, 'x::len word) hart \<Rightarrow> ('x word, 'h) exec" where
  "csr_read_mtval H = csrr H CSR_MTVAL"

definition csr_write_mtval ::
  "('h, 'x::len word) hart \<Rightarrow> 'x word \<Rightarrow> (unit, 'h) exec" where
  "csr_write_mtval H value = csrw H CSR_MTVAL value"

definition csr_read_write_mtval ::
  "('h, 'x::len word) hart \<Rightarrow> 'x word \<Rightarrow> ('x word, 'h) exec" where
  "csr_read_write_mtval H new_value = csrrw H CSR_MTVAL new_value"

lemmas csr_machine_defs =
  csr_read_misa_def csr_write_misa_def csr_read_write_misa_def csr_read_mvendorid_def
  csr_read_marchid_def csr_read_mimpid_def csr_read_mhartid_def csr_read_mstatus_def
  csr_write_mstatus_def csr_read_write_mstatus_def csr_set_bits_mstatus_def
  csr_clr_bits_mstatus_def csr_read_set_bits_mstatus_def csr_read_clr_bits_mstatus_def
  CSR_WRITE_IMM_MSTATUS_def CSR_SET_BITS_IMM_MSTATUS_def CSR_CLR_BITS_IMM_MSTATUS_def
  csr_read_mstatush_def csr_write_mstatush_def csr_read_write_mstatush_def csr_read_mtvec_def
  csr_write_mtvec_def csr_read_write_mtvec_def csr_set_bits_mtvec_def csr_clr_bits_mtvec_def
  csr_read_set_bits_mtvec_def csr_read_clr_bits_mtvec_def CSR_WRITE_IMM_MTVEC_def
  CSR_SET_BITS_IMM_MTVEC_def CSR_CLR_BITS_IMM_MTVEC_def csr_read_medeleg_def csr_write_medeleg_def
  csr_read_write_medeleg_def csr_read_mideleg_def csr_write_mideleg_def csr_read_write_mideleg_def
  csr_read_mip_def csr_write_mip_def csr_read_write_mip_def csr_set_bits_mip_def
  csr_clr_bits_mip_def csr_read_set_bits_mip_def csr_read_clr_bits_mip_def CSR_WRITE_IMM_MIP_def
  CSR_SET_BITS_IMM_MIP_def CSR_CLR_BITS_IMM_MIP_def csr_read_mie_def csr_write_mie_def
  csr_read_write_mie_def csr_set_bits_mie_def csr_clr_bits_mie_def csr_read_set_bits_mie_def
  csr_read_clr_bits_mie_def CSR_WRITE_IMM_MIE_def CSR_SET_BITS_IMM_MIE_def
  CSR_CLR_BITS_IMM_MIE_def csr_read_mcountinhibit_def csr_write_mcountinhibit_def
  csr_read_write_mcountinhibit_def csr_set_bits_mcountinhibit_def csr_clr_bits_mcountinhibit_def
  csr_read_set_bits_mcountinhibit_def csr_read_clr_bits_mcountinhibit_def
  CSR_WRITE_IMM_MCOUNTINHIBIT_def CSR_SET_BITS_IMM_MCOUNTINHIBIT_def
  CSR_CLR_BITS_IMM_MCOUNTINHIBIT_def csr_read_mcycle_def csr_write_mcycle_def
  csr_read_write_mcycle_def csr_read_minstret_def csr_write_minstret_def
  csr_read_write_minstret_def csr_read_mhpmcounter3_def csr_write_mhpmcounter3_def
  csr_read_write_mhpmcounter3_def csr_read_mhpmevent3_def csr_write_mhpmevent3_def
  csr_read_write_mhpmevent3_def csr_read_mcounteren_def csr_write_mcounteren_def
  csr_read_write_mcounteren_def csr_set_bits_mcounteren_def csr_clr_bits_mcounteren_def
  csr_read_set_bits_mcounteren_def csr_read_clr_bits_mcounteren_def CSR_WRITE_IMM_MCOUNTEREN_def
  CSR_SET_BITS_IMM_MCOUNTEREN_def CSR_CLR_BITS_IMM_MCOUNTEREN_def csr_read_scounteren_def
  csr_write_scounteren_def csr_read_write_scounteren_def csr_read_mscratch_def
  csr_write_mscratch_def csr_read_write_mscratch_def csr_read_mepc_def csr_write_mepc_def
  csr_read_write_mepc_def csr_read_mcause_def csr_write_mcause_def csr_read_write_mcause_def
  csr_set_bits_mcause_def csr_clr_bits_mcause_def csr_read_set_bits_mcause_def
  csr_read_clr_bits_mcause_def CSR_WRITE_IMM_MCAUSE_def CSR_SET_BITS_IMM_MCAUSE_def
  CSR_CLR_BITS_IMM_MCAUSE_def csr_read_mtval_def csr_write_mtval_def csr_read_write_mtval_def

lemmas csr_machine_fields =
  MSTATUS_MIE_def MSTATUS_SIE_def MSTATUS_MPIE_def MSTATUS_SPIE_def MSTATUS_MPRV_def
  MSTATUS_MPP_def MSTATUS_SPP_def MTVEC_BASE_def MTVEC_MODE_def MIP_MSI_def MIP_MTI_def
  MIP_MEI_def MIP_SSI_def MIP_STI_def MIP_SEI_def MIP_USI_def MIP_UTI_def MIP_UEI_def
  MIP_PLATFORM_DEFINED_def MIE_MSI_def MIE_MTI_def MIE_MEI_def MIE_SSI_def MIE_STI_def MIE_SEI_def
  MIE_USI_def MIE_UTI_def MIE_UEI_def MIE_PLATFORM_DEFINED_def MCOUNTINHIBIT_CY_def
  MCOUNTINHIBIT_IR_def MCOUNTINHIBIT_HPM_def MCOUNTEREN_CY_def MCOUNTEREN_TM_def MCOUNTEREN_IR_def
  MCOUNTEREN_HPM_def MCAUSE_INTERRUPT_def MCAUSE_EXCEPTION_CODE_def

end
