(* ===== verification/Riscv_Interrupts.thy ===== *)
theory Riscv_Interrupts
  imports Csr_Machine
begin

text \<open>
  \<open>riscv-interrupts.h\<close>: the interrupt numbers (bit positions in \<open>mip\<close> and \<open>mie\<close>), the masks
  and the exception codes of \<open>mcause\<close>.
\<close>

datatype riscv_int = MSI | MTI | MEI | SSI | STI | SEI | USI | UTI | UEI

primrec RISCV_INT_POS :: "riscv_int \<Rightarrow> nat" where
  "RISCV_INT_POS MSI = 3"
| "RISCV_INT_POS MTI = 7"
| "RISCV_INT_POS MEI = 11"
| "RISCV_INT_POS SSI = 1"
| "RISCV_INT_POS STI = 5"
| "RISCV_INT_POS SEI = 9"
| "RISCV_INT_POS USI = 0"
| "RISCV_INT_POS UTI = 4"
| "RISCV_INT_POS UEI = 8"

text \<open>\<open>1UL << RISCV_INT_POS_...\<close>, for each of them.\<close>

definition RISCV_INT_MASK :: "riscv_int \<Rightarrow> 'x::len word" where
  "RISCV_INT_MASK i = push_bit (RISCV_INT_POS i) 1"

datatype riscv_excp =
    INSTRUCTION_ADDRESS_MISALIGNED | INSTRUCTION_ACCESS_FAULT | ILLEGAL_INSTRUCTION | BREAKPOINT
  | LOAD_ADDRESS_MISALIGNED | LOAD_ACCESS_FAULT | STORE_AMO_ADDRESS_MISALIGNED
  | STORE_AMO_ACCESS_FAULT | ENVIRONMENT_CALL_FROM_U_MODE | ENVIRONMENT_CALL_FROM_S_MODE
  | RESERVED10 | ENVIRONMENT_CALL_FROM_M_MODE | INSTRUCTION_PAGE_FAULT | LOAD_PAGE_FAULT
  | RESERVED14 | STORE_AMO_PAGE_FAULT

primrec RISCV_EXCP :: "riscv_excp \<Rightarrow> nat" where
  "RISCV_EXCP INSTRUCTION_ADDRESS_MISALIGNED = 0"
| "RISCV_EXCP INSTRUCTION_ACCESS_FAULT = 1"
| "RISCV_EXCP ILLEGAL_INSTRUCTION = 2"
| "RISCV_EXCP BREAKPOINT = 3"
| "RISCV_EXCP LOAD_ADDRESS_MISALIGNED = 4"
| "RISCV_EXCP LOAD_ACCESS_FAULT = 5"
| "RISCV_EXCP STORE_AMO_ADDRESS_MISALIGNED = 6"
| "RISCV_EXCP STORE_AMO_ACCESS_FAULT = 7"
| "RISCV_EXCP ENVIRONMENT_CALL_FROM_U_MODE = 8"
| "RISCV_EXCP ENVIRONMENT_CALL_FROM_S_MODE = 9"
| "RISCV_EXCP RESERVED10 = 10"
| "RISCV_EXCP ENVIRONMENT_CALL_FROM_M_MODE = 11"
| "RISCV_EXCP INSTRUCTION_PAGE_FAULT = 12"
| "RISCV_EXCP LOAD_PAGE_FAULT = 13"
| "RISCV_EXCP RESERVED14 = 14"
| "RISCV_EXCP STORE_AMO_PAGE_FAULT = 15"

lemma RISCV_INT_POS_inject: "RISCV_INT_POS i = RISCV_INT_POS j \<longleftrightarrow> i = j"
  by (cases i; cases j) simp_all

lemma RISCV_INT_POS_less: "RISCV_INT_POS i < 12"
  by (cases i) simp_all

lemma bit_RISCV_INT_MASK:
  "32 \<le> LENGTH('x::len) \<Longrightarrow> bit (RISCV_INT_MASK i :: 'x word) n \<longleftrightarrow> n = RISCV_INT_POS i"
  using RISCV_INT_POS_less [of i] by (auto simp: RISCV_INT_MASK_def bit_simps)

text \<open>The field of an interrupt in \<open>mip\<close> and in \<open>mie\<close>.\<close>

primrec mip_field :: "riscv_int \<Rightarrow> ('x::len word) field" where
  "mip_field MSI = MIP_MSI"
| "mip_field MTI = MIP_MTI"
| "mip_field MEI = MIP_MEI"
| "mip_field SSI = MIP_SSI"
| "mip_field STI = MIP_STI"
| "mip_field SEI = MIP_SEI"
| "mip_field USI = MIP_USI"
| "mip_field UTI = MIP_UTI"
| "mip_field UEI = MIP_UEI"

primrec mie_field :: "riscv_int \<Rightarrow> ('x::len word) field" where
  "mie_field MSI = MIE_MSI"
| "mie_field MTI = MIE_MTI"
| "mie_field MEI = MIE_MEI"
| "mie_field SSI = MIE_SSI"
| "mie_field STI = MIE_STI"
| "mie_field SEI = MIE_SEI"
| "mie_field USI = MIE_USI"
| "mie_field UTI = MIE_UTI"
| "mie_field UEI = MIE_UEI"

text \<open>C24: the two headers agree. For every interrupt, \<open>RISCV_INT_POS\<close> is the offset and
  \<open>RISCV_INT_MASK\<close> the mask of its one-bit field in both \<open>mip\<close> and \<open>mie\<close>, and different
  interrupts have different masks.\<close>

theorem interrupt_masks_agree:
  "bit_offset (mip_field i :: ('x::len word) field) = RISCV_INT_POS i \<and>
   bit_offset (mie_field i :: ('x word) field) = RISCV_INT_POS i \<and>
   bit_mask (mip_field i) = (RISCV_INT_MASK i :: 'x word) \<and>
   bit_mask (mie_field i) = (RISCV_INT_MASK i :: 'x word) \<and>
   bit_width (mip_field i :: ('x word) field) = 1 \<and> bit_width (mie_field i :: ('x word) field) = 1 \<and>
   (RISCV_INT_POS i = RISCV_INT_POS j \<longleftrightarrow> i = j)"
  using RISCV_INT_POS_inject [of i j]
  by (cases i) (simp_all add: csr_machine_fields RISCV_INT_MASK_def del: RISCV_INT_POS.simps,
      simp_all)

end
