(* ===== verification/Clint_Generator.thy ===== *)
theory Clint_Generator
  imports Clint_Timer Riscv_Interrupts
begin

text \<open>
  The description that \<open>setup\<close> in \<open>iob_clint.py\<close> hands to the py2hwsw generator: parameters, ports,
  wires, sub-blocks and software modules with their device-tree properties, for the chosen CSR
  interface (without the describing texts of parameters and signals and the \<open>isvar\<close> flags). The
  generator itself is not in the repository. The Verilog text in the description is \<open>Clint_RTL\<close>; here
  the declarations and connections around it are shown to fit it.
\<close>

subsection \<open>Data\<close>

text \<open>A width is a number or an expression in the parameters, as text.\<close>

datatype sig_width = Bits nat | Expr string

record signal =
  sig_name :: string
  width_of :: sig_width

text \<open>The signals of a port: listed, or those of a standard interface with its parameters.\<close>

datatype port_signals = Signals "signal list" | Interface string "(string \<times> nat) list"

record port =
  port_name :: string
  port_descr :: string
  signals :: port_signals

text \<open>\<open>FREQ\<close> has no \<open>min\<close> and no \<open>max\<close> key.\<close>

record conf =
  conf_name :: string
  conf_val :: string
  conf_min :: "string option"
  conf_max :: "string option"

record csr_reg =
  csr_name :: string
  csr_type :: string
  csr_mode :: string
  n_bits :: nat
  rst_val :: nat
  log2n_items :: nat

record subblock =
  sub_core :: string
  instantiate :: bool
  instance_name :: string
  csrs :: "csr_reg list"
  sub_csr_if :: "string option"
  sub_parameters :: "(string \<times> string) list"
  sub_connect :: "(string \<times> string) list"

record sw_module =
  sw_core :: string
  compatible_str :: string
  dts_extra_properties :: string

record core =
  confs :: "conf list"
  ports :: "port list"
  wires :: "(string \<times> signal list) list"
  subblocks :: "subblock list"
  sw_modules :: "sw_module list"

datatype py_error = KeyError string

subsection \<open>The description\<close>

definition sig :: "string \<Rightarrow> sig_width \<Rightarrow> signal" where
  "sig n w = \<lparr>sig_name = n, width_of = w\<rparr>"

definition IF_DISPLAY_NAME :: "string \<Rightarrow> string option" where
  "IF_DISPLAY_NAME =
     [''iob'' \<mapsto> ''IOb'', ''axil'' \<mapsto> ''AXI-Lite'', ''wb'' \<mapsto> ''Wishbone'']"

definition CSR_IF :: "(string \<Rightarrow> string option) \<Rightarrow> string" where
  "CSR_IF py_params_dict = (case py_params_dict ''csr_if'' of Some x \<Rightarrow> x | None \<Rightarrow> ''iob'')"

definition clint_confs :: "conf list" where
  "clint_confs =
     [\<lparr>conf_name = ''DATA_W'', conf_val = ''32'', conf_min = Some ''NA'', conf_max = Some ''NA''\<rparr>,
      \<lparr>conf_name = ''ADDR_W'', conf_val = ''16'', conf_min = Some ''NA'', conf_max = Some ''NA''\<rparr>,
      \<lparr>conf_name = ''N_CORES'', conf_val = ''1'', conf_min = Some ''NA'', conf_max = Some ''8''\<rparr>,
      \<lparr>conf_name = ''FREQ'', conf_val = ''100000000'', conf_min = None, conf_max = None\<rparr>]"

definition clint_ports :: "string \<Rightarrow> string \<Rightarrow> port list" where
  "clint_ports csr_if display_name =
     [\<lparr>port_name = ''clk_en_rst_s'', port_descr = ''Clock, clock enable and reset'',
       signals = Interface ''iob_clk'' []\<rparr>,
      \<lparr>port_name = ''rt_clk_i'', port_descr = [], signals = Signals [sig ''rt_clk_i'' (Expr ''1'')]\<rparr>,
      \<lparr>port_name = ''interrupt_o'', port_descr = ''RISC-V interrupt interface'',
       signals = Signals [sig ''mtip_o'' (Expr ''N_CORES''), sig ''msip_o'' (Expr ''N_CORES'')]\<rparr>,
      \<lparr>port_name = ''timebase_o'', port_descr = ''Timebase interface'',
       signals = Signals [sig ''mtime_o'' (Expr ''64'')]\<rparr>,
      \<lparr>port_name = ''csrs_cbus_s'',
       port_descr = ''Control and status interface, when selecting the '' @ display_name @ '' CSR interface.'',
       signals = Interface csr_if [(''ADDR_W'', 16), (''DATA_W'', 32), (''STRB_W'', 4)]\<rparr>]"

definition clint_wires :: "(string \<times> signal list) list" where
  "clint_wires =
     [(''internal_wires'',
       [sig ''write'' (Bits 1), sig ''iob_rdata_reg'' (Expr ''DATA_W''), sig ''mtimecmp'' (Expr ''N_CORES*64''),
        sig ''mtip_reg'' (Expr ''N_CORES''), sig ''msip_reg'' (Expr ''N_CORES''),
        sig ''increment_timer'' (Bits 1), sig ''increment_timer_r'' (Bits 1)]),
      (''cnt_en'', [sig ''counter_e'' (Bits 1)]),
      (''cnt_rst'', [sig ''counter_e_inverted'' (Bits 1)]),
      (''cnt_o'', [sig ''counter'' (Expr ''10'')])]"

text \<open>The register block \<open>iob_csrs\<close> is there for the documentation only.\<close>

definition clint_subblocks :: "subblock list" where
  "clint_subblocks =
     [\<lparr>sub_core = ''iob_csrs'', instantiate = False, instance_name = ''csrs'',
       csrs = [\<lparr>csr_name = ''dummy_reg'', csr_type = ''NOAUTO'', csr_mode = ''W'', n_bits = 32, rst_val = 0,
         log2n_items = 14\<rparr>], sub_csr_if = Some ''iob'',
       sub_parameters = [], sub_connect = [(''clk_en_rst_s'', ''clk_en_rst_s'')]\<rparr>,
      \<lparr>sub_core = ''iob_counter'', instantiate = True, instance_name = ''iob_counter_0'', csrs = [],
       sub_csr_if = None, sub_parameters = [(''DATA_W'', ''10''), (''RST_VAL'', ''0'')],
       sub_connect = [(''clk_en_rst_s'', ''clk_en_rst_s''), (''rst_i'', ''cnt_rst''),
         (''en_i'', ''cnt_en''), (''data_o'', ''cnt_o'')]\<rparr>]"

definition clint_dts :: string where
  "clint_dts = concat (map (\<lambda>l. CHR 0x0A # l)
     [''       interrupts-extended = < &CPU0_intc 3'',
      ''                               &CPU0_intc 7 >;'',
      ''       reg-names = '' @ CHR 0x22 # ''control'' @ CHR 0x22 # '';'', []])"

definition clint_sw_modules :: "sw_module list" where
  "clint_sw_modules =
     [\<lparr>sw_core = ''iob_linux_device_drivers'', compatible_str = ''riscv,clint0'',
       dts_extra_properties = clint_dts\<rparr>]"

text \<open>\<open>IF_DISPLAY_NAME[CSR_IF]\<close> raises a \<open>KeyError\<close> for an interface without a name.\<close>

definition setup_core :: "(string \<Rightarrow> string option) \<Rightarrow> py_error + core" where
  "setup_core py_params_dict =
     (let csr_if = CSR_IF py_params_dict in
      case IF_DISPLAY_NAME csr_if of
        None \<Rightarrow> Inl (KeyError csr_if)
      | Some name \<Rightarrow>
          Inr \<lparr>confs = clint_confs, ports = clint_ports csr_if name, wires = clint_wires,
               subblocks = clint_subblocks, sw_modules = clint_sw_modules\<rparr>)"

subsection \<open>Reading the description\<close>

definition digit :: "char \<Rightarrow> nat option" where
  "digit c = (let n = of_char c in if 48 \<le> n \<and> n \<le> 57 then Some (n - 48) else None)"

definition decimal :: "string \<Rightarrow> nat option" where
  "decimal s = (if s = [] then None else
     fold (\<lambda>c acc. Option.bind acc (\<lambda>n. map_option (\<lambda>d. 10 * n + d) (digit c))) s (Some 0))"

definition split_at :: "(char \<Rightarrow> bool) \<Rightarrow> string \<Rightarrow> string list" where
  "split_at p s = foldr (\<lambda>c ws. if p c then [] # ws else (c # hd ws) # tl ws) s [[]]"

text \<open>The value of a width: a product of numbers and parameters.\<close>

definition width_value :: "(string \<Rightarrow> nat option) \<Rightarrow> sig_width \<Rightarrow> nat option" where
  "width_value env w =
     (case w of
        Bits n \<Rightarrow> Some n
      | Expr e \<Rightarrow>
          fold (\<lambda>f acc. Option.bind acc (\<lambda>n. map_option (\<lambda>m. n * m)
              (case decimal f of Some k \<Rightarrow> Some k | None \<Rightarrow> env f)))
            (split_at (\<lambda>c. c = CHR ''*'') e) (Some 1))"

definition conf_nat :: "core \<Rightarrow> string \<Rightarrow> nat option" where
  "conf_nat c n = Option.bind (find (\<lambda>x. conf_name x = n) (confs c)) (\<lambda>x. decimal (conf_val x))"

definition core_signals :: "core \<Rightarrow> signal list" where
  "core_signals c =
     concat (map snd (wires c)) @
     concat (map (\<lambda>p. case signals p of Signals xs \<Rightarrow> xs | Interface _ _ \<Rightarrow> []) (ports c))"

text \<open>The bits a declared signal carries in the RTL model, least significant first (unknown read data as
  zeros). \<open>rt_clk_i\<close> is declared and not used.\<close>

definition word_bits :: "'a::len word \<Rightarrow> bool list" where
  "word_bits w = map (bit w) [0..<LENGTH('a)]"

definition signal_value :: "params \<Rightarrow> clint_in \<Rightarrow> clint \<Rightarrow> string \<Rightarrow> bool list option" where
  "signal_value P i s = map_of
     [(''write'', [write_en i]),
      (''iob_rdata_reg'', word_bits (case iob_rdata_reg s of Some v \<Rightarrow> v | None \<Rightarrow> 0)),
      (''mtimecmp'', concat (map word_bits (mtimecmp s))),
      (''mtip_reg'', mtip_o P (arst_i i) s),
      (''msip_reg'', msip_reg s),
      (''increment_timer'', [increment_timer P s]),
      (''increment_timer_r'', [increment_timer_r s]),
      (''counter_e'', [counter_e P s]),
      (''counter_e_inverted'', [\<not> counter_e P s]),
      (''counter'', word_bits (counter s)),
      (''mtip_o'', mtip_o P (arst_i i) s),
      (''msip_o'', msip_o s),
      (''mtime_o'', word_bits (mtime s))]"

text \<open>The bits on the wire that a sub-block's pin is connected to.\<close>

definition connected :: "core \<Rightarrow> (string \<Rightarrow> bool list option) \<Rightarrow> subblock \<Rightarrow> string \<Rightarrow> bool list option" where
  "connected c val b pin =
     Option.bind (map_of (sub_connect b) pin) (\<lambda>w.
     map_option (\<lambda>xs. concat (map (\<lambda>x. case val (sig_name x) of Some bs \<Rightarrow> bs | None \<Rightarrow> []) xs))
       (map_of (wires c) w))"

text \<open>The cells of \<open>interrupts-extended\<close>: a reference to an interrupt controller and a number.\<close>

fun interrupt_cells :: "string list \<Rightarrow> (string \<times> nat) list" where
  "interrupt_cells (r # n # ws) =
     (case decimal n of
        Some k \<Rightarrow> (r, k) # interrupt_cells ws
      | None \<Rightarrow> interrupt_cells (n # ws))"
| "interrupt_cells _ = []"

definition dts_interrupts :: "core \<Rightarrow> (string \<times> nat) list" where
  "dts_interrupts c = interrupt_cells (filter (\<lambda>w. w \<noteq> [])
     (split_at (\<lambda>x. x = CHR '' '' \<or> x = CHR 0x0A) (concat (map dts_extra_properties (sw_modules c)))))"

lemma setup_core_cases:
  assumes "setup_core d = Inr c"
  obtains name where "IF_DISPLAY_NAME (CSR_IF d) = Some name"
    "c = \<lparr>confs = clint_confs, ports = clint_ports (CSR_IF d) name, wires = clint_wires,
       subblocks = clint_subblocks, sw_modules = clint_sw_modules\<rparr>"
  using assms by (auto simp: setup_core_def Let_def split: option.splits)

lemma clint_dts_cells:
  "interrupt_cells (filter (\<lambda>w. w \<noteq> []) (split_at (\<lambda>x. x = CHR '' '' \<or> x = CHR 0x0A) clint_dts)) =
     [(''&CPU0_intc'', 3), (''&CPU0_intc'', 7)]"
  by code_simp

lemmas read_defs =
  width_value_def split_at_def decimal_def digit_def Let_def sig_def

lemma length_word_bits [simp]:
  "length (word_bits (w :: 'a::len word)) = LENGTH('a)"
  "length (concat (map word_bits (ws :: 'a word list))) = length ws * LENGTH('a)"
  by (simp_all add: word_bits_def length_concat comp_def sum_list_triv)

text \<open>The pieces of the property, for the description of any accepted interface.\<close>

lemma declared_widths:
  assumes "clint_wf P s" and "env ''N_CORES'' = Some (N_CORES P)" and "env ''DATA_W'' = Some 32"
  shows "\<forall>x \<in> set (core_signals \<lparr>confs = xs, ports = clint_ports i name, wires = clint_wires, subblocks = bs,
      sw_modules = ms\<rparr>). sig_name x \<noteq> ''rt_clk_i'' \<longrightarrow>
    width_value env (width_of x) = map_option length (signal_value P j s (sig_name x)) \<and>
    signal_value P j s (sig_name x) \<noteq> None"
  using assms
  by (simp add: core_signals_def clint_wires_def clint_ports_def signal_value_def clint_wf_def mtip_o_def
      msip_o_def read_defs)

lemma counter_connections:
  fixes c :: core
  assumes "wires c = clint_wires" and "b \<in> set clint_subblocks" and "instantiate b"
  shows "connected c (signal_value P i s) b ''rst_i'' = Some [\<not> counter_e P s]"
    and "connected c (signal_value P i s) b ''en_i'' = Some [counter_e P s]"
    and "connected c (signal_value P i s) b ''data_o'' = Some (word_bits (counter s))"
    and "map_of (sub_parameters b) ''DATA_W'' = Some ''10''" and "map_of (sub_parameters b) ''RST_VAL'' = Some ''0''"
    and "sub_core b = ''iob_counter''"
  using assms(2,3) by (auto simp: connected_def assms(1) clint_subblocks_def clint_wires_def signal_value_def sig_def)

subsection \<open>Properties\<close>

text \<open>C31: the generator description fits the model, for every interface \<open>setup\<close> accepts (the three of
  \<open>IF_DISPLAY_NAME\<close>; any other raises): the default parameters are those of the RTL model; the bus
  port has its address, data and strobe widths; every declared wire and output, registers and
  internal signals alike, is as wide as the value it carries in the model, for any number of harts
  (only the unused \<open>rt_clk_i\<close> is not in the model); the one instantiated sub-block is the counter,
  the wires on its reset and enable pins carry what the model's counter step takes as reset and
  enable, its output drives the model's counter, its width is the counter's and its reset value is
  the counter's after a reset; the maximal \<open>N_CORES\<close> is the one the decoder is proved for; and the
  device tree connects the interrupts with the numbers of machine software and machine timer
  interrupts in \<open>riscv-interrupts.h\<close>.\<close>

theorem setup_fits_model:
  assumes "setup_core d = Inr c" and "clint_wf P s" and "cells_ok C"
    and "env ''N_CORES'' = Some (N_CORES P)" and "env ''DATA_W'' = Some (size (iob_wdata_i i))"
  shows "CSR_IF d \<in> {''iob'', ''axil'', ''wb''} \<and>
    map (conf_nat c) [''DATA_W'', ''ADDR_W'', ''N_CORES'', ''FREQ''] =
      map Some [size (iob_wdata_i i), size (iob_addr_i i), N_CORES default_params, FREQ default_params] \<and>
    (\<exists>p \<in> set (ports c). signals p = Interface (CSR_IF d)
       [(''ADDR_W'', size (iob_addr_i i)), (''DATA_W'', size (iob_wdata_i i)), (''STRB_W'', size (iob_wstrb_i i))]) \<and>
    (\<forall>x \<in> set (core_signals c). sig_name x \<noteq> ''rt_clk_i'' \<longrightarrow>
       width_value env (width_of x) = map_option length (signal_value P i s (sig_name x)) \<and>
       signal_value P i s (sig_name x) \<noteq> None) \<and>
    (\<exists>b. filter instantiate (subblocks c) = [b] \<and> sub_core b = ''iob_counter'' \<and>
       (\<exists>r e q. connected c (signal_value P i s) b ''rst_i'' = Some [r] \<and>
          connected c (signal_value P i s) b ''en_i'' = Some [e] \<and>
          connected c (signal_value P i s) b ''data_o'' = Some (word_bits q) \<and> q = counter s \<and>
          counter (clint_cycle C P i s) = iob_counter C (arst_i i) (cke_i i) r e q) \<and>
       Option.bind (map_of (sub_parameters b) ''DATA_W'') decimal = Some (size (counter s)) \<and>
       (\<forall>j t. arst_i j \<longrightarrow> Option.bind (map_of (sub_parameters b) ''RST_VAL'') decimal =
          Some (unat (counter (clint_cycle C P j t))))) \<and>
    (\<exists>x \<in> set (confs c). \<exists>m. conf_name x = ''N_CORES'' \<and> Option.bind (conf_max x) decimal = Some m \<and>
       (\<forall>Q. params_ok Q = (1 \<le> N_CORES Q \<and> N_CORES Q \<le> m))) \<and>
    dts_interrupts c = [(''&CPU0_intc'', RISCV_INT_POS MSI), (''&CPU0_intc'', RISCV_INT_POS MTI)]"
proof (intro conjI)
  obtain name where name: "IF_DISPLAY_NAME (CSR_IF d) = Some name" and
    c: "c = \<lparr>confs = clint_confs, ports = clint_ports (CSR_IF d) name, wires = clint_wires,
       subblocks = clint_subblocks, sw_modules = clint_sw_modules\<rparr>"
    using setup_core_cases [OF assms(1)] .
  show "CSR_IF d \<in> {''iob'', ''axil'', ''wb''}"
    using name by (auto simp: IF_DISPLAY_NAME_def split: if_splits)
  show "map (conf_nat c) [''DATA_W'', ''ADDR_W'', ''N_CORES'', ''FREQ''] =
      map Some [size (iob_wdata_i i), size (iob_addr_i i), N_CORES default_params, FREQ default_params]"
    by (simp add: c conf_nat_def clint_confs_def read_defs word_size) (simp add: default_params_def)
  show "\<exists>p \<in> set (ports c). signals p = Interface (CSR_IF d)
      [(''ADDR_W'', size (iob_addr_i i)), (''DATA_W'', size (iob_wdata_i i)), (''STRB_W'', size (iob_wstrb_i i))]"
    by (simp add: c clint_ports_def word_size)
  show "\<forall>x \<in> set (core_signals c). sig_name x \<noteq> ''rt_clk_i'' \<longrightarrow>
      width_value env (width_of x) = map_option length (signal_value P i s (sig_name x)) \<and>
      signal_value P i s (sig_name x) \<noteq> None"
    unfolding c by (rule declared_widths) (use assms in \<open>simp_all add: word_size\<close>)
  obtain b where b: "filter instantiate (subblocks c) = [b]" "b \<in> set clint_subblocks" "instantiate b"
    by (simp add: c clint_subblocks_def)
  have "wires c = clint_wires" by (simp add: c)
  note pins = counter_connections [OF this b(2,3)]
  have "counter (clint_cycle C P j t) = 0" if "arst_i j" for j t
    using that assms(3) by (simp add: next_counter_def cells_ok_def)
  then show "\<exists>b. filter instantiate (subblocks c) = [b] \<and> sub_core b = ''iob_counter'' \<and>
       (\<exists>r e q. connected c (signal_value P i s) b ''rst_i'' = Some [r] \<and>
          connected c (signal_value P i s) b ''en_i'' = Some [e] \<and>
          connected c (signal_value P i s) b ''data_o'' = Some (word_bits q) \<and> q = counter s \<and>
          counter (clint_cycle C P i s) = iob_counter C (arst_i i) (cke_i i) r e q) \<and>
       Option.bind (map_of (sub_parameters b) ''DATA_W'') decimal = Some (size (counter s)) \<and>
       (\<forall>j t. arst_i j \<longrightarrow> Option.bind (map_of (sub_parameters b) ''RST_VAL'') decimal =
          Some (unat (counter (clint_cycle C P j t))))"
    by (intro exI [of _ b]) (simp add: b(1) pins next_counter_def read_defs word_size)
  show "\<exists>x \<in> set (confs c). \<exists>m. conf_name x = ''N_CORES'' \<and> Option.bind (conf_max x) decimal = Some m \<and>
      (\<forall>Q. params_ok Q = (1 \<le> N_CORES Q \<and> N_CORES Q \<le> m))"
    by (simp add: c clint_confs_def params_ok_def read_defs)
  show "dts_interrupts c = [(''&CPU0_intc'', RISCV_INT_POS MSI), (''&CPU0_intc'', RISCV_INT_POS MTI)]"
    by (simp add: dts_interrupts_def c clint_sw_modules_def clint_dts_cells)
qed

lemma setup_fits_model_witness:
  "\<exists>c b. setup_core (\<lambda>_. None) = Inr c \<and> filter instantiate (subblocks c) = [b] \<and>
     connected c (signal_value default_params (demo_input False False 0 0 0) demo_clint) b ''data_o'' =
       Some (word_bits (0 :: 10 word)) \<and>
     dts_interrupts c = [(''&CPU0_intc'', 3), (''&CPU0_intc'', 7)]"
proof -
  obtain c where c: "setup_core (\<lambda>_. None) = Inr c"
    by (simp add: setup_core_def CSR_IF_def IF_DISPLAY_NAME_def)
  have wf: "clint_wf default_params demo_clint" by (simp add: clint_wf_def demo_defs)
  have "counter demo_clint = 0" by (simp add: demo_defs)
  with setup_fits_model [OF c wf cells_ok_std_cells, of "[''N_CORES'' \<mapsto> 1, ''DATA_W'' \<mapsto> 32]"
      "demo_input False False 0 0 0"] c
  show ?thesis by (auto simp: default_params_def word_size)
qed

end
