(* ===== verification/Clint_Driver.thy ===== *)
theory Clint_Driver
  imports Clint_Spec Complex_Main "HOL-Library.Log_Nat"
begin

text \<open>
  The C driver \<open>software/src/iob_clint.c\<close> and \<open>iob_clint.h\<close>, one definition per function and
  macro. An address computation is C \<open>int\<close> arithmetic: every \<open>+\<close> and \<open>*\<close> is range-checked
  and \<open>None\<close> when it overflows, which is undefined behaviour. The conversion of the sum to a
  pointer is \<open>of_int\<close> into \<open>XLEN\<close> bits, which sign-extends.
  \<open>XLEN\<close> (\<open>__riscv_xlen\<close>) is the length of the pointer type \<open>'x word\<close>; the \<open>#if\<close> of the source is
  an \<open>if\<close> on it. Volatile accesses are the operations of a record \<open>mmio\<close>, the interface to
  the device; \<open>None\<close> as their result means that the access has no defined value.
\<close>

subsection \<open>The interface the driver calls\<close>

record ('p, 's) mmio =
  load32 :: "'p \<Rightarrow> 's \<Rightarrow> (u32 \<times> 's) option"
  store32 :: "'p \<Rightarrow> u32 \<Rightarrow> 's \<Rightarrow> 's option"
  load64 :: "'p \<Rightarrow> 's \<Rightarrow> (u64 \<times> 's) option"
  store64 :: "'p \<Rightarrow> u64 \<Rightarrow> 's \<Rightarrow> 's option"

text \<open>The driver's state: its static variable and the device.\<close>

record 's drv =
  clint_base :: int
  dev :: 's

subsection \<open>C integer arithmetic\<close>

definition c_int :: "int \<Rightarrow> int option" where
  "c_int n = (if - (2 ^ 31) \<le> n \<and> n < 2 ^ 31 then Some n else None)"

definition c_add :: "int \<Rightarrow> int \<Rightarrow> int option" where
  "c_add a b = c_int (a + b)"

definition c_mul :: "int \<Rightarrow> int \<Rightarrow> int option" where
  "c_mul a b = c_int (a * b)"

subsection \<open>Macros of \<open>iob_clint.h\<close>\<close>

definition MSIP_BASE :: int where "MSIP_BASE = 0"
definition MTIMECMP_BASE :: int where "MTIMECMP_BASE = 0x4000"
definition MTIME_BASE :: int where "MTIME_BASE = 0xBFF8"
definition MTIME_FREQ_HZ :: int where "MTIME_FREQ_HZ = 100000"

text \<open>\<open>MTIMER_SECONDS_TO_CLOCKS\<close> with an \<open>int\<close> argument: the product is an \<open>int\<close>.\<close>

definition MTIMER_SECONDS_TO_CLOCKS :: "int \<Rightarrow> u64 option" where
  "MTIMER_SECONDS_TO_CLOCKS SEC = map_option of_int (c_mul SEC MTIME_FREQ_HZ)"

text \<open>C38: the range of \<open>MTIMER_SECONDS_TO_CLOCKS\<close>. The conversion to 64 bits comes after the product,
  so the macro is defined for at most 21474 whole seconds (under six hours) either way; beyond,
  the \<open>int\<close> product overflows.\<close>

theorem seconds_to_clocks_range:
  "MTIMER_SECONDS_TO_CLOCKS SEC =
     (if - 21474 \<le> SEC \<and> SEC \<le> 21474 then Some (of_int (SEC * 100000)) else None)"
  by (simp add: MTIMER_SECONDS_TO_CLOCKS_def c_mul_def c_int_def MTIME_FREQ_HZ_def)

text \<open>With a floating-point argument the product is a \<open>double\<close>, of the argument rounded to one.
  \<open>to_double\<close> rounds a positive number to 53 significant bits; it rounds a tie up, which does not
  occur for the constants of the firmware.\<close>

definition binary_exponent :: "rat \<Rightarrow> int" where
  "binary_exponent x =
     (if 1 \<le> x then int (floorlog 2 (nat \<lfloor>x\<rfloor>)) - 1 else - int (floorlog 2 (nat (\<lceil>1 / x\<rceil> - 1))))"

definition to_double :: "rat \<Rightarrow> rat" where
  "to_double x = (let k = 52 - binary_exponent x in of_int (round (x * 2 powi k)) / 2 powi k)"

definition MTIMER_SECONDS_TO_CLOCKS_double :: "rat \<Rightarrow> u64" where
  "MTIMER_SECONDS_TO_CLOCKS_double SEC =
     of_int \<lfloor>to_double (to_double SEC * of_int MTIME_FREQ_HZ)\<rfloor>"

lemma one_millisecond: "MTIMER_SECONDS_TO_CLOCKS_double (1 / 1000) = 100"
  by code_simp

subsection \<open>Volatile accesses\<close>

definition rd32 :: "('x::len word, 's) mmio \<Rightarrow> int \<Rightarrow> 's drv \<Rightarrow> (u32 \<times> 's drv) option" where
  "rd32 M a st = do {
     (v, s) \<leftarrow> load32 M (of_int a) (dev st);
     Some (v, st\<lparr>dev := s\<rparr>)
   }"

definition wr32 :: "('x::len word, 's) mmio \<Rightarrow> int \<Rightarrow> u32 \<Rightarrow> 's drv \<Rightarrow> 's drv option" where
  "wr32 M a v st = do {
     s \<leftarrow> store32 M (of_int a) v (dev st);
     Some (st\<lparr>dev := s\<rparr>)
   }"

definition rd64 :: "('x::len word, 's) mmio \<Rightarrow> int \<Rightarrow> 's drv \<Rightarrow> (u64 \<times> 's drv) option" where
  "rd64 M a st = do {
     (v, s) \<leftarrow> load64 M (of_int a) (dev st);
     Some (v, st\<lparr>dev := s\<rparr>)
   }"

definition wr64 :: "('x::len word, 's) mmio \<Rightarrow> int \<Rightarrow> u64 \<Rightarrow> 's drv \<Rightarrow> 's drv option" where
  "wr64 M a v st = do {
     s \<leftarrow> store64 M (of_int a) v (dev st);
     Some (st\<lparr>dev := s\<rparr>)
   }"

subsection \<open>The functions of \<open>iob_clint.c\<close>\<close>

definition clint_init :: "int \<Rightarrow> 's drv \<Rightarrow> 's drv" where
  "clint_init base_address st = st\<lparr>clint_base := base_address\<rparr>"

definition clint_set_timer :: "('x::len word, 's) mmio \<Rightarrow> u64 \<Rightarrow> 's drv \<Rightarrow> 's drv option" where
  "clint_set_timer M time st = do {
     a \<leftarrow> c_add (clint_base st) MTIME_BASE;
     st \<leftarrow> wr32 M a (ucast (time AND 0x0FFFFFFFF)) st;
     a \<leftarrow> c_add (clint_base st) MTIME_BASE;
     a \<leftarrow> c_add a 4;
     wr32 M a (ucast (drop_bit 32 time)) st
   }"

definition clint_get_timer :: "('x::len word, 's) mmio \<Rightarrow> 's drv \<Rightarrow> (u64 \<times> 's drv) option" where
  "clint_get_timer M st = do {
     a \<leftarrow> c_add (clint_base st) MTIME_BASE;
     (l, st) \<leftarrow> rd32 M a st;
     let read_time = (ucast l :: u64);
     a \<leftarrow> c_add (clint_base st) MTIME_BASE;
     a \<leftarrow> c_add a 4;
     (h, st) \<leftarrow> rd32 M a st;
     let read_time = read_time OR push_bit 32 (ucast h);
     Some (read_time, st)
   }"

text \<open>\<open>clint_base + MTIMECMP_BASE + 8 * hart\<close>, and with the final \<open>+ 4\<close>.\<close>

definition mtimecmp_addr :: "'s drv \<Rightarrow> int \<Rightarrow> int option" where
  "mtimecmp_addr st hart = do {
     a \<leftarrow> c_add (clint_base st) MTIMECMP_BASE;
     m \<leftarrow> c_mul 8 hart;
     c_add a m
   }"

definition clint_set_timercmp ::
  "('x::len word, 's) mmio \<Rightarrow> u64 \<Rightarrow> int \<Rightarrow> 's drv \<Rightarrow> 's drv option" where
  "clint_set_timercmp M time hart st = do {
     a \<leftarrow> mtimecmp_addr st hart;
     a \<leftarrow> c_add a 4;
     st \<leftarrow> wr32 M a 0xFFFFFFFF st;
     a \<leftarrow> mtimecmp_addr st hart;
     st \<leftarrow> wr32 M a (ucast (time AND 0x0FFFFFFFF)) st;
     a \<leftarrow> mtimecmp_addr st hart;
     a \<leftarrow> c_add a 4;
     wr32 M a (ucast (drop_bit 32 time)) st
   }"

definition clint_get_timercmp ::
  "('x::len word, 's) mmio \<Rightarrow> int \<Rightarrow> 's drv \<Rightarrow> (u64 \<times> 's drv) option" where
  "clint_get_timercmp M hart st = do {
     a \<leftarrow> mtimecmp_addr st hart;
     (l, st) \<leftarrow> rd32 M a st;
     let read_time = (ucast l :: u64);
     a \<leftarrow> mtimecmp_addr st hart;
     a \<leftarrow> c_add a 4;
     (h, st) \<leftarrow> rd32 M a st;
     let read_time = read_time OR push_bit 32 (ucast h);
     Some (read_time, st)
   }"

text \<open>\<open>clint_base + MSIP_BASE + 4 * hart\<close>; \<open>msip_value\<close> is an \<open>unsigned long\<close>.\<close>

definition msip_addr :: "'s drv \<Rightarrow> int \<Rightarrow> int option" where
  "msip_addr st hart = do {
     a \<leftarrow> c_add (clint_base st) MSIP_BASE;
     m \<leftarrow> c_mul 4 hart;
     c_add a m
   }"

definition clint_set_msip ::
  "('x::len word, 's) mmio \<Rightarrow> 'x word \<Rightarrow> int \<Rightarrow> 's drv \<Rightarrow> 's drv option" where
  "clint_set_msip M msip_value hart st = do {
     a \<leftarrow> msip_addr st hart;
     wr32 M a (ucast msip_value) st
   }"

definition clint_get_msip :: "('x::len word, 's) mmio \<Rightarrow> int \<Rightarrow> 's drv \<Rightarrow> (u32 \<times> 's drv) option" where
  "clint_get_msip M hart st = do {
     a \<leftarrow> msip_addr st hart;
     rd32 M a st
   }"

text \<open>The polling loop of \<open>mtimer_get_raw_time\<close>, from the pointers \<open>mtimel\<close> and \<open>mtimeh\<close>.\<close>

partial_function (option) mtimer_poll ::
  "('x::len word, 's) mmio \<Rightarrow> int \<Rightarrow> int \<Rightarrow> 's drv \<Rightarrow> (u32 \<times> u32 \<times> 's drv) option" where
  "mtimer_poll M mtimel mtimeh st = do {
     (mtimeh_val, st) \<leftarrow> rd32 M mtimeh st;
     (mtimel_val, st) \<leftarrow> rd32 M mtimel st;
     (h, st) \<leftarrow> rd32 M mtimeh st;
     if mtimeh_val \<noteq> h then mtimer_poll M mtimel mtimeh st
     else Some (mtimeh_val, mtimel_val, st)
   }"

declare mtimer_poll.simps [code]

definition mtimer_get_raw_time :: "('x::len word, 's) mmio \<Rightarrow> 's drv \<Rightarrow> (u64 \<times> 's drv) option" where
  "mtimer_get_raw_time M st =
     (if LENGTH('x) = 64 then do {
        mtime \<leftarrow> c_add (clint_base st) MTIME_BASE;
        rd64 M mtime st
      } else do {
        mtimel \<leftarrow> c_add (clint_base st) MTIME_BASE;
        a \<leftarrow> c_add (clint_base st) MTIME_BASE;
        mtimeh \<leftarrow> c_add a 4;
        (mtimeh_val, mtimel_val, st) \<leftarrow> mtimer_poll M mtimel mtimeh st;
        Some (push_bit 32 (ucast mtimeh_val) OR ucast mtimel_val, st)
      })"

definition mtimer_set_raw_time_cmp ::
  "('x::len word, 's) mmio \<Rightarrow> u64 \<Rightarrow> 's drv \<Rightarrow> 's drv option" where
  "mtimer_set_raw_time_cmp M clock_offset st = do {
     (t, st) \<leftarrow> mtimer_get_raw_time M st;
     let new_mtimecmp = t + clock_offset;
     if LENGTH('x) = 64 then do {
       mtimecmp \<leftarrow> c_add (clint_base st) MTIMECMP_BASE;
       wr64 M mtimecmp new_mtimecmp st
     } else do {
       mtimecmpl \<leftarrow> c_add (clint_base st) MTIMECMP_BASE;
       a \<leftarrow> c_add (clint_base st) MTIMECMP_BASE;
       mtimecmph \<leftarrow> c_add a 4;
       st \<leftarrow> wr32 M mtimecmph 0xFFFFFFFF st;
       st \<leftarrow> wr32 M mtimecmpl (ucast (new_mtimecmp AND 0x0FFFFFFFF)) st;
       wr32 M mtimecmph (ucast (drop_bit 32 new_mtimecmp)) st
     }
   }"

end
