(* ===== verification/Clint_Device.thy ===== *)
theory Clint_Device
  imports Clint_Driver
begin

text \<open>
  The contract between the C driver and the device, as a locale: what a 32-bit load and store at
  a mapped register do to the abstract CLINT, while at most \<open>B\<close> ticks pass in every access. The
  driver's functions are proved correct once, against this contract.
\<close>

subsection \<open>Addresses of the registers\<close>

lemma decode_registers [simp]:
  assumes "n \<le> 8"
  shows "decode n 0xBFF8 = Some (Mtime False)" "decode n 0xBFFC = Some (Mtime True)"
    and "k < n \<Longrightarrow> decode n (0x4000 + 8 * k) = Some (Mtimecmp k False)"
    and "k < n \<Longrightarrow> decode n (0x4004 + 8 * k) = Some (Mtimecmp k True)"
    and "k < n \<Longrightarrow> decode n (4 * k) = Some (Msip k)"
proof -
  show "decode n 0xBFF8 = Some (Mtime False)" "decode n 0xBFFC = Some (Mtime True)"
    using assms by (simp_all add: decode_def)
  assume k: "k < n"
  have "(0x4000 + 8 * k) div 4 = 2 * (0x800 + k)" and "(0x4004 + 8 * k) div 4 = 2 * (0x800 + k) + 1"
    by simp_all
  then show "decode n (0x4000 + 8 * k) = Some (Mtimecmp k False)"
    "decode n (0x4004 + 8 * k) = Some (Mtimecmp k True)" "decode n (4 * k) = Some (Msip k)"
    using k assms by (simp_all add: decode_def)
qed

lemma decode_bound: "n \<le> 8 \<Longrightarrow> decode n a = Some r \<Longrightarrow> a < 0xC000"
  by (auto simp: decode_def split: if_splits)

text \<open>A base address for which no address computation of the driver overflows.\<close>

definition base_ok :: "int \<Rightarrow> bool" where
  "base_ok b \<longleftrightarrow> - (2 ^ 31) \<le> b \<and> b + 0x10000 \<le> 2 ^ 31"

lemma c_add_base: "base_ok b \<Longrightarrow> 0 \<le> m \<Longrightarrow> m < 0x10000 \<Longrightarrow> c_add b m = Some (b + m)"
  by (simp add: base_ok_def c_add_def c_int_def)

lemma c_add_base2:
  "base_ok b \<Longrightarrow> 0 \<le> m + n \<Longrightarrow> m + n < 0x10000 \<Longrightarrow> c_add (b + m) n = Some (b + (m + n))"
  by (simp add: base_ok_def c_add_def c_int_def)

lemma mtimecmp_addr_eq:
  "base_ok (clint_base st) \<Longrightarrow> k < 9 \<Longrightarrow>
     mtimecmp_addr st (int k) = Some (clint_base st + int (0x4000 + 8 * k))"
  by (simp add: mtimecmp_addr_def MTIMECMP_BASE_def c_mul_def c_int_def c_add_base c_add_base2)

lemma msip_addr_eq:
  "base_ok (clint_base st) \<Longrightarrow> k < 9 \<Longrightarrow>
     msip_addr st (int k) = Some (clint_base st + int (4 * k))"
  by (simp add: msip_addr_def MSIP_BASE_def c_mul_def c_int_def c_add_def base_ok_def)

subsection \<open>The contract\<close>

locale clint_device =
  fixes M :: "('x::len word, 's) mmio"
    and base :: int
    and N B :: nat
    and inv :: "'s \<Rightarrow> bool"
    and vw :: "'s \<Rightarrow> aclint"
    and tr :: "'s \<Rightarrow> aclint list"
  assumes inv_base: "inv s \<Longrightarrow> base_ok base"
    and inv_cores: "inv s \<Longrightarrow> N \<le> 8"
    and inv_wf: "inv s \<Longrightarrow> aclint_wf N (vw s)"
    and load: "inv s \<Longrightarrow> decode N off = Some r \<Longrightarrow>
      \<exists>d e xs s'. load32 M (of_int (base + int off)) s = Some (reg_read r (advance d (vw s)), s') \<and>
        d + e \<le> B \<and> vw s' = advance (d + e) (vw s) \<and> inv s' \<and>
        tr s' = xs @ tr s \<and> passes (d + e) xs (vw s)"
    and store: "inv s \<Longrightarrow> decode N off = Some r \<Longrightarrow>
      \<exists>d e xs ys s'. store32 M (of_int (base + int off)) v s = Some s' \<and>
        d + e \<le> B \<and> vw s' = advance e (reg_write r v (advance d (vw s))) \<and> inv s' \<and>
        tr s' = ys @ xs @ tr s \<and> passes d xs (vw s) \<and>
        passes e ys (reg_write r v (advance d (vw s)))"
begin

definition ready :: "'s drv \<Rightarrow> bool" where
  "ready st \<longleftrightarrow> clint_base st = base \<and> inv (dev st)"

abbreviation now :: "'s drv \<Rightarrow> aclint" where
  "now st \<equiv> vw (dev st)"

abbreviation seen :: "'s drv \<Rightarrow> aclint list" where
  "seen st \<equiv> tr (dev st)"

lemma readyD:
  assumes "ready st"
  shows "clint_base st = base" "base_ok base" "N \<le> 8" "inv (dev st)" "aclint_wf N (now st)"
  using assms inv_base inv_cores inv_wf by (auto simp: ready_def)

lemma rd32E:
  assumes "ready st" and "decode N off = Some r"
  obtains d e xs st' where
    "rd32 M (base + int off) st = Some (reg_read r (advance d (now st)), st')"
    "d + e \<le> B" "now st' = advance (d + e) (now st)" "ready st'"
    "seen st' = xs @ seen st" "passes (d + e) xs (now st)"
proof -
  obtain d e xs s' where
    "load32 M (of_int (base + int off)) (dev st) = Some (reg_read r (advance d (now st)), s')"
    "d + e \<le> B" "vw s' = advance (d + e) (now st)" "inv s'"
    "tr s' = xs @ seen st" "passes (d + e) xs (now st)"
    using load assms by (metis ready_def)
  then show ?thesis
    using that [of d "st\<lparr>dev := s'\<rparr>" e xs] assms(1) by (simp add: rd32_def ready_def)
qed

lemma wr32E:
  assumes "ready st" and "decode N off = Some r"
  obtains d e xs ys st' where
    "wr32 M (base + int off) v st = Some st'"
    "d + e \<le> B" "now st' = advance e (reg_write r v (advance d (now st)))" "ready st'"
    "seen st' = ys @ xs @ seen st" "passes d xs (now st)"
    "passes e ys (reg_write r v (advance d (now st)))"
proof -
  obtain d e xs ys s' where
    "store32 M (of_int (base + int off)) v (dev st) = Some s'"
    "d + e \<le> B" "vw s' = advance e (reg_write r v (advance d (now st)))" "inv s'"
    "tr s' = ys @ xs @ seen st" "passes d xs (now st)"
    "passes e ys (reg_write r v (advance d (now st)))"
    using store assms by (metis ready_def)
  then show ?thesis
    using that [of "st\<lparr>dev := s'\<rparr>" d e ys xs] assms(1) by (simp add: wr32_def ready_def)
qed

end

subsection \<open>Functions that access other registers than the time\<close>

text \<open>States a driver call lets an observer see, given the register values it may put there.\<close>

definition seen_as :: "nat \<Rightarrow> aclint list \<Rightarrow> aclint set \<Rightarrow> bool" where
  "seen_as m xs S \<longleftrightarrow> (\<forall>X\<in>set xs. \<exists>n\<le>m. \<exists>A\<in>S. X = advance n A)"

lemma seen_as_append [simp]: "seen_as m (xs @ ys) S \<longleftrightarrow> seen_as m xs S \<and> seen_as m ys S"
  by (auto simp: seen_as_def)

lemma seen_as_mono: "seen_as m xs S \<Longrightarrow> m \<le> n \<Longrightarrow> S \<subseteq> S' \<Longrightarrow> seen_as n xs S'"
  by (meson order_trans seen_as_def subsetD)

lemma seen_as_shift: "seen_as m xs (advance d ` S) \<Longrightarrow> seen_as (d + m) xs S"
  unfolding seen_as_def by (metis (no_types, lifting) add_le_cancel_left advance_simps(5) imageE)

lemma passes_seen_as: "passes m xs A \<Longrightarrow> seen_as m xs {A}"
  by (simp add: passes_def seen_as_def)

definition set_mtimecmp :: "nat \<Rightarrow> u64 \<Rightarrow> aclint \<Rightarrow> aclint" where
  "set_mtimecmp k c A = A\<lparr>a_mtimecmp := (a_mtimecmp A)[k := c]\<rparr>"

lemma reg_write_mtimecmp:
  "reg_write (Mtimecmp k h) v A = set_mtimecmp k (set_half h v (a_mtimecmp A ! k)) A"
  by (simp add: set_mtimecmp_def)

declare reg_write.simps(2) [simp del]

lemma reg_write_mtimecmp_join:
  "reg_write (Mtimecmp k True) v A =
     set_mtimecmp k (join_halves v (get_half False (a_mtimecmp A ! k))) A"
  "reg_write (Mtimecmp k False) v A =
     set_mtimecmp k (join_halves (get_half True (a_mtimecmp A ! k)) v) A"
proof -
  have "set_half True v w = join_halves v (get_half False w)"
    "set_half False v w = join_halves (get_half True w) v" for w
    by (rule half_eqI; simp)+
  then show "reg_write (Mtimecmp k True) v A =
     set_mtimecmp k (join_halves v (get_half False (a_mtimecmp A ! k))) A"
    "reg_write (Mtimecmp k False) v A =
     set_mtimecmp k (join_halves (get_half True (a_mtimecmp A ! k)) v) A"
    by (simp_all only: reg_write_mtimecmp)
qed

lemma set_mtimecmp_twice [simp]: "set_mtimecmp k c (set_mtimecmp k c' A) = set_mtimecmp k c A"
  by (simp add: set_mtimecmp_def)

lemma nth_set_mtimecmp [simp]:
  "aclint_wf n A \<Longrightarrow> k < n \<Longrightarrow> a_mtimecmp (set_mtimecmp k c A) ! k = c"
  by (simp add: set_mtimecmp_def aclint_wf_def)

lemma aclint_wf_set_mtimecmp [simp]: "aclint_wf n (set_mtimecmp k c A) = aclint_wf n A"
  by (simp add: set_mtimecmp_def aclint_wf_def)

lemma advance_set_mtimecmp: "set_mtimecmp k c (advance n A) = advance n (set_mtimecmp k c A)"
  by (simp add: set_mtimecmp_def advance_def)

text \<open>The values a compare register passes through while its two halves are rewritten.\<close>

definition compare_values :: "u64 \<Rightarrow> u64 \<Rightarrow> u64 set" where
  "compare_values old c =
     {old, join_halves 0xFFFFFFFF (get_half False old), join_halves 0xFFFFFFFF (get_half False c), c}"

context clint_device
begin

lemma rd32_regE:
  assumes "ready st" and "decode N off = Some r" and "\<not> is_time r"
  obtains d xs st' where "rd32 M (base + int off) st = Some (reg_read r (now st), st')"
    "d \<le> B" "now st' = advance d (now st)" "ready st'" "seen st' = xs @ seen st"
    "seen_as d xs {now st}"
proof -
  have "reg_read r (advance d A) = reg_read r A" for d A
    using assms(3) by (cases r) simp_all
  then show ?thesis
    using rd32E [OF assms(1,2)] that passes_seen_as by (metis (no_types))
qed

lemma wr32_reg:
  assumes "ready st" and "decode N off = Some r" and "\<not> is_time r"
  shows "\<exists>d xs st'. wr32 M (base + int off) v st = Some st' \<and>
    d \<le> B \<and> now st' = advance d (reg_write r v (now st)) \<and> ready st' \<and> seen st' = xs @ seen st \<and>
    seen_as d xs {now st, reg_write r v (now st)}"
proof -
  obtain d e xs ys st' where w: "wr32 M (base + int off) v st = Some st'"
    "d + e \<le> B" "now st' = advance e (reg_write r v (advance d (now st)))" "ready st'"
    "seen st' = ys @ xs @ seen st" "passes d xs (now st)"
    "passes e ys (reg_write r v (advance d (now st)))"
    using wr32E [OF assms(1,2)] .
  have "seen_as (d + e) xs {now st, reg_write r v (now st)}"
    using passes_seen_as [OF w(6)] by (rule seen_as_mono) simp_all
  moreover have "seen_as (d + e) ys {now st, reg_write r v (now st)}"
    using passes_seen_as [OF w(7)] reg_write_advance [OF assms(3)]
    by (intro seen_as_shift) (auto elim: seen_as_mono)
  ultimately show ?thesis
    using w reg_write_advance [OF assms(3)]
    by (intro exI [of _ "d + e"] exI [of _ "ys @ xs"] exI [of _ st']) simp
qed

text \<open>The three writes of \<open>clint_set_timercmp\<close> and of \<open>mtimer_set_raw_time_cmp\<close>.\<close>

lemma write_compareE:
  assumes "ready st" and "k < N"
  obtains st1 st2 st3 d xs where
    "wr32 M (base + int (0x4004 + 8 * k)) 0xFFFFFFFF st = Some st1"
    "wr32 M (base + int (0x4000 + 8 * k)) (get_half False c) st1 = Some st2"
    "wr32 M (base + int (0x4004 + 8 * k)) (get_half True c) st2 = Some st3"
    "ready st1" "ready st2" "ready st3" "d \<le> 3 * B" "now st3 = advance d (set_mtimecmp k c (now st))"
    "seen st3 = xs @ seen st"
    "seen_as d xs ((\<lambda>v. set_mtimecmp k v (now st)) ` compare_values (a_mtimecmp (now st) ! k) c)"
proof -
  note st = readyD [OF assms(1)]
  let ?old = "a_mtimecmp (now st) ! k" and ?set = "\<lambda>v. set_mtimecmp k v (now st)"
  let ?S = "?set ` compare_values ?old c"
  have dec: "decode N (0x4000 + 8 * k) = Some (Mtimecmp k False)"
    "decode N (0x4004 + 8 * k) = Some (Mtimecmp k True)"
    using st(3) assms(2) by simp_all
  have wf: "aclint_wf N (now st)" by (rule st(5))
  have old: "now st = ?set ?old"
    by (simp add: set_mtimecmp_def)
  obtain d1 xs1 st1 where 1: "wr32 M (base + int (0x4004 + 8 * k)) 0xFFFFFFFF st = Some st1"
    "d1 \<le> B" "now st1 = advance d1 (?set (join_halves 0xFFFFFFFF (get_half False ?old)))" "ready st1"
    "seen st1 = xs1 @ seen st"
    "seen_as d1 xs1 {now st, ?set (join_halves 0xFFFFFFFF (get_half False ?old))}"
    using wr32_reg [OF assms(1) dec(2) is_time_simps(2), of "0xFFFFFFFF"]
    unfolding reg_write_mtimecmp_join by blast
  obtain d2 xs2 st2 where 2: "wr32 M (base + int (0x4000 + 8 * k)) (get_half False c) st1 = Some st2"
    "d2 \<le> B" "now st2 = advance (d1 + d2) (?set (join_halves 0xFFFFFFFF (get_half False c)))" "ready st2"
    "seen st2 = xs2 @ seen st1"
    "seen_as d2 xs2 (advance d1 ` {?set (join_halves 0xFFFFFFFF (get_half False ?old)),
       ?set (join_halves 0xFFFFFFFF (get_half False c))})"
    using wr32_reg [OF 1(4) dec(1) is_time_simps(2), of "get_half False c"] wf assms(2)
    by (auto simp: reg_write_mtimecmp_join 1(3) advance_set_mtimecmp)
  obtain d3 xs3 st3 where 3: "wr32 M (base + int (0x4004 + 8 * k)) (get_half True c) st2 = Some st3"
    "d3 \<le> B" "now st3 = advance (d1 + d2 + d3) (?set c)" "ready st3"
    "seen st3 = xs3 @ seen st2"
    "seen_as d3 xs3 (advance (d1 + d2) ` {?set (join_halves 0xFFFFFFFF (get_half False c)), ?set c})"
    using wr32_reg [OF 2(4) dec(2) is_time_simps(2), of "get_half True c"] wf assms(2)
    by (auto simp: reg_write_mtimecmp_join 2(3) advance_set_mtimecmp)
  have S: "now st \<in> ?S" "?set (join_halves 0xFFFFFFFF (get_half False ?old)) \<in> ?S"
    "?set (join_halves 0xFFFFFFFF (get_half False c)) \<in> ?S" "?set c \<in> ?S"
    using old by (auto simp: compare_values_def)
  have "seen_as (d1 + d2 + d3) xs1 ?S" "seen_as (d1 + d2 + d3) xs2 ?S" "seen_as (d1 + d2 + d3) xs3 ?S"
    using seen_as_mono [OF 1(6)] seen_as_mono [OF seen_as_shift [OF 2(6)]]
      seen_as_mono [OF seen_as_shift [OF 3(6)]] S by simp_all
  then show ?thesis
    using that [OF 1(1) 2(1) 3(1) 1(4) 2(4) 3(4), of "d1 + d2 + d3" "xs3 @ xs2 @ xs1"] 1 2 3 by simp
qed

end

subsection \<open>The driver functions\<close>

context clint_device
begin

lemma hart_addrs:
  assumes "ready st" and "k < N"
  shows "mtimecmp_addr st (int k) = Some (base + int (0x4000 + 8 * k))"
    and "c_add (base + int (0x4000 + 8 * k)) 4 = Some (base + int (0x4004 + 8 * k))"
    and "msip_addr st (int k) = Some (base + int (4 * k))"
  using readyD [OF assms(1)] assms(2)
  by (simp_all add: mtimecmp_addr_eq msip_addr_eq c_add_base2)

lemma time_addrs:
  assumes "ready st"
  shows "c_add (clint_base st) MTIME_BASE = Some (base + int 0xBFF8)"
    and "c_add (base + int 0xBFF8) 4 = Some (base + int 0xBFFC)"
  using readyD [OF assms] by (simp_all add: MTIME_BASE_def c_add_base c_add_base2)

lemma dec:
  assumes "ready st"
  shows "decode N 0xBFF8 = Some (Mtime False)" "decode N 0xBFFC = Some (Mtime True)"
    and "k < N \<Longrightarrow> decode N (0x4000 + 8 * k) = Some (Mtimecmp k False)"
    and "k < N \<Longrightarrow> decode N (0x4004 + 8 * k) = Some (Mtimecmp k True)"
    and "k < N \<Longrightarrow> decode N (4 * k) = Some (Msip k)"
  using readyD(3) [OF assms] by simp_all

lemma set_timercmp_spec:
  assumes "ready st" and "k < N"
  shows "\<exists>d xs st'. clint_set_timercmp M time (int k) st = Some st' \<and> ready st' \<and> d \<le> 3 * B \<and>
    now st' = advance d (set_mtimecmp k time (now st)) \<and> seen st' = xs @ seen st \<and>
    seen_as d xs ((\<lambda>v. set_mtimecmp k v (now st)) ` compare_values (a_mtimecmp (now st) ! k) time)"
proof -
  obtain st1 st2 st3 d xs where w:
    "wr32 M (base + int (0x4004 + 8 * k)) 0xFFFFFFFF st = Some st1"
    "wr32 M (base + int (0x4000 + 8 * k)) (get_half False time) st1 = Some st2"
    "wr32 M (base + int (0x4004 + 8 * k)) (get_half True time) st2 = Some st3"
    "ready st1" "ready st2" "ready st3" "d \<le> 3 * B" "now st3 = advance d (set_mtimecmp k time (now st))"
    "seen st3 = xs @ seen st"
    "seen_as d xs ((\<lambda>v. set_mtimecmp k v (now st)) ` compare_values (a_mtimecmp (now st) ! k) time)"
    using write_compareE [OF assms, where c = time] .
  have "clint_set_timercmp M time (int k) st = Some st3"
    unfolding clint_set_timercmp_def low_half_c high_half_c
    by (simp only: hart_addrs [OF assms] hart_addrs [OF w(4) assms(2)] hart_addrs [OF w(5) assms(2)]
        w(1-3) Option.bind.bind_lunit)
  with w show ?thesis by blast
qed

lemma get_timercmp_spec:
  assumes "ready st" and "k < N"
  shows "\<exists>d xs st'. clint_get_timercmp M (int k) st = Some (a_mtimecmp (now st) ! k, st') \<and>
    ready st' \<and> d \<le> 2 * B \<and> now st' = advance d (now st) \<and> seen st' = xs @ seen st \<and>
    seen_as d xs {now st}"
proof -
  obtain d1 xs1 st1 where 1: "rd32 M (base + int (0x4000 + 8 * k)) st =
      Some (reg_read (Mtimecmp k False) (now st), st1)"
    "d1 \<le> B" "now st1 = advance d1 (now st)" "ready st1" "seen st1 = xs1 @ seen st"
    "seen_as d1 xs1 {now st}"
    using rd32_regE [OF assms(1) dec(3) [OF assms] is_time_simps(2)] .
  obtain d2 xs2 st2 where 2: "rd32 M (base + int (0x4004 + 8 * k)) st1 =
      Some (reg_read (Mtimecmp k True) (now st1), st2)"
    "d2 \<le> B" "now st2 = advance d2 (now st1)" "ready st2" "seen st2 = xs2 @ seen st1"
    "seen_as d2 xs2 {now st1}"
    using rd32_regE [OF 1(4) dec(4) [OF 1(4) assms(2)] is_time_simps(2)] .
  have "seen_as (d1 + d2) (xs2 @ xs1) {now st}"
    using seen_as_mono [OF 1(6), of "d1 + d2"] seen_as_shift [of d2 xs2 d1 "{now st}"] 2(6) 1(3) by simp
  moreover have "clint_get_timercmp M (int k) st = Some (a_mtimecmp (now st) ! k, st2)"
    unfolding clint_get_timercmp_def
    by (simp add: hart_addrs [OF assms] hart_addrs [OF 1(4) assms(2)] 1(1,3) 2(1) join_halves_c
        del: of_nat_add)
  ultimately show ?thesis
    using 1 2 by (intro exI [of _ "d1 + d2"] exI [of _ "xs2 @ xs1"] exI [of _ st2]) simp
qed

lemma set_msip_spec:
  assumes "ready st" and "k < N"
  shows "\<exists>d xs st'. clint_set_msip M v (int k) st = Some st' \<and> ready st' \<and> d \<le> B \<and>
    now st' = advance d (reg_write (Msip k) (ucast v) (now st)) \<and> seen st' = xs @ seen st \<and>
    seen_as d xs {now st, reg_write (Msip k) (ucast v) (now st)}"
  using wr32_reg [OF assms(1) dec(5) [OF assms] is_time_simps(1), of "ucast v"]
  by (simp only: clint_set_msip_def hart_addrs [OF assms] Option.bind.bind_lunit) blast

lemma get_msip_spec:
  assumes "ready st" and "k < N"
  shows "\<exists>d xs st'. clint_get_msip M (int k) st = Some (of_bool (a_msip (now st) ! k), st') \<and>
    ready st' \<and> d \<le> B \<and> now st' = advance d (now st) \<and> seen st' = xs @ seen st \<and>
    seen_as d xs {now st}"
  using rd32_regE [OF assms(1) dec(5) [OF assms] is_time_simps(1)]
  by (simp only: clint_get_msip_def hart_addrs [OF assms] Option.bind.bind_lunit reg_read.simps) metis

end

subsection \<open>The time functions\<close>

definition set_mtime :: "u64 \<Rightarrow> aclint \<Rightarrow> aclint" where
  "set_mtime t A = A\<lparr>a_mtime := t\<rparr>"

lemma set_mtime_simps [simp]:
  "a_mtime (set_mtime t A) = t" "a_mtimecmp (set_mtime t A) = a_mtimecmp A"
  "a_msip (set_mtime t A) = a_msip A" "set_mtime t (set_mtime u A) = set_mtime t A"
  "set_mtime t (advance n A) = set_mtime t A"
  by (simp_all add: set_mtime_def advance_def)

lemma advance_as_set_mtime: "advance n A = set_mtime (a_mtime A + of_nat n) A"
  by (simp add: set_mtime_def advance_def)

lemma reg_write_mtime: "reg_write (Mtime h) v A = set_mtime (set_half h v (a_mtime A)) A"
  by (simp add: set_mtime_def)

context clint_device
begin

text \<open>The two stores of \<open>clint_set_timer\<close>: \<open>m\<close> ticks pass between them and are carried into
  the low half only.\<close>

lemma set_timer_spec:
  assumes "ready st"
  shows "\<exists>m e st'. clint_set_timer M time st = Some st' \<and> ready st' \<and> m + e \<le> 2 * B \<and>
    now st' = set_mtime (join_halves (get_half True time) (get_half False time + of_nat m) + of_nat e)
      (now st)"
proof -
  obtain d1 e1 xs1 ys1 st1 where 1: "wr32 M (base + int 0xBFF8) (get_half False time) st = Some st1"
    "d1 + e1 \<le> B"
    "now st1 = advance e1 (reg_write (Mtime False) (get_half False time) (advance d1 (now st)))"
    "ready st1"
    using wr32E [OF assms dec(1) [OF assms]] by metis
  obtain d2 e2 xs2 ys2 st2 where 2: "wr32 M (base + int 0xBFFC) (get_half True time) st1 = Some st2"
    "d2 + e2 \<le> B"
    "now st2 = advance e2 (reg_write (Mtime True) (get_half True time) (advance d2 (now st1)))"
    "ready st2"
    using wr32E [OF 1(4) dec(2) [OF 1(4)]] by metis
  have join: "set_half True v w = join_halves v (get_half False w)" for v w
    by (rule half_eqI) simp_all
  have "now st2 = set_mtime (join_halves (get_half True time)
      (get_half False time + of_nat (e1 + d2)) + of_nat e2) (now st)"
    by (simp only: 2(3) 1(3) reg_write_mtime join advance_as_set_mtime set_mtime_simps
        get_half_low_add get_set_half_same) (simp only: of_nat_add add.assoc)
  moreover have "clint_set_timer M time st = Some st2"
    unfolding clint_set_timer_def low_half_c high_half_c
    by (simp only: time_addrs [OF assms] time_addrs [OF 1(4)] 1(1) 2(1) Option.bind.bind_lunit)
  ultimately show ?thesis
    using 1 2 by (intro exI [of _ "e1 + d2"] exI [of _ e2] exI [of _ st2]) simp
qed

text \<open>\<open>clint_get_timer\<close> joins the halves of two different instants.\<close>

lemma get_timer_spec:
  assumes "ready st"
  shows "\<exists>m n e st'. clint_get_timer M st =
      Some (join_halves (get_half True (a_mtime (now st) + of_nat n))
        (get_half False (a_mtime (now st) + of_nat m)), st') \<and>
    m \<le> n \<and> n \<le> e \<and> e \<le> 2 * B \<and> ready st' \<and> now st' = advance e (now st)"
proof -
  obtain d1 e1 xs1 st1 where 1: "rd32 M (base + int 0xBFF8) st =
      Some (reg_read (Mtime False) (advance d1 (now st)), st1)"
    "d1 + e1 \<le> B" "now st1 = advance (d1 + e1) (now st)" "ready st1"
    using rd32E [OF assms dec(1) [OF assms]] by metis
  obtain d2 e2 xs2 st2 where 2: "rd32 M (base + int 0xBFFC) st1 =
      Some (reg_read (Mtime True) (advance d2 (now st1)), st2)"
    "d2 + e2 \<le> B" "now st2 = advance (d2 + e2) (now st1)" "ready st2"
    using rd32E [OF 1(4) dec(2) [OF 1(4)]] by metis
  have "clint_get_timer M st = Some (join_halves
      (get_half True (a_mtime (now st) + of_nat (d1 + e1 + d2)))
      (get_half False (a_mtime (now st) + of_nat d1)), st2)"
    unfolding clint_get_timer_def
    by (simp add: time_addrs [OF assms] time_addrs [OF 1(4)] 1(1,3) 2(1) join_halves_c add.assoc
        del: of_nat_numeral)
  then show ?thesis
    using 1 2
    by (intro exI [of _ d1] exI [of _ "d1 + e1 + d2"] exI [of _ "d1 + e1 + d2 + e2"] exI [of _ st2])
      simp
qed

text \<open>One round of the polling loop.\<close>

lemma poll_round:
  assumes "ready st"
  shows "\<exists>i j k e st'. mtimer_poll M (base + int 0xBFF8) (base + int 0xBFFC) st =
    (let t = a_mtime (now st) in
     if get_half True (t + of_nat i) \<noteq> get_half True (t + of_nat k)
     then mtimer_poll M (base + int 0xBFF8) (base + int 0xBFFC) st'
     else Some (get_half True (t + of_nat i), get_half False (t + of_nat j), st')) \<and>
    i \<le> j \<and> j \<le> k \<and> k \<le> e \<and> e \<le> 3 * B \<and> ready st' \<and> now st' = advance e (now st)"
proof -
  obtain d1 e1 xs1 st1 where 1: "rd32 M (base + int 0xBFFC) st =
      Some (reg_read (Mtime True) (advance d1 (now st)), st1)"
    "d1 + e1 \<le> B" "now st1 = advance (d1 + e1) (now st)" "ready st1"
    using rd32E [OF assms dec(2) [OF assms]] by metis
  obtain d2 e2 xs2 st2 where 2: "rd32 M (base + int 0xBFF8) st1 =
      Some (reg_read (Mtime False) (advance d2 (now st1)), st2)"
    "d2 + e2 \<le> B" "now st2 = advance (d2 + e2) (now st1)" "ready st2"
    using rd32E [OF 1(4) dec(1) [OF 1(4)]] by metis
  obtain d3 e3 xs3 st3 where 3: "rd32 M (base + int 0xBFFC) st2 =
      Some (reg_read (Mtime True) (advance d3 (now st2)), st3)"
    "d3 + e3 \<le> B" "now st3 = advance (d3 + e3) (now st2)" "ready st3"
    using rd32E [OF 2(4) dec(2) [OF 2(4)]] by metis
  have p: "mtimer_poll M (base + int 0xBFF8) (base + int 0xBFFC) st =
    (let t = a_mtime (now st) in
     if get_half True (t + of_nat d1) \<noteq> get_half True (t + of_nat (d1 + e1 + d2 + e2 + d3))
     then mtimer_poll M (base + int 0xBFF8) (base + int 0xBFFC) st3
     else Some (get_half True (t + of_nat d1), get_half False (t + of_nat (d1 + e1 + d2)), st3))"
    by (subst mtimer_poll.simps) (simp add: 1(1,3) 2(1,3) 3(1) Let_def add.assoc del: of_nat_numeral)
  have n: "now st3 = advance (d1 + e1 + d2 + e2 + d3 + e3) (now st)"
    by (simp add: 1(3) 2(3) 3(3) add.assoc)
  show ?thesis
    by (rule exI [of _ d1], rule exI [of _ "d1 + e1 + d2"], rule exI [of _ "d1 + e1 + d2 + e2 + d3"],
        rule exI [of _ "d1 + e1 + d2 + e2 + d3 + e3"], rule exI [of _ st3], intro conjI,
        rule p, use n 1(2) 2(2) 3(2,4) in simp_all)
qed

text \<open>The loop ends after at most two rounds, and its two words are the time at one instant.\<close>

lemma poll_spec:
  assumes "ready st" and "6 * B < 2 ^ 32"
  shows "\<exists>n m hi lo st'. mtimer_poll M (base + int 0xBFF8) (base + int 0xBFFC) st = Some (hi, lo, st') \<and>
    join_halves hi lo = a_mtime (now st) + of_nat n \<and> n \<le> m \<and> m \<le> 6 * B \<and> ready st' \<and>
    now st' = advance m (now st)"
proof -
  let ?t = "a_mtime (now st)"
  obtain i j k e st1 where 1: "mtimer_poll M (base + int 0xBFF8) (base + int 0xBFFC) st =
    (let t = ?t in if get_half True (t + of_nat i) \<noteq> get_half True (t + of_nat k)
     then mtimer_poll M (base + int 0xBFF8) (base + int 0xBFFC) st1
     else Some (get_half True (t + of_nat i), get_half False (t + of_nat j), st1))"
    "i \<le> j" "j \<le> k" "k \<le> e" "e \<le> 3 * B" "ready st1" "now st1 = advance e (now st)"
    using poll_round [OF assms(1)] by metis
  show ?thesis
  proof (cases "get_half True (?t + of_nat i) = get_half True (?t + of_nat k)")
    case True
    have "join_halves (get_half True (?t + of_nat i)) (get_half False (?t + of_nat j)) = ?t + of_nat j"
      using 1 assms(2) True by (intro torn_free_join [of i j k]) simp_all
    moreover have "mtimer_poll M (base + int 0xBFF8) (base + int 0xBFFC) st = Some
      (get_half True (?t + of_nat i), get_half False (?t + of_nat j), st1)"
      unfolding 1(1) Let_def using True by simp
    moreover have "j \<le> e" and "e \<le> 6 * B"
      using 1(2-5) by simp_all
    ultimately show ?thesis
      using 1(6,7) by blast
  next
    case False
    obtain i' j' k' e' st2 where 2: "mtimer_poll M (base + int 0xBFF8) (base + int 0xBFFC) st1 =
      (let t = a_mtime (now st1) in if get_half True (t + of_nat i') \<noteq> get_half True (t + of_nat k')
       then mtimer_poll M (base + int 0xBFF8) (base + int 0xBFFC) st2
       else Some (get_half True (t + of_nat i'), get_half False (t + of_nat j'), st2))"
      "i' \<le> j'" "j' \<le> k'" "k' \<le> e'" "e' \<le> 3 * B" "ready st2" "now st2 = advance e' (now st1)"
      using poll_round [OF 1(6)] by metis
    have t: "a_mtime (now st1) + of_nat n = ?t + of_nat (e + n)" for n
      by (simp add: 1(7))
    have same: "get_half True (?t + of_nat (e + i')) = get_half True (?t + of_nat (e + k'))"
      using False 1 2 assms(2) by (intro second_round_agrees [of i k]) simp_all
    have "join_halves (get_half True (?t + of_nat (e + i'))) (get_half False (?t + of_nat (e + j'))) =
        ?t + of_nat (e + j')"
      using 1 2 assms(2) same by (intro torn_free_join [of "e + i'" "e + j'" "e + k'"]) simp_all
    moreover have "mtimer_poll M (base + int 0xBFF8) (base + int 0xBFFC) st = Some
      (get_half True (?t + of_nat (e + i')), get_half False (?t + of_nat (e + j')), st2)"
      unfolding 1(1) Let_def if_P [OF False] 2(1) t using same by simp
    moreover have "now st2 = advance (e + e') (now st)"
      by (simp add: 1(7) 2(7))
    moreover have "e + j' \<le> e + e'" and "e + e' \<le> 6 * B"
      using 1 2 by simp_all
    ultimately show ?thesis
      using 2(6) by blast
  qed
qed

lemma raw_time_spec:
  assumes "ready st" and "6 * B < 2 ^ 32" and "LENGTH('x) \<noteq> 64"
  shows "\<exists>n m st'. mtimer_get_raw_time M st = Some (a_mtime (now st) + of_nat n, st') \<and>
    n \<le> m \<and> m \<le> 6 * B \<and> ready st' \<and> now st' = advance m (now st)"
proof -
  obtain n m hi lo st' where p:
    "mtimer_poll M (base + int 0xBFF8) (base + int 0xBFFC) st = Some (hi, lo, st')"
    "join_halves hi lo = a_mtime (now st) + of_nat n" "n \<le> m" "m \<le> 6 * B" "ready st'"
    "now st' = advance m (now st)"
    using poll_spec [OF assms(1,2)] by metis
  have "mtimer_get_raw_time M st = Some (join_halves hi lo, st')"
    by (simp add: mtimer_get_raw_time_def assms(3) time_addrs [OF assms(1)] p(1) join_halves_def
        del: of_nat_numeral)
  then show ?thesis using p(2-6) by auto
qed

lemma set_raw_time_cmp_spec:
  assumes "ready st" and "6 * B < 2 ^ 32" and "LENGTH('x) \<noteq> 64" and "0 < N"
  shows "\<exists>n m d c xs st1 st'. mtimer_set_raw_time_cmp M clock_offset st = Some st' \<and>
    c = a_mtime (now st) + of_nat n + clock_offset \<and> n \<le> m \<and> m \<le> 6 * B \<and> d \<le> 3 * B \<and>
    ready st1 \<and> now st1 = advance m (now st) \<and> ready st' \<and>
    now st' = advance (m + d) (set_mtimecmp 0 c (now st)) \<and> seen st' = xs @ seen st1 \<and>
    seen_as d xs ((\<lambda>v. set_mtimecmp 0 v (now st1)) ` compare_values (a_mtimecmp (now st) ! 0) c)"
proof -
  obtain n m st1 where t: "mtimer_get_raw_time M st = Some (a_mtime (now st) + of_nat n, st1)"
    "n \<le> m" "m \<le> 6 * B" "ready st1" "now st1 = advance m (now st)"
    using raw_time_spec [OF assms(1-3)] by metis
  let ?c = "a_mtime (now st) + of_nat n + clock_offset"
  obtain s1 s2 s3 d xs where w:
    "wr32 M (base + int (0x4004 + 8 * 0)) 0xFFFFFFFF st1 = Some s1"
    "wr32 M (base + int (0x4000 + 8 * 0)) (get_half False ?c) s1 = Some s2"
    "wr32 M (base + int (0x4004 + 8 * 0)) (get_half True ?c) s2 = Some s3"
    "ready s1" "ready s2" "ready s3" "d \<le> 3 * B" "now s3 = advance d (set_mtimecmp 0 ?c (now st1))"
    "seen s3 = xs @ seen st1"
    "seen_as d xs ((\<lambda>v. set_mtimecmp 0 v (now st1)) ` compare_values (a_mtimecmp (now st1) ! 0) ?c)"
    using write_compareE [OF t(4) assms(4), where c = ?c] .
  have adr: "c_add (clint_base st1) MTIMECMP_BASE = Some (base + int (0x4000 + 8 * 0))"
    "c_add (base + int (0x4000 + 8 * 0)) 4 = Some (base + int (0x4004 + 8 * 0))"
    using readyD [OF t(4)] by (simp_all add: MTIMECMP_BASE_def c_add_base c_add_base2)
  have "mtimer_set_raw_time_cmp M clock_offset st = Some s3"
    unfolding mtimer_set_raw_time_cmp_def low_half_c high_half_c t(1)
    by (simp only: assms(3) if_False adr Option.bind.bind_lunit prod.case Let_def w(1-3))
  moreover have "now s3 = advance (m + d) (set_mtimecmp 0 ?c (now st))"
    by (simp add: w(8) t(5) advance_set_mtimecmp)
  moreover have "a_mtimecmp (now st1) ! 0 = a_mtimecmp (now st) ! 0"
    by (simp add: t(5))
  ultimately show ?thesis
    using t(2-5) w(6,7,9,10) by metis
qed

end

end
