(* ===== verification/Clint_System.thy ===== *)
theory Clint_System
  imports Clint_Device Clint_Bus
begin

text \<open>
  The driver on the device: the contract of the driver's interface is discharged by the RTL behind
  its bus, and the driver's functions inherit their specifications, stated here on the registers
  of the RTL.
\<close>

subsection \<open>The device as the driver's memory\<close>

text \<open>The interconnect selects the device by the upper address bits and hands it the lower 16; how
  a 64-bit access of an RV64 core reaches a 32-bit device is not in the repository, so the two
  wide accesses are parameters.\<close>

definition soc_mmio ::
  "cells \<Rightarrow> params \<Rightarrow> ('x::len word \<Rightarrow> soc \<Rightarrow> (u64 \<times> soc) option) \<Rightarrow>
   ('x word \<Rightarrow> u64 \<Rightarrow> soc \<Rightarrow> soc option) \<Rightarrow> ('x word, soc) mmio" where
  "soc_mmio C P l64 s64 =
     \<lparr>load32 = (\<lambda>p. soc_load32 C P (ucast p)), store32 = (\<lambda>p. soc_store32 C P (ucast p)),
      load64 = l64, store64 = s64\<rparr>"

definition soc_inv :: "cells \<Rightarrow> params \<Rightarrow> nat \<Rightarrow> int \<Rightarrow> soc \<Rightarrow> bool" where
  "soc_inv C P D base \<sigma> \<longleftrightarrow> soc_ok C P D \<sigma> \<and> base_ok base \<and> base mod 0x10000 = 0"

lemma ucast_of_int_16:
  "16 \<le> LENGTH('x::len) \<Longrightarrow> (ucast (of_int a :: 'x word) :: 16 word) = of_int a"
  by (intro bit_word_eqI) (simp add: bit_simps)

lemma device_offset:
  assumes "16 \<le> LENGTH('x::len)" and "base mod 0x10000 = 0" and "off < 0x10000"
  shows "unat (ucast (of_int (base + int off) :: 'x word) :: 16 word) = off"
proof -
  have "(ucast (of_int (base + int off) :: 'x word) :: 16 word) = of_int (base + int off)"
    using assms(1) by (rule ucast_of_int_16)
  moreover have "(of_int base :: 16 word) = 0"
    using assms(2) by (simp add: word_of_int_eq_0_iff mod_eq_0_iff_dvd)
  ultimately show ?thesis
    using assms(3) by (simp add: unat_of_nat take_bit_nat_eq_self)
qed

interpretation rtl: clint_device
  "soc_mmio C P l64 s64 :: ('x::len word, soc) mmio" base "N_CORES P" "D + 1"
  "\<lambda>\<sigma>. soc_inv C P D base \<sigma> \<and> 16 \<le> LENGTH('x)" view views
  for C P l64 s64 base D
proof (unfold_locales, goal_cases)
  case (1 s)
  then show ?case by (simp add: soc_inv_def)
next
  case (2 s)
  then show ?case by (simp add: soc_inv_def soc_ok_def params_ok_def)
next
  case (3 s)
  then show ?case
    by (simp add: soc_inv_def soc_ok_def clint_wf_def aclint_wf_def view_def abs_clint_def)
next
  case (4 s off r)
  then have "soc_ok C P D s" and cores: "N_CORES P \<le> 8"
    by (simp_all add: soc_inv_def soc_ok_def params_ok_def)
  have "off < 0x10000" using decode_bound [OF cores 4(2)] by simp
  then have adr: "unat (ucast (of_int (base + int off) :: 'x word) :: 16 word) = off"
    using 4(1) by (intro device_offset) (simp_all add: soc_inv_def)
  then show ?case
    using soc_load32_effect [OF \<open>soc_ok C P D s\<close>, of "ucast (of_int (base + int off) :: 'x word)" r] 4
    by (simp only: adr soc_mmio_def mmio.select_convs soc_inv_def) blast
next
  case (5 s off r v)
  then have "soc_ok C P D s" and cores: "N_CORES P \<le> 8"
    by (simp_all add: soc_inv_def soc_ok_def params_ok_def)
  have "off < 0x10000" using decode_bound [OF cores 5(2)] by simp
  then have adr: "unat (ucast (of_int (base + int off) :: 'x word) :: 16 word) = off"
    using 5(1) by (intro device_offset) (simp_all add: soc_inv_def)
  then show ?case
    using soc_store32_effect [OF \<open>soc_ok C P D s\<close>, of "ucast (of_int (base + int off) :: 'x word)" r v] 5
    by (simp only: adr soc_mmio_def mmio.select_convs soc_inv_def) blast
qed

text \<open>The same state of affairs as a predicate on the driver's state, for the properties.\<close>

definition system_ok :: "cells \<Rightarrow> params \<Rightarrow> nat \<Rightarrow> soc drv \<Rightarrow> bool" where
  "system_ok C P D st \<longleftrightarrow> soc_inv C P D (clint_base st) (dev st)"

lemma system_ready:
  "rtl.ready TYPE('x::len) b C P D st \<longleftrightarrow> b = clint_base st \<and> system_ok C P D st \<and> 16 \<le> LENGTH('x)"
  by (auto simp: rtl.ready_def system_ok_def)

lemma system_cmp:
  "system_ok C P D st \<Longrightarrow> length (mtimecmp (rtl (dev st))) = N_CORES P"
  by (simp add: system_ok_def soc_inv_def soc_ok_def clint_wf_def)

lemma view_simps [simp]:
  "a_mtime (view \<sigma>) = mtime (rtl \<sigma>)" "a_mtimecmp (view \<sigma>) = mtimecmp (rtl \<sigma>)"
  "a_msip (view \<sigma>) = msip_reg (rtl \<sigma>)"
  by (simp_all add: view_def abs_clint_def)

lemma view_advanceD:
  "view \<sigma> = advance n A \<Longrightarrow>
    mtime (rtl \<sigma>) = a_mtime A + of_nat n \<and> mtimecmp (rtl \<sigma>) = a_mtimecmp A \<and>
    msip_reg (rtl \<sigma>) = a_msip A"
  by (metis advance_simps(1-3) view_simps)

text \<open>The states the RTL went through between two platform states.\<close>

definition new_states :: "soc \<Rightarrow> soc \<Rightarrow> clint list" where
  "new_states \<sigma> \<sigma>' = take (length (history \<sigma>') - length (history \<sigma>)) (history \<sigma>')"

lemma new_states_views: "views \<sigma>' = xs @ views \<sigma> \<Longrightarrow> map abs_clint (new_states \<sigma> \<sigma>') = xs"
proof -
  assume v: "views \<sigma>' = xs @ views \<sigma>"
  then have "length (views \<sigma>') = length xs + length (views \<sigma>)" by simp
  then have "length (history \<sigma>') - length (history \<sigma>) = length xs"
    by (simp add: views_def)
  with v show ?thesis
    by (simp add: new_states_def views_def take_map [symmetric])
qed

text \<open>The registers one hart's interrupt depends on.\<close>

lemma mtip_o_nth: "k < N_CORES P \<Longrightarrow> mtip_o P False s ! k \<longleftrightarrow> mtimecmp s ! k \<le> mtime s"
  by (simp add: mtip_o_def)

lemma join_halves_top: "0xFFFFFFFF00000000 \<le> join_halves 0xFFFFFFFF lo"
  by (simp add: word_le_nat_alt unat_join_halves)

lemma compare_values_cases:
  assumes "v \<in> compare_values old c" and "v \<le> t"
  shows "old \<le> t \<or> c \<le> t \<or> 0xFFFFFFFF00000000 \<le> t"
  using assms join_halves_top order_trans unfolding compare_values_def by blast

lemma seen_as_new_states:
  assumes "views \<sigma>' = xs @ views \<sigma>" and "seen_as d xs S" and "s \<in> set (new_states \<sigma> \<sigma>')"
  obtains n A where "n \<le> d" "A \<in> S" "mtime s = a_mtime A + of_nat n"
    "mtimecmp s = a_mtimecmp A" "msip_reg s = a_msip A"
proof -
  have "abs_clint s \<in> set xs"
    using new_states_views [OF assms(1)] assms(3) by (metis image_eqI set_map)
  then obtain n A where "n \<le> d" "A \<in> S" "abs_clint s = advance n A"
    using assms(2) by (auto simp: seen_as_def)
  then show ?thesis
    using that by (metis abs_clint_def aclint.select_convs advance_simps(1-3))
qed

lemma system_wf: "system_ok C P D st \<Longrightarrow> aclint_wf (N_CORES P) (view (dev st))"
  by (simp add: system_ok_def soc_inv_def soc_ok_def clint_wf_def aclint_wf_def)

lemma nth_set_view:
  "system_ok C P D st \<Longrightarrow> k < N_CORES P \<Longrightarrow> a_mtimecmp (set_mtimecmp k c (view (dev st))) ! k = c"
  using system_wf nth_set_mtimecmp by blast

lemma rtl_ready:
  "system_ok C P D st \<Longrightarrow> 16 \<le> LENGTH('x::len) \<Longrightarrow> rtl.ready TYPE('x) (clint_base st) C P D st"
  unfolding system_ready by simp

subsection \<open>A concrete system, for evaluation\<close>

text \<open>One hart at 100 MHz on RV32, the driver's base at address 0, every register as after a
  reset except the prescaler \<open>c\<close> and the time \<open>t\<close>; \<open>ds\<close> are the gaps before the accesses.\<close>

definition demo_drv :: "10 word \<Rightarrow> u64 \<Rightarrow> nat list \<Rightarrow> soc drv" where
  "demo_drv c t ds =
     \<lparr>clint_base = 0,
      dev = \<lparr>rtl = \<lparr>iob_rdata_reg = Some 0, mtimecmp = [- 1], mtime = t, msip_reg = [False],
                    increment_timer_r = False, iob_rvalid = False, counter = c\<rparr>,
             delays = ds, history = []\<rparr>\<rparr>"

definition demo_mmio :: "(32 word, soc) mmio" where
  "demo_mmio = soc_mmio std_cells default_params (\<lambda>_ _. None) (\<lambda>_ _ _. None)"

lemma demo_ok:
  "list_all (\<lambda>n. n \<le> D) ds \<Longrightarrow> unat c < 1000 \<Longrightarrow>
   system_ok std_cells default_params D (demo_drv c t ds)"
  by (simp add: system_ok_def soc_inv_def soc_ok_def demo_drv_def params_ok_def default_params_def
      clint_wf_def base_ok_def list_all_iff prescaler_ok_def tick_period_def)

text \<open>Evaluation runs one access before it looks at the rest of the function.\<close>

lemma bind_weak: "m = m' \<Longrightarrow> Option.bind m f = Option.bind m' f"
  by simp

text \<open>Rewriting a concrete clock cycle, transaction or driver call to its result.\<close>

lemmas demo_eval =
  demo_mmio_def demo_drv_def soc_mmio_def c_add_def c_mul_def c_int_def MTIME_BASE_def
  MTIMECMP_BASE_def MSIP_BASE_def rd32_def wr32_def soc_store32_def soc_load32_def before_access_def
  take_delay_def soc_cycle_def bus_read_def set_inputs_def wait_responce_now Let_def
  bus_idle_def bus_request_def std_cells_def default_params_def write_en_def clint_cycle_def
  msip_hit_def mtimecmp_hit_def mtime_hit_def MSIBase_def MTimeBase_def MTimeCMPBase_def
  counter_e_def increment_timer_def tick_limit_def next_rdata_def next_mtimecmp_def next_mtime_def
  next_msip_def next_increment_timer_r_def next_rvalid_def next_counter_def
  nth_opt_def msip_index_def mtimecmp_index_def AddrSelWidth_def slice_def
  get_half_def set_half_def mask_eq_exp_minus_1

subsection \<open>Properties of the driver on the device\<close>

lemma set_timercmp_rtl:
  fixes l64 :: "'x::len word \<Rightarrow> soc \<Rightarrow> (u64 \<times> soc) option"
  assumes "system_ok C P D st" and "16 \<le> LENGTH('x)" and "k < N_CORES P"
  shows "\<exists>d st'. clint_set_timercmp (soc_mmio C P l64 s64) time (int k) st = Some st' \<and>
    system_ok C P D st' \<and> clint_base st' = clint_base st \<and> d \<le> 3 * (D + 1) \<and>
    mtimecmp (rtl (dev st')) = (mtimecmp (rtl (dev st)))[k := time] \<and>
    msip_reg (rtl (dev st')) = msip_reg (rtl (dev st)) \<and>
    mtime (rtl (dev st')) = mtime (rtl (dev st)) + of_nat d"
proof -
  from rtl.set_timercmp_spec [OF rtl_ready [OF assms(1,2)] assms(3), of l64 s64 time]
  show ?thesis
    unfolding system_ready by (auto simp: set_mtimecmp_def dest!: view_advanceD)
qed

text \<open>C1: setting a compare register. Whatever number of clock cycles pass between its three
  stores, \<open>clint_set_timercmp\<close> ends with exactly the requested 64-bit value in the register of
  the given hart; no other compare register and no \<open>msip\<close> bit changes, and the time only runs
  on.\<close>

theorem set_timercmp_correct:
  fixes l64 :: "'x::len word \<Rightarrow> soc \<Rightarrow> (u64 \<times> soc) option"
  assumes "system_ok C P D st" and "16 \<le> LENGTH('x)" and "k < N_CORES P"
  shows "\<exists>d st'. clint_set_timercmp (soc_mmio C P l64 s64) time (int k) st = Some st' \<and>
    system_ok C P D st' \<and> clint_base st' = clint_base st \<and> d \<le> 3 * (D + 1) \<and>
    mtimecmp (rtl (dev st')) = (mtimecmp (rtl (dev st)))[k := time] \<and>
    msip_reg (rtl (dev st')) = msip_reg (rtl (dev st)) \<and>
    mtime (rtl (dev st')) = mtime (rtl (dev st)) + of_nat d"
  using assms by (rule set_timercmp_rtl)

lemma set_timercmp_correct_witness:
  "\<exists>st'. clint_set_timercmp demo_mmio 1000 0 (demo_drv 0 5 [3, 0, 7]) = Some st' \<and>
     mtimecmp (rtl (dev st')) = [1000]"
proof -
  have ok: "system_ok std_cells default_params 7 (demo_drv 0 5 [3, 0, 7])"
    by (rule demo_ok) simp_all
  have "mtimecmp (rtl (dev (demo_drv 0 5 [3, 0, 7]))) = [- 1]" by (simp add: demo_drv_def)
  then show ?thesis
    using set_timercmp_correct [OF ok, where 'x = 32 and k = 0 and ?l64.0 = "\<lambda>_ _. None" and
        ?s64.0 = "\<lambda>_ _ _. None" and time = 1000]
    by (auto simp: demo_mmio_def default_params_def)
qed

text \<open>C2: no spurious timer interrupt. In every clock cycle during \<open>clint_set_timercmp\<close>, the
  hart's interrupt line is high only if the old or the new deadline has been reached, or \<open>mtime\<close>
  itself is within its last \<open>2 ^ 32\<close> values (more than five million years at 100 kHz): the
  intermediate values of the register never fire early.\<close>

theorem set_timercmp_no_spurious_interrupt:
  fixes l64 :: "'x::len word \<Rightarrow> soc \<Rightarrow> (u64 \<times> soc) option"
  assumes "system_ok C P D st" and "16 \<le> LENGTH('x)" and "k < N_CORES P"
    and "clint_set_timercmp (soc_mmio C P l64 s64) time (int k) st = Some st'"
    and "s \<in> set (new_states (dev st) (dev st'))" and "mtip_o P False s ! k"
  shows "mtimecmp (rtl (dev st)) ! k \<le> mtime s \<or> time \<le> mtime s \<or> 0xFFFFFFFF00000000 \<le> mtime s"
proof -
  let ?A = "view (dev st)"
  obtain d xs where "views (dev st') = xs @ views (dev st)"
    "seen_as d xs ((\<lambda>v. set_mtimecmp k v ?A) ` compare_values (a_mtimecmp ?A ! k) time)"
    using rtl.set_timercmp_spec [OF rtl_ready [OF assms(1,2)] assms(3), of l64 s64 time] assms(4) by auto
  then obtain n A where A: "A \<in> (\<lambda>v. set_mtimecmp k v ?A) ` compare_values (a_mtimecmp ?A ! k) time"
    "mtime s = a_mtime A + of_nat n" "mtimecmp s = a_mtimecmp A"
    using seen_as_new_states assms(5) by metis
  then obtain v where v: "v \<in> compare_values (a_mtimecmp ?A ! k) time" "A = set_mtimecmp k v ?A"
    by blast
  then have "mtimecmp s ! k = v"
    using A(3) nth_set_view [OF assms(1,3)] by simp
  then show ?thesis
    using assms(3,6) compare_values_cases [OF v(1)] by (simp add: mtip_o_nth)
qed

lemma set_timercmp_no_spurious_interrupt_witness:
  "\<exists>st' s. clint_set_timercmp demo_mmio 3 0 (demo_drv 0 5 []) = Some st' \<and>
     s \<in> set (new_states (dev (demo_drv 0 5 [])) (dev st')) \<and> mtip_o default_params False s ! 0 \<and>
     (- 1 \<le> mtime s \<or> 3 \<le> mtime s \<or> 0xFFFFFFFF00000000 \<le> mtime s)"
proof -
  have ok: "system_ok std_cells default_params 0 (demo_drv 0 5 [])"
    by (rule demo_ok) simp_all
  have run: "\<exists>st'. clint_set_timercmp demo_mmio 3 0 (demo_drv 0 5 []) = Some st' \<and>
      rtl (dev st') \<in> set (new_states (dev (demo_drv 0 5 [])) (dev st')) \<and>
      mtip_o default_params False (rtl (dev st')) ! 0"
    by (simp add: clint_set_timercmp_def mtimecmp_addr_def demo_eval new_states_def mtip_o_def
        cong: bind_weak)
  then show ?thesis
    using set_timercmp_no_spurious_interrupt [OF ok, where 'x = 32 and k = 0 and ?l64.0 = "\<lambda>_ _. None" and
        ?s64.0 = "\<lambda>_ _ _. None" and time = 3]
    by (fastforce simp: demo_mmio_def default_params_def demo_drv_def)
qed

text \<open>A run of cycles in which nobody writes the compare registers.\<close>

lemma mtimecmp_run:
  "list_all (\<lambda>i. free_running i \<and> \<not> mtimecmp_hit P i) is \<Longrightarrow> mtimecmp (clint_run C P is s) = mtimecmp s"
  by (induction "is" arbitrary: s) (simp_all add: next_mtimecmp_def free_running_def)

lemma ticks_bounds:
  fixes p c n d :: nat
  assumes "0 < p" and "c \<le> p"
  shows "(c + n - 1) div p \<le> n" and "(d + 1) * p \<le> n \<Longrightarrow> d \<le> (c + n - 1) div p"
proof -
  show "(c + n - 1) div p \<le> n"
  proof (cases n)
    case 0
    then show ?thesis using assms by (simp add: div_less)
  next
    case (Suc m)
    have "(c + n - 1) div p \<le> (p + m) div p" using assms(2) Suc by (intro div_le_mono) simp
    also have "\<dots> = Suc (m div p)" using assms(1) by simp
    also have "\<dots> \<le> n" using Suc by simp
    finally show ?thesis .
  qed
  show "d \<le> (c + n - 1) div p" if "(d + 1) * p \<le> n"
  proof -
    have "d * p \<le> c + n - 1" using that assms(1) by simp
    then show ?thesis using assms(1) by (simp add: less_eq_div_iff_mult_less_eq)
  qed
qed

lemma unat_add_small:
  fixes t :: u64
  assumes "unat t + k < 2 ^ 64"
  shows "unat (t + of_nat k) = unat t + k"
  using assms by (simp add: unat_word_ariths unat_of_nat mod_add_right_eq)

text \<open>C4: the deadline is met. After \<open>clint_set_timercmp\<close>, while nobody writes the compare registers
  or \<open>mtime\<close>, the hart's interrupt line is high exactly when the requested time has been reached;
  and it is high at the latest after as many clock cycles as the ticks to the deadline plus one
  take, whatever phase the prescaler was in.\<close>

theorem timer_interrupt_fires:
  fixes l64 :: "'x::len word \<Rightarrow> soc \<Rightarrow> (u64 \<times> soc) option"
  assumes "system_ok C P D st" and "16 \<le> LENGTH('x)" and "k < N_CORES P" and "ticking P"
    and "clint_set_timercmp (soc_mmio C P l64 s64) time (int k) st = Some st'"
    and "list_all (\<lambda>i. free_running i \<and> \<not> mtimecmp_hit P i) is"
    and "unat (mtime (rtl (dev st'))) + length is < 2 ^ 64"
  shows "(mtip_o P False (clint_run C P is (rtl (dev st'))) ! k \<longleftrightarrow>
      time \<le> mtime (clint_run C P is (rtl (dev st')))) \<and>
    ((unat time - unat (mtime (rtl (dev st'))) + 1) * tick_period P \<le> length is \<longrightarrow>
      mtip_o P False (clint_run C P is (rtl (dev st'))) ! k)"
proof -
  let ?s = "rtl (dev st')" and ?r = "clint_run C P is (rtl (dev st'))"
  let ?q = "(phase P ?s + length is - 1) div tick_period P"
  have ok: "system_ok C P D st'" and cmp: "mtimecmp ?s = (mtimecmp (rtl (dev st)))[k := time]"
    using set_timercmp_rtl [OF assms(1-3), of l64 s64 time] assms(5) by auto
  have cells: "cells_ok C" and pre: "prescaler_ok P ?s"
    using ok assms(4) by (simp_all add: system_ok_def soc_inv_def soc_ok_def)
  have "mtimecmp ?r ! k = time"
    using mtimecmp_run [OF assms(6)] system_cmp [OF assms(1)] assms(3) by (simp add: cmp)
  then have high: "mtip_o P False ?r ! k \<longleftrightarrow> time \<le> mtime ?r"
    using assms(3) by (simp add: mtip_o_nth)
  have "list_all free_running is" using assms(6) by (simp add: list_all_iff)
  then have "mtime ?r = mtime ?s + of_nat ?q" by (rule mtime_run [OF cells assms(4) pre])
  moreover have p: "0 < tick_period P" using assms(4) by (simp add: ticking_def)
  note q = ticks_bounds [OF p phase_le [OF pre]]
  have "unat (mtime ?s) + ?q < 2 ^ 64"
    using q(1) [of "length is"] assms(7) by (rule le_less_trans [OF add_left_mono])
  ultimately have "unat (mtime ?r) = unat (mtime ?s) + ?q"
    by (simp only: unat_add_small)
  then have "time \<le> mtime ?r"
    if "(unat time - unat (mtime ?s) + 1) * tick_period P \<le> length is"
    using q(2) [OF that] by (simp add: word_le_nat_alt)
  with high show ?thesis by blast
qed

lemma timer_interrupt_fires_witness:
  "\<exists>st'. clint_set_timercmp demo_mmio 7 0 (demo_drv 0 5 []) = Some st' \<and>
     mtip_o default_params False
       (clint_run std_cells default_params (replicate 8000 (demo_input False False 0 0 0)) (rtl (dev st'))) ! 0"
proof -
  have ok: "system_ok std_cells default_params 0 (demo_drv 0 5 [])"
    by (rule demo_ok) simp_all
  have run: "\<exists>st'. clint_set_timercmp demo_mmio 7 0 (demo_drv 0 5 []) = Some st' \<and>
      mtime (rtl (dev st')) = 5"
    by (simp add: clint_set_timercmp_def mtimecmp_addr_def demo_eval cong: bind_weak)
  have idle: "list_all (\<lambda>i. free_running i \<and> \<not> mtimecmp_hit default_params i)
      (replicate 8000 (demo_input False False 0 0 0))"
    by (simp add: list_all_iff free_running_def mtime_hit_def mtimecmp_hit_def demo_input_def)
  have par: "ticking default_params" "tick_period default_params = 1000" "N_CORES default_params = 1"
    by (simp_all add: ticking_def tick_period_def default_params_def)
  obtain st' where st': "clint_set_timercmp demo_mmio 7 0 (demo_drv 0 5 []) = Some st'"
    "mtime (rtl (dev st')) = 5" using run by blast
  have "unat (mtime (rtl (dev st'))) + length (replicate 8000 (demo_input False False 0 0 0)) < 2 ^ 64"
    by (simp add: st'(2))
  from timer_interrupt_fires [OF ok _ _ par(1) _ idle this, where 'x = 32 and k = 0 and time = 7 and
      ?l64.0 = "\<lambda>_ _. None" and ?s64.0 = "\<lambda>_ _ _. None"]
  show ?thesis using st' by (auto simp: demo_mmio_def par)
qed

text \<open>C14: round trip through the device. \<open>clint_get_timercmp\<close> returns the value that
  \<open>clint_set_timercmp\<close> stored for the same hart.\<close>

theorem timercmp_roundtrip:
  fixes l64 :: "'x::len word \<Rightarrow> soc \<Rightarrow> (u64 \<times> soc) option"
  assumes "system_ok C P D st" and "16 \<le> LENGTH('x)" and "k < N_CORES P"
  shows "\<exists>st1 st2. clint_set_timercmp (soc_mmio C P l64 s64) time (int k) st = Some st1 \<and>
    clint_get_timercmp (soc_mmio C P l64 s64) (int k) st1 = Some (time, st2) \<and>
    mtimecmp (rtl (dev st2)) = mtimecmp (rtl (dev st1)) \<and> system_ok C P D st2"
proof -
  obtain d xs st1 where 1: "clint_set_timercmp (soc_mmio C P l64 s64) time (int k) st = Some st1"
    "rtl.ready TYPE('x) (clint_base st) C P D st1"
    "view (dev st1) = advance d (set_mtimecmp k time (view (dev st)))"
    using rtl.set_timercmp_spec [OF rtl_ready [OF assms(1,2)] assms(3), of l64 s64 time] by metis
  obtain d2 xs2 st2 where 2: "clint_get_timercmp (soc_mmio C P l64 s64) (int k) st1 =
      Some (a_mtimecmp (view (dev st1)) ! k, st2)"
    "rtl.ready TYPE('x) (clint_base st) C P D st2" "view (dev st2) = advance d2 (view (dev st1))"
    using rtl.get_timercmp_spec [OF 1(2) assms(3), of l64 s64] by metis
  have "a_mtimecmp (view (dev st1)) ! k = time"
    by (simp only: 1(3) advance_simps nth_set_view [OF assms(1,3)])
  then show ?thesis
    using 1(1) 2 view_advanceD [OF 2(3)] unfolding system_ready by auto
qed

lemma timercmp_roundtrip_witness:
  "\<exists>st1 st2. clint_set_timercmp demo_mmio 0x123456789 0 (demo_drv 0 5 [2, 1, 4, 1, 5]) = Some st1 \<and>
     clint_get_timercmp demo_mmio 0 st1 = Some (0x123456789, st2)"
proof -
  have ok: "system_ok std_cells default_params 5 (demo_drv 0 5 [2, 1, 4, 1, 5])"
    by (rule demo_ok) simp_all
  show ?thesis
    using timercmp_roundtrip [OF ok, where 'x = 32 and k = 0 and ?l64.0 = "\<lambda>_ _. None" and
        ?s64.0 = "\<lambda>_ _ _. None" and time = "0x123456789"]
    by (auto simp: demo_mmio_def default_params_def)
qed

text \<open>C15: software interrupts. \<open>clint_set_msip\<close> drives the hart's \<open>msip\<close> line with bit 0 of the
  value and leaves every other line and the compare registers alone; \<open>clint_get_msip\<close> then reads
  back that bit, with all other bits zero, as the README demands.\<close>

theorem msip_set_get:
  fixes l64 :: "'x::len word \<Rightarrow> soc \<Rightarrow> (u64 \<times> soc) option"
  assumes "system_ok C P D st" and "16 \<le> LENGTH('x)" and "k < N_CORES P"
  shows "\<exists>st1 st2. clint_set_msip (soc_mmio C P l64 s64) v (int k) st = Some st1 \<and>
    msip_o (rtl (dev st1)) = (msip_o (rtl (dev st)))[k := bit v 0] \<and>
    mtimecmp (rtl (dev st1)) = mtimecmp (rtl (dev st)) \<and> system_ok C P D st1 \<and>
    clint_get_msip (soc_mmio C P l64 s64) (int k) st1 = Some (of_bool (bit v 0), st2) \<and>
    msip_o (rtl (dev st2)) = msip_o (rtl (dev st1)) \<and> system_ok C P D st2"
proof -
  obtain d xs st1 where 1: "clint_set_msip (soc_mmio C P l64 s64) v (int k) st = Some st1"
    "rtl.ready TYPE('x) (clint_base st) C P D st1"
    "view (dev st1) = advance d (reg_write (Msip k) (ucast v) (view (dev st)))"
    using rtl.set_msip_spec [OF rtl_ready [OF assms(1,2)] assms(3), of l64 s64 v] by metis
  obtain d2 xs2 st2 where 2: "clint_get_msip (soc_mmio C P l64 s64) (int k) st1 =
      Some (of_bool (a_msip (view (dev st1)) ! k), st2)"
    "rtl.ready TYPE('x) (clint_base st) C P D st2" "view (dev st2) = advance d2 (view (dev st1))"
    using rtl.get_msip_spec [OF 1(2) assms(3), of l64 s64] by metis
  have "bit (ucast v :: u32) 0 = bit v 0" by (simp add: bit_simps)
  then have st1: "msip_reg (rtl (dev st1)) = (msip_reg (rtl (dev st)))[k := bit v 0]"
    "mtimecmp (rtl (dev st1)) = mtimecmp (rtl (dev st))"
    using view_advanceD [OF 1(3)] by simp_all
  moreover have "a_msip (view (dev st1)) ! k = bit v 0"
    using st1(1) system_wf [OF assms(1)] assms(3) by (simp add: aclint_wf_def)
  ultimately show ?thesis
    using 1(1,2) 2(1,2) view_advanceD [OF 2(3)] unfolding system_ready msip_o_def by auto
qed

lemma msip_set_get_witness:
  "\<exists>st1 st2. clint_set_msip demo_mmio 0xFF 0 (demo_drv 0 5 [2, 9]) = Some st1 \<and>
     msip_o (rtl (dev st1)) = [True] \<and> clint_get_msip demo_mmio 0 st1 = Some (1, st2)"
proof -
  have ok: "system_ok std_cells default_params 9 (demo_drv 0 5 [2, 9])"
    by (rule demo_ok) simp_all
  have "msip_o (rtl (dev (demo_drv 0 5 [2, 9]))) = [False]" by (simp add: demo_drv_def msip_o_def)
  then show ?thesis
    using msip_set_get [OF ok, where 'x = 32 and k = 0 and ?l64.0 = "\<lambda>_ _. None" and
        ?s64.0 = "\<lambda>_ _ _. None" and v = "0xFF"]
    by (auto simp: demo_mmio_def default_params_def)
qed

text \<open>C16: setting the time. If no carry out of the low word can happen while
  \<open>clint_set_timer\<close> runs, \<open>mtime\<close> is afterwards the requested time plus the ticks that have
  passed since, and nothing else changes.\<close>

theorem set_timer_correct:
  fixes l64 :: "'x::len word \<Rightarrow> soc \<Rightarrow> (u64 \<times> soc) option"
  assumes "system_ok C P D st" and "16 \<le> LENGTH('x)"
    and "unat (get_half False time) + 2 * (D + 1) < 2 ^ 32"
  shows "\<exists>d st'. clint_set_timer (soc_mmio C P l64 s64) time st = Some st' \<and>
    system_ok C P D st' \<and> d \<le> 2 * (D + 1) \<and> mtime (rtl (dev st')) = time + of_nat d \<and>
    mtimecmp (rtl (dev st')) = mtimecmp (rtl (dev st)) \<and>
    msip_reg (rtl (dev st')) = msip_reg (rtl (dev st))"
proof -
  obtain m e st' where s: "clint_set_timer (soc_mmio C P l64 s64) time st = Some st'"
    "rtl.ready TYPE('x) (clint_base st) C P D st'" "m + e \<le> 2 * (D + 1)"
    "view (dev st') = set_mtime (join_halves (get_half True time) (get_half False time + of_nat m)
       + of_nat e) (view (dev st))"
    using rtl.set_timer_spec [OF rtl_ready [OF assms(1,2)], of l64 s64 time] by metis
  have "join_halves (get_half True time) (get_half False time + of_nat m) = time + of_nat m"
    using s(3) assms(3) join_halves_add [of m "get_half False time" "get_half True time"] by simp
  then have "view (dev st') = set_mtime (time + of_nat (m + e)) (view (dev st))"
    by (simp add: s(4) add.assoc)
  then have "mtime (rtl (dev st')) = time + of_nat (m + e)"
    "mtimecmp (rtl (dev st')) = mtimecmp (rtl (dev st))"
    "msip_reg (rtl (dev st')) = msip_reg (rtl (dev st))"
    by (metis view_simps set_mtime_simps(1-3))+
  then show ?thesis
    using s(1-3) unfolding system_ready by blast
qed

lemma set_timer_correct_witness:
  "\<exists>d st'. clint_set_timer demo_mmio 0x300000007 (demo_drv 999 0xFFFFFFFF [0, 1]) = Some st' \<and>
     d \<le> 4 \<and> mtime (rtl (dev st')) = 0x300000007 + of_nat d"
proof -
  have ok: "system_ok std_cells default_params 1 (demo_drv 999 0xFFFFFFFF [0, 1])"
    by (rule demo_ok) simp_all
  show ?thesis
    using set_timer_correct [OF ok, where 'x = 32 and ?l64.0 = "\<lambda>_ _. None" and
        ?s64.0 = "\<lambda>_ _ _. None" and time = "0x300000007"]
    by (auto simp: demo_mmio_def get_half_def)
qed

text \<open>C17: reading the time with \<open>clint_get_timer\<close>. If the low word of \<open>mtime\<close> cannot carry while
  the function runs, the result is the time at an instant of the call.\<close>

theorem get_timer_correct:
  fixes l64 :: "'x::len word \<Rightarrow> soc \<Rightarrow> (u64 \<times> soc) option"
  assumes "system_ok C P D st" and "16 \<le> LENGTH('x)"
    and "unat (get_half False (mtime (rtl (dev st)))) + 2 * (D + 1) < 2 ^ 32"
  shows "\<exists>m e st'. clint_get_timer (soc_mmio C P l64 s64) st =
      Some (mtime (rtl (dev st)) + of_nat m, st') \<and> m \<le> e \<and> e \<le> 2 * (D + 1) \<and>
    system_ok C P D st' \<and> mtime (rtl (dev st')) = mtime (rtl (dev st)) + of_nat e"
proof -
  let ?t = "mtime (rtl (dev st))"
  obtain m n e st' where g: "clint_get_timer (soc_mmio C P l64 s64) st =
      Some (join_halves (get_half True (?t + of_nat n)) (get_half False (?t + of_nat m)), st')"
    "m \<le> n" "n \<le> e" "e \<le> 2 * (D + 1)" "rtl.ready TYPE('x) (clint_base st) C P D st'"
    "view (dev st') = advance e (view (dev st))"
    using rtl.get_timer_spec [OF rtl_ready [OF assms(1,2)], of l64 s64] by auto
  have "get_half True (?t + of_nat n) = get_half True (?t + of_nat m)"
    using g(2-4) assms(3) by (simp add: get_half_high_add)
  then have "clint_get_timer (soc_mmio C P l64 s64) st = Some (?t + of_nat m, st')"
    using g(1) by simp
  moreover have "m \<le> e" and "system_ok C P D st'" and "mtime (rtl (dev st')) = ?t + of_nat e"
    using g(2,3,5) view_advanceD [OF g(6)] unfolding system_ready by simp_all
  ultimately show ?thesis
    using g(4) by blast
qed

lemma get_timer_correct_witness:
  "\<exists>m st'. clint_get_timer demo_mmio (demo_drv 999 0x300000007 [0, 1]) =
     Some (0x300000007 + of_nat m, st') \<and> m \<le> 4"
proof -
  have ok: "system_ok std_cells default_params 1 (demo_drv 999 0x300000007 [0, 1])"
    by (rule demo_ok) simp_all
  have "mtime (rtl (dev (demo_drv 999 0x300000007 [0, 1]))) = 0x300000007"
    by (simp add: demo_drv_def)
  then show ?thesis
    using get_timer_correct [OF ok, where 'x = 32 and ?l64.0 = "\<lambda>_ _. None" and ?s64.0 = "\<lambda>_ _ _. None"]
    by (auto simp: demo_mmio_def get_half_def intro: order_trans)
qed

lemma raw_time_rtl:
  fixes l64 :: "'x::len word \<Rightarrow> soc \<Rightarrow> (u64 \<times> soc) option"
  assumes "system_ok C P D st" and "LENGTH('x) = 32" and "6 * (D + 1) < 2 ^ 32"
  shows "\<exists>n m st'. mtimer_get_raw_time (soc_mmio C P l64 s64) st =
      Some (mtime (rtl (dev st)) + of_nat n, st') \<and> n \<le> m \<and> m \<le> 6 * (D + 1) \<and>
    system_ok C P D st' \<and> mtime (rtl (dev st')) = mtime (rtl (dev st)) + of_nat m \<and>
    mtimecmp (rtl (dev st')) = mtimecmp (rtl (dev st)) \<and>
    msip_reg (rtl (dev st')) = msip_reg (rtl (dev st))"
proof -
  have len: "16 \<le> LENGTH('x)" "LENGTH('x) \<noteq> 64" using assms(2) by simp_all
  obtain n m st' where r: "mtimer_get_raw_time (soc_mmio C P l64 s64) st =
      Some (a_mtime (view (dev st)) + of_nat n, st')" "n \<le> m" "m \<le> 6 * (D + 1)"
    "rtl.ready TYPE('x) (clint_base st) C P D st'" "view (dev st') = advance m (view (dev st))"
    using rtl.raw_time_spec [OF rtl_ready [OF assms(1) len(1)] assms(3) len(2), of l64 s64] by metis
  then show ?thesis
    using view_advanceD [OF r(5)] unfolding system_ready by auto
qed

text \<open>C3: the polling read, on RV32. \<open>mtimer_get_raw_time\<close> always returns (after at most two rounds
  of its loop), and its result is the value \<open>mtime\<close> had at one instant of the call, carries
  between the two words included; it changes no register.\<close>

theorem raw_time_correct:
  fixes l64 :: "'x::len word \<Rightarrow> soc \<Rightarrow> (u64 \<times> soc) option"
  assumes "system_ok C P D st" and "LENGTH('x) = 32" and "6 * (D + 1) < 2 ^ 32"
  shows "\<exists>n m st'. mtimer_get_raw_time (soc_mmio C P l64 s64) st =
      Some (mtime (rtl (dev st)) + of_nat n, st') \<and> n \<le> m \<and> m \<le> 6 * (D + 1) \<and>
    system_ok C P D st' \<and> mtime (rtl (dev st')) = mtime (rtl (dev st)) + of_nat m \<and>
    mtimecmp (rtl (dev st')) = mtimecmp (rtl (dev st)) \<and>
    msip_reg (rtl (dev st')) = msip_reg (rtl (dev st))"
  using assms by (rule raw_time_rtl)

lemma raw_time_correct_witness:
  "\<exists>n st'. mtimer_get_raw_time demo_mmio (demo_drv 999 0xFFFFFFFF [0, 1]) =
     Some (0xFFFFFFFF + of_nat n, st') \<and> n \<le> 12"
proof -
  have ok: "system_ok std_cells default_params 1 (demo_drv 999 0xFFFFFFFF [0, 1])"
    by (rule demo_ok) simp_all
  have "mtime (rtl (dev (demo_drv 999 0xFFFFFFFF [0, 1]))) = 0xFFFFFFFF"
    by (simp add: demo_drv_def)
  then show ?thesis
    using raw_time_correct [OF ok, where 'x = 32 and ?l64.0 = "\<lambda>_ _. None" and ?s64.0 = "\<lambda>_ _ _. None"]
    by (auto simp: demo_mmio_def intro: order_trans)
qed

lemma set_raw_time_cmp_rtl:
  fixes l64 :: "'x::len word \<Rightarrow> soc \<Rightarrow> (u64 \<times> soc) option"
  assumes "system_ok C P D st" and "LENGTH('x) = 32" and "6 * (D + 1) < 2 ^ 32"
  shows "\<exists>n m st'. mtimer_set_raw_time_cmp (soc_mmio C P l64 s64) clock_offset st = Some st' \<and>
    n \<le> m \<and> m \<le> 9 * (D + 1) \<and> system_ok C P D st' \<and> clint_base st' = clint_base st \<and>
    mtimecmp (rtl (dev st')) =
      (mtimecmp (rtl (dev st)))[0 := mtime (rtl (dev st)) + of_nat n + clock_offset] \<and>
    msip_reg (rtl (dev st')) = msip_reg (rtl (dev st)) \<and>
    mtime (rtl (dev st')) = mtime (rtl (dev st)) + of_nat m"
proof -
  have len: "16 \<le> LENGTH('x)" "LENGTH('x) \<noteq> 64" using assms(2) by simp_all
  have cores: "0 < N_CORES P"
    using assms(1) by (simp add: system_ok_def soc_inv_def soc_ok_def params_ok_def)
  obtain n m d c st' where r: "mtimer_set_raw_time_cmp (soc_mmio C P l64 s64) clock_offset st = Some st'"
    "c = a_mtime (view (dev st)) + of_nat n + clock_offset" "n \<le> m" "m \<le> 6 * (D + 1)" "d \<le> 3 * (D + 1)"
    "rtl.ready TYPE('x) (clint_base st) C P D st'"
    "view (dev st') = advance (m + d) (set_mtimecmp 0 c (view (dev st)))"
    using rtl.set_raw_time_cmp_spec [OF rtl_ready [OF assms(1) len(1)] assms(3) len(2) cores,
        of l64 s64 clock_offset] by metis
  have "n \<le> m + d" "m + d \<le> 9 * (D + 1)" using r(3-5) by simp_all
  moreover have "mtimecmp (rtl (dev st')) =
      (mtimecmp (rtl (dev st)))[0 := mtime (rtl (dev st)) + of_nat n + clock_offset]"
    "msip_reg (rtl (dev st')) = msip_reg (rtl (dev st))"
    "mtime (rtl (dev st')) = mtime (rtl (dev st)) + of_nat (m + d)"
    using view_advanceD [OF r(7)] r(2) by (simp_all add: set_mtimecmp_def)
  moreover have "system_ok C P D st'" "clint_base st' = clint_base st"
    using r(6) unfolding system_ready by simp_all
  ultimately show ?thesis
    using r(1) by blast
qed

text \<open>C8: the relative deadline, on RV32. \<open>mtimer_set_raw_time_cmp\<close> always returns and leaves in
  hart 0's compare register the time at one instant of the call plus the offset (modulo
  \<open>2 ^ 64\<close>); the other registers keep their values.\<close>

theorem set_raw_time_cmp_correct:
  fixes l64 :: "'x::len word \<Rightarrow> soc \<Rightarrow> (u64 \<times> soc) option"
  assumes "system_ok C P D st" and "LENGTH('x) = 32" and "6 * (D + 1) < 2 ^ 32"
  shows "\<exists>n m st'. mtimer_set_raw_time_cmp (soc_mmio C P l64 s64) clock_offset st = Some st' \<and>
    n \<le> m \<and> m \<le> 9 * (D + 1) \<and> system_ok C P D st' \<and> clint_base st' = clint_base st \<and>
    mtimecmp (rtl (dev st')) =
      (mtimecmp (rtl (dev st)))[0 := mtime (rtl (dev st)) + of_nat n + clock_offset] \<and>
    msip_reg (rtl (dev st')) = msip_reg (rtl (dev st)) \<and>
    mtime (rtl (dev st')) = mtime (rtl (dev st)) + of_nat m"
  using assms by (rule set_raw_time_cmp_rtl)

lemma set_raw_time_cmp_correct_witness:
  "\<exists>n st'. mtimer_set_raw_time_cmp demo_mmio 100 (demo_drv 999 0xFFFFFFFF [0, 1]) = Some st' \<and>
     n \<le> 18 \<and> mtimecmp (rtl (dev st')) = [0xFFFFFFFF + of_nat n + 100]"
proof -
  have ok: "system_ok std_cells default_params 1 (demo_drv 999 0xFFFFFFFF [0, 1])"
    by (rule demo_ok) simp_all
  have "mtime (rtl (dev (demo_drv 999 0xFFFFFFFF [0, 1]))) = 0xFFFFFFFF"
    and "mtimecmp (rtl (dev (demo_drv 999 0xFFFFFFFF [0, 1]))) = [- 1]"
    by (simp_all add: demo_drv_def)
  then show ?thesis
    using set_raw_time_cmp_correct [OF ok, where 'x = 32 and ?l64.0 = "\<lambda>_ _. None" and
        ?s64.0 = "\<lambda>_ _ _. None" and clock_offset = 100]
    by (auto simp: demo_mmio_def intro: order_trans)
qed

text \<open>C35: the plain read can be torn. There is a running system (one hart, 100 MHz, one idle
  clock cycle between the two loads) in which \<open>clint_get_timer\<close> returns a time that \<open>mtime\<close> has
  not reached: the carry happens between its loads, and it joins the low word from before with
  the high word from after. \<open>mtimer_get_raw_time\<close> polls for this reason.\<close>

theorem get_timer_can_be_torn:
  "\<exists>st v st'. system_ok std_cells default_params 1 st \<and>
     clint_get_timer demo_mmio st = Some (v, st') \<and>
     mtime (rtl (dev st)) = 0xFFFFFFFF \<and> mtime (rtl (dev st')) = 0x100000000 \<and> v = 0x1FFFFFFFF"
proof -
  have "system_ok std_cells default_params 1 (demo_drv 999 0xFFFFFFFF [0, 1])"
    by (rule demo_ok) simp_all
  moreover have "\<exists>st'. clint_get_timer demo_mmio (demo_drv 999 0xFFFFFFFF [0, 1]) =
      Some (0x1FFFFFFFF, st') \<and> mtime (rtl (dev st')) = 0x100000000"
    by (simp add: clint_get_timer_def demo_eval)
  moreover have "mtime (rtl (dev (demo_drv 999 0xFFFFFFFF [0, 1]))) = 0xFFFFFFFF"
    by (simp add: demo_drv_def)
  ultimately show ?thesis by blast
qed

text \<open>C36: setting a running timer can lose \<open>2 ^ 32\<close> ticks. There is a running system in which
  \<open>clint_set_timer\<close>, asked for time 0x1FFFFFFFF, leaves \<open>mtime\<close> at 0x100000000: a tick between
  its two stores carries into the high word, which the second store then overwrites.\<close>

theorem set_timer_can_lose_carry:
  "\<exists>st st'. system_ok std_cells default_params 1 st \<and>
     clint_set_timer demo_mmio 0x1FFFFFFFF st = Some st' \<and> mtime (rtl (dev st')) = 0x100000000"
proof -
  have "system_ok std_cells default_params 1 (demo_drv 999 0 [0, 1])"
    by (rule demo_ok) simp_all
  moreover have "\<exists>st'. clint_set_timer demo_mmio 0x1FFFFFFFF (demo_drv 999 0 [0, 1]) = Some st' \<and>
      mtime (rtl (dev st')) = 0x100000000"
    by (simp add: clint_set_timer_def demo_eval)
  ultimately show ?thesis by blast
qed

end
