(* ===== verification/Clint_RV64.thy ===== *)
theory Clint_RV64
  imports Clint_System
begin

text \<open>
  The RV64 branches of \<open>mtimer_get_raw_time\<close> and \<open>mtimer_set_raw_time_cmp\<close>: one 64-bit access each, to
  a device whose bus is 32 bits wide. How the access reaches the bus is not in the repository; on a
  bus of that width it takes two transfers, and the hypothesis \<open>split_ports\<close> says which: the word at
  the address and the word behind it, in this order, as an ordinary bus-width converter makes them.
\<close>

subsection \<open>A 64-bit access as two transfers\<close>

definition split_ports ::
  "cells \<Rightarrow> params \<Rightarrow> ('x::len word \<Rightarrow> soc \<Rightarrow> (u64 \<times> soc) option) \<Rightarrow>
   ('x word \<Rightarrow> u64 \<Rightarrow> soc \<Rightarrow> soc option) \<Rightarrow> bool" where
  "split_ports C P l64 s64 \<longleftrightarrow>
     (\<forall>p \<sigma>. l64 p \<sigma> = do {
        (l, \<sigma>) \<leftarrow> soc_load32 C P (ucast p) \<sigma>;
        (h, \<sigma>) \<leftarrow> soc_load32 C P (ucast (p + 4)) \<sigma>;
        Some (join_halves h l, \<sigma>)
      }) \<and>
     (\<forall>p v \<sigma>. s64 p v \<sigma> = do {
        \<sigma> \<leftarrow> soc_store32 C P (ucast p) (get_half False v) \<sigma>;
        soc_store32 C P (ucast (p + 4)) (get_half True v) \<sigma>
      })"

text \<open>The driver's wide accesses are then pairs of its narrow ones.\<close>

lemma split_rd64:
  fixes l64 :: "'x::len word \<Rightarrow> soc \<Rightarrow> (u64 \<times> soc) option"
  assumes "split_ports C P l64 s64"
  shows "rd64 (soc_mmio C P l64 s64) a st = do {
      (l, st) \<leftarrow> rd32 (soc_mmio C P l64 s64) a st;
      (h, st) \<leftarrow> rd32 (soc_mmio C P l64 s64) (a + 4) st;
      Some (join_halves h l, st)
    }"
  using assms by (auto simp: split_ports_def rd64_def rd32_def soc_mmio_def split: Option.bind_splits)

lemma split_wr64:
  fixes l64 :: "'x::len word \<Rightarrow> soc \<Rightarrow> (u64 \<times> soc) option"
  assumes "split_ports C P l64 s64"
  shows "wr64 (soc_mmio C P l64 s64) a v st = do {
      st \<leftarrow> wr32 (soc_mmio C P l64 s64) a (get_half False v) st;
      wr32 (soc_mmio C P l64 s64) (a + 4) (get_half True v) st
    }"
  using assms by (auto simp: split_ports_def wr64_def wr32_def soc_mmio_def split: Option.bind_splits)

text \<open>The address computations of the driver.\<close>

lemma system_addrs:
  assumes "system_ok C P D st"
  shows "c_add (clint_base st) MTIME_BASE = Some (clint_base st + int 0xBFF8)"
    and "c_add (clint_base st + int 0xBFF8) 4 = Some (clint_base st + int 0xBFF8 + 4)"
    and "c_add (clint_base st) MTIMECMP_BASE = Some (clint_base st + int 0x4000)"
  using assms
  by (simp_all add: system_ok_def soc_inv_def base_ok_def c_add_def c_int_def MTIME_BASE_def MTIMECMP_BASE_def)

text \<open>The polling-free read is the plain read of \<open>clint_get_timer\<close>.\<close>

lemma split_raw_time:
  fixes l64 :: "'x::len word \<Rightarrow> soc \<Rightarrow> (u64 \<times> soc) option"
  assumes "system_ok C P D st" and "LENGTH('x) = 64" and "split_ports C P l64 s64"
  shows "mtimer_get_raw_time (soc_mmio C P l64 s64) st = clint_get_timer (soc_mmio C P l64 s64) st"
proof -
  have "clint_base st' = clint_base st" if "rd32 (soc_mmio C P l64 s64) a st = Some (l, st')" for a l st'
    using that by (auto simp: rd32_def split: Option.bind_splits)
  then show ?thesis
    using assms(2) system_addrs [OF assms(1)]
    by (auto simp: mtimer_get_raw_time_def clint_get_timer_def split_rd64 [OF assms(3)] join_halves_c
        simp del: of_nat_numeral intro!: bind_option_cong [OF refl])
qed

text \<open>The store leaves the whole value, whatever the two halves pass through.\<close>

lemma split_store:
  fixes l64 :: "'x::len word \<Rightarrow> soc \<Rightarrow> (u64 \<times> soc) option"
  assumes "system_ok C P D st" and "LENGTH('x) = 64" and "split_ports C P l64 s64"
  shows "\<exists>d st'. wr64 (soc_mmio C P l64 s64) (clint_base st + int 0x4000) v st = Some st' \<and>
    d \<le> 2 * (D + 1) \<and> view (dev st') = advance d (set_mtimecmp 0 v (view (dev st))) \<and>
    system_ok C P D st'"
proof -
  let ?M = "soc_mmio C P l64 s64" and ?b = "clint_base st"
  have len: "16 \<le> LENGTH('x)" using assms(2) by simp
  have cores: "N_CORES P \<le> 8" "0 < N_CORES P"
    using assms(1) by (simp_all add: system_ok_def soc_inv_def soc_ok_def params_ok_def)
  note dec = decode_registers(3,4) [OF cores]
  obtain d1 xs1 st1 where 1: "wr32 ?M (?b + int (0x4000 + 8 * 0)) (get_half False v) st = Some st1"
    "d1 \<le> D + 1" "rtl.ready TYPE('x) ?b C P D st1"
    "view (dev st1) = advance d1 (reg_write (Mtimecmp 0 False) (get_half False v) (view (dev st)))"
    using rtl.wr32_reg [OF rtl_ready [OF assms(1) len] dec(1) is_time_simps(2), of l64 s64] by metis
  obtain d2 xs2 st2 where 2: "wr32 ?M (?b + int (0x4004 + 8 * 0)) (get_half True v) st1 = Some st2"
    "d2 \<le> D + 1" "rtl.ready TYPE('x) ?b C P D st2"
    "view (dev st2) = advance d2 (reg_write (Mtimecmp 0 True) (get_half True v) (view (dev st1)))"
    using rtl.wr32_reg [OF 1(3) dec(2) is_time_simps(2), of l64 s64] by metis
  have "view (dev st2) = advance (d1 + d2) (set_mtimecmp 0 v (view (dev st)))"
    using nth_set_view [OF assms(1) cores(2)]
    by (simp add: 2(4) 1(4) reg_write_mtimecmp_join advance_set_mtimecmp del: reg_write.simps(2))
  moreover have "wr64 ?M (?b + int 0x4000) v st = Some st2"
    using 1(1) 2(1) by (simp add: split_wr64 [OF assms(3)] add.assoc)
  moreover have "system_ok C P D st2" using 2(3) unfolding system_ready by simp
  ultimately show ?thesis using 1(2) 2(2) by (intro exI [of _ "d1 + d2"] exI [of _ st2]) simp
qed

subsection \<open>Properties\<close>

text \<open>C37: the RV64 branches on the 32-bit bus. Where a 64-bit access is two transfers, the
  "single bus access" of the driver does not protect the time: \<open>mtimer_get_raw_time\<close> does exactly
  what \<open>clint_get_timer\<close> does, and joins the halves \<open>mtime\<close> has at two instants of the call; it is the
  time at one instant if the low word cannot carry in between (and can be torn otherwise, as
  \<open>clint_get_timer\<close> can). \<open>mtimer_set_raw_time_cmp\<close> leaves the value read plus the offset in the
  compare register of hart 0, and changes no other register.\<close>

theorem rv64_on_32_bit_bus:
  fixes l64 :: "'x::len word \<Rightarrow> soc \<Rightarrow> (u64 \<times> soc) option"
  assumes "system_ok C P D st" and "LENGTH('x) = 64" and "split_ports C P l64 s64"
    and "t = mtime (rtl (dev st))"
  shows "mtimer_get_raw_time (soc_mmio C P l64 s64) st = clint_get_timer (soc_mmio C P l64 s64) st \<and>
    (\<exists>v m n st1. mtimer_get_raw_time (soc_mmio C P l64 s64) st = Some (v, st1) \<and>
      m \<le> n \<and> n \<le> 2 * (D + 1) \<and>
      v = join_halves (get_half True (t + of_nat n)) (get_half False (t + of_nat m)) \<and>
      (unat (get_half False t) + 2 * (D + 1) < 2 ^ 32 \<longrightarrow> v = t + of_nat m) \<and>
      (\<exists>k st2. mtimer_set_raw_time_cmp (soc_mmio C P l64 s64) clock_offset st = Some st2 \<and>
        system_ok C P D st2 \<and> k \<le> 4 * (D + 1) \<and> mtime (rtl (dev st2)) = t + of_nat k \<and>
        mtimecmp (rtl (dev st2)) = (mtimecmp (rtl (dev st)))[0 := v + clock_offset] \<and>
        msip_reg (rtl (dev st2)) = msip_reg (rtl (dev st))))"
proof -
  let ?M = "soc_mmio C P l64 s64"
  have len: "16 \<le> LENGTH('x)" using assms(2) by simp
  note raw = split_raw_time [OF assms(1-3)]
  obtain m n e st1 where g: "clint_get_timer ?M st =
      Some (join_halves (get_half True (t + of_nat n)) (get_half False (t + of_nat m)), st1)"
    "m \<le> n" "n \<le> e" "e \<le> 2 * (D + 1)" "rtl.ready TYPE('x) (clint_base st) C P D st1"
    "view (dev st1) = advance e (view (dev st))"
    using rtl.get_timer_spec [OF rtl_ready [OF assms(1) len], of l64 s64] assms(4) by auto
  let ?v = "join_halves (get_half True (t + of_nat n)) (get_half False (t + of_nat m))"
  have v: "?v = t + of_nat m" if "unat (get_half False t) + 2 * (D + 1) < 2 ^ 32"
  proof -
    have "get_half True (t + of_nat n) = get_half True (t + of_nat m)"
      using g(2-4) that by (simp add: get_half_high_add)
    then show ?thesis by simp
  qed
  have st1: "clint_base st1 = clint_base st" "system_ok C P D st1"
    using g(5) unfolding system_ready by simp_all
  obtain d st2 where w: "wr64 ?M (clint_base st + int 0x4000) (?v + clock_offset) st1 = Some st2"
    "d \<le> 2 * (D + 1)" "view (dev st2) = advance d (set_mtimecmp 0 (?v + clock_offset) (view (dev st1)))"
    "system_ok C P D st2"
    using split_store [OF st1(2) assms(2,3)] unfolding st1(1) by blast
  have "mtimer_set_raw_time_cmp ?M clock_offset st = Some st2"
    unfolding mtimer_set_raw_time_cmp_def raw g(1)
    using assms(2) w(1) system_addrs(3) [OF st1(2)] st1(1) by (simp del: of_nat_numeral)
  moreover have "mtime (rtl (dev st2)) = t + of_nat (e + d)"
    "mtimecmp (rtl (dev st2)) = (mtimecmp (rtl (dev st)))[0 := ?v + clock_offset]"
    "msip_reg (rtl (dev st2)) = msip_reg (rtl (dev st))"
    using view_advanceD [OF w(3)] view_advanceD [OF g(6)]
    by (simp_all add: set_mtimecmp_def g(6) assms(4) add.assoc)
  moreover have "e + d \<le> 4 * (D + 1)" using g(4) w(2) by simp
  moreover have "n \<le> 2 * (D + 1)" using g(3,4) by simp
  ultimately show ?thesis
    unfolding raw g(1) using g(2) v w(4)
    by (intro conjI refl exI [of _ ?v] exI [of _ m] exI [of _ n] exI [of _ st1] exI [of _ "e + d"]
        exI [of _ st2]) simp_all
qed

text \<open>A converter, and the run of \<open>get_timer_can_be_torn\<close> on it.\<close>

definition split_load :: "cells \<Rightarrow> params \<Rightarrow> 'x::len word \<Rightarrow> soc \<Rightarrow> (u64 \<times> soc) option" where
  "split_load C P p \<sigma> = do {
     (l, \<sigma>) \<leftarrow> soc_load32 C P (ucast p) \<sigma>;
     (h, \<sigma>) \<leftarrow> soc_load32 C P (ucast (p + 4)) \<sigma>;
     Some (join_halves h l, \<sigma>)
   }"

definition split_save :: "cells \<Rightarrow> params \<Rightarrow> 'x::len word \<Rightarrow> u64 \<Rightarrow> soc \<Rightarrow> soc option" where
  "split_save C P p v \<sigma> = do {
     \<sigma> \<leftarrow> soc_store32 C P (ucast p) (get_half False v) \<sigma>;
     soc_store32 C P (ucast (p + 4)) (get_half True v) \<sigma>
   }"

definition demo_mmio_64 :: "(64 word, soc) mmio" where
  "demo_mmio_64 = soc_mmio std_cells default_params (split_load std_cells default_params)
     (split_save std_cells default_params)"

lemma rv64_on_32_bit_bus_witness:
  "\<exists>v st1 st2. mtimer_get_raw_time demo_mmio_64 (demo_drv 999 0xFFFFFFFF [0, 1]) = Some (v, st1) \<and>
     v = 0x1FFFFFFFF \<and> mtime (rtl (dev st1)) = 0x100000000 \<and>
     mtimer_set_raw_time_cmp demo_mmio_64 100 (demo_drv 999 0xFFFFFFFF [0, 1]) = Some st2 \<and>
     mtimecmp (rtl (dev st2)) = [v + 100]"
proof -
  have ok: "system_ok std_cells default_params 1 (demo_drv 999 0xFFFFFFFF [0, 1])"
    by (rule demo_ok) simp_all
  have regs: "mtimecmp (rtl (dev (demo_drv 999 0xFFFFFFFF [0, 1]))) = [- 1]"
    by (simp add: demo_drv_def)
  have split: "split_ports std_cells default_params (split_load std_cells default_params)
      (split_save std_cells default_params :: 64 word \<Rightarrow> _)"
    by (simp add: split_ports_def split_load_def split_save_def)
  have torn: "\<exists>st1. clint_get_timer demo_mmio_64 (demo_drv 999 0xFFFFFFFF [0, 1]) = Some (0x1FFFFFFFF, st1) \<and>
      mtime (rtl (dev st1)) = 0x100000000"
    by (simp add: clint_get_timer_def demo_mmio_64_def demo_eval)
  from rv64_on_32_bit_bus [OF ok _ split refl, of 100] torn regs
  show ?thesis by (auto simp: demo_mmio_64_def)
qed

end
