(* ===== verification/Csr_Supervisor_User.thy ===== *)
theory Csr_Supervisor_User
  imports Csr_Machine
begin

text \<open>
  The accessors of \<open>riscv-csr.h\<close> from \<open>sscratch\<close> to \<open>fcsr\<close>:
  the supervisor-mode and user-mode trap registers and the floating-point status.
  One definition per inline function and macro, one record per group of field macros, in the
  order of the header.
\<close>

subsection \<open>sscratch: Supervisor Mode Scratch Register\<close>

definition csr_read_sscratch :: "('h, 'x::len word) hart \<Rightarrow> ('x word, 'h) exec" where
  "csr_read_sscratch H = csrr H CSR_SSCRATCH"

definition csr_write_sscratch ::
  "('h, 'x::len word) hart \<Rightarrow> 'x word \<Rightarrow> (unit, 'h) exec" where
  "csr_write_sscratch H value = csrw H CSR_SSCRATCH value"

definition csr_read_write_sscratch ::
  "('h, 'x::len word) hart \<Rightarrow> 'x word \<Rightarrow> ('x word, 'h) exec" where
  "csr_read_write_sscratch H new_value = csrrw H CSR_SSCRATCH new_value"

subsection \<open>sepc: Supervisor Exception Program Counter\<close>

definition csr_read_sepc :: "('h, 'x::len word) hart \<Rightarrow> ('x word, 'h) exec" where
  "csr_read_sepc H = csrr H CSR_SEPC"

definition csr_write_sepc ::
  "('h, 'x::len word) hart \<Rightarrow> 'x word \<Rightarrow> (unit, 'h) exec" where
  "csr_write_sepc H value = csrw H CSR_SEPC value"

definition csr_read_write_sepc ::
  "('h, 'x::len word) hart \<Rightarrow> 'x word \<Rightarrow> ('x word, 'h) exec" where
  "csr_read_write_sepc H new_value = csrrw H CSR_SEPC new_value"

subsection \<open>scause: Supervisor Exception Cause\<close>

definition csr_read_scause :: "('h, 'x::len word) hart \<Rightarrow> ('x word, 'h) exec" where
  "csr_read_scause H = csrr H CSR_SCAUSE"

definition csr_write_scause ::
  "('h, 'x::len word) hart \<Rightarrow> 'x word \<Rightarrow> (unit, 'h) exec" where
  "csr_write_scause H value = csrw H CSR_SCAUSE value"

definition csr_read_write_scause ::
  "('h, 'x::len word) hart \<Rightarrow> 'x word \<Rightarrow> ('x word, 'h) exec" where
  "csr_read_write_scause H new_value = csrrw H CSR_SCAUSE new_value"

definition csr_set_bits_scause ::
  "('h, 'x::len word) hart \<Rightarrow> 'x word \<Rightarrow> (unit, 'h) exec" where
  "csr_set_bits_scause H bits = (\<lambda>h. discard (csrrs H CSR_SCAUSE bits h))"

definition csr_clr_bits_scause ::
  "('h, 'x::len word) hart \<Rightarrow> 'x word \<Rightarrow> (unit, 'h) exec" where
  "csr_clr_bits_scause H bits = (\<lambda>h. discard (csrrc H CSR_SCAUSE bits h))"

definition csr_read_set_bits_scause ::
  "('h, 'x::len word) hart \<Rightarrow> 'x word \<Rightarrow> ('x word, 'h) exec" where
  "csr_read_set_bits_scause H bits = csrrs H CSR_SCAUSE bits"

definition csr_read_clr_bits_scause ::
  "('h, 'x::len word) hart \<Rightarrow> 'x word \<Rightarrow> ('x word, 'h) exec" where
  "csr_read_clr_bits_scause H bits = csrrc H CSR_SCAUSE bits"

definition CSR_WRITE_IMM_SCAUSE ::
  "('h, 'x::len word) hart \<Rightarrow> int \<Rightarrow> (unit, 'h) exec" where
  "CSR_WRITE_IMM_SCAUSE H = csrwi H CSR_SCAUSE"

definition CSR_SET_BITS_IMM_SCAUSE ::
  "('h, 'x::len word) hart \<Rightarrow> int \<Rightarrow> (unit, 'h) exec" where
  "CSR_SET_BITS_IMM_SCAUSE H = csrsi H CSR_SCAUSE"

definition CSR_CLR_BITS_IMM_SCAUSE ::
  "('h, 'x::len word) hart \<Rightarrow> int \<Rightarrow> (unit, 'h) exec" where
  "CSR_CLR_BITS_IMM_SCAUSE H = csrci H CSR_SCAUSE"

definition SCAUSE_INTERRUPT :: "('x::len word) field" where
  "SCAUSE_INTERRUPT = \<lparr>bit_offset = LENGTH('x) - 1, bit_width = 1,
     bit_mask = push_bit (LENGTH('x) - 1) 1, all_set_mask = 0x1\<rparr>"

definition SCAUSE_EXCEPTION_CODE :: "('x::len word) field" where
  "SCAUSE_EXCEPTION_CODE = \<lparr>bit_offset = 0, bit_width = (LENGTH('x) - 2) - 0 + 1,
     bit_mask = push_bit 0 (push_bit (((LENGTH('x) - 2) - 0 + 1) - 1) 1),
     all_set_mask = push_bit 0 (push_bit (((LENGTH('x) - 2) - 0 + 1) - 1) 1)\<rparr>"

subsection \<open>sstatus: Supervisor Status\<close>

definition csr_read_sstatus :: "('h, 'x::len word) hart \<Rightarrow> ('x word, 'h) exec" where
  "csr_read_sstatus H = csrr H CSR_SSTATUS"

definition csr_write_sstatus ::
  "('h, 'x::len word) hart \<Rightarrow> 'x word \<Rightarrow> (unit, 'h) exec" where
  "csr_write_sstatus H value = csrw H CSR_SSTATUS value"

definition csr_read_write_sstatus ::
  "('h, 'x::len word) hart \<Rightarrow> 'x word \<Rightarrow> ('x word, 'h) exec" where
  "csr_read_write_sstatus H new_value = csrrw H CSR_SSTATUS new_value"

definition csr_set_bits_sstatus ::
  "('h, 'x::len word) hart \<Rightarrow> 'x word \<Rightarrow> (unit, 'h) exec" where
  "csr_set_bits_sstatus H bits = (\<lambda>h. discard (csrrs H CSR_SSTATUS bits h))"

definition csr_clr_bits_sstatus ::
  "('h, 'x::len word) hart \<Rightarrow> 'x word \<Rightarrow> (unit, 'h) exec" where
  "csr_clr_bits_sstatus H bits = (\<lambda>h. discard (csrrc H CSR_SSTATUS bits h))"

definition csr_read_set_bits_sstatus ::
  "('h, 'x::len word) hart \<Rightarrow> 'x word \<Rightarrow> ('x word, 'h) exec" where
  "csr_read_set_bits_sstatus H bits = csrrs H CSR_SSTATUS bits"

definition csr_read_clr_bits_sstatus ::
  "('h, 'x::len word) hart \<Rightarrow> 'x word \<Rightarrow> ('x word, 'h) exec" where
  "csr_read_clr_bits_sstatus H bits = csrrc H CSR_SSTATUS bits"

definition CSR_WRITE_IMM_SSTATUS ::
  "('h, 'x::len word) hart \<Rightarrow> int \<Rightarrow> (unit, 'h) exec" where
  "CSR_WRITE_IMM_SSTATUS H = csrwi H CSR_SSTATUS"

definition CSR_SET_BITS_IMM_SSTATUS ::
  "('h, 'x::len word) hart \<Rightarrow> int \<Rightarrow> (unit, 'h) exec" where
  "CSR_SET_BITS_IMM_SSTATUS H = csrsi H CSR_SSTATUS"

definition CSR_CLR_BITS_IMM_SSTATUS ::
  "('h, 'x::len word) hart \<Rightarrow> int \<Rightarrow> (unit, 'h) exec" where
  "CSR_CLR_BITS_IMM_SSTATUS H = csrci H CSR_SSTATUS"

definition SSTATUS_SIE :: "('x::len word) field" where
  "SSTATUS_SIE = \<lparr>bit_offset = 2, bit_width = 1,
     bit_mask = 0x4, all_set_mask = 0x1\<rparr>"

definition SSTATUS_SPIE :: "('x::len word) field" where
  "SSTATUS_SPIE = \<lparr>bit_offset = 5, bit_width = 1,
     bit_mask = 0x20, all_set_mask = 0x1\<rparr>"

definition SSTATUS_SPP :: "('x::len word) field" where
  "SSTATUS_SPP = \<lparr>bit_offset = 8, bit_width = 1,
     bit_mask = 0x100, all_set_mask = 0x1\<rparr>"

subsection \<open>stvec: Supervisor Trap Vector Base Address\<close>

definition csr_read_stvec :: "('h, 'x::len word) hart \<Rightarrow> ('x word, 'h) exec" where
  "csr_read_stvec H = csrr H CSR_STVEC"

definition csr_write_stvec ::
  "('h, 'x::len word) hart \<Rightarrow> 'x word \<Rightarrow> (unit, 'h) exec" where
  "csr_write_stvec H value = csrw H CSR_STVEC value"

definition csr_read_write_stvec ::
  "('h, 'x::len word) hart \<Rightarrow> 'x word \<Rightarrow> ('x word, 'h) exec" where
  "csr_read_write_stvec H new_value = csrrw H CSR_STVEC new_value"

definition csr_set_bits_stvec ::
  "('h, 'x::len word) hart \<Rightarrow> 'x word \<Rightarrow> (unit, 'h) exec" where
  "csr_set_bits_stvec H bits = (\<lambda>h. discard (csrrs H CSR_STVEC bits h))"

definition csr_clr_bits_stvec ::
  "('h, 'x::len word) hart \<Rightarrow> 'x word \<Rightarrow> (unit, 'h) exec" where
  "csr_clr_bits_stvec H bits = (\<lambda>h. discard (csrrc H CSR_STVEC bits h))"

definition csr_read_set_bits_stvec ::
  "('h, 'x::len word) hart \<Rightarrow> 'x word \<Rightarrow> ('x word, 'h) exec" where
  "csr_read_set_bits_stvec H bits = csrrs H CSR_STVEC bits"

definition csr_read_clr_bits_stvec ::
  "('h, 'x::len word) hart \<Rightarrow> 'x word \<Rightarrow> ('x word, 'h) exec" where
  "csr_read_clr_bits_stvec H bits = csrrc H CSR_STVEC bits"

definition CSR_WRITE_IMM_STVEC ::
  "('h, 'x::len word) hart \<Rightarrow> int \<Rightarrow> (unit, 'h) exec" where
  "CSR_WRITE_IMM_STVEC H = csrwi H CSR_STVEC"

definition CSR_SET_BITS_IMM_STVEC ::
  "('h, 'x::len word) hart \<Rightarrow> int \<Rightarrow> (unit, 'h) exec" where
  "CSR_SET_BITS_IMM_STVEC H = csrsi H CSR_STVEC"

definition CSR_CLR_BITS_IMM_STVEC ::
  "('h, 'x::len word) hart \<Rightarrow> int \<Rightarrow> (unit, 'h) exec" where
  "CSR_CLR_BITS_IMM_STVEC H = csrci H CSR_STVEC"

definition STVEC_BASE :: "('x::len word) field" where
  "STVEC_BASE = \<lparr>bit_offset = 2, bit_width = (LENGTH('x) - 1) - 2 + 1,
     bit_mask = push_bit 2 (push_bit (((LENGTH('x) - 1) - 2 + 1) - 1) 1),
     all_set_mask = push_bit 0 (push_bit (((LENGTH('x) - 1) - 2 + 1) - 1) 1)\<rparr>"

definition STVEC_MODE :: "('x::len word) field" where
  "STVEC_MODE = \<lparr>bit_offset = 0, bit_width = 2,
     bit_mask = 0x3, all_set_mask = 0x3\<rparr>"

subsection \<open>sideleg: Supervisor Interrupt Delegation\<close>

definition csr_read_sideleg :: "('h, 'x::len word) hart \<Rightarrow> ('x word, 'h) exec" where
  "csr_read_sideleg H = csrr H CSR_SIDELEG"

definition csr_write_sideleg ::
  "('h, 'x::len word) hart \<Rightarrow> 'x word \<Rightarrow> (unit, 'h) exec" where
  "csr_write_sideleg H value = csrw H CSR_SIDELEG value"

definition csr_read_write_sideleg ::
  "('h, 'x::len word) hart \<Rightarrow> 'x word \<Rightarrow> ('x word, 'h) exec" where
  "csr_read_write_sideleg H new_value = csrrw H CSR_SIDELEG new_value"

subsection \<open>sedeleg: Supervisor Exception Delegation\<close>

definition csr_read_sedeleg :: "('h, 'x::len word) hart \<Rightarrow> ('x word, 'h) exec" where
  "csr_read_sedeleg H = csrr H CSR_SEDELEG"

definition csr_write_sedeleg ::
  "('h, 'x::len word) hart \<Rightarrow> 'x word \<Rightarrow> (unit, 'h) exec" where
  "csr_write_sedeleg H value = csrw H CSR_SEDELEG value"

definition csr_read_write_sedeleg ::
  "('h, 'x::len word) hart \<Rightarrow> 'x word \<Rightarrow> ('x word, 'h) exec" where
  "csr_read_write_sedeleg H new_value = csrrw H CSR_SEDELEG new_value"

subsection \<open>sip: Supervisor Interrupt Pending\<close>

definition csr_read_sip :: "('h, 'x::len word) hart \<Rightarrow> ('x word, 'h) exec" where
  "csr_read_sip H = csrr H CSR_SIP"

definition csr_write_sip ::
  "('h, 'x::len word) hart \<Rightarrow> 'x word \<Rightarrow> (unit, 'h) exec" where
  "csr_write_sip H value = csrw H CSR_SIP value"

definition csr_read_write_sip ::
  "('h, 'x::len word) hart \<Rightarrow> 'x word \<Rightarrow> ('x word, 'h) exec" where
  "csr_read_write_sip H new_value = csrrw H CSR_SIP new_value"

definition csr_set_bits_sip ::
  "('h, 'x::len word) hart \<Rightarrow> 'x word \<Rightarrow> (unit, 'h) exec" where
  "csr_set_bits_sip H bits = (\<lambda>h. discard (csrrs H CSR_SIP bits h))"

definition csr_clr_bits_sip ::
  "('h, 'x::len word) hart \<Rightarrow> 'x word \<Rightarrow> (unit, 'h) exec" where
  "csr_clr_bits_sip H bits = (\<lambda>h. discard (csrrc H CSR_SIP bits h))"

definition csr_read_set_bits_sip ::
  "('h, 'x::len word) hart \<Rightarrow> 'x word \<Rightarrow> ('x word, 'h) exec" where
  "csr_read_set_bits_sip H bits = csrrs H CSR_SIP bits"

definition csr_read_clr_bits_sip ::
  "('h, 'x::len word) hart \<Rightarrow> 'x word \<Rightarrow> ('x word, 'h) exec" where
  "csr_read_clr_bits_sip H bits = csrrc H CSR_SIP bits"

definition CSR_WRITE_IMM_SIP ::
  "('h, 'x::len word) hart \<Rightarrow> int \<Rightarrow> (unit, 'h) exec" where
  "CSR_WRITE_IMM_SIP H = csrwi H CSR_SIP"

definition CSR_SET_BITS_IMM_SIP ::
  "('h, 'x::len word) hart \<Rightarrow> int \<Rightarrow> (unit, 'h) exec" where
  "CSR_SET_BITS_IMM_SIP H = csrsi H CSR_SIP"

definition CSR_CLR_BITS_IMM_SIP ::
  "('h, 'x::len word) hart \<Rightarrow> int \<Rightarrow> (unit, 'h) exec" where
  "CSR_CLR_BITS_IMM_SIP H = csrci H CSR_SIP"

definition SIP_SSI :: "('x::len word) field" where
  "SIP_SSI = \<lparr>bit_offset = 1, bit_width = 1,
     bit_mask = 0x2, all_set_mask = 0x1\<rparr>"

definition SIP_STI :: "('x::len word) field" where
  "SIP_STI = \<lparr>bit_offset = 5, bit_width = 1,
     bit_mask = 0x20, all_set_mask = 0x1\<rparr>"

definition SIP_SEI :: "('x::len word) field" where
  "SIP_SEI = \<lparr>bit_offset = 9, bit_width = 1,
     bit_mask = 0x200, all_set_mask = 0x1\<rparr>"

definition SIP_USI :: "('x::len word) field" where
  "SIP_USI = \<lparr>bit_offset = 0, bit_width = 1,
     bit_mask = 0x1, all_set_mask = 0x1\<rparr>"

definition SIP_UTI :: "('x::len word) field" where
  "SIP_UTI = \<lparr>bit_offset = 4, bit_width = 1,
     bit_mask = 0x10, all_set_mask = 0x1\<rparr>"

definition SIP_UEI :: "('x::len word) field" where
  "SIP_UEI = \<lparr>bit_offset = 8, bit_width = 1,
     bit_mask = 0x100, all_set_mask = 0x1\<rparr>"

subsection \<open>sie: Supervisor Interrupt Enable\<close>

definition csr_read_sie :: "('h, 'x::len word) hart \<Rightarrow> ('x word, 'h) exec" where
  "csr_read_sie H = csrr H CSR_SIE"

definition csr_write_sie ::
  "('h, 'x::len word) hart \<Rightarrow> 'x word \<Rightarrow> (unit, 'h) exec" where
  "csr_write_sie H value = csrw H CSR_SIE value"

definition csr_read_write_sie ::
  "('h, 'x::len word) hart \<Rightarrow> 'x word \<Rightarrow> ('x word, 'h) exec" where
  "csr_read_write_sie H new_value = csrrw H CSR_SIE new_value"

definition csr_set_bits_sie ::
  "('h, 'x::len word) hart \<Rightarrow> 'x word \<Rightarrow> (unit, 'h) exec" where
  "csr_set_bits_sie H bits = (\<lambda>h. discard (csrrs H CSR_SIE bits h))"

definition csr_clr_bits_sie ::
  "('h, 'x::len word) hart \<Rightarrow> 'x word \<Rightarrow> (unit, 'h) exec" where
  "csr_clr_bits_sie H bits = (\<lambda>h. discard (csrrc H CSR_SIE bits h))"

definition csr_read_set_bits_sie ::
  "('h, 'x::len word) hart \<Rightarrow> 'x word \<Rightarrow> ('x word, 'h) exec" where
  "csr_read_set_bits_sie H bits = csrrs H CSR_SIE bits"

definition csr_read_clr_bits_sie ::
  "('h, 'x::len word) hart \<Rightarrow> 'x word \<Rightarrow> ('x word, 'h) exec" where
  "csr_read_clr_bits_sie H bits = csrrc H CSR_SIE bits"

definition CSR_WRITE_IMM_SIE ::
  "('h, 'x::len word) hart \<Rightarrow> int \<Rightarrow> (unit, 'h) exec" where
  "CSR_WRITE_IMM_SIE H = csrwi H CSR_SIE"

definition CSR_SET_BITS_IMM_SIE ::
  "('h, 'x::len word) hart \<Rightarrow> int \<Rightarrow> (unit, 'h) exec" where
  "CSR_SET_BITS_IMM_SIE H = csrsi H CSR_SIE"

definition CSR_CLR_BITS_IMM_SIE ::
  "('h, 'x::len word) hart \<Rightarrow> int \<Rightarrow> (unit, 'h) exec" where
  "CSR_CLR_BITS_IMM_SIE H = csrci H CSR_SIE"

definition SIE_SSI :: "('x::len word) field" where
  "SIE_SSI = \<lparr>bit_offset = 1, bit_width = 1,
     bit_mask = 0x2, all_set_mask = 0x1\<rparr>"

definition SIE_STI :: "('x::len word) field" where
  "SIE_STI = \<lparr>bit_offset = 5, bit_width = 1,
     bit_mask = 0x20, all_set_mask = 0x1\<rparr>"

definition SIE_SEI :: "('x::len word) field" where
  "SIE_SEI = \<lparr>bit_offset = 9, bit_width = 1,
     bit_mask = 0x200, all_set_mask = 0x1\<rparr>"

definition SIE_USI :: "('x::len word) field" where
  "SIE_USI = \<lparr>bit_offset = 0, bit_width = 1,
     bit_mask = 0x1, all_set_mask = 0x1\<rparr>"

definition SIE_UTI :: "('x::len word) field" where
  "SIE_UTI = \<lparr>bit_offset = 4, bit_width = 1,
     bit_mask = 0x10, all_set_mask = 0x1\<rparr>"

definition SIE_UEI :: "('x::len word) field" where
  "SIE_UEI = \<lparr>bit_offset = 8, bit_width = 1,
     bit_mask = 0x100, all_set_mask = 0x1\<rparr>"

subsection \<open>ustatus: User mode restricted view of mstatus\<close>

definition csr_read_ustatus :: "('h, 'x::len word) hart \<Rightarrow> ('x word, 'h) exec" where
  "csr_read_ustatus H = csrr H CSR_USTATUS"

definition csr_write_ustatus ::
  "('h, 'x::len word) hart \<Rightarrow> 'x word \<Rightarrow> (unit, 'h) exec" where
  "csr_write_ustatus H value = csrw H CSR_USTATUS value"

definition csr_read_write_ustatus ::
  "('h, 'x::len word) hart \<Rightarrow> 'x word \<Rightarrow> ('x word, 'h) exec" where
  "csr_read_write_ustatus H new_value = csrrw H CSR_USTATUS new_value"

definition csr_set_bits_ustatus ::
  "('h, 'x::len word) hart \<Rightarrow> 'x word \<Rightarrow> (unit, 'h) exec" where
  "csr_set_bits_ustatus H bits = (\<lambda>h. discard (csrrs H CSR_USTATUS bits h))"

definition csr_clr_bits_ustatus ::
  "('h, 'x::len word) hart \<Rightarrow> 'x word \<Rightarrow> (unit, 'h) exec" where
  "csr_clr_bits_ustatus H bits = (\<lambda>h. discard (csrrc H CSR_USTATUS bits h))"

definition csr_read_set_bits_ustatus ::
  "('h, 'x::len word) hart \<Rightarrow> 'x word \<Rightarrow> ('x word, 'h) exec" where
  "csr_read_set_bits_ustatus H bits = csrrs H CSR_USTATUS bits"

definition csr_read_clr_bits_ustatus ::
  "('h, 'x::len word) hart \<Rightarrow> 'x word \<Rightarrow> ('x word, 'h) exec" where
  "csr_read_clr_bits_ustatus H bits = csrrc H CSR_USTATUS bits"

definition CSR_WRITE_IMM_USTATUS ::
  "('h, 'x::len word) hart \<Rightarrow> int \<Rightarrow> (unit, 'h) exec" where
  "CSR_WRITE_IMM_USTATUS H = csrwi H CSR_USTATUS"

definition CSR_SET_BITS_IMM_USTATUS ::
  "('h, 'x::len word) hart \<Rightarrow> int \<Rightarrow> (unit, 'h) exec" where
  "CSR_SET_BITS_IMM_USTATUS H = csrsi H CSR_USTATUS"

definition CSR_CLR_BITS_IMM_USTATUS ::
  "('h, 'x::len word) hart \<Rightarrow> int \<Rightarrow> (unit, 'h) exec" where
  "CSR_CLR_BITS_IMM_USTATUS H = csrci H CSR_USTATUS"

definition USTATUS_UIE :: "('x::len word) field" where
  "USTATUS_UIE = \<lparr>bit_offset = 1, bit_width = 1,
     bit_mask = 0x2, all_set_mask = 0x1\<rparr>"

definition USTATUS_UPIE :: "('x::len word) field" where
  "USTATUS_UPIE = \<lparr>bit_offset = 3, bit_width = 1,
     bit_mask = 0x8, all_set_mask = 0x1\<rparr>"

subsection \<open>uip: User Interrupt Pending\<close>

definition csr_read_uip :: "('h, 'x::len word) hart \<Rightarrow> ('x word, 'h) exec" where
  "csr_read_uip H = csrr H CSR_UIP"

definition csr_write_uip ::
  "('h, 'x::len word) hart \<Rightarrow> 'x word \<Rightarrow> (unit, 'h) exec" where
  "csr_write_uip H value = csrw H CSR_UIP value"

definition csr_read_write_uip ::
  "('h, 'x::len word) hart \<Rightarrow> 'x word \<Rightarrow> ('x word, 'h) exec" where
  "csr_read_write_uip H new_value = csrrw H CSR_UIP new_value"

definition csr_set_bits_uip ::
  "('h, 'x::len word) hart \<Rightarrow> 'x word \<Rightarrow> (unit, 'h) exec" where
  "csr_set_bits_uip H bits = (\<lambda>h. discard (csrrs H CSR_UIP bits h))"

definition csr_clr_bits_uip ::
  "('h, 'x::len word) hart \<Rightarrow> 'x word \<Rightarrow> (unit, 'h) exec" where
  "csr_clr_bits_uip H bits = (\<lambda>h. discard (csrrc H CSR_UIP bits h))"

definition csr_read_set_bits_uip ::
  "('h, 'x::len word) hart \<Rightarrow> 'x word \<Rightarrow> ('x word, 'h) exec" where
  "csr_read_set_bits_uip H bits = csrrs H CSR_UIP bits"

definition csr_read_clr_bits_uip ::
  "('h, 'x::len word) hart \<Rightarrow> 'x word \<Rightarrow> ('x word, 'h) exec" where
  "csr_read_clr_bits_uip H bits = csrrc H CSR_UIP bits"

definition CSR_WRITE_IMM_UIP ::
  "('h, 'x::len word) hart \<Rightarrow> int \<Rightarrow> (unit, 'h) exec" where
  "CSR_WRITE_IMM_UIP H = csrwi H CSR_UIP"

definition CSR_SET_BITS_IMM_UIP ::
  "('h, 'x::len word) hart \<Rightarrow> int \<Rightarrow> (unit, 'h) exec" where
  "CSR_SET_BITS_IMM_UIP H = csrsi H CSR_UIP"

definition CSR_CLR_BITS_IMM_UIP ::
  "('h, 'x::len word) hart \<Rightarrow> int \<Rightarrow> (unit, 'h) exec" where
  "CSR_CLR_BITS_IMM_UIP H = csrci H CSR_UIP"

definition UIP_USI :: "('x::len word) field" where
  "UIP_USI = \<lparr>bit_offset = 0, bit_width = 1,
     bit_mask = 0x1, all_set_mask = 0x1\<rparr>"

definition UIP_UTI :: "('x::len word) field" where
  "UIP_UTI = \<lparr>bit_offset = 4, bit_width = 1,
     bit_mask = 0x10, all_set_mask = 0x1\<rparr>"

definition UIP_UEI :: "('x::len word) field" where
  "UIP_UEI = \<lparr>bit_offset = 8, bit_width = 1,
     bit_mask = 0x100, all_set_mask = 0x1\<rparr>"

subsection \<open>uie: User Interrupt Enable\<close>

definition csr_read_uie :: "('h, 'x::len word) hart \<Rightarrow> ('x word, 'h) exec" where
  "csr_read_uie H = csrr H CSR_UIE"

definition csr_write_uie ::
  "('h, 'x::len word) hart \<Rightarrow> 'x word \<Rightarrow> (unit, 'h) exec" where
  "csr_write_uie H value = csrw H CSR_UIE value"

definition csr_read_write_uie ::
  "('h, 'x::len word) hart \<Rightarrow> 'x word \<Rightarrow> ('x word, 'h) exec" where
  "csr_read_write_uie H new_value = csrrw H CSR_UIE new_value"

definition csr_set_bits_uie ::
  "('h, 'x::len word) hart \<Rightarrow> 'x word \<Rightarrow> (unit, 'h) exec" where
  "csr_set_bits_uie H bits = (\<lambda>h. discard (csrrs H CSR_UIE bits h))"

definition csr_clr_bits_uie ::
  "('h, 'x::len word) hart \<Rightarrow> 'x word \<Rightarrow> (unit, 'h) exec" where
  "csr_clr_bits_uie H bits = (\<lambda>h. discard (csrrc H CSR_UIE bits h))"

definition csr_read_set_bits_uie ::
  "('h, 'x::len word) hart \<Rightarrow> 'x word \<Rightarrow> ('x word, 'h) exec" where
  "csr_read_set_bits_uie H bits = csrrs H CSR_UIE bits"

definition csr_read_clr_bits_uie ::
  "('h, 'x::len word) hart \<Rightarrow> 'x word \<Rightarrow> ('x word, 'h) exec" where
  "csr_read_clr_bits_uie H bits = csrrc H CSR_UIE bits"

definition CSR_WRITE_IMM_UIE ::
  "('h, 'x::len word) hart \<Rightarrow> int \<Rightarrow> (unit, 'h) exec" where
  "CSR_WRITE_IMM_UIE H = csrwi H CSR_UIE"

definition CSR_SET_BITS_IMM_UIE ::
  "('h, 'x::len word) hart \<Rightarrow> int \<Rightarrow> (unit, 'h) exec" where
  "CSR_SET_BITS_IMM_UIE H = csrsi H CSR_UIE"

definition CSR_CLR_BITS_IMM_UIE ::
  "('h, 'x::len word) hart \<Rightarrow> int \<Rightarrow> (unit, 'h) exec" where
  "CSR_CLR_BITS_IMM_UIE H = csrci H CSR_UIE"

definition UIE_USI :: "('x::len word) field" where
  "UIE_USI = \<lparr>bit_offset = 0, bit_width = 1,
     bit_mask = 0x1, all_set_mask = 0x1\<rparr>"

definition UIE_UTI :: "('x::len word) field" where
  "UIE_UTI = \<lparr>bit_offset = 4, bit_width = 1,
     bit_mask = 0x10, all_set_mask = 0x1\<rparr>"

definition UIE_UEI :: "('x::len word) field" where
  "UIE_UEI = \<lparr>bit_offset = 8, bit_width = 1,
     bit_mask = 0x100, all_set_mask = 0x1\<rparr>"

subsection \<open>uscratch: User Mode Scratch Register\<close>

definition csr_read_uscratch :: "('h, 'x::len word) hart \<Rightarrow> ('x word, 'h) exec" where
  "csr_read_uscratch H = csrr H CSR_USCRATCH"

definition csr_write_uscratch ::
  "('h, 'x::len word) hart \<Rightarrow> 'x word \<Rightarrow> (unit, 'h) exec" where
  "csr_write_uscratch H value = csrw H CSR_USCRATCH value"

definition csr_read_write_uscratch ::
  "('h, 'x::len word) hart \<Rightarrow> 'x word \<Rightarrow> ('x word, 'h) exec" where
  "csr_read_write_uscratch H new_value = csrrw H CSR_USCRATCH new_value"

subsection \<open>uepc: User Exception Program Counter\<close>

definition csr_read_uepc :: "('h, 'x::len word) hart \<Rightarrow> ('x word, 'h) exec" where
  "csr_read_uepc H = csrr H CSR_UEPC"

definition csr_write_uepc ::
  "('h, 'x::len word) hart \<Rightarrow> 'x word \<Rightarrow> (unit, 'h) exec" where
  "csr_write_uepc H value = csrw H CSR_UEPC value"

definition csr_read_write_uepc ::
  "('h, 'x::len word) hart \<Rightarrow> 'x word \<Rightarrow> ('x word, 'h) exec" where
  "csr_read_write_uepc H new_value = csrrw H CSR_UEPC new_value"

subsection \<open>ucause: User Exception Cause\<close>

definition csr_read_ucause :: "('h, 'x::len word) hart \<Rightarrow> ('x word, 'h) exec" where
  "csr_read_ucause H = csrr H CSR_UCAUSE"

definition csr_write_ucause ::
  "('h, 'x::len word) hart \<Rightarrow> 'x word \<Rightarrow> (unit, 'h) exec" where
  "csr_write_ucause H value = csrw H CSR_UCAUSE value"

definition csr_read_write_ucause ::
  "('h, 'x::len word) hart \<Rightarrow> 'x word \<Rightarrow> ('x word, 'h) exec" where
  "csr_read_write_ucause H new_value = csrrw H CSR_UCAUSE new_value"

definition csr_set_bits_ucause ::
  "('h, 'x::len word) hart \<Rightarrow> 'x word \<Rightarrow> (unit, 'h) exec" where
  "csr_set_bits_ucause H bits = (\<lambda>h. discard (csrrs H CSR_UCAUSE bits h))"

definition csr_clr_bits_ucause ::
  "('h, 'x::len word) hart \<Rightarrow> 'x word \<Rightarrow> (unit, 'h) exec" where
  "csr_clr_bits_ucause H bits = (\<lambda>h. discard (csrrc H CSR_UCAUSE bits h))"

definition csr_read_set_bits_ucause ::
  "('h, 'x::len word) hart \<Rightarrow> 'x word \<Rightarrow> ('x word, 'h) exec" where
  "csr_read_set_bits_ucause H bits = csrrs H CSR_UCAUSE bits"

definition csr_read_clr_bits_ucause ::
  "('h, 'x::len word) hart \<Rightarrow> 'x word \<Rightarrow> ('x word, 'h) exec" where
  "csr_read_clr_bits_ucause H bits = csrrc H CSR_UCAUSE bits"

definition CSR_WRITE_IMM_UCAUSE ::
  "('h, 'x::len word) hart \<Rightarrow> int \<Rightarrow> (unit, 'h) exec" where
  "CSR_WRITE_IMM_UCAUSE H = csrwi H CSR_UCAUSE"

definition CSR_SET_BITS_IMM_UCAUSE ::
  "('h, 'x::len word) hart \<Rightarrow> int \<Rightarrow> (unit, 'h) exec" where
  "CSR_SET_BITS_IMM_UCAUSE H = csrsi H CSR_UCAUSE"

definition CSR_CLR_BITS_IMM_UCAUSE ::
  "('h, 'x::len word) hart \<Rightarrow> int \<Rightarrow> (unit, 'h) exec" where
  "CSR_CLR_BITS_IMM_UCAUSE H = csrci H CSR_UCAUSE"

definition UCAUSE_INTERRUPT :: "('x::len word) field" where
  "UCAUSE_INTERRUPT = \<lparr>bit_offset = LENGTH('x) - 1, bit_width = 1,
     bit_mask = push_bit (LENGTH('x) - 1) 1, all_set_mask = 0x1\<rparr>"

definition UCAUSE_EXCEPTION_CODE :: "('x::len word) field" where
  "UCAUSE_EXCEPTION_CODE = \<lparr>bit_offset = 0, bit_width = (LENGTH('x) - 2) - 0 + 1,
     bit_mask = push_bit 0 (push_bit (((LENGTH('x) - 2) - 0 + 1) - 1) 1),
     all_set_mask = push_bit 0 (push_bit (((LENGTH('x) - 2) - 0 + 1) - 1) 1)\<rparr>"

subsection \<open>utvec: User Trap Vector Base Address\<close>

definition csr_read_utvec :: "('h, 'x::len word) hart \<Rightarrow> ('x word, 'h) exec" where
  "csr_read_utvec H = csrr H CSR_UTVEC"

definition csr_write_utvec ::
  "('h, 'x::len word) hart \<Rightarrow> 'x word \<Rightarrow> (unit, 'h) exec" where
  "csr_write_utvec H value = csrw H CSR_UTVEC value"

definition csr_read_write_utvec ::
  "('h, 'x::len word) hart \<Rightarrow> 'x word \<Rightarrow> ('x word, 'h) exec" where
  "csr_read_write_utvec H new_value = csrrw H CSR_UTVEC new_value"

definition csr_set_bits_utvec ::
  "('h, 'x::len word) hart \<Rightarrow> 'x word \<Rightarrow> (unit, 'h) exec" where
  "csr_set_bits_utvec H bits = (\<lambda>h. discard (csrrs H CSR_UTVEC bits h))"

definition csr_clr_bits_utvec ::
  "('h, 'x::len word) hart \<Rightarrow> 'x word \<Rightarrow> (unit, 'h) exec" where
  "csr_clr_bits_utvec H bits = (\<lambda>h. discard (csrrc H CSR_UTVEC bits h))"

definition csr_read_set_bits_utvec ::
  "('h, 'x::len word) hart \<Rightarrow> 'x word \<Rightarrow> ('x word, 'h) exec" where
  "csr_read_set_bits_utvec H bits = csrrs H CSR_UTVEC bits"

definition csr_read_clr_bits_utvec ::
  "('h, 'x::len word) hart \<Rightarrow> 'x word \<Rightarrow> ('x word, 'h) exec" where
  "csr_read_clr_bits_utvec H bits = csrrc H CSR_UTVEC bits"

definition CSR_WRITE_IMM_UTVEC ::
  "('h, 'x::len word) hart \<Rightarrow> int \<Rightarrow> (unit, 'h) exec" where
  "CSR_WRITE_IMM_UTVEC H = csrwi H CSR_UTVEC"

definition CSR_SET_BITS_IMM_UTVEC ::
  "('h, 'x::len word) hart \<Rightarrow> int \<Rightarrow> (unit, 'h) exec" where
  "CSR_SET_BITS_IMM_UTVEC H = csrsi H CSR_UTVEC"

definition CSR_CLR_BITS_IMM_UTVEC ::
  "('h, 'x::len word) hart \<Rightarrow> int \<Rightarrow> (unit, 'h) exec" where
  "CSR_CLR_BITS_IMM_UTVEC H = csrci H CSR_UTVEC"

definition UTVEC_BASE :: "('x::len word) field" where
  "UTVEC_BASE = \<lparr>bit_offset = 2, bit_width = (LENGTH('x) - 1) - 2 + 1,
     bit_mask = push_bit 2 (push_bit (((LENGTH('x) - 1) - 2 + 1) - 1) 1),
     all_set_mask = push_bit 0 (push_bit (((LENGTH('x) - 1) - 2 + 1) - 1) 1)\<rparr>"

definition UTVEC_MODE :: "('x::len word) field" where
  "UTVEC_MODE = \<lparr>bit_offset = 0, bit_width = 2,
     bit_mask = 0x3, all_set_mask = 0x3\<rparr>"

subsection \<open>utval: User Trap Value\<close>

definition csr_read_utval :: "('h, 'x::len word) hart \<Rightarrow> ('x word, 'h) exec" where
  "csr_read_utval H = csrr H CSR_UTVAL"

definition csr_write_utval ::
  "('h, 'x::len word) hart \<Rightarrow> 'x word \<Rightarrow> (unit, 'h) exec" where
  "csr_write_utval H value = csrw H CSR_UTVAL value"

definition csr_read_write_utval ::
  "('h, 'x::len word) hart \<Rightarrow> 'x word \<Rightarrow> ('x word, 'h) exec" where
  "csr_read_write_utval H new_value = csrrw H CSR_UTVAL new_value"

subsection \<open>fflags: Floating-Point Accrued Exceptions\<close>

definition csr_read_fflags :: "('h, 'x::len word) hart \<Rightarrow> ('x word, 'h) exec" where
  "csr_read_fflags H = csrr H CSR_FFLAGS"

definition csr_write_fflags ::
  "('h, 'x::len word) hart \<Rightarrow> 'x word \<Rightarrow> (unit, 'h) exec" where
  "csr_write_fflags H value = csrw H CSR_FFLAGS value"

definition csr_read_write_fflags ::
  "('h, 'x::len word) hart \<Rightarrow> 'x word \<Rightarrow> ('x word, 'h) exec" where
  "csr_read_write_fflags H new_value = csrrw H CSR_FFLAGS new_value"

subsection \<open>frm: Floating-Point Dynamic Rounding Mode\<close>

definition csr_read_frm :: "('h, 'x::len word) hart \<Rightarrow> ('x word, 'h) exec" where
  "csr_read_frm H = csrr H CSR_FRM"

definition csr_write_frm ::
  "('h, 'x::len word) hart \<Rightarrow> 'x word \<Rightarrow> (unit, 'h) exec" where
  "csr_write_frm H value = csrw H CSR_FRM value"

definition csr_read_write_frm ::
  "('h, 'x::len word) hart \<Rightarrow> 'x word \<Rightarrow> ('x word, 'h) exec" where
  "csr_read_write_frm H new_value = csrrw H CSR_FRM new_value"

subsection \<open>fcsr: Floating-Point Control and Status\<close>

definition csr_read_fcsr :: "('h, 'x::len word) hart \<Rightarrow> ('x word, 'h) exec" where
  "csr_read_fcsr H = csrr H CSR_FCSR"

definition csr_write_fcsr ::
  "('h, 'x::len word) hart \<Rightarrow> 'x word \<Rightarrow> (unit, 'h) exec" where
  "csr_write_fcsr H value = csrw H CSR_FCSR value"

definition csr_read_write_fcsr ::
  "('h, 'x::len word) hart \<Rightarrow> 'x word \<Rightarrow> ('x word, 'h) exec" where
  "csr_read_write_fcsr H new_value = csrrw H CSR_FCSR new_value"

lemmas csr_supervisor_user_defs =
  csr_read_sscratch_def csr_write_sscratch_def csr_read_write_sscratch_def csr_read_sepc_def
  csr_write_sepc_def csr_read_write_sepc_def csr_read_scause_def csr_write_scause_def
  csr_read_write_scause_def csr_set_bits_scause_def csr_clr_bits_scause_def
  csr_read_set_bits_scause_def csr_read_clr_bits_scause_def CSR_WRITE_IMM_SCAUSE_def
  CSR_SET_BITS_IMM_SCAUSE_def CSR_CLR_BITS_IMM_SCAUSE_def csr_read_sstatus_def
  csr_write_sstatus_def csr_read_write_sstatus_def csr_set_bits_sstatus_def
  csr_clr_bits_sstatus_def csr_read_set_bits_sstatus_def csr_read_clr_bits_sstatus_def
  CSR_WRITE_IMM_SSTATUS_def CSR_SET_BITS_IMM_SSTATUS_def CSR_CLR_BITS_IMM_SSTATUS_def
  csr_read_stvec_def csr_write_stvec_def csr_read_write_stvec_def csr_set_bits_stvec_def
  csr_clr_bits_stvec_def csr_read_set_bits_stvec_def csr_read_clr_bits_stvec_def
  CSR_WRITE_IMM_STVEC_def CSR_SET_BITS_IMM_STVEC_def CSR_CLR_BITS_IMM_STVEC_def
  csr_read_sideleg_def csr_write_sideleg_def csr_read_write_sideleg_def csr_read_sedeleg_def
  csr_write_sedeleg_def csr_read_write_sedeleg_def csr_read_sip_def csr_write_sip_def
  csr_read_write_sip_def csr_set_bits_sip_def csr_clr_bits_sip_def csr_read_set_bits_sip_def
  csr_read_clr_bits_sip_def CSR_WRITE_IMM_SIP_def CSR_SET_BITS_IMM_SIP_def
  CSR_CLR_BITS_IMM_SIP_def csr_read_sie_def csr_write_sie_def csr_read_write_sie_def
  csr_set_bits_sie_def csr_clr_bits_sie_def csr_read_set_bits_sie_def csr_read_clr_bits_sie_def
  CSR_WRITE_IMM_SIE_def CSR_SET_BITS_IMM_SIE_def CSR_CLR_BITS_IMM_SIE_def csr_read_ustatus_def
  csr_write_ustatus_def csr_read_write_ustatus_def csr_set_bits_ustatus_def
  csr_clr_bits_ustatus_def csr_read_set_bits_ustatus_def csr_read_clr_bits_ustatus_def
  CSR_WRITE_IMM_USTATUS_def CSR_SET_BITS_IMM_USTATUS_def CSR_CLR_BITS_IMM_USTATUS_def
  csr_read_uip_def csr_write_uip_def csr_read_write_uip_def csr_set_bits_uip_def
  csr_clr_bits_uip_def csr_read_set_bits_uip_def csr_read_clr_bits_uip_def CSR_WRITE_IMM_UIP_def
  CSR_SET_BITS_IMM_UIP_def CSR_CLR_BITS_IMM_UIP_def csr_read_uie_def csr_write_uie_def
  csr_read_write_uie_def csr_set_bits_uie_def csr_clr_bits_uie_def csr_read_set_bits_uie_def
  csr_read_clr_bits_uie_def CSR_WRITE_IMM_UIE_def CSR_SET_BITS_IMM_UIE_def
  CSR_CLR_BITS_IMM_UIE_def csr_read_uscratch_def csr_write_uscratch_def
  csr_read_write_uscratch_def csr_read_uepc_def csr_write_uepc_def csr_read_write_uepc_def
  csr_read_ucause_def csr_write_ucause_def csr_read_write_ucause_def csr_set_bits_ucause_def
  csr_clr_bits_ucause_def csr_read_set_bits_ucause_def csr_read_clr_bits_ucause_def
  CSR_WRITE_IMM_UCAUSE_def CSR_SET_BITS_IMM_UCAUSE_def CSR_CLR_BITS_IMM_UCAUSE_def
  csr_read_utvec_def csr_write_utvec_def csr_read_write_utvec_def csr_set_bits_utvec_def
  csr_clr_bits_utvec_def csr_read_set_bits_utvec_def csr_read_clr_bits_utvec_def
  CSR_WRITE_IMM_UTVEC_def CSR_SET_BITS_IMM_UTVEC_def CSR_CLR_BITS_IMM_UTVEC_def csr_read_utval_def
  csr_write_utval_def csr_read_write_utval_def csr_read_fflags_def csr_write_fflags_def
  csr_read_write_fflags_def csr_read_frm_def csr_write_frm_def csr_read_write_frm_def
  csr_read_fcsr_def csr_write_fcsr_def csr_read_write_fcsr_def

lemmas csr_supervisor_user_fields =
  SCAUSE_INTERRUPT_def SCAUSE_EXCEPTION_CODE_def SSTATUS_SIE_def SSTATUS_SPIE_def SSTATUS_SPP_def
  STVEC_BASE_def STVEC_MODE_def SIP_SSI_def SIP_STI_def SIP_SEI_def SIP_USI_def SIP_UTI_def
  SIP_UEI_def SIE_SSI_def SIE_STI_def SIE_SEI_def SIE_USI_def SIE_UTI_def SIE_UEI_def
  USTATUS_UIE_def USTATUS_UPIE_def UIP_USI_def UIP_UTI_def UIP_UEI_def UIE_USI_def UIE_UTI_def
  UIE_UEI_def UCAUSE_INTERRUPT_def UCAUSE_EXCEPTION_CODE_def UTVEC_BASE_def UTVEC_MODE_def

end
