(* ===== verification/Csr_Counters_Hypervisor.thy ===== *)
theory Csr_Counters_Hypervisor
  imports Csr_Supervisor_User
begin

text \<open>
  The accessors of \<open>riscv-csr.h\<close> from \<open>cycle\<close> to \<open>vsatp\<close>:
  the unprivileged counters, address translation, the
  hypervisor and virtual-supervisor registers.
  One definition per inline function and macro, one record per group of field macros, in the
  order of the header.
\<close>

subsection \<open>cycle: Cycle counter for RDCYCLE instruction\<close>

definition csr_read_cycle :: "('h, 'x::len word) hart \<Rightarrow> ('x word, 'h) exec" where
  "csr_read_cycle H = csrr H CSR_CYCLE"

subsection \<open>time: Timer for RDTIME instruction\<close>

definition csr_read_time :: "('h, 'x::len word) hart \<Rightarrow> ('x word, 'h) exec" where
  "csr_read_time H = csrr H CSR_TIME"

subsection \<open>instret: Instructions-retired counter for RDINSTRET instruction\<close>

definition csr_read_instret :: "('h, 'x::len word) hart \<Rightarrow> ('x word, 'h) exec" where
  "csr_read_instret H = csrr H CSR_INSTRET"

subsection \<open>hpmcounter3: Performance-monitoring counter\<close>

definition csr_read_hpmcounter3 ::
  "('h, 'x::len word) hart \<Rightarrow> ('x word, 'h) exec" where
  "csr_read_hpmcounter3 H = csrr H CSR_HPMCOUNTER3"

subsection \<open>hpmcounter4: Performance-monitoring counter\<close>

definition csr_read_hpmcounter4 ::
  "('h, 'x::len word) hart \<Rightarrow> ('x word, 'h) exec" where
  "csr_read_hpmcounter4 H = csrr H CSR_HPMCOUNTER4"

subsection \<open>hpmcounter31: Performance-monitoring counter\<close>

definition csr_read_hpmcounter31 ::
  "('h, 'x::len word) hart \<Rightarrow> ('x word, 'h) exec" where
  "csr_read_hpmcounter31 H = csrr H CSR_HPMCOUNTER31"

subsection \<open>cycleh: Upper 32 bits of  cycle, RV32I only\<close>

definition csr_read_cycleh :: "('h, 'x::len word) hart \<Rightarrow> ('x word, 'h) exec" where
  "csr_read_cycleh H = csrr H CSR_CYCLEH"

subsection \<open>timeh: Upper 32 bits of  time, RV32I only\<close>

definition csr_read_timeh :: "('h, 'x::len word) hart \<Rightarrow> ('x word, 'h) exec" where
  "csr_read_timeh H = csrr H CSR_TIMEH"

subsection \<open>instreth: Upper 32 bits of  instret, RV32I only\<close>

definition csr_read_instreth :: "('h, 'x::len word) hart \<Rightarrow> ('x word, 'h) exec" where
  "csr_read_instreth H = csrr H CSR_INSTRETH"

subsection \<open>hpmcounter3h: Upper 32 bits of  hpmcounter3, RV32I only\<close>

definition csr_read_hpmcounter3h ::
  "('h, 'x::len word) hart \<Rightarrow> ('x word, 'h) exec" where
  "csr_read_hpmcounter3h H = csrr H CSR_HPMCOUNTER3H"

subsection \<open>hpmcounter4h: Upper 32 bits of  hpmcounter4, RV32I only\<close>

definition csr_read_hpmcounter4h ::
  "('h, 'x::len word) hart \<Rightarrow> ('x word, 'h) exec" where
  "csr_read_hpmcounter4h H = csrr H CSR_HPMCOUNTER4H"

subsection \<open>hpmcounter31h: Upper 32 bits of  hpmcounter31, RV32I only\<close>

definition csr_read_hpmcounter31h ::
  "('h, 'x::len word) hart \<Rightarrow> ('x word, 'h) exec" where
  "csr_read_hpmcounter31h H = csrr H CSR_HPMCOUNTER31H"

subsection \<open>stval: Supervisor bad address or instruction\<close>

definition csr_read_stval :: "('h, 'x::len word) hart \<Rightarrow> ('x word, 'h) exec" where
  "csr_read_stval H = csrr H CSR_STVAL"

definition csr_write_stval ::
  "('h, 'x::len word) hart \<Rightarrow> 'x word \<Rightarrow> (unit, 'h) exec" where
  "csr_write_stval H value = csrw H CSR_STVAL value"

definition csr_read_write_stval ::
  "('h, 'x::len word) hart \<Rightarrow> 'x word \<Rightarrow> ('x word, 'h) exec" where
  "csr_read_write_stval H new_value = csrrw H CSR_STVAL new_value"

subsection \<open>satp: Supervisor address translation and protection\<close>

definition csr_read_satp :: "('h, 'x::len word) hart \<Rightarrow> ('x word, 'h) exec" where
  "csr_read_satp H = csrr H CSR_SATP"

definition csr_write_satp ::
  "('h, 'x::len word) hart \<Rightarrow> 'x word \<Rightarrow> (unit, 'h) exec" where
  "csr_write_satp H value = csrw H CSR_SATP value"

definition csr_read_write_satp ::
  "('h, 'x::len word) hart \<Rightarrow> 'x word \<Rightarrow> ('x word, 'h) exec" where
  "csr_read_write_satp H new_value = csrrw H CSR_SATP new_value"

subsection \<open>hstatus: Hypervisor status register\<close>

definition csr_read_hstatus :: "('h, 'x::len word) hart \<Rightarrow> ('x word, 'h) exec" where
  "csr_read_hstatus H = csrr H CSR_HSTATUS"

definition csr_write_hstatus ::
  "('h, 'x::len word) hart \<Rightarrow> 'x word \<Rightarrow> (unit, 'h) exec" where
  "csr_write_hstatus H value = csrw H CSR_HSTATUS value"

definition csr_read_write_hstatus ::
  "('h, 'x::len word) hart \<Rightarrow> 'x word \<Rightarrow> ('x word, 'h) exec" where
  "csr_read_write_hstatus H new_value = csrrw H CSR_HSTATUS new_value"

subsection \<open>hedeleg: Hypervisor exception delegation register\<close>

definition csr_read_hedeleg :: "('h, 'x::len word) hart \<Rightarrow> ('x word, 'h) exec" where
  "csr_read_hedeleg H = csrr H CSR_HEDELEG"

definition csr_write_hedeleg ::
  "('h, 'x::len word) hart \<Rightarrow> 'x word \<Rightarrow> (unit, 'h) exec" where
  "csr_write_hedeleg H value = csrw H CSR_HEDELEG value"

definition csr_read_write_hedeleg ::
  "('h, 'x::len word) hart \<Rightarrow> 'x word \<Rightarrow> ('x word, 'h) exec" where
  "csr_read_write_hedeleg H new_value = csrrw H CSR_HEDELEG new_value"

subsection \<open>hideleg: Hypervisor interrupt delegation register\<close>

definition csr_read_hideleg :: "('h, 'x::len word) hart \<Rightarrow> ('x word, 'h) exec" where
  "csr_read_hideleg H = csrr H CSR_HIDELEG"

definition csr_write_hideleg ::
  "('h, 'x::len word) hart \<Rightarrow> 'x word \<Rightarrow> (unit, 'h) exec" where
  "csr_write_hideleg H value = csrw H CSR_HIDELEG value"

definition csr_read_write_hideleg ::
  "('h, 'x::len word) hart \<Rightarrow> 'x word \<Rightarrow> ('x word, 'h) exec" where
  "csr_read_write_hideleg H new_value = csrrw H CSR_HIDELEG new_value"

subsection \<open>hcounteren: Hypervisor counter enable\<close>

definition csr_read_hcounteren :: "('h, 'x::len word) hart \<Rightarrow> ('x word, 'h) exec" where
  "csr_read_hcounteren H = csrr H CSR_HCOUNTEREN"

definition csr_write_hcounteren ::
  "('h, 'x::len word) hart \<Rightarrow> 'x word \<Rightarrow> (unit, 'h) exec" where
  "csr_write_hcounteren H value = csrw H CSR_HCOUNTEREN value"

definition csr_read_write_hcounteren ::
  "('h, 'x::len word) hart \<Rightarrow> 'x word \<Rightarrow> ('x word, 'h) exec" where
  "csr_read_write_hcounteren H new_value = csrrw H CSR_HCOUNTEREN new_value"

subsection \<open>hgatp: Hypervisor guest address translation and protection\<close>

definition csr_read_hgatp :: "('h, 'x::len word) hart \<Rightarrow> ('x word, 'h) exec" where
  "csr_read_hgatp H = csrr H CSR_HGATP"

definition csr_write_hgatp ::
  "('h, 'x::len word) hart \<Rightarrow> 'x word \<Rightarrow> (unit, 'h) exec" where
  "csr_write_hgatp H value = csrw H CSR_HGATP value"

definition csr_read_write_hgatp ::
  "('h, 'x::len word) hart \<Rightarrow> 'x word \<Rightarrow> ('x word, 'h) exec" where
  "csr_read_write_hgatp H new_value = csrrw H CSR_HGATP new_value"

subsection \<open>htimedelta: Delta for VS/VU-mode timer\<close>

definition csr_read_htimedelta :: "('h, 'x::len word) hart \<Rightarrow> ('x word, 'h) exec" where
  "csr_read_htimedelta H = csrr H CSR_HTIMEDELTA"

definition csr_write_htimedelta ::
  "('h, 'x::len word) hart \<Rightarrow> 'x word \<Rightarrow> (unit, 'h) exec" where
  "csr_write_htimedelta H value = csrw H CSR_HTIMEDELTA value"

definition csr_read_write_htimedelta ::
  "('h, 'x::len word) hart \<Rightarrow> 'x word \<Rightarrow> ('x word, 'h) exec" where
  "csr_read_write_htimedelta H new_value = csrrw H CSR_HTIMEDELTA new_value"

subsection \<open>htimedeltah: Upper 32 bits of  htimedelta, RV32I only\<close>

definition csr_read_htimedeltah ::
  "('h, 'x::len word) hart \<Rightarrow> ('x word, 'h) exec" where
  "csr_read_htimedeltah H = csrr H CSR_HTIMEDELTAH"

definition csr_write_htimedeltah ::
  "('h, 'x::len word) hart \<Rightarrow> 'x word \<Rightarrow> (unit, 'h) exec" where
  "csr_write_htimedeltah H value = csrw H CSR_HTIMEDELTAH value"

definition csr_read_write_htimedeltah ::
  "('h, 'x::len word) hart \<Rightarrow> 'x word \<Rightarrow> ('x word, 'h) exec" where
  "csr_read_write_htimedeltah H new_value = csrrw H CSR_HTIMEDELTAH new_value"

subsection \<open>vsstatus: Virtual supervisor status register\<close>

definition csr_read_vsstatus :: "('h, 'x::len word) hart \<Rightarrow> ('x word, 'h) exec" where
  "csr_read_vsstatus H = csrr H CSR_VSSTATUS"

definition csr_write_vsstatus ::
  "('h, 'x::len word) hart \<Rightarrow> 'x word \<Rightarrow> (unit, 'h) exec" where
  "csr_write_vsstatus H value = csrw H CSR_VSSTATUS value"

definition csr_read_write_vsstatus ::
  "('h, 'x::len word) hart \<Rightarrow> 'x word \<Rightarrow> ('x word, 'h) exec" where
  "csr_read_write_vsstatus H new_value = csrrw H CSR_VSSTATUS new_value"

subsection \<open>vsie: Virtual supervisor interrupt-enable register\<close>

definition csr_read_vsie :: "('h, 'x::len word) hart \<Rightarrow> ('x word, 'h) exec" where
  "csr_read_vsie H = csrr H CSR_VSIE"

definition csr_write_vsie ::
  "('h, 'x::len word) hart \<Rightarrow> 'x word \<Rightarrow> (unit, 'h) exec" where
  "csr_write_vsie H value = csrw H CSR_VSIE value"

definition csr_read_write_vsie ::
  "('h, 'x::len word) hart \<Rightarrow> 'x word \<Rightarrow> ('x word, 'h) exec" where
  "csr_read_write_vsie H new_value = csrrw H CSR_VSIE new_value"

subsection \<open>vstvec: Virtual supervisor trap handler base address\<close>

definition csr_read_vstvec :: "('h, 'x::len word) hart \<Rightarrow> ('x word, 'h) exec" where
  "csr_read_vstvec H = csrr H CSR_VSTVEC"

definition csr_write_vstvec ::
  "('h, 'x::len word) hart \<Rightarrow> 'x word \<Rightarrow> (unit, 'h) exec" where
  "csr_write_vstvec H value = csrw H CSR_VSTVEC value"

definition csr_read_write_vstvec ::
  "('h, 'x::len word) hart \<Rightarrow> 'x word \<Rightarrow> ('x word, 'h) exec" where
  "csr_read_write_vstvec H new_value = csrrw H CSR_VSTVEC new_value"

subsection \<open>vsscratch: Virtual supervisor scratch register\<close>

definition csr_read_vsscratch :: "('h, 'x::len word) hart \<Rightarrow> ('x word, 'h) exec" where
  "csr_read_vsscratch H = csrr H CSR_VSSCRATCH"

definition csr_write_vsscratch ::
  "('h, 'x::len word) hart \<Rightarrow> 'x word \<Rightarrow> (unit, 'h) exec" where
  "csr_write_vsscratch H value = csrw H CSR_VSSCRATCH value"

definition csr_read_write_vsscratch ::
  "('h, 'x::len word) hart \<Rightarrow> 'x word \<Rightarrow> ('x word, 'h) exec" where
  "csr_read_write_vsscratch H new_value = csrrw H CSR_VSSCRATCH new_value"

subsection \<open>vsepc: Virtual supervisor exception program counter\<close>

definition csr_read_vsepc :: "('h, 'x::len word) hart \<Rightarrow> ('x word, 'h) exec" where
  "csr_read_vsepc H = csrr H CSR_VSEPC"

definition csr_write_vsepc ::
  "('h, 'x::len word) hart \<Rightarrow> 'x word \<Rightarrow> (unit, 'h) exec" where
  "csr_write_vsepc H value = csrw H CSR_VSEPC value"

definition csr_read_write_vsepc ::
  "('h, 'x::len word) hart \<Rightarrow> 'x word \<Rightarrow> ('x word, 'h) exec" where
  "csr_read_write_vsepc H new_value = csrrw H CSR_VSEPC new_value"

subsection \<open>vscause: Virtual supervisor trap cause\<close>

definition csr_read_vscause :: "('h, 'x::len word) hart \<Rightarrow> ('x word, 'h) exec" where
  "csr_read_vscause H = csrr H CSR_VSCAUSE"

definition csr_write_vscause ::
  "('h, 'x::len word) hart \<Rightarrow> 'x word \<Rightarrow> (unit, 'h) exec" where
  "csr_write_vscause H value = csrw H CSR_VSCAUSE value"

definition csr_read_write_vscause ::
  "('h, 'x::len word) hart \<Rightarrow> 'x word \<Rightarrow> ('x word, 'h) exec" where
  "csr_read_write_vscause H new_value = csrrw H CSR_VSCAUSE new_value"

subsection \<open>vstval: Virtual supervisor bad address or instruction\<close>

definition csr_read_vstval :: "('h, 'x::len word) hart \<Rightarrow> ('x word, 'h) exec" where
  "csr_read_vstval H = csrr H CSR_VSTVAL"

definition csr_write_vstval ::
  "('h, 'x::len word) hart \<Rightarrow> 'x word \<Rightarrow> (unit, 'h) exec" where
  "csr_write_vstval H value = csrw H CSR_VSTVAL value"

definition csr_read_write_vstval ::
  "('h, 'x::len word) hart \<Rightarrow> 'x word \<Rightarrow> ('x word, 'h) exec" where
  "csr_read_write_vstval H new_value = csrrw H CSR_VSTVAL new_value"

subsection \<open>vsip: Virtual supervisor interrupt pending\<close>

definition csr_read_vsip :: "('h, 'x::len word) hart \<Rightarrow> ('x word, 'h) exec" where
  "csr_read_vsip H = csrr H CSR_VSIP"

definition csr_write_vsip ::
  "('h, 'x::len word) hart \<Rightarrow> 'x word \<Rightarrow> (unit, 'h) exec" where
  "csr_write_vsip H value = csrw H CSR_VSIP value"

definition csr_read_write_vsip ::
  "('h, 'x::len word) hart \<Rightarrow> 'x word \<Rightarrow> ('x word, 'h) exec" where
  "csr_read_write_vsip H new_value = csrrw H CSR_VSIP new_value"

subsection \<open>vsatp: Virtual supervisor address translation and protection\<close>

definition csr_read_vsatp :: "('h, 'x::len word) hart \<Rightarrow> ('x word, 'h) exec" where
  "csr_read_vsatp H = csrr H CSR_VSATP"

definition csr_write_vsatp ::
  "('h, 'x::len word) hart \<Rightarrow> 'x word \<Rightarrow> (unit, 'h) exec" where
  "csr_write_vsatp H value = csrw H CSR_VSATP value"

definition csr_read_write_vsatp ::
  "('h, 'x::len word) hart \<Rightarrow> 'x word \<Rightarrow> ('x word, 'h) exec" where
  "csr_read_write_vsatp H new_value = csrrw H CSR_VSATP new_value"

lemmas csr_counters_hypervisor_defs =
  csr_read_cycle_def csr_read_time_def csr_read_instret_def csr_read_hpmcounter3_def
  csr_read_hpmcounter4_def csr_read_hpmcounter31_def csr_read_cycleh_def csr_read_timeh_def
  csr_read_instreth_def csr_read_hpmcounter3h_def csr_read_hpmcounter4h_def
  csr_read_hpmcounter31h_def csr_read_stval_def csr_write_stval_def csr_read_write_stval_def
  csr_read_satp_def csr_write_satp_def csr_read_write_satp_def csr_read_hstatus_def
  csr_write_hstatus_def csr_read_write_hstatus_def csr_read_hedeleg_def csr_write_hedeleg_def
  csr_read_write_hedeleg_def csr_read_hideleg_def csr_write_hideleg_def csr_read_write_hideleg_def
  csr_read_hcounteren_def csr_write_hcounteren_def csr_read_write_hcounteren_def
  csr_read_hgatp_def csr_write_hgatp_def csr_read_write_hgatp_def csr_read_htimedelta_def
  csr_write_htimedelta_def csr_read_write_htimedelta_def csr_read_htimedeltah_def
  csr_write_htimedeltah_def csr_read_write_htimedeltah_def csr_read_vsstatus_def
  csr_write_vsstatus_def csr_read_write_vsstatus_def csr_read_vsie_def csr_write_vsie_def
  csr_read_write_vsie_def csr_read_vstvec_def csr_write_vstvec_def csr_read_write_vstvec_def
  csr_read_vsscratch_def csr_write_vsscratch_def csr_read_write_vsscratch_def csr_read_vsepc_def
  csr_write_vsepc_def csr_read_write_vsepc_def csr_read_vscause_def csr_write_vscause_def
  csr_read_write_vscause_def csr_read_vstval_def csr_write_vstval_def csr_read_write_vstval_def
  csr_read_vsip_def csr_write_vsip_def csr_read_write_vsip_def csr_read_vsatp_def
  csr_write_vsatp_def csr_read_write_vsatp_def

end
