(* ===== verification/Csr_Platform.thy ===== *)
theory Csr_Platform
  imports Csr_Counters_Hypervisor
begin

text \<open>
  The accessors of \<open>riscv-csr.h\<close> from \<open>mbase\<close> to \<open>mtval2\<close>:
  memory protection, the upper halves of the machine counters, triggers,
  debug mode and the remaining hypervisor registers.
  One definition per inline function and macro, one record per group of field macros, in the
  order of the header.
\<close>

subsection \<open>mbase: Base register\<close>

definition csr_read_mbase :: "('h, 'x::len word) hart \<Rightarrow> ('x word, 'h) exec" where
  "csr_read_mbase H = csrr H CSR_MBASE"

definition csr_write_mbase ::
  "('h, 'x::len word) hart \<Rightarrow> 'x word \<Rightarrow> (unit, 'h) exec" where
  "csr_write_mbase H value = csrw H CSR_MBASE value"

definition csr_read_write_mbase ::
  "('h, 'x::len word) hart \<Rightarrow> 'x word \<Rightarrow> ('x word, 'h) exec" where
  "csr_read_write_mbase H new_value = csrrw H CSR_MBASE new_value"

subsection \<open>mbound: Bound register\<close>

definition csr_read_mbound :: "('h, 'x::len word) hart \<Rightarrow> ('x word, 'h) exec" where
  "csr_read_mbound H = csrr H CSR_MBOUND"

definition csr_write_mbound ::
  "('h, 'x::len word) hart \<Rightarrow> 'x word \<Rightarrow> (unit, 'h) exec" where
  "csr_write_mbound H value = csrw H CSR_MBOUND value"

definition csr_read_write_mbound ::
  "('h, 'x::len word) hart \<Rightarrow> 'x word \<Rightarrow> ('x word, 'h) exec" where
  "csr_read_write_mbound H new_value = csrrw H CSR_MBOUND new_value"

subsection \<open>mibase: Instruction base register\<close>

definition csr_read_mibase :: "('h, 'x::len word) hart \<Rightarrow> ('x word, 'h) exec" where
  "csr_read_mibase H = csrr H CSR_MIBASE"

definition csr_write_mibase ::
  "('h, 'x::len word) hart \<Rightarrow> 'x word \<Rightarrow> (unit, 'h) exec" where
  "csr_write_mibase H value = csrw H CSR_MIBASE value"

definition csr_read_write_mibase ::
  "('h, 'x::len word) hart \<Rightarrow> 'x word \<Rightarrow> ('x word, 'h) exec" where
  "csr_read_write_mibase H new_value = csrrw H CSR_MIBASE new_value"

subsection \<open>mibound: Instruction bound register\<close>

definition csr_read_mibound :: "('h, 'x::len word) hart \<Rightarrow> ('x word, 'h) exec" where
  "csr_read_mibound H = csrr H CSR_MIBOUND"

definition csr_write_mibound ::
  "('h, 'x::len word) hart \<Rightarrow> 'x word \<Rightarrow> (unit, 'h) exec" where
  "csr_write_mibound H value = csrw H CSR_MIBOUND value"

definition csr_read_write_mibound ::
  "('h, 'x::len word) hart \<Rightarrow> 'x word \<Rightarrow> ('x word, 'h) exec" where
  "csr_read_write_mibound H new_value = csrrw H CSR_MIBOUND new_value"

subsection \<open>mdbase: Data base register\<close>

definition csr_read_mdbase :: "('h, 'x::len word) hart \<Rightarrow> ('x word, 'h) exec" where
  "csr_read_mdbase H = csrr H CSR_MDBASE"

definition csr_write_mdbase ::
  "('h, 'x::len word) hart \<Rightarrow> 'x word \<Rightarrow> (unit, 'h) exec" where
  "csr_write_mdbase H value = csrw H CSR_MDBASE value"

definition csr_read_write_mdbase ::
  "('h, 'x::len word) hart \<Rightarrow> 'x word \<Rightarrow> ('x word, 'h) exec" where
  "csr_read_write_mdbase H new_value = csrrw H CSR_MDBASE new_value"

subsection \<open>mdbound: Data bound register\<close>

definition csr_read_mdbound :: "('h, 'x::len word) hart \<Rightarrow> ('x word, 'h) exec" where
  "csr_read_mdbound H = csrr H CSR_MDBOUND"

definition csr_write_mdbound ::
  "('h, 'x::len word) hart \<Rightarrow> 'x word \<Rightarrow> (unit, 'h) exec" where
  "csr_write_mdbound H value = csrw H CSR_MDBOUND value"

definition csr_read_write_mdbound ::
  "('h, 'x::len word) hart \<Rightarrow> 'x word \<Rightarrow> ('x word, 'h) exec" where
  "csr_read_write_mdbound H new_value = csrrw H CSR_MDBOUND new_value"

subsection \<open>pmpcfg0: Physical memory protection configuration\<close>

definition csr_read_pmpcfg0 :: "('h, 'x::len word) hart \<Rightarrow> ('x word, 'h) exec" where
  "csr_read_pmpcfg0 H = csrr H CSR_PMPCFG0"

definition csr_write_pmpcfg0 ::
  "('h, 'x::len word) hart \<Rightarrow> 'x word \<Rightarrow> (unit, 'h) exec" where
  "csr_write_pmpcfg0 H value = csrw H CSR_PMPCFG0 value"

definition csr_read_write_pmpcfg0 ::
  "('h, 'x::len word) hart \<Rightarrow> 'x word \<Rightarrow> ('x word, 'h) exec" where
  "csr_read_write_pmpcfg0 H new_value = csrrw H CSR_PMPCFG0 new_value"

subsection \<open>pmpcfg1: Physical memory protection configuration, RV32 only\<close>

definition csr_read_pmpcfg1 :: "('h, 'x::len word) hart \<Rightarrow> ('x word, 'h) exec" where
  "csr_read_pmpcfg1 H = csrr H CSR_PMPCFG1"

definition csr_write_pmpcfg1 ::
  "('h, 'x::len word) hart \<Rightarrow> 'x word \<Rightarrow> (unit, 'h) exec" where
  "csr_write_pmpcfg1 H value = csrw H CSR_PMPCFG1 value"

definition csr_read_write_pmpcfg1 ::
  "('h, 'x::len word) hart \<Rightarrow> 'x word \<Rightarrow> ('x word, 'h) exec" where
  "csr_read_write_pmpcfg1 H new_value = csrrw H CSR_PMPCFG1 new_value"

subsection \<open>pmpcfg2: Physical memory protection configuration\<close>

definition csr_read_pmpcfg2 :: "('h, 'x::len word) hart \<Rightarrow> ('x word, 'h) exec" where
  "csr_read_pmpcfg2 H = csrr H CSR_PMPCFG2"

definition csr_write_pmpcfg2 ::
  "('h, 'x::len word) hart \<Rightarrow> 'x word \<Rightarrow> (unit, 'h) exec" where
  "csr_write_pmpcfg2 H value = csrw H CSR_PMPCFG2 value"

definition csr_read_write_pmpcfg2 ::
  "('h, 'x::len word) hart \<Rightarrow> 'x word \<Rightarrow> ('x word, 'h) exec" where
  "csr_read_write_pmpcfg2 H new_value = csrrw H CSR_PMPCFG2 new_value"

subsection \<open>pmpcfg3: Physical memory protection configuration, RV32 only\<close>

definition csr_read_pmpcfg3 :: "('h, 'x::len word) hart \<Rightarrow> ('x word, 'h) exec" where
  "csr_read_pmpcfg3 H = csrr H CSR_PMPCFG3"

definition csr_write_pmpcfg3 ::
  "('h, 'x::len word) hart \<Rightarrow> 'x word \<Rightarrow> (unit, 'h) exec" where
  "csr_write_pmpcfg3 H value = csrw H CSR_PMPCFG3 value"

definition csr_read_write_pmpcfg3 ::
  "('h, 'x::len word) hart \<Rightarrow> 'x word \<Rightarrow> ('x word, 'h) exec" where
  "csr_read_write_pmpcfg3 H new_value = csrrw H CSR_PMPCFG3 new_value"

subsection \<open>pmpaddr0: Physical memory protection address register\<close>

definition csr_read_pmpaddr0 :: "('h, 'x::len word) hart \<Rightarrow> ('x word, 'h) exec" where
  "csr_read_pmpaddr0 H = csrr H CSR_PMPADDR0"

definition csr_write_pmpaddr0 ::
  "('h, 'x::len word) hart \<Rightarrow> 'x word \<Rightarrow> (unit, 'h) exec" where
  "csr_write_pmpaddr0 H value = csrw H CSR_PMPADDR0 value"

definition csr_read_write_pmpaddr0 ::
  "('h, 'x::len word) hart \<Rightarrow> 'x word \<Rightarrow> ('x word, 'h) exec" where
  "csr_read_write_pmpaddr0 H new_value = csrrw H CSR_PMPADDR0 new_value"

subsection \<open>pmpaddr1: Physical memory protection address register\<close>

definition csr_read_pmpaddr1 :: "('h, 'x::len word) hart \<Rightarrow> ('x word, 'h) exec" where
  "csr_read_pmpaddr1 H = csrr H CSR_PMPADDR1"

definition csr_write_pmpaddr1 ::
  "('h, 'x::len word) hart \<Rightarrow> 'x word \<Rightarrow> (unit, 'h) exec" where
  "csr_write_pmpaddr1 H value = csrw H CSR_PMPADDR1 value"

definition csr_read_write_pmpaddr1 ::
  "('h, 'x::len word) hart \<Rightarrow> 'x word \<Rightarrow> ('x word, 'h) exec" where
  "csr_read_write_pmpaddr1 H new_value = csrrw H CSR_PMPADDR1 new_value"

subsection \<open>pmpaddr15: Physical memory protection address register\<close>

definition csr_read_pmpaddr15 :: "('h, 'x::len word) hart \<Rightarrow> ('x word, 'h) exec" where
  "csr_read_pmpaddr15 H = csrr H CSR_PMPADDR15"

definition csr_write_pmpaddr15 ::
  "('h, 'x::len word) hart \<Rightarrow> 'x word \<Rightarrow> (unit, 'h) exec" where
  "csr_write_pmpaddr15 H value = csrw H CSR_PMPADDR15 value"

definition csr_read_write_pmpaddr15 ::
  "('h, 'x::len word) hart \<Rightarrow> 'x word \<Rightarrow> ('x word, 'h) exec" where
  "csr_read_write_pmpaddr15 H new_value = csrrw H CSR_PMPADDR15 new_value"

subsection \<open>mhpmcounter4: Machine performance-monitoring counter\<close>

definition csr_read_mhpmcounter4 ::
  "('h, 'x::len word) hart \<Rightarrow> ('x word, 'h) exec" where
  "csr_read_mhpmcounter4 H = csrr H CSR_MHPMCOUNTER4"

definition csr_write_mhpmcounter4 ::
  "('h, 'x::len word) hart \<Rightarrow> 'x word \<Rightarrow> (unit, 'h) exec" where
  "csr_write_mhpmcounter4 H value = csrw H CSR_MHPMCOUNTER4 value"

definition csr_read_write_mhpmcounter4 ::
  "('h, 'x::len word) hart \<Rightarrow> 'x word \<Rightarrow> ('x word, 'h) exec" where
  "csr_read_write_mhpmcounter4 H new_value = csrrw H CSR_MHPMCOUNTER4 new_value"

subsection \<open>mhpmcounter31: Machine performance-monitoring counter\<close>

definition csr_read_mhpmcounter31 ::
  "('h, 'x::len word) hart \<Rightarrow> ('x word, 'h) exec" where
  "csr_read_mhpmcounter31 H = csrr H CSR_MHPMCOUNTER31"

definition csr_write_mhpmcounter31 ::
  "('h, 'x::len word) hart \<Rightarrow> 'x word \<Rightarrow> (unit, 'h) exec" where
  "csr_write_mhpmcounter31 H value = csrw H CSR_MHPMCOUNTER31 value"

definition csr_read_write_mhpmcounter31 ::
  "('h, 'x::len word) hart \<Rightarrow> 'x word \<Rightarrow> ('x word, 'h) exec" where
  "csr_read_write_mhpmcounter31 H new_value = csrrw H CSR_MHPMCOUNTER31 new_value"

subsection \<open>mcycleh: Upper 32 bits of  mcycle, RV32I only\<close>

definition csr_read_mcycleh :: "('h, 'x::len word) hart \<Rightarrow> (u32, 'h) exec" where
  "csr_read_mcycleh H h = map_exec ucast (csrr H CSR_MCYCLEH h)"

definition csr_write_mcycleh ::
  "('h, 'x::len word) hart \<Rightarrow> u32 \<Rightarrow> (unit, 'h) exec" where
  "csr_write_mcycleh H value = csrw H CSR_MCYCLEH (reg_of_u32 value)"

definition csr_read_write_mcycleh ::
  "('h, 'x::len word) hart \<Rightarrow> u32 \<Rightarrow> (u32, 'h) exec" where
  "csr_read_write_mcycleh H new_value h =
     map_exec ucast (csrrw H CSR_MCYCLEH (reg_of_u32 new_value) h)"

subsection \<open>minstreth: Upper 32 bits of  minstret, RV32I only\<close>

definition csr_read_minstreth :: "('h, 'x::len word) hart \<Rightarrow> (u32, 'h) exec" where
  "csr_read_minstreth H h = map_exec ucast (csrr H CSR_MINSTRETH h)"

definition csr_write_minstreth ::
  "('h, 'x::len word) hart \<Rightarrow> u32 \<Rightarrow> (unit, 'h) exec" where
  "csr_write_minstreth H value = csrw H CSR_MINSTRETH (reg_of_u32 value)"

definition csr_read_write_minstreth ::
  "('h, 'x::len word) hart \<Rightarrow> u32 \<Rightarrow> (u32, 'h) exec" where
  "csr_read_write_minstreth H new_value h =
     map_exec ucast (csrrw H CSR_MINSTRETH (reg_of_u32 new_value) h)"

subsection \<open>mhpmcounter3h: Upper 32 bits of  mhpmcounter3, RV32I only\<close>

definition csr_read_mhpmcounter3h :: "('h, 'x::len word) hart \<Rightarrow> (u32, 'h) exec" where
  "csr_read_mhpmcounter3h H h = map_exec ucast (csrr H CSR_MHPMCOUNTER3H h)"

definition csr_write_mhpmcounter3h ::
  "('h, 'x::len word) hart \<Rightarrow> u32 \<Rightarrow> (unit, 'h) exec" where
  "csr_write_mhpmcounter3h H value = csrw H CSR_MHPMCOUNTER3H (reg_of_u32 value)"

definition csr_read_write_mhpmcounter3h ::
  "('h, 'x::len word) hart \<Rightarrow> u32 \<Rightarrow> (u32, 'h) exec" where
  "csr_read_write_mhpmcounter3h H new_value h =
     map_exec ucast (csrrw H CSR_MHPMCOUNTER3H (reg_of_u32 new_value) h)"

subsection \<open>mhpmcounter4h: Upper 32 bits of  mhpmcounter4, RV32I only\<close>

definition csr_read_mhpmcounter4h :: "('h, 'x::len word) hart \<Rightarrow> (u32, 'h) exec" where
  "csr_read_mhpmcounter4h H h = map_exec ucast (csrr H CSR_MHPMCOUNTER4H h)"

definition csr_write_mhpmcounter4h ::
  "('h, 'x::len word) hart \<Rightarrow> u32 \<Rightarrow> (unit, 'h) exec" where
  "csr_write_mhpmcounter4h H value = csrw H CSR_MHPMCOUNTER4H (reg_of_u32 value)"

definition csr_read_write_mhpmcounter4h ::
  "('h, 'x::len word) hart \<Rightarrow> u32 \<Rightarrow> (u32, 'h) exec" where
  "csr_read_write_mhpmcounter4h H new_value h =
     map_exec ucast (csrrw H CSR_MHPMCOUNTER4H (reg_of_u32 new_value) h)"

subsection \<open>mhpmcounter31h: Upper 32 bits of  mhpmcounter31, RV32I only\<close>

definition csr_read_mhpmcounter31h :: "('h, 'x::len word) hart \<Rightarrow> (u32, 'h) exec" where
  "csr_read_mhpmcounter31h H h = map_exec ucast (csrr H CSR_MHPMCOUNTER31H h)"

definition csr_write_mhpmcounter31h ::
  "('h, 'x::len word) hart \<Rightarrow> u32 \<Rightarrow> (unit, 'h) exec" where
  "csr_write_mhpmcounter31h H value = csrw H CSR_MHPMCOUNTER31H (reg_of_u32 value)"

definition csr_read_write_mhpmcounter31h ::
  "('h, 'x::len word) hart \<Rightarrow> u32 \<Rightarrow> (u32, 'h) exec" where
  "csr_read_write_mhpmcounter31h H new_value h =
     map_exec ucast (csrrw H CSR_MHPMCOUNTER31H (reg_of_u32 new_value) h)"

subsection \<open>mhpmevent4: Machine performance-monitoring event selector\<close>

definition csr_read_mhpmevent4 :: "('h, 'x::len word) hart \<Rightarrow> ('x word, 'h) exec" where
  "csr_read_mhpmevent4 H = csrr H CSR_MHPMEVENT4"

definition csr_write_mhpmevent4 ::
  "('h, 'x::len word) hart \<Rightarrow> 'x word \<Rightarrow> (unit, 'h) exec" where
  "csr_write_mhpmevent4 H value = csrw H CSR_MHPMEVENT4 value"

definition csr_read_write_mhpmevent4 ::
  "('h, 'x::len word) hart \<Rightarrow> 'x word \<Rightarrow> ('x word, 'h) exec" where
  "csr_read_write_mhpmevent4 H new_value = csrrw H CSR_MHPMEVENT4 new_value"

subsection \<open>mhpmevent31: Machine performance-monitoring event selector\<close>

definition csr_read_mhpmevent31 ::
  "('h, 'x::len word) hart \<Rightarrow> ('x word, 'h) exec" where
  "csr_read_mhpmevent31 H = csrr H CSR_MHPMEVENT31"

definition csr_write_mhpmevent31 ::
  "('h, 'x::len word) hart \<Rightarrow> 'x word \<Rightarrow> (unit, 'h) exec" where
  "csr_write_mhpmevent31 H value = csrw H CSR_MHPMEVENT31 value"

definition csr_read_write_mhpmevent31 ::
  "('h, 'x::len word) hart \<Rightarrow> 'x word \<Rightarrow> ('x word, 'h) exec" where
  "csr_read_write_mhpmevent31 H new_value = csrrw H CSR_MHPMEVENT31 new_value"

subsection \<open>tselect: Debug/Trace trigger register select\<close>

definition csr_read_tselect :: "('h, 'x::len word) hart \<Rightarrow> ('x word, 'h) exec" where
  "csr_read_tselect H = csrr H CSR_TSELECT"

definition csr_write_tselect ::
  "('h, 'x::len word) hart \<Rightarrow> 'x word \<Rightarrow> (unit, 'h) exec" where
  "csr_write_tselect H value = csrw H CSR_TSELECT value"

definition csr_read_write_tselect ::
  "('h, 'x::len word) hart \<Rightarrow> 'x word \<Rightarrow> ('x word, 'h) exec" where
  "csr_read_write_tselect H new_value = csrrw H CSR_TSELECT new_value"

subsection \<open>tdata1: First Debug/Trace trigger data register\<close>

definition csr_read_tdata1 :: "('h, 'x::len word) hart \<Rightarrow> ('x word, 'h) exec" where
  "csr_read_tdata1 H = csrr H CSR_TDATA1"

definition csr_write_tdata1 ::
  "('h, 'x::len word) hart \<Rightarrow> 'x word \<Rightarrow> (unit, 'h) exec" where
  "csr_write_tdata1 H value = csrw H CSR_TDATA1 value"

definition csr_read_write_tdata1 ::
  "('h, 'x::len word) hart \<Rightarrow> 'x word \<Rightarrow> ('x word, 'h) exec" where
  "csr_read_write_tdata1 H new_value = csrrw H CSR_TDATA1 new_value"

subsection \<open>tdata2: Second Debug/Trace trigger data register\<close>

definition csr_read_tdata2 :: "('h, 'x::len word) hart \<Rightarrow> ('x word, 'h) exec" where
  "csr_read_tdata2 H = csrr H CSR_TDATA2"

definition csr_write_tdata2 ::
  "('h, 'x::len word) hart \<Rightarrow> 'x word \<Rightarrow> (unit, 'h) exec" where
  "csr_write_tdata2 H value = csrw H CSR_TDATA2 value"

definition csr_read_write_tdata2 ::
  "('h, 'x::len word) hart \<Rightarrow> 'x word \<Rightarrow> ('x word, 'h) exec" where
  "csr_read_write_tdata2 H new_value = csrrw H CSR_TDATA2 new_value"

subsection \<open>tdata3: Third Debug/Trace trigger data register\<close>

definition csr_read_tdata3 :: "('h, 'x::len word) hart \<Rightarrow> ('x word, 'h) exec" where
  "csr_read_tdata3 H = csrr H CSR_TDATA3"

definition csr_write_tdata3 ::
  "('h, 'x::len word) hart \<Rightarrow> 'x word \<Rightarrow> (unit, 'h) exec" where
  "csr_write_tdata3 H value = csrw H CSR_TDATA3 value"

definition csr_read_write_tdata3 ::
  "('h, 'x::len word) hart \<Rightarrow> 'x word \<Rightarrow> ('x word, 'h) exec" where
  "csr_read_write_tdata3 H new_value = csrrw H CSR_TDATA3 new_value"

subsection \<open>dcsr: Debug control and status register\<close>

definition csr_read_dcsr :: "('h, 'x::len word) hart \<Rightarrow> ('x word, 'h) exec" where
  "csr_read_dcsr H = csrr H CSR_DCSR"

definition csr_write_dcsr ::
  "('h, 'x::len word) hart \<Rightarrow> 'x word \<Rightarrow> (unit, 'h) exec" where
  "csr_write_dcsr H value = csrw H CSR_DCSR value"

definition csr_read_write_dcsr ::
  "('h, 'x::len word) hart \<Rightarrow> 'x word \<Rightarrow> ('x word, 'h) exec" where
  "csr_read_write_dcsr H new_value = csrrw H CSR_DCSR new_value"

subsection \<open>dpc: Debug PC\<close>

definition csr_read_dpc :: "('h, 'x::len word) hart \<Rightarrow> ('x word, 'h) exec" where
  "csr_read_dpc H = csrr H CSR_DPC"

definition csr_write_dpc ::
  "('h, 'x::len word) hart \<Rightarrow> 'x word \<Rightarrow> (unit, 'h) exec" where
  "csr_write_dpc H value = csrw H CSR_DPC value"

definition csr_read_write_dpc ::
  "('h, 'x::len word) hart \<Rightarrow> 'x word \<Rightarrow> ('x word, 'h) exec" where
  "csr_read_write_dpc H new_value = csrrw H CSR_DPC new_value"

subsection \<open>dscratch0: Debug scratch register 0\<close>

definition csr_read_dscratch0 :: "('h, 'x::len word) hart \<Rightarrow> ('x word, 'h) exec" where
  "csr_read_dscratch0 H = csrr H CSR_DSCRATCH0"

definition csr_write_dscratch0 ::
  "('h, 'x::len word) hart \<Rightarrow> 'x word \<Rightarrow> (unit, 'h) exec" where
  "csr_write_dscratch0 H value = csrw H CSR_DSCRATCH0 value"

definition csr_read_write_dscratch0 ::
  "('h, 'x::len word) hart \<Rightarrow> 'x word \<Rightarrow> ('x word, 'h) exec" where
  "csr_read_write_dscratch0 H new_value = csrrw H CSR_DSCRATCH0 new_value"

subsection \<open>dscratch1: Debug scratch register 1\<close>

definition csr_read_dscratch1 :: "('h, 'x::len word) hart \<Rightarrow> ('x word, 'h) exec" where
  "csr_read_dscratch1 H = csrr H CSR_DSCRATCH1"

definition csr_write_dscratch1 ::
  "('h, 'x::len word) hart \<Rightarrow> 'x word \<Rightarrow> (unit, 'h) exec" where
  "csr_write_dscratch1 H value = csrw H CSR_DSCRATCH1 value"

definition csr_read_write_dscratch1 ::
  "('h, 'x::len word) hart \<Rightarrow> 'x word \<Rightarrow> ('x word, 'h) exec" where
  "csr_read_write_dscratch1 H new_value = csrrw H CSR_DSCRATCH1 new_value"

subsection \<open>hie: Hypervisor interrupt-enable register\<close>

definition csr_read_hie :: "('h, 'x::len word) hart \<Rightarrow> ('x word, 'h) exec" where
  "csr_read_hie H = csrr H CSR_HIE"

definition csr_write_hie ::
  "('h, 'x::len word) hart \<Rightarrow> 'x word \<Rightarrow> (unit, 'h) exec" where
  "csr_write_hie H value = csrw H CSR_HIE value"

definition csr_read_write_hie ::
  "('h, 'x::len word) hart \<Rightarrow> 'x word \<Rightarrow> ('x word, 'h) exec" where
  "csr_read_write_hie H new_value = csrrw H CSR_HIE new_value"

subsection \<open>hgeie: Hypervisor guest external interrupt-enable register\<close>

definition csr_read_hgeie :: "('h, 'x::len word) hart \<Rightarrow> ('x word, 'h) exec" where
  "csr_read_hgeie H = csrr H CSR_HGEIE"

definition csr_write_hgeie ::
  "('h, 'x::len word) hart \<Rightarrow> 'x word \<Rightarrow> (unit, 'h) exec" where
  "csr_write_hgeie H value = csrw H CSR_HGEIE value"

definition csr_read_write_hgeie ::
  "('h, 'x::len word) hart \<Rightarrow> 'x word \<Rightarrow> ('x word, 'h) exec" where
  "csr_read_write_hgeie H new_value = csrrw H CSR_HGEIE new_value"

subsection \<open>htval: Hypervisor bad guest physical address\<close>

definition csr_read_htval :: "('h, 'x::len word) hart \<Rightarrow> ('x word, 'h) exec" where
  "csr_read_htval H = csrr H CSR_HTVAL"

definition csr_write_htval ::
  "('h, 'x::len word) hart \<Rightarrow> 'x word \<Rightarrow> (unit, 'h) exec" where
  "csr_write_htval H value = csrw H CSR_HTVAL value"

definition csr_read_write_htval ::
  "('h, 'x::len word) hart \<Rightarrow> 'x word \<Rightarrow> ('x word, 'h) exec" where
  "csr_read_write_htval H new_value = csrrw H CSR_HTVAL new_value"

subsection \<open>hip: Hypervisor interrupt pending\<close>

definition csr_read_hip :: "('h, 'x::len word) hart \<Rightarrow> ('x word, 'h) exec" where
  "csr_read_hip H = csrr H CSR_HIP"

definition csr_write_hip ::
  "('h, 'x::len word) hart \<Rightarrow> 'x word \<Rightarrow> (unit, 'h) exec" where
  "csr_write_hip H value = csrw H CSR_HIP value"

definition csr_read_write_hip ::
  "('h, 'x::len word) hart \<Rightarrow> 'x word \<Rightarrow> ('x word, 'h) exec" where
  "csr_read_write_hip H new_value = csrrw H CSR_HIP new_value"

subsection \<open>htinst: Hypervisor trap instruction (transformed)\<close>

definition csr_read_htinst :: "('h, 'x::len word) hart \<Rightarrow> ('x word, 'h) exec" where
  "csr_read_htinst H = csrr H CSR_HTINST"

definition csr_write_htinst ::
  "('h, 'x::len word) hart \<Rightarrow> 'x word \<Rightarrow> (unit, 'h) exec" where
  "csr_write_htinst H value = csrw H CSR_HTINST value"

definition csr_read_write_htinst ::
  "('h, 'x::len word) hart \<Rightarrow> 'x word \<Rightarrow> ('x word, 'h) exec" where
  "csr_read_write_htinst H new_value = csrrw H CSR_HTINST new_value"

subsection \<open>hgeip: Hypervisor guest external interrupt pending\<close>

definition csr_read_hgeip :: "('h, 'x::len word) hart \<Rightarrow> ('x word, 'h) exec" where
  "csr_read_hgeip H = csrr H CSR_HGEIP"

subsection \<open>mtinst: Machine trap instruction (transformed)\<close>

definition csr_read_mtinst :: "('h, 'x::len word) hart \<Rightarrow> ('x word, 'h) exec" where
  "csr_read_mtinst H = csrr H CSR_MTINST"

definition csr_write_mtinst ::
  "('h, 'x::len word) hart \<Rightarrow> 'x word \<Rightarrow> (unit, 'h) exec" where
  "csr_write_mtinst H value = csrw H CSR_MTINST value"

definition csr_read_write_mtinst ::
  "('h, 'x::len word) hart \<Rightarrow> 'x word \<Rightarrow> ('x word, 'h) exec" where
  "csr_read_write_mtinst H new_value = csrrw H CSR_MTINST new_value"

subsection \<open>mtval2: Machine bad guest physical address\<close>

definition csr_read_mtval2 :: "('h, 'x::len word) hart \<Rightarrow> ('x word, 'h) exec" where
  "csr_read_mtval2 H = csrr H CSR_MTVAL2"

definition csr_write_mtval2 ::
  "('h, 'x::len word) hart \<Rightarrow> 'x word \<Rightarrow> (unit, 'h) exec" where
  "csr_write_mtval2 H value = csrw H CSR_MTVAL2 value"

definition csr_read_write_mtval2 ::
  "('h, 'x::len word) hart \<Rightarrow> 'x word \<Rightarrow> ('x word, 'h) exec" where
  "csr_read_write_mtval2 H new_value = csrrw H CSR_MTVAL2 new_value"

lemmas csr_platform_defs =
  csr_read_mbase_def csr_write_mbase_def csr_read_write_mbase_def csr_read_mbound_def
  csr_write_mbound_def csr_read_write_mbound_def csr_read_mibase_def csr_write_mibase_def
  csr_read_write_mibase_def csr_read_mibound_def csr_write_mibound_def csr_read_write_mibound_def
  csr_read_mdbase_def csr_write_mdbase_def csr_read_write_mdbase_def csr_read_mdbound_def
  csr_write_mdbound_def csr_read_write_mdbound_def csr_read_pmpcfg0_def csr_write_pmpcfg0_def
  csr_read_write_pmpcfg0_def csr_read_pmpcfg1_def csr_write_pmpcfg1_def csr_read_write_pmpcfg1_def
  csr_read_pmpcfg2_def csr_write_pmpcfg2_def csr_read_write_pmpcfg2_def csr_read_pmpcfg3_def
  csr_write_pmpcfg3_def csr_read_write_pmpcfg3_def csr_read_pmpaddr0_def csr_write_pmpaddr0_def
  csr_read_write_pmpaddr0_def csr_read_pmpaddr1_def csr_write_pmpaddr1_def
  csr_read_write_pmpaddr1_def csr_read_pmpaddr15_def csr_write_pmpaddr15_def
  csr_read_write_pmpaddr15_def csr_read_mhpmcounter4_def csr_write_mhpmcounter4_def
  csr_read_write_mhpmcounter4_def csr_read_mhpmcounter31_def csr_write_mhpmcounter31_def
  csr_read_write_mhpmcounter31_def csr_read_mcycleh_def csr_write_mcycleh_def
  csr_read_write_mcycleh_def csr_read_minstreth_def csr_write_minstreth_def
  csr_read_write_minstreth_def csr_read_mhpmcounter3h_def csr_write_mhpmcounter3h_def
  csr_read_write_mhpmcounter3h_def csr_read_mhpmcounter4h_def csr_write_mhpmcounter4h_def
  csr_read_write_mhpmcounter4h_def csr_read_mhpmcounter31h_def csr_write_mhpmcounter31h_def
  csr_read_write_mhpmcounter31h_def csr_read_mhpmevent4_def csr_write_mhpmevent4_def
  csr_read_write_mhpmevent4_def csr_read_mhpmevent31_def csr_write_mhpmevent31_def
  csr_read_write_mhpmevent31_def csr_read_tselect_def csr_write_tselect_def
  csr_read_write_tselect_def csr_read_tdata1_def csr_write_tdata1_def csr_read_write_tdata1_def
  csr_read_tdata2_def csr_write_tdata2_def csr_read_write_tdata2_def csr_read_tdata3_def
  csr_write_tdata3_def csr_read_write_tdata3_def csr_read_dcsr_def csr_write_dcsr_def
  csr_read_write_dcsr_def csr_read_dpc_def csr_write_dpc_def csr_read_write_dpc_def
  csr_read_dscratch0_def csr_write_dscratch0_def csr_read_write_dscratch0_def
  csr_read_dscratch1_def csr_write_dscratch1_def csr_read_write_dscratch1_def csr_read_hie_def
  csr_write_hie_def csr_read_write_hie_def csr_read_hgeie_def csr_write_hgeie_def
  csr_read_write_hgeie_def csr_read_htval_def csr_write_htval_def csr_read_write_htval_def
  csr_read_hip_def csr_write_hip_def csr_read_write_hip_def csr_read_htinst_def
  csr_write_htinst_def csr_read_write_htinst_def csr_read_hgeip_def csr_read_mtinst_def
  csr_write_mtinst_def csr_read_write_mtinst_def csr_read_mtval2_def csr_write_mtval2_def
  csr_read_write_mtval2_def

end
