(* ===== verification/Csr_Access.thy ===== *)
theory Csr_Access
  imports Csr_Platform
begin

text \<open>
  The accessors of \<open>riscv-csr.h\<close> as an interface: the contract of the read-modify-write
  functions as a locale, the header's functions as tables indexed by their register, and what
  they do and when they trap.
\<close>

subsection \<open>Tables of the header's functions\<close>

record ('w, 'h) accessors =
  ac_read :: "('w, 'h) exec"
  ac_write :: "'w \<Rightarrow> (unit, 'h) exec"
  ac_read_write :: "'w \<Rightarrow> ('w, 'h) exec"
  ac_set_bits :: "'w \<Rightarrow> (unit, 'h) exec"
  ac_clr_bits :: "'w \<Rightarrow> (unit, 'h) exec"
  ac_read_set_bits :: "'w \<Rightarrow> ('w, 'h) exec"
  ac_read_clr_bits :: "'w \<Rightarrow> ('w, 'h) exec"
  ac_write_imm :: "int \<Rightarrow> (unit, 'h) exec"
  ac_set_bits_imm :: "int \<Rightarrow> (unit, 'h) exec"
  ac_clr_bits_imm :: "int \<Rightarrow> (unit, 'h) exec"

text \<open>The registers with all ten accessors: those of XLEN bits, then the two of 32 bits.\<close>

definition accessor_table ::
  "('h, 'x::len word) hart \<Rightarrow> (csr \<times> ('x word, 'h) accessors) list" where
  "accessor_table H =
    [(CSR_MSTATUS, \<lparr>ac_read = csr_read_mstatus H, ac_write = csr_write_mstatus H,
      ac_read_write = csr_read_write_mstatus H, ac_set_bits = csr_set_bits_mstatus H,
      ac_clr_bits = csr_clr_bits_mstatus H, ac_read_set_bits = csr_read_set_bits_mstatus H,
      ac_read_clr_bits = csr_read_clr_bits_mstatus H, ac_write_imm = CSR_WRITE_IMM_MSTATUS H,
      ac_set_bits_imm = CSR_SET_BITS_IMM_MSTATUS H, ac_clr_bits_imm = CSR_CLR_BITS_IMM_MSTATUS H\<rparr>),
     (CSR_MTVEC, \<lparr>ac_read = csr_read_mtvec H, ac_write = csr_write_mtvec H,
      ac_read_write = csr_read_write_mtvec H, ac_set_bits = csr_set_bits_mtvec H,
      ac_clr_bits = csr_clr_bits_mtvec H, ac_read_set_bits = csr_read_set_bits_mtvec H,
      ac_read_clr_bits = csr_read_clr_bits_mtvec H, ac_write_imm = CSR_WRITE_IMM_MTVEC H,
      ac_set_bits_imm = CSR_SET_BITS_IMM_MTVEC H, ac_clr_bits_imm = CSR_CLR_BITS_IMM_MTVEC H\<rparr>),
     (CSR_MIP, \<lparr>ac_read = csr_read_mip H, ac_write = csr_write_mip H,
      ac_read_write = csr_read_write_mip H, ac_set_bits = csr_set_bits_mip H,
      ac_clr_bits = csr_clr_bits_mip H, ac_read_set_bits = csr_read_set_bits_mip H,
      ac_read_clr_bits = csr_read_clr_bits_mip H, ac_write_imm = CSR_WRITE_IMM_MIP H,
      ac_set_bits_imm = CSR_SET_BITS_IMM_MIP H, ac_clr_bits_imm = CSR_CLR_BITS_IMM_MIP H\<rparr>),
     (CSR_MIE, \<lparr>ac_read = csr_read_mie H, ac_write = csr_write_mie H,
      ac_read_write = csr_read_write_mie H, ac_set_bits = csr_set_bits_mie H,
      ac_clr_bits = csr_clr_bits_mie H, ac_read_set_bits = csr_read_set_bits_mie H,
      ac_read_clr_bits = csr_read_clr_bits_mie H, ac_write_imm = CSR_WRITE_IMM_MIE H,
      ac_set_bits_imm = CSR_SET_BITS_IMM_MIE H, ac_clr_bits_imm = CSR_CLR_BITS_IMM_MIE H\<rparr>),
     (CSR_MCAUSE, \<lparr>ac_read = csr_read_mcause H, ac_write = csr_write_mcause H,
      ac_read_write = csr_read_write_mcause H, ac_set_bits = csr_set_bits_mcause H,
      ac_clr_bits = csr_clr_bits_mcause H, ac_read_set_bits = csr_read_set_bits_mcause H,
      ac_read_clr_bits = csr_read_clr_bits_mcause H, ac_write_imm = CSR_WRITE_IMM_MCAUSE H,
      ac_set_bits_imm = CSR_SET_BITS_IMM_MCAUSE H, ac_clr_bits_imm = CSR_CLR_BITS_IMM_MCAUSE H\<rparr>),
     (CSR_SCAUSE, \<lparr>ac_read = csr_read_scause H, ac_write = csr_write_scause H,
      ac_read_write = csr_read_write_scause H, ac_set_bits = csr_set_bits_scause H,
      ac_clr_bits = csr_clr_bits_scause H, ac_read_set_bits = csr_read_set_bits_scause H,
      ac_read_clr_bits = csr_read_clr_bits_scause H, ac_write_imm = CSR_WRITE_IMM_SCAUSE H,
      ac_set_bits_imm = CSR_SET_BITS_IMM_SCAUSE H, ac_clr_bits_imm = CSR_CLR_BITS_IMM_SCAUSE H\<rparr>),
     (CSR_SSTATUS, \<lparr>ac_read = csr_read_sstatus H, ac_write = csr_write_sstatus H,
      ac_read_write = csr_read_write_sstatus H, ac_set_bits = csr_set_bits_sstatus H,
      ac_clr_bits = csr_clr_bits_sstatus H, ac_read_set_bits = csr_read_set_bits_sstatus H,
      ac_read_clr_bits = csr_read_clr_bits_sstatus H, ac_write_imm = CSR_WRITE_IMM_SSTATUS H,
      ac_set_bits_imm = CSR_SET_BITS_IMM_SSTATUS H, ac_clr_bits_imm = CSR_CLR_BITS_IMM_SSTATUS H\<rparr>),
     (CSR_STVEC, \<lparr>ac_read = csr_read_stvec H, ac_write = csr_write_stvec H,
      ac_read_write = csr_read_write_stvec H, ac_set_bits = csr_set_bits_stvec H,
      ac_clr_bits = csr_clr_bits_stvec H, ac_read_set_bits = csr_read_set_bits_stvec H,
      ac_read_clr_bits = csr_read_clr_bits_stvec H, ac_write_imm = CSR_WRITE_IMM_STVEC H,
      ac_set_bits_imm = CSR_SET_BITS_IMM_STVEC H, ac_clr_bits_imm = CSR_CLR_BITS_IMM_STVEC H\<rparr>),
     (CSR_SIP, \<lparr>ac_read = csr_read_sip H, ac_write = csr_write_sip H,
      ac_read_write = csr_read_write_sip H, ac_set_bits = csr_set_bits_sip H,
      ac_clr_bits = csr_clr_bits_sip H, ac_read_set_bits = csr_read_set_bits_sip H,
      ac_read_clr_bits = csr_read_clr_bits_sip H, ac_write_imm = CSR_WRITE_IMM_SIP H,
      ac_set_bits_imm = CSR_SET_BITS_IMM_SIP H, ac_clr_bits_imm = CSR_CLR_BITS_IMM_SIP H\<rparr>),
     (CSR_SIE, \<lparr>ac_read = csr_read_sie H, ac_write = csr_write_sie H,
      ac_read_write = csr_read_write_sie H, ac_set_bits = csr_set_bits_sie H,
      ac_clr_bits = csr_clr_bits_sie H, ac_read_set_bits = csr_read_set_bits_sie H,
      ac_read_clr_bits = csr_read_clr_bits_sie H, ac_write_imm = CSR_WRITE_IMM_SIE H,
      ac_set_bits_imm = CSR_SET_BITS_IMM_SIE H, ac_clr_bits_imm = CSR_CLR_BITS_IMM_SIE H\<rparr>),
     (CSR_USTATUS, \<lparr>ac_read = csr_read_ustatus H, ac_write = csr_write_ustatus H,
      ac_read_write = csr_read_write_ustatus H, ac_set_bits = csr_set_bits_ustatus H,
      ac_clr_bits = csr_clr_bits_ustatus H, ac_read_set_bits = csr_read_set_bits_ustatus H,
      ac_read_clr_bits = csr_read_clr_bits_ustatus H, ac_write_imm = CSR_WRITE_IMM_USTATUS H,
      ac_set_bits_imm = CSR_SET_BITS_IMM_USTATUS H, ac_clr_bits_imm = CSR_CLR_BITS_IMM_USTATUS H\<rparr>),
     (CSR_UIP, \<lparr>ac_read = csr_read_uip H, ac_write = csr_write_uip H,
      ac_read_write = csr_read_write_uip H, ac_set_bits = csr_set_bits_uip H,
      ac_clr_bits = csr_clr_bits_uip H, ac_read_set_bits = csr_read_set_bits_uip H,
      ac_read_clr_bits = csr_read_clr_bits_uip H, ac_write_imm = CSR_WRITE_IMM_UIP H,
      ac_set_bits_imm = CSR_SET_BITS_IMM_UIP H, ac_clr_bits_imm = CSR_CLR_BITS_IMM_UIP H\<rparr>),
     (CSR_UIE, \<lparr>ac_read = csr_read_uie H, ac_write = csr_write_uie H,
      ac_read_write = csr_read_write_uie H, ac_set_bits = csr_set_bits_uie H,
      ac_clr_bits = csr_clr_bits_uie H, ac_read_set_bits = csr_read_set_bits_uie H,
      ac_read_clr_bits = csr_read_clr_bits_uie H, ac_write_imm = CSR_WRITE_IMM_UIE H,
      ac_set_bits_imm = CSR_SET_BITS_IMM_UIE H, ac_clr_bits_imm = CSR_CLR_BITS_IMM_UIE H\<rparr>),
     (CSR_UCAUSE, \<lparr>ac_read = csr_read_ucause H, ac_write = csr_write_ucause H,
      ac_read_write = csr_read_write_ucause H, ac_set_bits = csr_set_bits_ucause H,
      ac_clr_bits = csr_clr_bits_ucause H, ac_read_set_bits = csr_read_set_bits_ucause H,
      ac_read_clr_bits = csr_read_clr_bits_ucause H, ac_write_imm = CSR_WRITE_IMM_UCAUSE H,
      ac_set_bits_imm = CSR_SET_BITS_IMM_UCAUSE H, ac_clr_bits_imm = CSR_CLR_BITS_IMM_UCAUSE H\<rparr>),
     (CSR_UTVEC, \<lparr>ac_read = csr_read_utvec H, ac_write = csr_write_utvec H,
      ac_read_write = csr_read_write_utvec H, ac_set_bits = csr_set_bits_utvec H,
      ac_clr_bits = csr_clr_bits_utvec H, ac_read_set_bits = csr_read_set_bits_utvec H,
      ac_read_clr_bits = csr_read_clr_bits_utvec H, ac_write_imm = CSR_WRITE_IMM_UTVEC H,
      ac_set_bits_imm = CSR_SET_BITS_IMM_UTVEC H, ac_clr_bits_imm = CSR_CLR_BITS_IMM_UTVEC H\<rparr>)]"

definition counter_table ::
  "('h, 'x::len word) hart \<Rightarrow> (csr \<times> (u32, 'h) accessors) list" where
  "counter_table H =
    [(CSR_MCOUNTINHIBIT, \<lparr>ac_read = csr_read_mcountinhibit H, ac_write = csr_write_mcountinhibit H,
      ac_read_write = csr_read_write_mcountinhibit H, ac_set_bits = csr_set_bits_mcountinhibit H,
      ac_clr_bits = csr_clr_bits_mcountinhibit H, ac_read_set_bits = csr_read_set_bits_mcountinhibit H,
      ac_read_clr_bits = csr_read_clr_bits_mcountinhibit H, ac_write_imm = CSR_WRITE_IMM_MCOUNTINHIBIT H,
      ac_set_bits_imm = CSR_SET_BITS_IMM_MCOUNTINHIBIT H, ac_clr_bits_imm = CSR_CLR_BITS_IMM_MCOUNTINHIBIT H\<rparr>),
     (CSR_MCOUNTEREN, \<lparr>ac_read = csr_read_mcounteren H, ac_write = csr_write_mcounteren H,
      ac_read_write = csr_read_write_mcounteren H, ac_set_bits = csr_set_bits_mcounteren H,
      ac_clr_bits = csr_clr_bits_mcounteren H, ac_read_set_bits = csr_read_set_bits_mcounteren H,
      ac_read_clr_bits = csr_read_clr_bits_mcounteren H, ac_write_imm = CSR_WRITE_IMM_MCOUNTEREN H,
      ac_set_bits_imm = CSR_SET_BITS_IMM_MCOUNTEREN H, ac_clr_bits_imm = CSR_CLR_BITS_IMM_MCOUNTEREN H\<rparr>)]"

text \<open>Every reading function, and every function that takes a value to write, set or clear; their
  results are dropped.\<close>

definition header_reads :: "('h, 'x::len word) hart \<Rightarrow> (csr \<times> (unit, 'h) exec) list" where
  "header_reads H =
    [(CSR_MISA, \<lambda>h. discard (csr_read_misa H h)),
     (CSR_MVENDORID, \<lambda>h. discard (csr_read_mvendorid H h)),
     (CSR_MARCHID, \<lambda>h. discard (csr_read_marchid H h)),
     (CSR_MIMPID, \<lambda>h. discard (csr_read_mimpid H h)),
     (CSR_MHARTID, \<lambda>h. discard (csr_read_mhartid H h)),
     (CSR_MSTATUS, \<lambda>h. discard (csr_read_mstatus H h)),
     (CSR_MSTATUSH, \<lambda>h. discard (csr_read_mstatush H h)),
     (CSR_MTVEC, \<lambda>h. discard (csr_read_mtvec H h)),
     (CSR_MEDELEG, \<lambda>h. discard (csr_read_medeleg H h)),
     (CSR_MIDELEG, \<lambda>h. discard (csr_read_mideleg H h)),
     (CSR_MIP, \<lambda>h. discard (csr_read_mip H h)),
     (CSR_MIE, \<lambda>h. discard (csr_read_mie H h)),
     (CSR_MCOUNTINHIBIT, \<lambda>h. discard (csr_read_mcountinhibit H h)),
     (CSR_MCYCLE, \<lambda>h. discard (csr_read_mcycle H h)),
     (CSR_MINSTRET, \<lambda>h. discard (csr_read_minstret H h)),
     (CSR_MHPMCOUNTER3, \<lambda>h. discard (csr_read_mhpmcounter3 H h)),
     (CSR_MHPMEVENT3, \<lambda>h. discard (csr_read_mhpmevent3 H h)),
     (CSR_MCOUNTEREN, \<lambda>h. discard (csr_read_mcounteren H h)),
     (CSR_SCOUNTEREN, \<lambda>h. discard (csr_read_scounteren H h)),
     (CSR_MSCRATCH, \<lambda>h. discard (csr_read_mscratch H h)),
     (CSR_MEPC, \<lambda>h. discard (csr_read_mepc H h)),
     (CSR_MCAUSE, \<lambda>h. discard (csr_read_mcause H h)),
     (CSR_MTVAL, \<lambda>h. discard (csr_read_mtval H h)),
     (CSR_SSCRATCH, \<lambda>h. discard (csr_read_sscratch H h)),
     (CSR_SEPC, \<lambda>h. discard (csr_read_sepc H h)),
     (CSR_SCAUSE, \<lambda>h. discard (csr_read_scause H h)),
     (CSR_SSTATUS, \<lambda>h. discard (csr_read_sstatus H h)),
     (CSR_STVEC, \<lambda>h. discard (csr_read_stvec H h)),
     (CSR_SIDELEG, \<lambda>h. discard (csr_read_sideleg H h)),
     (CSR_SEDELEG, \<lambda>h. discard (csr_read_sedeleg H h)),
     (CSR_SIP, \<lambda>h. discard (csr_read_sip H h)),
     (CSR_SIE, \<lambda>h. discard (csr_read_sie H h)),
     (CSR_USTATUS, \<lambda>h. discard (csr_read_ustatus H h)),
     (CSR_UIP, \<lambda>h. discard (csr_read_uip H h)),
     (CSR_UIE, \<lambda>h. discard (csr_read_uie H h)),
     (CSR_USCRATCH, \<lambda>h. discard (csr_read_uscratch H h)),
     (CSR_UEPC, \<lambda>h. discard (csr_read_uepc H h)),
     (CSR_UCAUSE, \<lambda>h. discard (csr_read_ucause H h)),
     (CSR_UTVEC, \<lambda>h. discard (csr_read_utvec H h)),
     (CSR_UTVAL, \<lambda>h. discard (csr_read_utval H h)),
     (CSR_FFLAGS, \<lambda>h. discard (csr_read_fflags H h)),
     (CSR_FRM, \<lambda>h. discard (csr_read_frm H h)),
     (CSR_FCSR, \<lambda>h. discard (csr_read_fcsr H h)),
     (CSR_CYCLE, \<lambda>h. discard (csr_read_cycle H h)),
     (CSR_TIME, \<lambda>h. discard (csr_read_time H h)),
     (CSR_INSTRET, \<lambda>h. discard (csr_read_instret H h)),
     (CSR_HPMCOUNTER3, \<lambda>h. discard (csr_read_hpmcounter3 H h)),
     (CSR_HPMCOUNTER4, \<lambda>h. discard (csr_read_hpmcounter4 H h)),
     (CSR_HPMCOUNTER31, \<lambda>h. discard (csr_read_hpmcounter31 H h)),
     (CSR_CYCLEH, \<lambda>h. discard (csr_read_cycleh H h)),
     (CSR_TIMEH, \<lambda>h. discard (csr_read_timeh H h)),
     (CSR_INSTRETH, \<lambda>h. discard (csr_read_instreth H h)),
     (CSR_HPMCOUNTER3H, \<lambda>h. discard (csr_read_hpmcounter3h H h)),
     (CSR_HPMCOUNTER4H, \<lambda>h. discard (csr_read_hpmcounter4h H h)),
     (CSR_HPMCOUNTER31H, \<lambda>h. discard (csr_read_hpmcounter31h H h)),
     (CSR_STVAL, \<lambda>h. discard (csr_read_stval H h)),
     (CSR_SATP, \<lambda>h. discard (csr_read_satp H h)),
     (CSR_HSTATUS, \<lambda>h. discard (csr_read_hstatus H h)),
     (CSR_HEDELEG, \<lambda>h. discard (csr_read_hedeleg H h)),
     (CSR_HIDELEG, \<lambda>h. discard (csr_read_hideleg H h)),
     (CSR_HCOUNTEREN, \<lambda>h. discard (csr_read_hcounteren H h)),
     (CSR_HGATP, \<lambda>h. discard (csr_read_hgatp H h)),
     (CSR_HTIMEDELTA, \<lambda>h. discard (csr_read_htimedelta H h)),
     (CSR_HTIMEDELTAH, \<lambda>h. discard (csr_read_htimedeltah H h)),
     (CSR_VSSTATUS, \<lambda>h. discard (csr_read_vsstatus H h)),
     (CSR_VSIE, \<lambda>h. discard (csr_read_vsie H h)),
     (CSR_VSTVEC, \<lambda>h. discard (csr_read_vstvec H h)),
     (CSR_VSSCRATCH, \<lambda>h. discard (csr_read_vsscratch H h)),
     (CSR_VSEPC, \<lambda>h. discard (csr_read_vsepc H h)),
     (CSR_VSCAUSE, \<lambda>h. discard (csr_read_vscause H h)),
     (CSR_VSTVAL, \<lambda>h. discard (csr_read_vstval H h)),
     (CSR_VSIP, \<lambda>h. discard (csr_read_vsip H h)),
     (CSR_VSATP, \<lambda>h. discard (csr_read_vsatp H h)),
     (CSR_MBASE, \<lambda>h. discard (csr_read_mbase H h)),
     (CSR_MBOUND, \<lambda>h. discard (csr_read_mbound H h)),
     (CSR_MIBASE, \<lambda>h. discard (csr_read_mibase H h)),
     (CSR_MIBOUND, \<lambda>h. discard (csr_read_mibound H h)),
     (CSR_MDBASE, \<lambda>h. discard (csr_read_mdbase H h)),
     (CSR_MDBOUND, \<lambda>h. discard (csr_read_mdbound H h)),
     (CSR_PMPCFG0, \<lambda>h. discard (csr_read_pmpcfg0 H h)),
     (CSR_PMPCFG1, \<lambda>h. discard (csr_read_pmpcfg1 H h)),
     (CSR_PMPCFG2, \<lambda>h. discard (csr_read_pmpcfg2 H h)),
     (CSR_PMPCFG3, \<lambda>h. discard (csr_read_pmpcfg3 H h)),
     (CSR_PMPADDR0, \<lambda>h. discard (csr_read_pmpaddr0 H h)),
     (CSR_PMPADDR1, \<lambda>h. discard (csr_read_pmpaddr1 H h)),
     (CSR_PMPADDR15, \<lambda>h. discard (csr_read_pmpaddr15 H h)),
     (CSR_MHPMCOUNTER4, \<lambda>h. discard (csr_read_mhpmcounter4 H h)),
     (CSR_MHPMCOUNTER31, \<lambda>h. discard (csr_read_mhpmcounter31 H h)),
     (CSR_MCYCLEH, \<lambda>h. discard (csr_read_mcycleh H h)),
     (CSR_MINSTRETH, \<lambda>h. discard (csr_read_minstreth H h)),
     (CSR_MHPMCOUNTER3H, \<lambda>h. discard (csr_read_mhpmcounter3h H h)),
     (CSR_MHPMCOUNTER4H, \<lambda>h. discard (csr_read_mhpmcounter4h H h)),
     (CSR_MHPMCOUNTER31H, \<lambda>h. discard (csr_read_mhpmcounter31h H h)),
     (CSR_MHPMEVENT4, \<lambda>h. discard (csr_read_mhpmevent4 H h)),
     (CSR_MHPMEVENT31, \<lambda>h. discard (csr_read_mhpmevent31 H h)),
     (CSR_TSELECT, \<lambda>h. discard (csr_read_tselect H h)),
     (CSR_TDATA1, \<lambda>h. discard (csr_read_tdata1 H h)),
     (CSR_TDATA2, \<lambda>h. discard (csr_read_tdata2 H h)),
     (CSR_TDATA3, \<lambda>h. discard (csr_read_tdata3 H h)),
     (CSR_DCSR, \<lambda>h. discard (csr_read_dcsr H h)),
     (CSR_DPC, \<lambda>h. discard (csr_read_dpc H h)),
     (CSR_DSCRATCH0, \<lambda>h. discard (csr_read_dscratch0 H h)),
     (CSR_DSCRATCH1, \<lambda>h. discard (csr_read_dscratch1 H h)),
     (CSR_HIE, \<lambda>h. discard (csr_read_hie H h)),
     (CSR_HGEIE, \<lambda>h. discard (csr_read_hgeie H h)),
     (CSR_HTVAL, \<lambda>h. discard (csr_read_htval H h)),
     (CSR_HIP, \<lambda>h. discard (csr_read_hip H h)),
     (CSR_HTINST, \<lambda>h. discard (csr_read_htinst H h)),
     (CSR_HGEIP, \<lambda>h. discard (csr_read_hgeip H h)),
     (CSR_MTINST, \<lambda>h. discard (csr_read_mtinst H h)),
     (CSR_MTVAL2, \<lambda>h. discard (csr_read_mtval2 H h))]"

definition header_writes_machine ::
  "('h, 'x::len word) hart \<Rightarrow> 'x word \<Rightarrow> (csr \<times> (unit, 'h) exec) list" where
  "header_writes_machine H v =
    [(CSR_MISA, csr_write_misa H v),
     (CSR_MISA, \<lambda>h. discard (csr_read_write_misa H v h)),
     (CSR_MSTATUS, csr_write_mstatus H v),
     (CSR_MSTATUS, \<lambda>h. discard (csr_read_write_mstatus H v h)),
     (CSR_MSTATUS, csr_set_bits_mstatus H v),
     (CSR_MSTATUS, csr_clr_bits_mstatus H v),
     (CSR_MSTATUS, \<lambda>h. discard (csr_read_set_bits_mstatus H v h)),
     (CSR_MSTATUS, \<lambda>h. discard (csr_read_clr_bits_mstatus H v h)),
     (CSR_MSTATUSH, csr_write_mstatush H v),
     (CSR_MSTATUSH, \<lambda>h. discard (csr_read_write_mstatush H v h)),
     (CSR_MTVEC, csr_write_mtvec H v),
     (CSR_MTVEC, \<lambda>h. discard (csr_read_write_mtvec H v h)),
     (CSR_MTVEC, csr_set_bits_mtvec H v),
     (CSR_MTVEC, csr_clr_bits_mtvec H v),
     (CSR_MTVEC, \<lambda>h. discard (csr_read_set_bits_mtvec H v h)),
     (CSR_MTVEC, \<lambda>h. discard (csr_read_clr_bits_mtvec H v h)),
     (CSR_MEDELEG, csr_write_medeleg H v),
     (CSR_MEDELEG, \<lambda>h. discard (csr_read_write_medeleg H v h)),
     (CSR_MIDELEG, csr_write_mideleg H v),
     (CSR_MIDELEG, \<lambda>h. discard (csr_read_write_mideleg H v h)),
     (CSR_MIP, csr_write_mip H v),
     (CSR_MIP, \<lambda>h. discard (csr_read_write_mip H v h)),
     (CSR_MIP, csr_set_bits_mip H v),
     (CSR_MIP, csr_clr_bits_mip H v),
     (CSR_MIP, \<lambda>h. discard (csr_read_set_bits_mip H v h)),
     (CSR_MIP, \<lambda>h. discard (csr_read_clr_bits_mip H v h)),
     (CSR_MIE, csr_write_mie H v),
     (CSR_MIE, \<lambda>h. discard (csr_read_write_mie H v h)),
     (CSR_MIE, csr_set_bits_mie H v),
     (CSR_MIE, csr_clr_bits_mie H v),
     (CSR_MIE, \<lambda>h. discard (csr_read_set_bits_mie H v h)),
     (CSR_MIE, \<lambda>h. discard (csr_read_clr_bits_mie H v h)),
     (CSR_MCOUNTINHIBIT, csr_write_mcountinhibit H (ucast v)),
     (CSR_MCOUNTINHIBIT, \<lambda>h. discard (csr_read_write_mcountinhibit H (ucast v) h)),
     (CSR_MCOUNTINHIBIT, csr_set_bits_mcountinhibit H (ucast v)),
     (CSR_MCOUNTINHIBIT, csr_clr_bits_mcountinhibit H (ucast v)),
     (CSR_MCOUNTINHIBIT, \<lambda>h. discard (csr_read_set_bits_mcountinhibit H (ucast v) h)),
     (CSR_MCOUNTINHIBIT, \<lambda>h. discard (csr_read_clr_bits_mcountinhibit H (ucast v) h)),
     (CSR_MCYCLE, csr_write_mcycle H v),
     (CSR_MCYCLE, \<lambda>h. discard (csr_read_write_mcycle H (ucast v) h)),
     (CSR_MINSTRET, csr_write_minstret H v),
     (CSR_MINSTRET, \<lambda>h. discard (csr_read_write_minstret H (ucast v) h)),
     (CSR_MHPMCOUNTER3, csr_write_mhpmcounter3 H v),
     (CSR_MHPMCOUNTER3, \<lambda>h. discard (csr_read_write_mhpmcounter3 H (ucast v) h)),
     (CSR_MHPMEVENT3, csr_write_mhpmevent3 H v),
     (CSR_MHPMEVENT3, \<lambda>h. discard (csr_read_write_mhpmevent3 H v h)),
     (CSR_MCOUNTEREN, csr_write_mcounteren H (ucast v)),
     (CSR_MCOUNTEREN, \<lambda>h. discard (csr_read_write_mcounteren H (ucast v) h)),
     (CSR_MCOUNTEREN, csr_set_bits_mcounteren H (ucast v)),
     (CSR_MCOUNTEREN, csr_clr_bits_mcounteren H (ucast v)),
     (CSR_MCOUNTEREN, \<lambda>h. discard (csr_read_set_bits_mcounteren H (ucast v) h)),
     (CSR_MCOUNTEREN, \<lambda>h. discard (csr_read_clr_bits_mcounteren H (ucast v) h)),
     (CSR_SCOUNTEREN, csr_write_scounteren H v),
     (CSR_SCOUNTEREN, \<lambda>h. discard (csr_read_write_scounteren H v h)),
     (CSR_MSCRATCH, csr_write_mscratch H v),
     (CSR_MSCRATCH, \<lambda>h. discard (csr_read_write_mscratch H v h)),
     (CSR_MEPC, csr_write_mepc H v),
     (CSR_MEPC, \<lambda>h. discard (csr_read_write_mepc H v h)),
     (CSR_MCAUSE, csr_write_mcause H v),
     (CSR_MCAUSE, \<lambda>h. discard (csr_read_write_mcause H v h)),
     (CSR_MCAUSE, csr_set_bits_mcause H v),
     (CSR_MCAUSE, csr_clr_bits_mcause H v),
     (CSR_MCAUSE, \<lambda>h. discard (csr_read_set_bits_mcause H v h)),
     (CSR_MCAUSE, \<lambda>h. discard (csr_read_clr_bits_mcause H v h)),
     (CSR_MTVAL, csr_write_mtval H v),
     (CSR_MTVAL, \<lambda>h. discard (csr_read_write_mtval H v h))]"

definition header_writes_supervisor_user ::
  "('h, 'x::len word) hart \<Rightarrow> 'x word \<Rightarrow> (csr \<times> (unit, 'h) exec) list" where
  "header_writes_supervisor_user H v =
    [(CSR_SSCRATCH, csr_write_sscratch H v),
     (CSR_SSCRATCH, \<lambda>h. discard (csr_read_write_sscratch H v h)),
     (CSR_SEPC, csr_write_sepc H v),
     (CSR_SEPC, \<lambda>h. discard (csr_read_write_sepc H v h)),
     (CSR_SCAUSE, csr_write_scause H v),
     (CSR_SCAUSE, \<lambda>h. discard (csr_read_write_scause H v h)),
     (CSR_SCAUSE, csr_set_bits_scause H v),
     (CSR_SCAUSE, csr_clr_bits_scause H v),
     (CSR_SCAUSE, \<lambda>h. discard (csr_read_set_bits_scause H v h)),
     (CSR_SCAUSE, \<lambda>h. discard (csr_read_clr_bits_scause H v h)),
     (CSR_SSTATUS, csr_write_sstatus H v),
     (CSR_SSTATUS, \<lambda>h. discard (csr_read_write_sstatus H v h)),
     (CSR_SSTATUS, csr_set_bits_sstatus H v),
     (CSR_SSTATUS, csr_clr_bits_sstatus H v),
     (CSR_SSTATUS, \<lambda>h. discard (csr_read_set_bits_sstatus H v h)),
     (CSR_SSTATUS, \<lambda>h. discard (csr_read_clr_bits_sstatus H v h)),
     (CSR_STVEC, csr_write_stvec H v),
     (CSR_STVEC, \<lambda>h. discard (csr_read_write_stvec H v h)),
     (CSR_STVEC, csr_set_bits_stvec H v),
     (CSR_STVEC, csr_clr_bits_stvec H v),
     (CSR_STVEC, \<lambda>h. discard (csr_read_set_bits_stvec H v h)),
     (CSR_STVEC, \<lambda>h. discard (csr_read_clr_bits_stvec H v h)),
     (CSR_SIDELEG, csr_write_sideleg H v),
     (CSR_SIDELEG, \<lambda>h. discard (csr_read_write_sideleg H v h)),
     (CSR_SEDELEG, csr_write_sedeleg H v),
     (CSR_SEDELEG, \<lambda>h. discard (csr_read_write_sedeleg H v h)),
     (CSR_SIP, csr_write_sip H v),
     (CSR_SIP, \<lambda>h. discard (csr_read_write_sip H v h)),
     (CSR_SIP, csr_set_bits_sip H v),
     (CSR_SIP, csr_clr_bits_sip H v),
     (CSR_SIP, \<lambda>h. discard (csr_read_set_bits_sip H v h)),
     (CSR_SIP, \<lambda>h. discard (csr_read_clr_bits_sip H v h)),
     (CSR_SIE, csr_write_sie H v),
     (CSR_SIE, \<lambda>h. discard (csr_read_write_sie H v h)),
     (CSR_SIE, csr_set_bits_sie H v),
     (CSR_SIE, csr_clr_bits_sie H v),
     (CSR_SIE, \<lambda>h. discard (csr_read_set_bits_sie H v h)),
     (CSR_SIE, \<lambda>h. discard (csr_read_clr_bits_sie H v h)),
     (CSR_USTATUS, csr_write_ustatus H v),
     (CSR_USTATUS, \<lambda>h. discard (csr_read_write_ustatus H v h)),
     (CSR_USTATUS, csr_set_bits_ustatus H v),
     (CSR_USTATUS, csr_clr_bits_ustatus H v),
     (CSR_USTATUS, \<lambda>h. discard (csr_read_set_bits_ustatus H v h)),
     (CSR_USTATUS, \<lambda>h. discard (csr_read_clr_bits_ustatus H v h)),
     (CSR_UIP, csr_write_uip H v),
     (CSR_UIP, \<lambda>h. discard (csr_read_write_uip H v h)),
     (CSR_UIP, csr_set_bits_uip H v),
     (CSR_UIP, csr_clr_bits_uip H v),
     (CSR_UIP, \<lambda>h. discard (csr_read_set_bits_uip H v h)),
     (CSR_UIP, \<lambda>h. discard (csr_read_clr_bits_uip H v h)),
     (CSR_UIE, csr_write_uie H v),
     (CSR_UIE, \<lambda>h. discard (csr_read_write_uie H v h)),
     (CSR_UIE, csr_set_bits_uie H v),
     (CSR_UIE, csr_clr_bits_uie H v),
     (CSR_UIE, \<lambda>h. discard (csr_read_set_bits_uie H v h)),
     (CSR_UIE, \<lambda>h. discard (csr_read_clr_bits_uie H v h)),
     (CSR_USCRATCH, csr_write_uscratch H v),
     (CSR_USCRATCH, \<lambda>h. discard (csr_read_write_uscratch H v h)),
     (CSR_UEPC, csr_write_uepc H v),
     (CSR_UEPC, \<lambda>h. discard (csr_read_write_uepc H v h)),
     (CSR_UCAUSE, csr_write_ucause H v),
     (CSR_UCAUSE, \<lambda>h. discard (csr_read_write_ucause H v h)),
     (CSR_UCAUSE, csr_set_bits_ucause H v),
     (CSR_UCAUSE, csr_clr_bits_ucause H v),
     (CSR_UCAUSE, \<lambda>h. discard (csr_read_set_bits_ucause H v h)),
     (CSR_UCAUSE, \<lambda>h. discard (csr_read_clr_bits_ucause H v h)),
     (CSR_UTVEC, csr_write_utvec H v),
     (CSR_UTVEC, \<lambda>h. discard (csr_read_write_utvec H v h)),
     (CSR_UTVEC, csr_set_bits_utvec H v),
     (CSR_UTVEC, csr_clr_bits_utvec H v),
     (CSR_UTVEC, \<lambda>h. discard (csr_read_set_bits_utvec H v h)),
     (CSR_UTVEC, \<lambda>h. discard (csr_read_clr_bits_utvec H v h)),
     (CSR_UTVAL, csr_write_utval H v),
     (CSR_UTVAL, \<lambda>h. discard (csr_read_write_utval H v h)),
     (CSR_FFLAGS, csr_write_fflags H v),
     (CSR_FFLAGS, \<lambda>h. discard (csr_read_write_fflags H v h)),
     (CSR_FRM, csr_write_frm H v),
     (CSR_FRM, \<lambda>h. discard (csr_read_write_frm H v h)),
     (CSR_FCSR, csr_write_fcsr H v),
     (CSR_FCSR, \<lambda>h. discard (csr_read_write_fcsr H v h))]"

definition header_writes_hypervisor ::
  "('h, 'x::len word) hart \<Rightarrow> 'x word \<Rightarrow> (csr \<times> (unit, 'h) exec) list" where
  "header_writes_hypervisor H v =
    [(CSR_STVAL, csr_write_stval H v),
     (CSR_STVAL, \<lambda>h. discard (csr_read_write_stval H v h)),
     (CSR_SATP, csr_write_satp H v),
     (CSR_SATP, \<lambda>h. discard (csr_read_write_satp H v h)),
     (CSR_HSTATUS, csr_write_hstatus H v),
     (CSR_HSTATUS, \<lambda>h. discard (csr_read_write_hstatus H v h)),
     (CSR_HEDELEG, csr_write_hedeleg H v),
     (CSR_HEDELEG, \<lambda>h. discard (csr_read_write_hedeleg H v h)),
     (CSR_HIDELEG, csr_write_hideleg H v),
     (CSR_HIDELEG, \<lambda>h. discard (csr_read_write_hideleg H v h)),
     (CSR_HCOUNTEREN, csr_write_hcounteren H v),
     (CSR_HCOUNTEREN, \<lambda>h. discard (csr_read_write_hcounteren H v h)),
     (CSR_HGATP, csr_write_hgatp H v),
     (CSR_HGATP, \<lambda>h. discard (csr_read_write_hgatp H v h)),
     (CSR_HTIMEDELTA, csr_write_htimedelta H v),
     (CSR_HTIMEDELTA, \<lambda>h. discard (csr_read_write_htimedelta H v h)),
     (CSR_HTIMEDELTAH, csr_write_htimedeltah H v),
     (CSR_HTIMEDELTAH, \<lambda>h. discard (csr_read_write_htimedeltah H v h)),
     (CSR_VSSTATUS, csr_write_vsstatus H v),
     (CSR_VSSTATUS, \<lambda>h. discard (csr_read_write_vsstatus H v h)),
     (CSR_VSIE, csr_write_vsie H v),
     (CSR_VSIE, \<lambda>h. discard (csr_read_write_vsie H v h)),
     (CSR_VSTVEC, csr_write_vstvec H v),
     (CSR_VSTVEC, \<lambda>h. discard (csr_read_write_vstvec H v h)),
     (CSR_VSSCRATCH, csr_write_vsscratch H v),
     (CSR_VSSCRATCH, \<lambda>h. discard (csr_read_write_vsscratch H v h)),
     (CSR_VSEPC, csr_write_vsepc H v),
     (CSR_VSEPC, \<lambda>h. discard (csr_read_write_vsepc H v h)),
     (CSR_VSCAUSE, csr_write_vscause H v),
     (CSR_VSCAUSE, \<lambda>h. discard (csr_read_write_vscause H v h)),
     (CSR_VSTVAL, csr_write_vstval H v),
     (CSR_VSTVAL, \<lambda>h. discard (csr_read_write_vstval H v h)),
     (CSR_VSIP, csr_write_vsip H v),
     (CSR_VSIP, \<lambda>h. discard (csr_read_write_vsip H v h)),
     (CSR_VSATP, csr_write_vsatp H v),
     (CSR_VSATP, \<lambda>h. discard (csr_read_write_vsatp H v h))]"

definition header_writes_platform ::
  "('h, 'x::len word) hart \<Rightarrow> 'x word \<Rightarrow> (csr \<times> (unit, 'h) exec) list" where
  "header_writes_platform H v =
    [(CSR_MBASE, csr_write_mbase H v),
     (CSR_MBASE, \<lambda>h. discard (csr_read_write_mbase H v h)),
     (CSR_MBOUND, csr_write_mbound H v),
     (CSR_MBOUND, \<lambda>h. discard (csr_read_write_mbound H v h)),
     (CSR_MIBASE, csr_write_mibase H v),
     (CSR_MIBASE, \<lambda>h. discard (csr_read_write_mibase H v h)),
     (CSR_MIBOUND, csr_write_mibound H v),
     (CSR_MIBOUND, \<lambda>h. discard (csr_read_write_mibound H v h)),
     (CSR_MDBASE, csr_write_mdbase H v),
     (CSR_MDBASE, \<lambda>h. discard (csr_read_write_mdbase H v h)),
     (CSR_MDBOUND, csr_write_mdbound H v),
     (CSR_MDBOUND, \<lambda>h. discard (csr_read_write_mdbound H v h)),
     (CSR_PMPCFG0, csr_write_pmpcfg0 H v),
     (CSR_PMPCFG0, \<lambda>h. discard (csr_read_write_pmpcfg0 H v h)),
     (CSR_PMPCFG1, csr_write_pmpcfg1 H v),
     (CSR_PMPCFG1, \<lambda>h. discard (csr_read_write_pmpcfg1 H v h)),
     (CSR_PMPCFG2, csr_write_pmpcfg2 H v),
     (CSR_PMPCFG2, \<lambda>h. discard (csr_read_write_pmpcfg2 H v h)),
     (CSR_PMPCFG3, csr_write_pmpcfg3 H v),
     (CSR_PMPCFG3, \<lambda>h. discard (csr_read_write_pmpcfg3 H v h)),
     (CSR_PMPADDR0, csr_write_pmpaddr0 H v),
     (CSR_PMPADDR0, \<lambda>h. discard (csr_read_write_pmpaddr0 H v h)),
     (CSR_PMPADDR1, csr_write_pmpaddr1 H v),
     (CSR_PMPADDR1, \<lambda>h. discard (csr_read_write_pmpaddr1 H v h)),
     (CSR_PMPADDR15, csr_write_pmpaddr15 H v),
     (CSR_PMPADDR15, \<lambda>h. discard (csr_read_write_pmpaddr15 H v h)),
     (CSR_MHPMCOUNTER4, csr_write_mhpmcounter4 H v),
     (CSR_MHPMCOUNTER4, \<lambda>h. discard (csr_read_write_mhpmcounter4 H v h)),
     (CSR_MHPMCOUNTER31, csr_write_mhpmcounter31 H v),
     (CSR_MHPMCOUNTER31, \<lambda>h. discard (csr_read_write_mhpmcounter31 H v h)),
     (CSR_MCYCLEH, csr_write_mcycleh H (ucast v)),
     (CSR_MCYCLEH, \<lambda>h. discard (csr_read_write_mcycleh H (ucast v) h)),
     (CSR_MINSTRETH, csr_write_minstreth H (ucast v)),
     (CSR_MINSTRETH, \<lambda>h. discard (csr_read_write_minstreth H (ucast v) h)),
     (CSR_MHPMCOUNTER3H, csr_write_mhpmcounter3h H (ucast v)),
     (CSR_MHPMCOUNTER3H, \<lambda>h. discard (csr_read_write_mhpmcounter3h H (ucast v) h)),
     (CSR_MHPMCOUNTER4H, csr_write_mhpmcounter4h H (ucast v)),
     (CSR_MHPMCOUNTER4H, \<lambda>h. discard (csr_read_write_mhpmcounter4h H (ucast v) h)),
     (CSR_MHPMCOUNTER31H, csr_write_mhpmcounter31h H (ucast v)),
     (CSR_MHPMCOUNTER31H, \<lambda>h. discard (csr_read_write_mhpmcounter31h H (ucast v) h)),
     (CSR_MHPMEVENT4, csr_write_mhpmevent4 H v),
     (CSR_MHPMEVENT4, \<lambda>h. discard (csr_read_write_mhpmevent4 H v h)),
     (CSR_MHPMEVENT31, csr_write_mhpmevent31 H v),
     (CSR_MHPMEVENT31, \<lambda>h. discard (csr_read_write_mhpmevent31 H v h)),
     (CSR_TSELECT, csr_write_tselect H v),
     (CSR_TSELECT, \<lambda>h. discard (csr_read_write_tselect H v h)),
     (CSR_TDATA1, csr_write_tdata1 H v),
     (CSR_TDATA1, \<lambda>h. discard (csr_read_write_tdata1 H v h)),
     (CSR_TDATA2, csr_write_tdata2 H v),
     (CSR_TDATA2, \<lambda>h. discard (csr_read_write_tdata2 H v h)),
     (CSR_TDATA3, csr_write_tdata3 H v),
     (CSR_TDATA3, \<lambda>h. discard (csr_read_write_tdata3 H v h)),
     (CSR_DCSR, csr_write_dcsr H v),
     (CSR_DCSR, \<lambda>h. discard (csr_read_write_dcsr H v h)),
     (CSR_DPC, csr_write_dpc H v),
     (CSR_DPC, \<lambda>h. discard (csr_read_write_dpc H v h)),
     (CSR_DSCRATCH0, csr_write_dscratch0 H v),
     (CSR_DSCRATCH0, \<lambda>h. discard (csr_read_write_dscratch0 H v h)),
     (CSR_DSCRATCH1, csr_write_dscratch1 H v),
     (CSR_DSCRATCH1, \<lambda>h. discard (csr_read_write_dscratch1 H v h)),
     (CSR_HIE, csr_write_hie H v),
     (CSR_HIE, \<lambda>h. discard (csr_read_write_hie H v h)),
     (CSR_HGEIE, csr_write_hgeie H v),
     (CSR_HGEIE, \<lambda>h. discard (csr_read_write_hgeie H v h)),
     (CSR_HTVAL, csr_write_htval H v),
     (CSR_HTVAL, \<lambda>h. discard (csr_read_write_htval H v h)),
     (CSR_HIP, csr_write_hip H v),
     (CSR_HIP, \<lambda>h. discard (csr_read_write_hip H v h)),
     (CSR_HTINST, csr_write_htinst H v),
     (CSR_HTINST, \<lambda>h. discard (csr_read_write_htinst H v h)),
     (CSR_MTINST, csr_write_mtinst H v),
     (CSR_MTINST, \<lambda>h. discard (csr_read_write_mtinst H v h)),
     (CSR_MTVAL2, csr_write_mtval2 H v),
     (CSR_MTVAL2, \<lambda>h. discard (csr_read_write_mtval2 H v h))]"

definition header_writes ::
  "('h, 'x::len word) hart \<Rightarrow> 'x word \<Rightarrow> (csr \<times> (unit, 'h) exec) list" where
  "header_writes H v =
     header_writes_machine H v @ header_writes_supervisor_user H v @ header_writes_hypervisor H v @
     header_writes_platform H v"

lemmas header_defs =
  csr_machine_defs csr_supervisor_user_defs csr_counters_hypervisor_defs csr_platform_defs

subsection \<open>Every function accesses the register it is named after\<close>

definition zicsr_accessors ::
  "('h, 'x::len word) hart \<Rightarrow> csr \<Rightarrow> ('x word, 'h) accessors" where
  "zicsr_accessors H c =
     \<lparr>ac_read = csrr H c, ac_write = csrw H c, ac_read_write = csrrw H c,
      ac_set_bits = (\<lambda>m h. discard (csrrs H c m h)), ac_clr_bits = (\<lambda>m h. discard (csrrc H c m h)),
      ac_read_set_bits = csrrs H c, ac_read_clr_bits = csrrc H c, ac_write_imm = csrwi H c,
      ac_set_bits_imm = csrsi H c, ac_clr_bits_imm = csrci H c\<rparr>"

definition zicsr32_accessors ::
  "('h, 'x::len word) hart \<Rightarrow> csr \<Rightarrow> (u32, 'h) accessors" where
  "zicsr32_accessors H c =
     \<lparr>ac_read = (\<lambda>h. map_exec ucast (csrr H c h)), ac_write = (\<lambda>v. csrw H c (reg_of_u32 v)),
      ac_read_write = (\<lambda>v h. map_exec ucast (csrrw H c (reg_of_u32 v) h)),
      ac_set_bits = (\<lambda>m h. discard (csrrs H c (reg_of_u32 m) h)),
      ac_clr_bits = (\<lambda>m h. discard (csrrc H c (reg_of_u32 m) h)),
      ac_read_set_bits = (\<lambda>m h. map_exec ucast (csrrs H c (reg_of_u32 m) h)),
      ac_read_clr_bits = (\<lambda>m h. map_exec ucast (csrrc H c (reg_of_u32 m) h)),
      ac_write_imm = csrwi H c, ac_set_bits_imm = csrsi H c, ac_clr_bits_imm = csrci H c\<rparr>"

lemma accessor_table_sound:
  "(c, A) \<in> set (accessor_table H) \<Longrightarrow> A = zicsr_accessors H c \<and> \<not> csr_read_only c"
proof -
  have "list_all (\<lambda>(c, A). A = zicsr_accessors H c \<and> \<not> csr_read_only c) (accessor_table H)"
    by (simp add: accessor_table_def zicsr_accessors_def header_defs fun_eq_iff
        csr_read_only_def csr_addresses)
  then show "(c, A) \<in> set (accessor_table H) \<Longrightarrow> A = zicsr_accessors H c \<and> \<not> csr_read_only c"
    by (auto simp: list_all_iff)
qed

lemma counter_table_sound:
  "(c, A) \<in> set (counter_table H) \<Longrightarrow> A = zicsr32_accessors H c \<and> \<not> csr_read_only c"
proof -
  have "list_all (\<lambda>(c, A). A = zicsr32_accessors H c \<and> \<not> csr_read_only c) (counter_table H)"
    by (simp add: counter_table_def zicsr32_accessors_def header_defs fun_eq_iff
        csr_read_only_def csr_addresses)
  then show "(c, A) \<in> set (counter_table H) \<Longrightarrow> A = zicsr32_accessors H c \<and> \<not> csr_read_only c"
    by (auto simp: list_all_iff)
qed

lemma discard_map_exec [simp]: "discard (map_exec f r) = discard r" "discard (discard r) = discard r"
  by (simp_all add: discard_def map_exec_def split: sum.split)

lemma header_reads_sound:
  "(c, f) \<in> set (header_reads H) \<Longrightarrow> f = (\<lambda>h. discard (csrr H c h))"
proof -
  have "list_all (\<lambda>(c, f). f = (\<lambda>h. discard (csrr H c h))) (header_reads H)"
    by (simp add: header_reads_def header_defs)
  then show "(c, f) \<in> set (header_reads H) \<Longrightarrow> f = (\<lambda>h. discard (csrr H c h))"
    by (auto simp: list_all_iff)
qed

text \<open>A function that writes exactly the register \<open>c\<close>, which has to be writable.\<close>

definition writes_own :: "('h, 'x::len word) hart \<Rightarrow> csr \<Rightarrow> (unit, 'h) exec \<Rightarrow> bool" where
  "writes_own H c f \<longleftrightarrow> (\<exists>g. \<forall>h. f h = discard (csr_access H c True g h))"

lemma writes_own_intros [simp]:
  "writes_own H c (\<lambda>h. discard (csrrw H c v h))" "writes_own H c (csrw H c v)"
  "writes_own H c (\<lambda>h. discard (csrrs H c v h))" "writes_own H c (\<lambda>h. discard (csrrc H c v h))"
  unfolding writes_own_def csrrw_def csrw_def csrrs_def csrrc_def by blast+

lemma writes_own_eta [simp]:
  "writes_own H c (\<lambda>h. csrw H c v h)"
  by (rule writes_own_intros)

lemma header_writes_sound:
  "(c, f) \<in> set (header_writes H v) \<Longrightarrow> writes_own H c f \<and> \<not> csr_read_only c"
proof -
  let ?ok = "\<lambda>(c, f). writes_own H c f \<and> \<not> csr_read_only c"
  have "list_all ?ok (header_writes_machine H v)"
    by (simp add: header_writes_machine_def header_defs csr_read_only_def csr_addresses)
  moreover have "list_all ?ok (header_writes_supervisor_user H v)"
    by (simp add: header_writes_supervisor_user_def header_defs csr_read_only_def csr_addresses)
  moreover have "list_all ?ok (header_writes_hypervisor H v)"
    by (simp add: header_writes_hypervisor_def header_defs csr_read_only_def csr_addresses)
  moreover have "list_all ?ok (header_writes_platform H v)"
    by (simp add: header_writes_platform_def header_defs csr_read_only_def csr_addresses)
  ultimately have "list_all ?ok (header_writes H v)"
    by (simp add: header_writes_def)
  then show "(c, f) \<in> set (header_writes H v) \<Longrightarrow> writes_own H c f \<and> \<not> csr_read_only c"
    by (auto simp: list_all_iff)
qed

subsection \<open>The contract of the accessors\<close>

text \<open>What the users of a register rely on: \<open>val\<close> is its value, \<open>may\<close> says that the program may
  write it, and the bits in \<open>W\<close> are the ones that take a written value.\<close>

locale csr_contract =
  fixes val :: "'h \<Rightarrow> 'w::len word" and may :: "'h \<Rightarrow> bool" and W :: "'w word"
    and A :: "('w word, 'h) accessors"
  assumes read_law: "may h \<Longrightarrow> ac_read A h = Inr (val h, h)"
    and write_law: "may h \<Longrightarrow> \<exists>h'. ac_write A v h = Inr ((), h') \<and> may h' \<and>
      val h' = (val h AND NOT W) OR (v AND W)"
    and read_write_law: "may h \<Longrightarrow> \<exists>h'. ac_write A v h = Inr ((), h') \<and> ac_read_write A v h = Inr (val h, h')"
    and set_bits_law: "may h \<Longrightarrow> \<exists>h'. ac_set_bits A m h = Inr ((), h') \<and> may h' \<and>
      val h' = val h OR (m AND W)"
    and clr_bits_law: "may h \<Longrightarrow> \<exists>h'. ac_clr_bits A m h = Inr ((), h') \<and> may h' \<and>
      val h' = val h AND NOT (m AND W)"
    and read_set_bits_law: "may h \<Longrightarrow>
      \<exists>h'. ac_set_bits A m h = Inr ((), h') \<and> ac_read_set_bits A m h = Inr (val h, h')"
    and read_clr_bits_law: "may h \<Longrightarrow>
      \<exists>h'. ac_clr_bits A m h = Inr ((), h') \<and> ac_read_clr_bits A m h = Inr (val h, h')"
begin

text \<open>Bracketing a piece of code with the bits \<open>m\<close> cleared.\<close>

lemma critical_section:
  assumes "may h"
  shows "\<exists>h1 h2. ac_read_clr_bits A m h = Inr (val h, h1) \<and> may h1 \<and> val h1 AND m AND W = 0 \<and>
    ac_set_bits A (val h AND m) h1 = Inr ((), h2) \<and> may h2 \<and> val h2 = val h"
proof -
  obtain h1 where 1: "ac_read_clr_bits A m h = Inr (val h, h1)" "may h1"
      "val h1 = val h AND NOT (m AND W)"
    using clr_bits_law [OF assms, of m] read_clr_bits_law [OF assms, of m] by auto
  obtain h2 where 2: "ac_set_bits A (val h AND m) h1 = Inr ((), h2)" "may h2"
      "val h2 = val h1 OR ((val h AND m) AND W)"
    using set_bits_law [OF 1(2)] by blast
  have "val h1 AND m AND W = 0" and "val h2 = val h"
    unfolding 1(3) 2(3) by (rule bit_word_eqI, auto simp: bit_simps)+
  with 1 2 show ?thesis by blast
qed

text \<open>Swapping a value in and the old one back.\<close>

lemma swap_restore:
  assumes "may h"
  shows "\<exists>h1 w h2. ac_read_write A v h = Inr (val h, h1) \<and> may h1 \<and>
    ac_read_write A (val h) h1 = Inr (w, h2) \<and> may h2 \<and> w AND W = v AND W \<and> val h2 = val h"
proof -
  obtain h1 where 1: "ac_read_write A v h = Inr (val h, h1)" "may h1"
      "val h1 = (val h AND NOT W) OR (v AND W)"
    using read_write_law [OF assms, of v] write_law [OF assms, of v] by auto
  obtain h2 where 2: "ac_read_write A (val h) h1 = Inr (val h1, h2)" "may h2"
      "val h2 = (val h1 AND NOT W) OR (val h AND W)"
    using read_write_law [OF 1(2), of "val h"] write_law [OF 1(2), of "val h"] by auto
  have "val h1 AND W = v AND W" and "val h2 = val h"
    unfolding 1(3) 2(3) by (rule bit_word_eqI, auto simp: bit_simps)+
  with 1 2 show ?thesis by blast
qed

text \<open>The atomic forms are a read followed by the plain forms.\<close>

lemma atomic:
  assumes "may h"
  shows "ac_read_write A v h = (case ac_write A v h of Inl e \<Rightarrow> Inl e | Inr (_, h') \<Rightarrow> Inr (val h, h'))"
    and "ac_read_set_bits A v h = (case ac_set_bits A v h of Inl e \<Rightarrow> Inl e | Inr (_, h') \<Rightarrow> Inr (val h, h'))"
    and "ac_read_clr_bits A v h = (case ac_clr_bits A v h of Inl e \<Rightarrow> Inl e | Inr (_, h') \<Rightarrow> Inr (val h, h'))"
  using read_write_law [OF assms, of v] read_set_bits_law [OF assms, of v] read_clr_bits_law [OF assms, of v]
  by auto

text \<open>Set and clear of the same bits.\<close>

lemma set_then_clr:
  assumes "may h"
  shows "\<exists>h1 h2. ac_set_bits A m h = Inr ((), h1) \<and> ac_clr_bits A m h1 = Inr ((), h2) \<and> may h2 \<and>
    ac_read A h1 = Inr (val h OR (m AND W), h1) \<and> ac_read A h2 = Inr (val h AND NOT (m AND W), h2)"
proof -
  obtain h1 where 1: "ac_set_bits A m h = Inr ((), h1)" "may h1" "val h1 = val h OR (m AND W)"
    using set_bits_law [OF assms] by blast
  obtain h2 where 2: "ac_clr_bits A m h1 = Inr ((), h2)" "may h2" "val h2 = val h1 AND NOT (m AND W)"
    using clr_bits_law [OF 1(2)] by blast
  have "val h2 = val h AND NOT (m AND W)"
    unfolding 1(3) 2(3) by (rule bit_word_eqI) (auto simp: bit_simps)
  with 1 2 show ?thesis using read_law by auto
qed

end

text \<open>A register whose bits in \<open>W\<close> take what is written, while the others keep their value, and
  which stays accessible.\<close>

definition csr_masked :: "('h, 'x::len word) hart \<Rightarrow> csr \<Rightarrow> 'x word \<Rightarrow> bool" where
  "csr_masked H c W \<longleftrightarrow>
     (\<forall>v h. permitted H c True h \<longrightarrow> permitted H c True (csr_assign H c v h) \<and>
        csr_value H c (csr_assign H c v h) = (csr_value H c h AND NOT W) OR (v AND W))"

definition csr_usable :: "('h, 'x::len word) hart \<Rightarrow> csr \<Rightarrow> 'x word \<Rightarrow> 'h \<Rightarrow> bool" where
  "csr_usable H c W h \<longleftrightarrow> csr_masked H c W \<and> permitted H c True h"

lemma csr_usable_assign:
  assumes "csr_usable H c W h"
  shows "csr_usable H c W (csr_assign H c v h)"
    and "csr_value H c (csr_assign H c v h) = (csr_value H c h AND NOT W) OR (v AND W)"
  using assms by (auto simp: csr_usable_def csr_masked_def)

lemma csr_usable_permitted:
  "csr_usable H c W h \<Longrightarrow> permitted H c True h" "csr_usable H c W h \<Longrightarrow> permitted H c False h"
  by (auto simp: csr_usable_def intro: permitted_write)

lemma masked_set: "(v AND NOT W) OR ((v OR m) AND W) = v OR (m AND W)"
  and masked_clr: "(v AND NOT W) OR ((v AND NOT m) AND W) = v AND NOT (m AND W)"
  for v :: "'x::len word"
  by (rule bit_word_eqI, auto simp: bit_simps)+

interpretation zicsr: csr_contract
  "csr_value H c" "csr_usable H c W" W "zicsr_accessors H c" for H c W
  by unfold_locales
    (simp_all add: zicsr_accessors_def zicsr_defs csr_usable_permitted csr_usable_assign
      masked_set masked_clr)

text \<open>The 32-bit registers, on a hart of any width.\<close>

lemma bit_reg_of_u32:
  "32 \<le> LENGTH('x::len) \<Longrightarrow> n < 32 \<Longrightarrow> bit (reg_of_u32 m :: 'x word) n = bit m n"
  by (cases "n = 31") (auto simp: reg_of_u32_def bit_simps min_def)

lemma ucast_reg:
  assumes "32 \<le> LENGTH('x::len)"
  shows "ucast (reg_of_u32 m :: 'x word) = m"
    and "ucast (NOT W :: 'x word) = (NOT (ucast W) :: u32)"
  using assms by (auto intro!: bit_word_eqI simp: bit_reg_of_u32 bit_simps)

interpretation zicsr32: csr_contract
  "\<lambda>h. ucast (csr_value H c h)" "\<lambda>h. csr_usable H c W h \<and> 32 \<le> LENGTH('x)" "ucast W"
  "zicsr32_accessors H c" for H :: "('h, 'x::len word) hart" and c W
  by unfold_locales
    (auto simp: zicsr32_accessors_def zicsr_defs csr_usable_permitted csr_usable_assign
      masked_set masked_clr ucast_reg unsigned_and_eq
      unsigned_or_eq)

text \<open>What the immediate macros of a register do, against its functions: the assembler takes the
  constants 0 to 31; writing is the function's, and so are setting and clearing except with 0,
  when the instruction only reads.\<close>

definition immediates_match :: "('x::len word, 'h) accessors \<Rightarrow> int \<Rightarrow> 'h \<Rightarrow> bool" where
  "immediates_match A n h \<longleftrightarrow>
     (if n \<in> {0..31} then
        ac_write_imm A n h = ac_write A (of_int n) h \<and>
        ac_set_bits_imm A n h = (if n = 0 then discard (ac_read A h) else ac_set_bits A (of_int n) h) \<and>
        ac_clr_bits_imm A n h = (if n = 0 then discard (ac_read A h) else ac_clr_bits A (of_int n) h)
      else ac_write_imm A n h = Inl Does_Not_Assemble \<and> ac_set_bits_imm A n h = Inl Does_Not_Assemble \<and>
        ac_clr_bits_imm A n h = Inl Does_Not_Assemble)"

lemma zicsr_immediates: "immediates_match (zicsr_accessors H c) n h"
  by (auto simp: immediates_match_def zicsr_accessors_def zicsr_defs)

text \<open>On a hart of 32 bits or more the small constants are the same in both widths.\<close>

lemma reg_of_small:
  assumes "32 \<le> LENGTH('x::len)" and "n \<in> {0..31}"
  shows "reg_of_u32 (of_int n) = (of_int n :: 'x word)"
proof -
  have "sint (of_int n :: u32) = n"
    using assms(2) by (simp add: sint_sbintrunc' signed_take_bit_int_eq_self)
  then show ?thesis by (metis reg_of_u32_def of_int_sint)
qed

lemma zicsr32_immediates:
  fixes H :: "('h, 'x::len word) hart"
  assumes "32 \<le> LENGTH('x)"
  shows "immediates_match (zicsr32_accessors H c) n h"
  using assms
  by (auto simp: immediates_match_def zicsr32_accessors_def zicsr_defs reg_of_small)

subsection \<open>A concrete hart, for evaluation\<close>

text \<open>Every register holds what is written to it; \<open>demo_hart\<close> is in debug mode at the given
  privilege.\<close>

definition demo_hart :: "mode \<Rightarrow> (csr \<Rightarrow> u32, u32) hart" where
  "demo_hart p =
     \<lparr>csr_value = (\<lambda>c h. h c), csr_assign = (\<lambda>c v h. h(c := v)), csr_present = (\<lambda>_ _. True),
      mode_of = (\<lambda>_. p), debug_mode = (\<lambda>_. True)\<rparr>"

lemma demo_permitted:
  "csr_level c = Machine \<Longrightarrow> permitted (demo_hart Machine) c wr h \<longleftrightarrow> \<not> (wr \<and> csr_read_only c)"
  by (auto simp: permitted_def machine_level_enabled) (simp_all add: demo_hart_def)

lemma demo_usable:
  "csr_level c = Machine \<Longrightarrow> \<not> csr_read_only c \<Longrightarrow> csr_usable (demo_hart Machine) c (- 1) h"
  by (simp add: csr_usable_def csr_masked_def demo_permitted) (simp add: demo_hart_def)

lemma in_accessor_table: "(CSR_MIE, zicsr_accessors H CSR_MIE) \<in> set (accessor_table H)"
proof -
  have "CSR_MIE \<in> fst ` set (accessor_table H)" by (simp add: accessor_table_def)
  then show ?thesis using accessor_table_sound by fastforce
qed

lemma in_counter_table: "(CSR_MCOUNTEREN, zicsr32_accessors H CSR_MCOUNTEREN) \<in> set (counter_table H)"
proof -
  have "CSR_MCOUNTEREN \<in> fst ` set (counter_table H)" by (simp add: counter_table_def)
  then show ?thesis using counter_table_sound by fastforce
qed

lemma in_header_writes: "(CSR_MIE, csr_write_mie H v) \<in> set (header_writes H v)"
  by (simp add: header_writes_def header_writes_machine_def)

lemma in_header_reads: "(CSR_CYCLE, \<lambda>h. discard (csr_read_cycle H h)) \<in> set (header_reads H)"
  by (simp add: header_reads_def)

lemma demo_levels [simp]:
  "csr_level CSR_MIE = Machine" "csr_level CSR_MCOUNTEREN = Machine" "csr_level CSR_MCYCLE = Machine"
  "csr_level CSR_MCYCLEH = Machine" "\<not> csr_read_only CSR_MIE" "\<not> csr_read_only CSR_MCOUNTEREN"
  "\<not> csr_debug_only CSR_MIE" "\<not> csr_debug_only CSR_MCYCLE" "\<not> csr_debug_only CSR_MCYCLEH"
  by (simp_all add: csr_level_def csr_read_only_def csr_debug_only_def csr_addresses)

lemma ucast_half_less: "(ucast (w :: u32) :: u64) < 0x100000000"
proof -
  have "unat w < 0x100000000" using unsigned_less [of w] by simp
  then have "unat (ucast w :: u64) < 0x100000000" by (simp add: unsigned_ucast_eq take_bit_nat_eq_self)
  then show ?thesis by (simp add: word_less_nat_alt)
qed

subsection \<open>Properties\<close>

text \<open>C19: when the header's functions trap. On a register the hart has, every reading, writing,
  swapping, setting and clearing function of the header executes exactly when the hart's
  privilege is at least the one in the register's address, the hart is in debug mode for the
  debug registers, and the register is enabled: the user counters by \<open>mcounteren\<close> and
  \<open>scounteren\<close>, the floating-point registers by \<open>mstatus.FS\<close>, \<open>satp\<close> and \<open>hgatp\<close> by \<open>mstatus.TVM\<close>;
  otherwise it is an illegal instruction (outside virtual machines). In particular no function
  of the header ever writes to a read-only register.\<close>

theorem csr_calls_trap_exactly:
  assumes "(c, f) \<in> set (header_reads H @ header_writes H v)" and "csr_present H c h"
  shows "isl (f h) \<longleftrightarrow> \<not> (csr_level c \<le> mode_of H h \<and> (csr_debug_only c \<longrightarrow> debug_mode H h) \<and>
    csr_enabled H c h)"
proof (cases "(c, f) \<in> set (header_reads H)")
  case True
  then show ?thesis
    using header_reads_sound [OF True] assms(2) by (simp add: zicsr_defs permitted_def)
next
  case False
  then obtain g where "f h = discard (csr_access H c True g h)" and "\<not> csr_read_only c"
    using assms(1) header_writes_sound [of c f H v] by (auto simp: writes_own_def)
  then show ?thesis
    using assms(2) by (simp add: csr_access_def permitted_def)
qed

lemma csr_calls_trap_exactly_witness:
  "isl (csr_write_mie (demo_hart User) 0 (\<lambda>_. 0)) \<and> \<not> isl (csr_write_mie (demo_hart Machine) 0 (\<lambda>_. 0)) \<and>
   isl (discard (csr_read_cycle (demo_hart User) (\<lambda>_. 0))) \<and>
   \<not> isl (discard (csr_read_cycle (demo_hart User) (\<lambda>_. 1)))"
proof -
  have mie: "(CSR_MIE, csr_write_mie (demo_hart p) 0)
      \<in> set (header_reads (demo_hart p) @ header_writes (demo_hart p) 0)" for p
    by (simp add: in_header_writes)
  have cycle: "(CSR_CYCLE, \<lambda>h. discard (csr_read_cycle (demo_hart User) h))
      \<in> set (header_reads (demo_hart User) @ header_writes (demo_hart User) 0)"
    by (simp add: in_header_reads)
  note trap = csr_calls_trap_exactly
  from trap [OF mie [of User], of "\<lambda>_. 0"] trap [OF mie [of Machine], of "\<lambda>_. 0"]
    trap [OF cycle, of "\<lambda>_. 0"] trap [OF cycle, of "\<lambda>_. 1"]
  show ?thesis
    by (simp add: machine_level_enabled) (simp add: demo_hart_def less_eq_mode_def csr_enabled_def counter_open_def
        float_open_def translation_open_def counter_bit_def csr_level_def csr_addresses)
qed

text \<open>C18: the accessors of a read-modify-write register do what they are named. For each of the 15
  XLEN-wide registers, if \<open>W\<close> are its writable bits: reading has no side effect, writing sets the
  bits in \<open>W\<close>, setting and clearing change the given bits within \<open>W\<close> and no other, and the three
  atomic forms do the same and return the old value.\<close>

theorem csr_accessors_correct:
  assumes "(c, A) \<in> set (accessor_table H)" and "csr_usable H c W h"
  shows "ac_read A h = Inr (csr_value H c h, h) \<and>
    (\<exists>h'. ac_write A v h = Inr ((), h') \<and> ac_read_write A v h = Inr (csr_value H c h, h') \<and>
       csr_value H c h' = (csr_value H c h AND NOT W) OR (v AND W)) \<and>
    (\<exists>h'. ac_set_bits A v h = Inr ((), h') \<and> ac_read_set_bits A v h = Inr (csr_value H c h, h') \<and>
       csr_value H c h' = csr_value H c h OR (v AND W)) \<and>
    (\<exists>h'. ac_clr_bits A v h = Inr ((), h') \<and> ac_read_clr_bits A v h = Inr (csr_value H c h, h') \<and>
       csr_value H c h' = csr_value H c h AND NOT (v AND W))"
proof -
  have A: "A = zicsr_accessors H c" using accessor_table_sound [OF assms(1)] by blast
  show ?thesis
    unfolding A
    using zicsr.read_law [OF assms(2)] zicsr.write_law [OF assms(2), of v]
      zicsr.read_write_law [OF assms(2), of v] zicsr.set_bits_law [OF assms(2), of v]
      zicsr.read_set_bits_law [OF assms(2), of v] zicsr.clr_bits_law [OF assms(2), of v]
      zicsr.read_clr_bits_law [OF assms(2), of v] by auto
qed

lemma csr_accessors_correct_witness:
  "\<exists>h'. csr_read_set_bits_mie (demo_hart Machine) 0x80 (\<lambda>_. 3) = Inr (3, h') \<and> h' CSR_MIE = 0x83"
proof -
  have "csr_usable (demo_hart Machine) CSR_MIE (- 1) (\<lambda>_. 3)" by (simp add: demo_usable)
  from csr_accessors_correct [OF in_accessor_table this, where v = "0x80"] show ?thesis
    by (simp add: zicsr_accessors_def header_defs) (auto simp: demo_hart_def)
qed

text \<open>C20: critical sections. For each of the 15 registers, \<open>csr_read_clr_bits\<close> of a mask leaves all
  its writable bits clear, and \<open>csr_set_bits\<close> of the returned value, restricted to the mask,
  restores the register; swapping a value in and the old one back restores it too.\<close>

theorem csr_critical_section:
  assumes "(c, A) \<in> set (accessor_table H)" and "csr_usable H c W h"
  shows "(\<exists>h1 h2. ac_read_clr_bits A m h = Inr (csr_value H c h, h1) \<and>
      csr_value H c h1 AND m AND W = 0 \<and> ac_set_bits A (csr_value H c h AND m) h1 = Inr ((), h2) \<and>
      csr_value H c h2 = csr_value H c h) \<and>
    (\<exists>h1 w h2. ac_read_write A v h = Inr (csr_value H c h, h1) \<and>
      ac_read_write A (csr_value H c h) h1 = Inr (w, h2) \<and> w AND W = v AND W \<and>
      csr_value H c h2 = csr_value H c h)"
proof -
  have A: "A = zicsr_accessors H c" using accessor_table_sound [OF assms(1)] by blast
  show ?thesis
    unfolding A
    using zicsr.critical_section [OF assms(2), of m] zicsr.swap_restore [OF assms(2), of v] by blast
qed

lemma csr_critical_section_witness:
  "\<exists>h1 h2. csr_read_clr_bits_mie (demo_hart Machine) 0x88 (\<lambda>_. 0x80) = Inr (0x80, h1) \<and>
     csr_set_bits_mie (demo_hart Machine) 0x80 h1 = Inr ((), h2) \<and> h2 CSR_MIE = 0x80"
proof -
  have "csr_usable (demo_hart Machine) CSR_MIE (- 1) (\<lambda>_. 0x80)" by (simp add: demo_usable)
  from csr_critical_section [OF in_accessor_table this, where m = "0x88" and v = 0] show ?thesis
    by (simp add: zicsr_accessors_def header_defs) (auto simp: demo_hart_def)
qed

text \<open>C21: the two 32-bit registers, \<open>mcounteren\<close> and \<open>mcountinhibit\<close>, on a hart of 32 bits or more:
  their \<open>uint32_t\<close> accessors read the low word, and set, clear and write the given bits of it.\<close>

theorem counter_accessors_correct:
  fixes H :: "('h, 'x::len word) hart"
  assumes "(c, A) \<in> set (counter_table H)" and "csr_usable H c W h" and "32 \<le> LENGTH('x)"
  shows "ac_read A h = Inr (ucast (csr_value H c h), h) \<and>
    (\<exists>h'. ac_write A v h = Inr ((), h') \<and>
       ac_read A h' = Inr ((ucast (csr_value H c h) AND NOT (ucast W)) OR (v AND ucast W), h')) \<and>
    (\<exists>h1 h2. ac_set_bits A v h = Inr ((), h1) \<and> ac_clr_bits A v h1 = Inr ((), h2) \<and>
       ac_read A h1 = Inr (ucast (csr_value H c h) OR (v AND ucast W), h1) \<and>
       ac_read A h2 = Inr (ucast (csr_value H c h) AND NOT (v AND ucast W), h2))"
proof -
  have A: "A = zicsr32_accessors H c" using counter_table_sound [OF assms(1)] by blast
  note may = conjI [OF assms(2,3)]
  show ?thesis
    unfolding A
    using zicsr32.read_law [OF may] zicsr32.write_law [OF may, of v] zicsr32.read_law
      zicsr32.set_then_clr [OF may, of v] by metis
qed

lemma counter_accessors_correct_witness:
  "\<exists>h1. csr_set_bits_mcounteren (demo_hart Machine) 4 (\<lambda>_. 1) = Inr ((), h1) \<and>
     csr_read_mcounteren (demo_hart Machine) h1 = Inr (5, h1)"
proof -
  have "csr_usable (demo_hart Machine) CSR_MCOUNTEREN (- 1) (\<lambda>_. 1)" by (simp add: demo_usable)
  from counter_accessors_correct [OF in_counter_table this, where v = 4] show ?thesis
    by (simp add: zicsr32_accessors_def header_defs) (auto simp: demo_hart_def)
qed

text \<open>C22: the immediate macros, of all 17 registers: the 15 of XLEN bits, and, on a hart of 32 bits
  or more, the two of 32 bits. In every state, also where they trap, the macros take the constants
  0 to 31 (the assembler's range for the immediate) and no others; \<open>CSR_WRITE_IMM\<close> does what the
  writing function does with the same value; \<open>CSR_SET_BITS_IMM\<close> and \<open>CSR_CLR_BITS_IMM\<close> do what the
  setting and clearing functions do with it, except with 0, with which they only read the register
  (and so trap when it cannot be read, not when it cannot be written).\<close>

theorem immediate_macros:
  fixes H :: "('h, 'x::len word) hart"
  shows "((c, A) \<in> set (accessor_table H) \<longrightarrow> immediates_match A n h) \<and>
    ((c, B) \<in> set (counter_table H) \<and> 32 \<le> LENGTH('x) \<longrightarrow> immediates_match B n h)"
  using accessor_table_sound [of c A H] counter_table_sound [of c B H]
    zicsr_immediates [of H c n h] zicsr32_immediates [of H c n h] by auto

lemma immediate_macros_witness:
  "CSR_SET_BITS_IMM_MIE (demo_hart Machine) 8 (\<lambda>_. 0) = csr_set_bits_mie (demo_hart Machine) 8 (\<lambda>_. 0) \<and>
   CSR_SET_BITS_IMM_MIE (demo_hart Machine) 0x80 (\<lambda>_. 0) = Inl Does_Not_Assemble \<and>
   CSR_CLR_BITS_IMM_MCOUNTEREN (demo_hart Machine) 5 (\<lambda>_. 7) =
     csr_clr_bits_mcounteren (demo_hart Machine) 5 (\<lambda>_. 7)"
proof -
  let ?H = "demo_hart Machine"
  have small: "immediates_match (zicsr_accessors ?H CSR_MIE) n h" for n h
    using immediate_macros [of CSR_MIE "zicsr_accessors ?H CSR_MIE" ?H n h] in_accessor_table [of ?H] by blast
  have counter: "immediates_match (zicsr32_accessors ?H CSR_MCOUNTEREN) n h" for n h
    using immediate_macros [of CSR_MCOUNTEREN _ ?H n h "zicsr32_accessors ?H CSR_MCOUNTEREN"]
      in_counter_table [of ?H] by auto
  from small [of 8 "\<lambda>_. 0"] small [of "0x80" "\<lambda>_. 0"] counter [of 5 "\<lambda>_. 7"] show ?thesis
    by (simp add: immediates_match_def zicsr_accessors_def zicsr32_accessors_def header_defs)
qed

text \<open>C26: the 64-bit cycle counter on RV32. \<open>csr_read_mcycle\<close> returns a \<open>uint64_t\<close> but only the low
  word of the counter; the counter is that value joined with \<open>csr_read_mcycleh\<close> (if it does not
  carry in between).\<close>

theorem mcycle_needs_both_halves:
  fixes H :: "('h, 32 word) hart"
  assumes "permitted H CSR_MCYCLE False h" and "permitted H CSR_MCYCLEH False h"
    and "csr_value H CSR_MCYCLE h = get_half False n" and "csr_value H CSR_MCYCLEH h = get_half True n"
  shows "\<exists>lo hi. csr_read_mcycle H h = Inr (lo, h) \<and> csr_read_mcycleh H h = Inr (hi, h) \<and>
    lo < 2 ^ 32 \<and> n = lo OR push_bit 32 (ucast hi)"
proof -
  have "csr_read_mcycle H h = Inr (ucast (get_half False n), h)"
    and "csr_read_mcycleh H h = Inr (get_half True n, h)"
    using assms by (simp_all add: header_defs csrr_def csr_access_def)
  moreover have "(ucast (get_half False n) :: u64) < 2 ^ 32"
    using ucast_half_less by simp
  moreover have "n = ucast (get_half False n) OR push_bit 32 (ucast (get_half True n))"
    by (rule bit_word_eqI) (auto simp: bit_get_half bit_simps)
  ultimately show ?thesis by blast
qed

lemma mcycle_needs_both_halves_witness:
  "\<exists>lo hi. csr_read_mcycle (demo_hart Machine) ((\<lambda>_. 0)(CSR_MCYCLEH := 1)) = Inr (lo, (\<lambda>_. 0)(CSR_MCYCLEH := 1)) \<and>
     lo OR push_bit 32 (ucast (hi :: u32)) = 0x100000000"
proof -
  have perm: "permitted (demo_hart Machine) CSR_MCYCLE False h"
      "permitted (demo_hart Machine) CSR_MCYCLEH False h" for h
    by (simp_all add: demo_permitted)
  have "CSR_MCYCLE \<noteq> CSR_MCYCLEH" by (simp add: csr_addresses)
  then show ?thesis
    using mcycle_needs_both_halves [OF perm, where h = "(\<lambda>_. 0)(CSR_MCYCLEH := 1)" and
        n = "0x100000000"]
    by (auto simp: demo_hart_def get_half_def)
qed

end
