(* ===== verification/Csr_Fields.thy ===== *)
theory Csr_Fields
  imports Csr_Platform
begin

text \<open>
  The field macros of \<open>riscv-csr.h\<close>, as a whole: which groups of four macros describe the same
  field, and which do not.
\<close>

subsection \<open>The fields of each register\<close>

text \<open>Those whose masks are written as constants, or as one shifted bit.\<close>

definition header_fields :: "(csr \<times> (('x::len word) field) list) list" where
  "header_fields =
    [(CSR_MSTATUS, [MSTATUS_MIE, MSTATUS_SIE, MSTATUS_MPIE, MSTATUS_SPIE, MSTATUS_MPRV,
       MSTATUS_MPP, MSTATUS_SPP]),
     (CSR_MTVEC, [MTVEC_MODE]),
     (CSR_MIP, [MIP_MSI, MIP_MTI, MIP_MEI, MIP_SSI, MIP_STI, MIP_SEI, MIP_USI, MIP_UTI,
       MIP_UEI]),
     (CSR_MIE, [MIE_MSI, MIE_MTI, MIE_MEI, MIE_SSI, MIE_STI, MIE_SEI, MIE_USI, MIE_UTI,
       MIE_UEI]),
     (CSR_MCOUNTINHIBIT, [MCOUNTINHIBIT_CY, MCOUNTINHIBIT_IR, MCOUNTINHIBIT_HPM]),
     (CSR_MCOUNTEREN, [MCOUNTEREN_CY, MCOUNTEREN_TM, MCOUNTEREN_IR, MCOUNTEREN_HPM]),
     (CSR_MCAUSE, [MCAUSE_INTERRUPT]),
     (CSR_SCAUSE, [SCAUSE_INTERRUPT]),
     (CSR_SSTATUS, [SSTATUS_SIE, SSTATUS_SPIE, SSTATUS_SPP]),
     (CSR_STVEC, [STVEC_MODE]),
     (CSR_SIP, [SIP_SSI, SIP_STI, SIP_SEI, SIP_USI, SIP_UTI, SIP_UEI]),
     (CSR_SIE, [SIE_SSI, SIE_STI, SIE_SEI, SIE_USI, SIE_UTI, SIE_UEI]),
     (CSR_USTATUS, [USTATUS_UIE, USTATUS_UPIE]),
     (CSR_UIP, [UIP_USI, UIP_UTI, UIP_UEI]),
     (CSR_UIE, [UIE_USI, UIE_UTI, UIE_UEI]),
     (CSR_UCAUSE, [UCAUSE_INTERRUPT]),
     (CSR_UTVEC, [UTVEC_MODE])]"

text \<open>Those whose width depends on XLEN.\<close>

definition parametric_fields :: "(('x::len word) field) list" where
  "parametric_fields =
    [MTVEC_BASE, MIP_PLATFORM_DEFINED, MIE_PLATFORM_DEFINED,
     MCAUSE_EXCEPTION_CODE, SCAUSE_EXCEPTION_CODE, STVEC_BASE,
     UCAUSE_EXCEPTION_CODE, UTVEC_BASE]"

lemmas field_defs = csr_machine_fields csr_supervisor_user_fields

text \<open>No two fields of a register overlap.\<close>

fun disjoint_fields :: "(('x::len word) field) list \<Rightarrow> bool" where
  "disjoint_fields [] = True"
| "disjoint_fields (F # Fs) =
     (list_all (\<lambda>G. bit_mask F AND bit_mask G = 0) Fs \<and> disjoint_fields Fs)"

subsection \<open>Properties\<close>

text \<open>C23: the field macros describe fields. In every register, for each field whose masks are
  constants (or one shifted bit), \<open>ALL_SET_MASK\<close> is as many ones as \<open>BIT_WIDTH\<close> says,
  \<open>BIT_MASK\<close> is that mask at \<open>BIT_OFFSET\<close>, the field lies inside an XLEN-bit register, and no
  two fields of the register overlap.\<close>

theorem field_masks_consistent:
  assumes "(c, Fs) \<in> set (header_fields :: (csr \<times> ('x::len word) field list) list)"
    and "32 \<le> LENGTH('x)"
  shows "list_all field_consistent Fs \<and> disjoint_fields Fs"
proof -
  have "list_all (\<lambda>(c, Fs). list_all field_consistent Fs)
      (header_fields :: (csr \<times> ('x::len word) field list) list)"
    using assms(2) by (simp add: header_fields_def field_consistent_def field_defs mask_eq_exp_minus_1)
  moreover have "list_all (\<lambda>(c, Fs). disjoint_fields Fs)
      (header_fields :: (csr \<times> ('x::len word) field list) list)"
    by (simp add: header_fields_def field_defs)
  ultimately show ?thesis using assms(1) by (auto simp: list_all_iff)
qed

lemma field_masks_consistent_witness:
  "field_consistent (MSTATUS_MPP :: (32 word) field)"
proof -
  have "\<exists>Fs. (CSR_MSTATUS, Fs) \<in> set (header_fields :: (csr \<times> (32 word) field list) list) \<and>
      MSTATUS_MPP \<in> set Fs"
    by (simp add: header_fields_def) (metis list.set_intros)
  then show ?thesis using field_masks_consistent by (fastforce simp: list_all_iff)
qed

text \<open>C25: the masks of the XLEN-dependent fields. The groups whose width depends on XLEN (the
  \<open>BASE\<close> of the trap vectors, the exception codes and the platform-defined interrupts) compute
  \<open>1 << (width - 1)\<close> where \<open>(1 << width) - 1\<close> is meant: their \<open>BIT_MASK\<close> has the field's top bit
  only, which for the platform-defined interrupts lies outside the register and leaves 0. None of
  them is the mask of its field.\<close>

theorem parametric_masks_are_one_bit:
  assumes "F \<in> set (parametric_fields :: (('x::len word) field) list)" and "32 \<le> LENGTH('x)"
  shows "bit_mask F = push_bit (bit_offset F + bit_width F - 1) 1 \<and> \<not> field_consistent F"
proof -
  have "list_all (\<lambda>F. bit_mask F = push_bit (bit_offset F + bit_width F - 1) 1 \<and>
      all_set_mask F = push_bit (bit_width F - 1) 1 \<and> 1 < bit_width F)
      (parametric_fields :: (('x word) field) list)"
    using assms(2) by (simp add: parametric_fields_def field_defs push_bit_push_bit del: push_bit_of_1)
  then have F: "bit_mask F = push_bit (bit_offset F + bit_width F - 1) 1"
      "all_set_mask F = push_bit (bit_width F - 1) 1" "1 < bit_width F"
    using assms(1) by (auto simp: list_all_iff)
  have "bit (mask (bit_width F) :: 'x word) 0 \<noteq> bit (all_set_mask F) 0"
    using F(3) by (simp add: F(2) bit_simps)
  then have "\<not> field_consistent F" by (auto simp: field_consistent_def)
  with F(1) show ?thesis by blast
qed

lemma parametric_masks_are_one_bit_witness:
  "bit_mask (MTVEC_BASE :: (32 word) field) = 0x80000000 \<and> bit_mask (MIE_PLATFORM_DEFINED :: (32 word) field) = 0"
  using parametric_masks_are_one_bit [of "MTVEC_BASE :: (32 word) field"]
    parametric_masks_are_one_bit [of "MIE_PLATFORM_DEFINED :: (32 word) field"]
  by (simp add: parametric_fields_def field_defs)

end
