(* ===== verification/Pc_Emulation.thy ===== *)
theory Pc_Emulation
  imports Prelude
begin

text \<open>
  \<open>iob_clint_csrs_pc_emul.c\<close>: the stand-in for the generated register accessors when the software
  is compiled for the host. It has a base address that nothing reads, a setter that does nothing
  and a constant version.
\<close>

record pc_emul =
  base :: int

text \<open>\<open>base = addr\<close> converts a \<open>uint32_t\<close> to \<open>int\<close>, modulo \<open>2 ^ 32\<close>.\<close>

definition iob_clint_csrs_init_baseaddr :: "u32 \<Rightarrow> pc_emul \<Rightarrow> pc_emul" where
  "iob_clint_csrs_init_baseaddr addr st = st\<lparr>base := sint addr\<rparr>"

definition iob_clint_csrs_set_dummy_reg :: "u32 \<Rightarrow> int \<Rightarrow> pc_emul \<Rightarrow> pc_emul" where
  "iob_clint_csrs_set_dummy_reg value addr st = st"

definition iob_clint_csrs_get_version :: "pc_emul \<Rightarrow> u32 \<times> pc_emul" where
  "iob_clint_csrs_get_version st = (1, st)"

end
