(* ===== verification/Firmware.thy ===== *)
theory Firmware
  imports Clint_System Csr_Access Csr_Fields Riscv_Interrupts
begin

text \<open>
  \<open>example_firmware.c\<close>: \<open>main\<close> and the interrupt handler \<open>irq_entry\<close>, on a hart, the driver's
  device and a trace of the calls that leave the repository (\<open>uart_init\<close>, \<open>printf\<close>, \<open>uart_finish\<close>)
  or stop the hart (\<open>wfi\<close>). Those calls take time, which the idle gaps before the
  device accesses account for; they are taken not to touch the control registers or the device.
  A trapping register access or an undefined device access ends the run (\<open>None\<close>).
\<close>

subsection \<open>The machine\<close>

datatype event = Uart_init int int | Printed string | Wfi | Uart_finish

record ('h, 's) machine =
  hart_state :: 'h
  driver :: "'s drv"
  timestamp :: u64
  events :: "event list"

text \<open>What the firmware takes from headers outside the repository, and the address of its handler.\<close>

record 'x config =
  UART_BASE :: int
  UART_CLOCK :: int
  BAUD :: int
  CLINT0_BASE :: int
  irq_entry_address :: 'x

definition on_hart :: "('a, 'h) exec \<Rightarrow> ('h, 's) machine \<Rightarrow> ('a \<times> ('h, 's) machine) option" where
  "on_hart f st =
     (case f (hart_state st) of Inl e \<Rightarrow> None | Inr (a, h) \<Rightarrow> Some (a, st\<lparr>hart_state := h\<rparr>))"

definition on_driver ::
  "('s drv \<Rightarrow> ('a \<times> 's drv) option) \<Rightarrow> ('h, 's) machine \<Rightarrow> ('a \<times> ('h, 's) machine) option" where
  "on_driver f st = do { (a, d) \<leftarrow> f (driver st); Some (a, st\<lparr>driver := d\<rparr>) }"

definition call_driver ::
  "('s drv \<Rightarrow> 's drv option) \<Rightarrow> ('h, 's) machine \<Rightarrow> ('h, 's) machine option" where
  "call_driver f st = do { d \<leftarrow> f (driver st); Some (st\<lparr>driver := d\<rparr>) }"

definition emit :: "event \<Rightarrow> ('h, 's) machine \<Rightarrow> ('h, 's) machine" where
  "emit e st = st\<lparr>events := e # events st\<rparr>"

subsection \<open>The program\<close>

text \<open>\<open>printf\<close> of a text and a line feed.\<close>

definition print_line :: "string \<Rightarrow> ('h, 's) machine \<Rightarrow> ('h, 's) machine" where
  "print_line s st = emit (Printed (s @ [CHR 0x0A])) st"

text \<open>\<open>main\<close> up to the point where interrupts are enabled, and the rest of it.\<close>

definition main_setup ::
  "'x::len word config \<Rightarrow> ('h, 'x word) hart \<Rightarrow> ('x word, 's) mmio \<Rightarrow> ('h, 's) machine \<Rightarrow>
   ('h, 's) machine option" where
  "main_setup cfg H M st = do {
     let st = emit (Uart_init (UART_BASE cfg) (UART_CLOCK cfg div BAUD cfg)) st;
     let st = st\<lparr>driver := clint_init (CLINT0_BASE cfg) (driver st)\<rparr>;
     let st = emit (Printed (replicate 3 (CHR 0x0A) @ ''Hello world!'' @ replicate 3 (CHR 0x0A))) st;
     (_, st) \<leftarrow> on_hart (csr_clr_bits_mstatus H (bit_mask MSTATUS_MIE)) st;
     (_, st) \<leftarrow> on_hart (csr_write_mie H 0) st;
     (_, st) \<leftarrow> on_hart (csr_clr_bits_mcause H (all_set_mask MCAUSE_INTERRUPT)) st;
     (_, st) \<leftarrow> on_hart (csr_write_mcause H 0) st;
     (t, st) \<leftarrow> on_driver (mtimer_get_raw_time M) st;
     let st = st\<lparr>timestamp := t\<rparr>;
     st \<leftarrow> call_driver (mtimer_set_raw_time_cmp M (MTIMER_SECONDS_TO_CLOCKS_double (1 / 1000))) st;
     (_, st) \<leftarrow> on_hart (csr_write_mtvec H (irq_entry_address cfg)) st;
     (_, st) \<leftarrow> on_hart (csr_set_bits_mie H (bit_mask MIE_MTI)) st;
     (_, st) \<leftarrow> on_hart (csr_set_bits_mstatus H (bit_mask MSTATUS_MIE)) st;
     Some st
   }"

definition main_finish :: "('h, 's) machine \<Rightarrow> ('h, 's) machine" where
  "main_finish st =
     emit Uart_finish (print_line ''Exit...'' (emit Wfi (print_line ''Waiting...'' st)))"

text \<open>The handler. \<open>MTIMER_SECONDS_TO_CLOCKS(1)\<close> is an \<open>int\<close> product.\<close>

definition irq_entry ::
  "('h, 'x::len word) hart \<Rightarrow> ('x word, 's) mmio \<Rightarrow> ('h, 's) machine \<Rightarrow> ('h, 's) machine option" where
  "irq_entry H M st = do {
     let st = print_line ''Entered IRQ.'' st;
     (this_cause, st) \<leftarrow> on_hart (csr_read_mcause H) st;
     if this_cause AND bit_mask MCAUSE_INTERRUPT \<noteq> 0 then
       let this_cause = this_cause AND 0xFF in
       if this_cause = of_nat (RISCV_INT_POS MTI) then do {
         let st = print_line ''Time interrupt.'' st;
         clocks \<leftarrow> MTIMER_SECONDS_TO_CLOCKS 1;
         st \<leftarrow> call_driver (mtimer_set_raw_time_cmp M clocks) st;
         (t, st) \<leftarrow> on_driver (mtimer_get_raw_time M) st;
         Some (st\<lparr>timestamp := t\<rparr>)
       }
       else Some st
     else Some st
   }"

subsection \<open>The hart's registers\<close>

text \<open>A file of registers of which each keeps the bits \<open>W c\<close> of what is written to it, can be
  accessed in every state and is not affected by writes to the others.\<close>

definition csr_file ::
  "('h, 'x::len word) hart \<Rightarrow> (csr \<Rightarrow> 'x word) \<Rightarrow> csr list \<Rightarrow> 'h \<Rightarrow> bool" where
  "csr_file H W cs h \<longleftrightarrow>
     (\<forall>c\<in>set cs. csr_usable H c (W c) h) \<and>
     (\<forall>c\<in>set cs. \<forall>c'\<in>set cs. c \<noteq> c' \<longrightarrow> (\<forall>v g. csr_value H c' (csr_assign H c v g) = csr_value H c' g \<and>
        permitted H c' True (csr_assign H c v g) = permitted H c' True g))"

definition firmware_csrs :: "csr list" where
  "firmware_csrs = [CSR_MSTATUS, CSR_MIE, CSR_MCAUSE, CSR_MTVEC]"

lemma csr_file_usable: "csr_file H W cs h \<Longrightarrow> c \<in> set cs \<Longrightarrow> csr_usable H c (W c) h"
  by (simp add: csr_file_def)

lemma csr_file_assign:
  assumes "csr_file H W cs h" and "c \<in> set cs"
  shows "csr_file H W cs (csr_assign H c v h)"
proof -
  have "csr_usable H c' (W c') (csr_assign H c v h)" if "c' \<in> set cs" for c'
    using assms that csr_usable_assign(1) [OF csr_file_usable [OF assms], of v]
    by (cases "c = c'") (auto simp: csr_file_def csr_usable_def)
  then show ?thesis using assms(1) by (simp add: csr_file_def)
qed

lemma csr_file_value:
  assumes "csr_file H W cs h" and "c \<in> set cs" and "c' \<in> set cs"
  shows "csr_value H c' (csr_assign H c v h) =
    (if c = c' then (csr_value H c h AND NOT (W c)) OR (v AND W c) else csr_value H c' h)"
  using assms csr_usable_assign(2) [OF csr_file_usable [OF assms(1,2)]] by (auto simp: csr_file_def)

lemma firmware_csrs_simps [simp]:
  "CSR_MSTATUS \<in> set firmware_csrs" "CSR_MIE \<in> set firmware_csrs"
  "CSR_MCAUSE \<in> set firmware_csrs" "CSR_MTVEC \<in> set firmware_csrs"
  "CSR_MSTATUS \<noteq> CSR_MIE" "CSR_MSTATUS \<noteq> CSR_MCAUSE" "CSR_MSTATUS \<noteq> CSR_MTVEC" "CSR_MIE \<noteq> CSR_MCAUSE"
  "CSR_MIE \<noteq> CSR_MTVEC" "CSR_MCAUSE \<noteq> CSR_MTVEC" "CSR_MIE \<noteq> CSR_MSTATUS" "CSR_MCAUSE \<noteq> CSR_MSTATUS"
  "CSR_MTVEC \<noteq> CSR_MSTATUS" "CSR_MCAUSE \<noteq> CSR_MIE" "CSR_MTVEC \<noteq> CSR_MIE" "CSR_MTVEC \<noteq> CSR_MCAUSE"
  by (simp_all add: firmware_csrs_def csr_addresses)

text \<open>The functions the firmware calls, on such a file.\<close>

lemma firmware_csr_calls:
  assumes "csr_file H W firmware_csrs (hart_state st)"
  shows "on_hart (csr_clr_bits_mstatus H m) st =
      Some ((), st\<lparr>hart_state := csr_assign H CSR_MSTATUS
        (csr_value H CSR_MSTATUS (hart_state st) AND NOT m) (hart_state st)\<rparr>)"
    and "on_hart (csr_set_bits_mstatus H m) st =
      Some ((), st\<lparr>hart_state := csr_assign H CSR_MSTATUS
        (csr_value H CSR_MSTATUS (hart_state st) OR m) (hart_state st)\<rparr>)"
    and "on_hart (csr_write_mie H v) st =
      Some ((), st\<lparr>hart_state := csr_assign H CSR_MIE v (hart_state st)\<rparr>)"
    and "on_hart (csr_set_bits_mie H m) st =
      Some ((), st\<lparr>hart_state := csr_assign H CSR_MIE
        (csr_value H CSR_MIE (hart_state st) OR m) (hart_state st)\<rparr>)"
    and "on_hart (csr_clr_bits_mcause H m) st =
      Some ((), st\<lparr>hart_state := csr_assign H CSR_MCAUSE
        (csr_value H CSR_MCAUSE (hart_state st) AND NOT m) (hart_state st)\<rparr>)"
    and "on_hart (csr_write_mcause H v) st =
      Some ((), st\<lparr>hart_state := csr_assign H CSR_MCAUSE v (hart_state st)\<rparr>)"
    and "on_hart (csr_write_mtvec H v) st =
      Some ((), st\<lparr>hart_state := csr_assign H CSR_MTVEC v (hart_state st)\<rparr>)"
    and "on_hart (csr_read_mcause H) st = Some (csr_value H CSR_MCAUSE (hart_state st), st)"
proof -
  have "permitted H c True (hart_state st)" "permitted H c False (hart_state st)"
    if "c \<in> set firmware_csrs" for c
    using csr_usable_permitted [OF csr_file_usable [OF assms that]] by simp_all
  note this [of CSR_MSTATUS] this [of CSR_MIE] this [of CSR_MCAUSE] this [of CSR_MTVEC]
  then show "on_hart (csr_clr_bits_mstatus H m) st =
      Some ((), st\<lparr>hart_state := csr_assign H CSR_MSTATUS
        (csr_value H CSR_MSTATUS (hart_state st) AND NOT m) (hart_state st)\<rparr>)"
    and "on_hart (csr_set_bits_mstatus H m) st =
      Some ((), st\<lparr>hart_state := csr_assign H CSR_MSTATUS
        (csr_value H CSR_MSTATUS (hart_state st) OR m) (hart_state st)\<rparr>)"
    and "on_hart (csr_write_mie H v) st =
      Some ((), st\<lparr>hart_state := csr_assign H CSR_MIE v (hart_state st)\<rparr>)"
    and "on_hart (csr_set_bits_mie H m) st =
      Some ((), st\<lparr>hart_state := csr_assign H CSR_MIE
        (csr_value H CSR_MIE (hart_state st) OR m) (hart_state st)\<rparr>)"
    and "on_hart (csr_clr_bits_mcause H m) st =
      Some ((), st\<lparr>hart_state := csr_assign H CSR_MCAUSE
        (csr_value H CSR_MCAUSE (hart_state st) AND NOT m) (hart_state st)\<rparr>)"
    and "on_hart (csr_write_mcause H v) st =
      Some ((), st\<lparr>hart_state := csr_assign H CSR_MCAUSE v (hart_state st)\<rparr>)"
    and "on_hart (csr_write_mtvec H v) st =
      Some ((), st\<lparr>hart_state := csr_assign H CSR_MTVEC v (hart_state st)\<rparr>)"
    and "on_hart (csr_read_mcause H) st = Some (csr_value H CSR_MCAUSE (hart_state st), st)"
    by (simp_all add: on_hart_def csr_machine_defs zicsr_defs)
qed

text \<open>The writes of \<open>main_setup\<close> to the control registers, in their order.\<close>

definition setup_hart :: "'x::len word \<Rightarrow> ('h, 'x word) hart \<Rightarrow> 'h \<Rightarrow> 'h" where
  "setup_hart entry H h =
     (let h = csr_assign H CSR_MSTATUS (csr_value H CSR_MSTATUS h AND NOT (bit_mask MSTATUS_MIE)) h;
          h = csr_assign H CSR_MIE 0 h;
          h = csr_assign H CSR_MCAUSE (csr_value H CSR_MCAUSE h AND NOT (all_set_mask MCAUSE_INTERRUPT)) h;
          h = csr_assign H CSR_MCAUSE 0 h;
          h = csr_assign H CSR_MTVEC entry h;
          h = csr_assign H CSR_MIE (csr_value H CSR_MIE h OR bit_mask MIE_MTI) h
      in csr_assign H CSR_MSTATUS (csr_value H CSR_MSTATUS h OR bit_mask MSTATUS_MIE) h)"

lemma setup_hart_values:
  assumes "csr_file H W firmware_csrs h"
  shows "csr_file H W firmware_csrs (setup_hart entry H h)"
    and "csr_value H CSR_MSTATUS (setup_hart entry H h) =
      csr_value H CSR_MSTATUS h OR (bit_mask MSTATUS_MIE AND W CSR_MSTATUS)"
    and "csr_value H CSR_MIE (setup_hart entry H h) =
      (csr_value H CSR_MIE h AND NOT (W CSR_MIE)) OR (bit_mask MIE_MTI AND W CSR_MIE)"
    and "csr_value H CSR_MCAUSE (setup_hart entry H h) = csr_value H CSR_MCAUSE h AND NOT (W CSR_MCAUSE)"
    and "csr_value H CSR_MTVEC (setup_hart entry H h) =
      (csr_value H CSR_MTVEC h AND NOT (W CSR_MTVEC)) OR (entry AND W CSR_MTVEC)"
  using assms
  by (simp_all add: setup_hart_def Let_def csr_file_value [where W = W and cs = firmware_csrs]
      csr_file_assign [where W = W and cs = firmware_csrs])
    (rule bit_word_eqI, auto simp: bit_simps)+

subsection \<open>The firmware's calls of the driver\<close>

lemma setup_driver:
  fixes l64 :: "'x::len word \<Rightarrow> soc \<Rightarrow> (u64 \<times> soc) option"
  assumes "system_ok C P D st" and "LENGTH('x) = 32" and "6 * (D + 1) < 2 ^ 32"
  shows "\<exists>t1 n m st1 st2. mtimer_get_raw_time (soc_mmio C P l64 s64) st =
      Some (mtime (rtl (dev st)) + of_nat t1, st1) \<and>
    mtimer_set_raw_time_cmp (soc_mmio C P l64 s64) off st1 = Some st2 \<and>
    t1 \<le> n \<and> n \<le> m \<and> m \<le> 15 * (D + 1) \<and> system_ok C P D st2 \<and>
    mtimecmp (rtl (dev st2)) =
      (mtimecmp (rtl (dev st)))[0 := mtime (rtl (dev st)) + of_nat n + off] \<and>
    mtime (rtl (dev st2)) = mtime (rtl (dev st)) + of_nat m"
proof -
  let ?M = "soc_mmio C P l64 s64" and ?t = "mtime (rtl (dev st))"
  obtain t1 m1 st1 where 1: "mtimer_get_raw_time ?M st = Some (?t + of_nat t1, st1)" "t1 \<le> m1"
      "m1 \<le> 6 * (D + 1)" "system_ok C P D st1" "mtime (rtl (dev st1)) = ?t + of_nat m1"
      "mtimecmp (rtl (dev st1)) = mtimecmp (rtl (dev st))"
    using raw_time_rtl [OF assms, of l64 s64] by blast
  obtain n m st2 where 2: "mtimer_set_raw_time_cmp ?M off st1 = Some st2" "n \<le> m" "m \<le> 9 * (D + 1)"
      "system_ok C P D st2" "mtimecmp (rtl (dev st2)) =
        (mtimecmp (rtl (dev st1)))[0 := mtime (rtl (dev st1)) + of_nat n + off]"
      "mtime (rtl (dev st2)) = mtime (rtl (dev st1)) + of_nat m"
    using set_raw_time_cmp_rtl [OF 1(4) assms(2,3), of l64 s64 off] by blast
  have "m1 + m \<le> 15 * (D + 1)" using 1(3) 2(3) by simp
  then show ?thesis
    using 1 2
    by (intro exI [of _ t1] exI [of _ "m1 + n"] exI [of _ "m1 + m"] exI [of _ st1] exI [of _ st2])
      (simp add: add.assoc)
qed

lemma rearm_driver:
  fixes l64 :: "'x::len word \<Rightarrow> soc \<Rightarrow> (u64 \<times> soc) option"
  assumes "system_ok C P D st" and "LENGTH('x) = 32" and "6 * (D + 1) < 2 ^ 32"
  shows "\<exists>t n m st1 st2. mtimer_set_raw_time_cmp (soc_mmio C P l64 s64) off st = Some st1 \<and>
    mtimer_get_raw_time (soc_mmio C P l64 s64) st1 = Some (t, st2) \<and>
    n \<le> m \<and> m \<le> 15 * (D + 1) \<and> system_ok C P D st2 \<and>
    mtimecmp (rtl (dev st2)) =
      (mtimecmp (rtl (dev st)))[0 := mtime (rtl (dev st)) + of_nat n + off] \<and>
    mtime (rtl (dev st2)) = mtime (rtl (dev st)) + of_nat m"
proof -
  let ?M = "soc_mmio C P l64 s64" and ?t = "mtime (rtl (dev st))"
  obtain n m st1 where 1: "mtimer_set_raw_time_cmp ?M off st = Some st1" "n \<le> m" "m \<le> 9 * (D + 1)"
      "system_ok C P D st1" "mtimecmp (rtl (dev st1)) = (mtimecmp (rtl (dev st)))[0 := ?t + of_nat n + off]"
      "mtime (rtl (dev st1)) = ?t + of_nat m"
    using set_raw_time_cmp_rtl [OF assms, of l64 s64 off] by blast
  obtain t1 m1 st2 where 2: "mtimer_get_raw_time ?M st1 = Some (mtime (rtl (dev st1)) + of_nat t1, st2)"
      "m1 \<le> 6 * (D + 1)" "system_ok C P D st2"
      "mtime (rtl (dev st2)) = mtime (rtl (dev st1)) + of_nat m1"
      "mtimecmp (rtl (dev st2)) = mtimecmp (rtl (dev st1))"
    using raw_time_rtl [OF 1(4) assms(2,3), of l64 s64] by blast
  have "n \<le> m + m1" "m + m1 \<le> 15 * (D + 1)" using 1(2,3) 2(2) by simp_all
  with 1 2 show ?thesis
    by (intro exI [of _ "mtime (rtl (dev st1)) + of_nat t1"] exI [of _ n] exI [of _ "m + m1"]
        exI [of _ st1] exI [of _ st2]) (simp add: add.assoc)
qed

text \<open>A deadline that lies ahead of the time does not interrupt.\<close>

lemma deadline_ahead:
  fixes t :: u64
  assumes "unat t + n + off < 2 ^ 64" and "m < n + off"
  shows "\<not> t + of_nat n + of_nat off \<le> t + of_nat m"
proof -
  have "unat (t + of_nat k) = unat t + k" if "k \<le> n + off" for k
    using that assms(1) by (intro unat_add_small) simp
  from this [of "n + off"] this [of m] show ?thesis
    using assms(2) by (simp add: word_le_nat_alt add.assoc)
qed

lemma main_setup_eq:
  assumes "csr_file H W firmware_csrs (hart_state st)"
    and "mtimer_get_raw_time M (clint_init (CLINT0_BASE cfg) (driver st)) = Some (t, d1)"
    and "mtimer_set_raw_time_cmp M 100 d1 = Some d2"
  shows "\<exists>st'. main_setup cfg H M st = Some st' \<and> driver st' = d2 \<and> timestamp st' = t \<and>
    hart_state st' = setup_hart (irq_entry_address cfg) H (hart_state st)"
proof -
  note calls = firmware_csr_calls [where W = W] csr_file_assign [where W = W and cs = firmware_csrs]
  show ?thesis
    using assms
    by (simp add: main_setup_def calls emit_def on_driver_def call_driver_def one_millisecond
        setup_hart_def Let_def cong: bind_weak)
qed

subsection \<open>A concrete machine, for evaluation\<close>

definition demo_machine :: "u32 \<Rightarrow> u64 \<Rightarrow> nat list \<Rightarrow> (csr \<Rightarrow> u32, soc) machine" where
  "demo_machine cause t ds =
     \<lparr>hart_state = (\<lambda>_. 0)(CSR_MCAUSE := cause), driver = demo_drv 0 t ds, timestamp = 0, events = []\<rparr>"

definition demo_config :: "u32 config" where
  "demo_config = \<lparr>UART_BASE = 0x10000, UART_CLOCK = 100000000, BAUD = 115200, CLINT0_BASE = 0,
     irq_entry_address = 0x400\<rparr>"

lemma demo_csr_file: "csr_file (demo_hart Machine) (\<lambda>_. - 1) firmware_csrs h"
proof -
  have "csr_level c = Machine" "\<not> csr_read_only c" if "c \<in> set firmware_csrs" for c
    using that by (auto simp: firmware_csrs_def csr_level_def csr_read_only_def csr_addresses)
  then show ?thesis
    by (simp add: csr_file_def demo_usable demo_permitted) (simp add: demo_hart_def)
qed

lemma demo_machine_ok:
  "list_all (\<lambda>n. n \<le> D) ds \<Longrightarrow> system_ok std_cells default_params D (driver (demo_machine c t ds))"
  by (simp add: demo_machine_def demo_ok)

subsection \<open>Properties\<close>

lemma demo_boot:
  "soc_inv std_cells default_params 7 (CLINT0_BASE demo_config) (dev (driver (demo_machine 0 5 [3, 0, 7])))"
  "bit (- 1 :: u32) 3" "bit (- 1 :: u32) (RISCV_INT_POS MTI)" "6 * (7 + 1) < (2::nat) ^ 32"
  using demo_machine_ok [of 7 "[3, 0, 7]" 0 5]
  by (simp_all add: system_ok_def demo_machine_def demo_drv_def demo_config_def)

lemma main_setup_rtl:
  fixes l64 :: "'x::len word \<Rightarrow> soc \<Rightarrow> (u64 \<times> soc) option" and st :: "('h, soc) machine"
  assumes "csr_file H W firmware_csrs (hart_state st)" and "bit (W CSR_MSTATUS) 3"
    and "bit (W CSR_MIE) (RISCV_INT_POS MTI)"
    and "soc_inv C P D (CLINT0_BASE cfg) (dev (driver st))"
    and "LENGTH('x) = 32" and "6 * (D + 1) < 2 ^ 32"
  shows "\<exists>k n m st'. main_setup cfg H (soc_mmio C P l64 s64) st = Some st' \<and>
    csr_file H W firmware_csrs (hart_state st') \<and> bit (csr_value H CSR_MSTATUS (hart_state st')) 3 \<and>
    csr_value H CSR_MIE (hart_state st') AND W CSR_MIE = RISCV_INT_MASK MTI \<and>
    csr_value H CSR_MTVEC (hart_state st') AND W CSR_MTVEC = irq_entry_address cfg AND W CSR_MTVEC \<and>
    timestamp st' = mtime (rtl (dev (driver st))) + of_nat k \<and> k \<le> n \<and> n \<le> m \<and> m \<le> 15 * (D + 1) \<and>
    system_ok C P D (driver st') \<and>
    mtime (rtl (dev (driver st'))) = mtime (rtl (dev (driver st))) + of_nat m \<and>
    mtimecmp (rtl (dev (driver st'))) =
      (mtimecmp (rtl (dev (driver st))))[0 := mtime (rtl (dev (driver st))) + of_nat n + 100]"
proof -
  let ?d = "clint_init (CLINT0_BASE cfg) (driver st)" and ?h = "hart_state st"
  have dev: "dev ?d = dev (driver st)" and "clint_base ?d = CLINT0_BASE cfg"
    by (simp_all add: clint_init_def)
  then have "system_ok C P D ?d" using assms(4) by (simp add: system_ok_def)
  from setup_driver [OF this assms(5,6), of l64 s64 100]
  obtain k n m d1 d2 where drv: "mtimer_get_raw_time (soc_mmio C P l64 s64) ?d =
      Some (mtime (rtl (dev (driver st))) + of_nat k, d1)"
    "mtimer_set_raw_time_cmp (soc_mmio C P l64 s64) 100 d1 = Some d2"
    "k \<le> n" "n \<le> m" "m \<le> 15 * (D + 1)" "system_ok C P D d2"
    "mtimecmp (rtl (dev d2)) =
      (mtimecmp (rtl (dev (driver st))))[0 := mtime (rtl (dev (driver st))) + of_nat n + 100]"
    "mtime (rtl (dev d2)) = mtime (rtl (dev (driver st))) + of_nat m"
    unfolding dev by blast
  obtain st' where st': "main_setup cfg H (soc_mmio C P l64 s64) st = Some st'" "driver st' = d2"
    "timestamp st' = mtime (rtl (dev (driver st))) + of_nat k"
    "hart_state st' = setup_hart (irq_entry_address cfg) H ?h"
    using main_setup_eq [OF assms(1) drv(1,2)] by blast
  have "(bit_mask MSTATUS_MIE :: 'x word) = push_bit 3 1" by (simp add: csr_machine_fields)
  then have "bit (csr_value H CSR_MSTATUS (hart_state st')) 3"
    using assms(2,5) by (simp add: st'(4) setup_hart_values [OF assms(1)] bit_simps del: push_bit_of_1)
  moreover have "(bit_mask MIE_MTI :: 'x word) = RISCV_INT_MASK MTI"
    by (simp add: csr_machine_fields RISCV_INT_MASK_def)
  then have "csr_value H CSR_MIE (hart_state st') AND W CSR_MIE = RISCV_INT_MASK MTI"
    using assms(3,5)
    by (intro bit_word_eqI) (auto simp: st'(4) setup_hart_values [OF assms(1)] bit_simps
        bit_RISCV_INT_MASK)
  moreover have "csr_value H CSR_MTVEC (hart_state st') AND W CSR_MTVEC =
      irq_entry_address cfg AND W CSR_MTVEC"
    by (rule bit_word_eqI) (auto simp: st'(4) setup_hart_values [OF assms(1)] bit_simps)
  moreover have "csr_file H W firmware_csrs (hart_state st')"
    by (simp add: st'(4) setup_hart_values(1) [OF assms(1)])
  ultimately show ?thesis using drv st' by blast
qed

text \<open>C12: what \<open>main\<close> sets up, on RV32. Started on a hart whose \<open>mstatus.MIE\<close> and \<open>mie.MTI\<close> are
  writable and on a working device at \<open>CLINT0_BASE\<close>, the set-up of \<open>main\<close> runs to its end without a
  trap and leaves: interrupts enabled globally; of the writable interrupts exactly the machine timer
  interrupt enabled; the writable bits of \<open>mtvec\<close> at the handler; \<open>timestamp\<close> a time of the call; and the compare register
  of hart 0 100 ticks (1 ms) after a later time of the call.\<close>

theorem main_setup_correct:
  fixes l64 :: "'x::len word \<Rightarrow> soc \<Rightarrow> (u64 \<times> soc) option" and st :: "('h, soc) machine"
  assumes "csr_file H W firmware_csrs (hart_state st)" and "bit (W CSR_MSTATUS) 3"
    and "bit (W CSR_MIE) (RISCV_INT_POS MTI)"
    and "soc_inv C P D (CLINT0_BASE cfg) (dev (driver st))"
    and "LENGTH('x) = 32" and "6 * (D + 1) < 2 ^ 32"
  shows "\<exists>k n m st'. main_setup cfg H (soc_mmio C P l64 s64) st = Some st' \<and>
    bit (csr_value H CSR_MSTATUS (hart_state st')) 3 \<and>
    csr_value H CSR_MIE (hart_state st') AND W CSR_MIE = RISCV_INT_MASK MTI \<and>
    csr_value H CSR_MTVEC (hart_state st') AND W CSR_MTVEC = irq_entry_address cfg AND W CSR_MTVEC \<and>
    timestamp st' = mtime (rtl (dev (driver st))) + of_nat k \<and> k \<le> n \<and> n \<le> m \<and> m \<le> 15 * (D + 1) \<and>
    system_ok C P D (driver st') \<and>
    mtime (rtl (dev (driver st'))) = mtime (rtl (dev (driver st))) + of_nat m \<and>
    mtimecmp (rtl (dev (driver st'))) =
      (mtimecmp (rtl (dev (driver st))))[0 := mtime (rtl (dev (driver st))) + of_nat n + 100]"
  using main_setup_rtl [OF assms, of l64 s64] by blast

lemma main_setup_correct_witness:
  "\<exists>n st'. main_setup demo_config (demo_hart Machine) demo_mmio (demo_machine 0 5 [3, 0, 7]) = Some st' \<and>
     hart_state st' CSR_MIE = 0x80 \<and> hart_state st' CSR_MTVEC = 0x400 \<and>
     mtimecmp (rtl (dev (driver st'))) = [105 + of_nat n]"
proof -
  let ?st = "demo_machine 0 5 [3, 0, 7]"
  have time: "mtime (rtl (dev (driver ?st))) = 5" "mtimecmp (rtl (dev (driver ?st))) = [- 1]"
    by (simp_all add: demo_machine_def demo_drv_def)
  from main_setup_correct [OF demo_csr_file demo_boot(2,3,1) _ demo_boot(4), of "\<lambda>_ _. None" "\<lambda>_ _ _. None"]
  obtain n st' where "main_setup demo_config (demo_hart Machine) demo_mmio ?st = Some st'"
    "csr_value (demo_hart Machine) CSR_MIE (hart_state st') AND - 1 = RISCV_INT_MASK MTI"
    "csr_value (demo_hart Machine) CSR_MTVEC (hart_state st') AND - 1 = irq_entry_address demo_config AND - 1"
    "mtimecmp (rtl (dev (driver st'))) = [- 1][0 := 5 + of_nat n + 100]"
    unfolding demo_mmio_def time by auto
  then show ?thesis
    by (intro exI [of _ n] exI [of _ st'])
      (simp add: demo_hart_def RISCV_INT_MASK_def demo_config_def add.commute)
qed

lemma irq_entry_rtl:
  fixes l64 :: "'x::len word \<Rightarrow> soc \<Rightarrow> (u64 \<times> soc) option" and st :: "('h, soc) machine"
  assumes "permitted H CSR_MCAUSE False (hart_state st)"
    and "csr_value H CSR_MCAUSE (hart_state st) = 0x80000007"
    and "system_ok C P D (driver st)" and "LENGTH('x) = 32" and "15 * (D + 1) < 100000"
    and "unat (mtime (rtl (dev (driver st)))) + 200000 < 2 ^ 64"
  shows "\<exists>n m st'. irq_entry H (soc_mmio C P l64 s64) st = Some st' \<and> hart_state st' = hart_state st \<and>
    system_ok C P D (driver st') \<and> n \<le> m \<and> m \<le> 15 * (D + 1) \<and>
    mtime (rtl (dev (driver st'))) = mtime (rtl (dev (driver st))) + of_nat m \<and>
    mtimecmp (rtl (dev (driver st'))) =
      (mtimecmp (rtl (dev (driver st))))[0 := mtime (rtl (dev (driver st))) + of_nat n + 100000] \<and>
    \<not> mtip_o P False (rtl (dev (driver st'))) ! 0"
proof -
  let ?M = "soc_mmio C P l64 s64" and ?d = "driver st"
  have "6 * (D + 1) < 2 ^ 32" using assms(5) by simp
  from rearm_driver [OF assms(3,4) this, of l64 s64 100000]
  obtain t n m d1 d2 where drv: "mtimer_set_raw_time_cmp ?M 100000 ?d = Some d1"
    "mtimer_get_raw_time ?M d1 = Some (t, d2)" "n \<le> m" "m \<le> 15 * (D + 1)" "system_ok C P D d2"
    "mtimecmp (rtl (dev d2)) =
      (mtimecmp (rtl (dev ?d)))[0 := mtime (rtl (dev ?d)) + of_nat n + 100000]"
    "mtime (rtl (dev d2)) = mtime (rtl (dev ?d)) + of_nat m" by blast
  have "\<exists>st'. irq_entry H ?M st = Some st' \<and> hart_state st' = hart_state st \<and> driver st' = d2"
    using assms(1,2,4) drv(1,2)
    by (simp add: irq_entry_def emit_def print_line_def on_hart_def csr_machine_defs csrr_def csr_access_def
        csr_machine_fields RISCV_INT_POS.simps MTIMER_SECONDS_TO_CLOCKS_def c_mul_def c_int_def
        MTIME_FREQ_HZ_def call_driver_def on_driver_def cong: bind_weak)
  moreover have "0 < N_CORES P" "0 < length (mtimecmp (rtl (dev ?d)))"
    using assms(3) system_cmp [OF assms(3)]
    by (simp_all add: system_ok_def soc_inv_def soc_ok_def params_ok_def)
  then have "\<not> mtip_o P False (rtl (dev d2)) ! 0"
    using deadline_ahead [of "mtime (rtl (dev ?d))" n 100000 m] assms(5,6) drv(3,4)
    by (simp add: mtip_o_nth drv(6,7))
  ultimately show ?thesis using drv by blast
qed

text \<open>C9: the handler keeps up the tick and lowers its interrupt, on RV32. Entered for a machine
  timer interrupt, \<open>irq_entry\<close> returns, changes no control register, moves the compare register of
  hart 0 to 100000 ticks (1 s) after a time of the call, and leaves the timer interrupt line low,
  unless \<open>mtime\<close> is about to wrap; so returning from it does not re-enter it.\<close>

theorem irq_entry_rearms:
  fixes l64 :: "'x::len word \<Rightarrow> soc \<Rightarrow> (u64 \<times> soc) option" and st :: "('h, soc) machine"
  assumes "permitted H CSR_MCAUSE False (hart_state st)"
    and "csr_value H CSR_MCAUSE (hart_state st) = 0x80000007"
    and "system_ok C P D (driver st)" and "LENGTH('x) = 32" and "15 * (D + 1) < 100000"
    and "unat (mtime (rtl (dev (driver st)))) + 200000 < 2 ^ 64"
  shows "\<exists>n st'. irq_entry H (soc_mmio C P l64 s64) st = Some st' \<and> hart_state st' = hart_state st \<and>
    system_ok C P D (driver st') \<and> n \<le> 15 * (D + 1) \<and>
    mtimecmp (rtl (dev (driver st'))) =
      (mtimecmp (rtl (dev (driver st))))[0 := mtime (rtl (dev (driver st))) + of_nat n + 100000] \<and>
    \<not> mtip_o P False (rtl (dev (driver st'))) ! 0"
  using irq_entry_rtl [OF assms, of l64 s64] by (meson le_trans)

lemma irq_entry_rearms_witness:
  "\<exists>n st'. irq_entry (demo_hart Machine) demo_mmio (demo_machine 0x80000007 5 [3, 0, 7]) = Some st' \<and>
     n \<le> 120 \<and> mtimecmp (rtl (dev (driver st'))) = [100005 + of_nat n]"
proof -
  let ?st = "demo_machine 0x80000007 5 [3, 0, 7]"
  have time: "mtime (rtl (dev (driver ?st))) = 5" "mtimecmp (rtl (dev (driver ?st))) = [- 1]"
    by (simp_all add: demo_machine_def demo_drv_def)
  have cause: "permitted (demo_hart Machine) CSR_MCAUSE False (hart_state ?st)"
      "csr_value (demo_hart Machine) CSR_MCAUSE (hart_state ?st) = 0x80000007"
    by (rule csr_usable_permitted [OF csr_file_usable [OF demo_csr_file]])
      (simp_all add: demo_hart_def demo_machine_def)
  have len: "LENGTH(32) = 32" "15 * (7 + 1) < (100000::nat)" by simp_all
  have sys: "system_ok std_cells default_params 7 (driver ?st)" by (rule demo_machine_ok) simp
  have "unat (mtime (rtl (dev (driver ?st)))) + 200000 < 2 ^ 64" by (simp add: time)
  from irq_entry_rearms [OF cause sys len this, of "\<lambda>_ _. None" "\<lambda>_ _ _. None"]
  obtain n st' where "irq_entry (demo_hart Machine) demo_mmio ?st = Some st'" "n \<le> 15 * (7 + 1)"
    "mtimecmp (rtl (dev (driver st'))) = [- 1][0 := 5 + of_nat n + 100000]"
    unfolding demo_mmio_def time by auto
  then show ?thesis
    by (intro exI [of _ n] exI [of _ st']) (simp add: add.commute)
qed

text \<open>Any other trap: when \<open>mcause\<close> is an exception, or an interrupt whose low 8 bits are not the
  machine timer's, \<open>irq_entry\<close> only prints its line: it touches neither the hart nor the device, so
  the cause of the trap is still there when it returns.\<close>

lemma irq_entry_other_cause:
  fixes H :: "('h, 'x::len word) hart"
  assumes "permitted H CSR_MCAUSE False (hart_state st)" and "cause = csr_value H CSR_MCAUSE (hart_state st)"
    and "\<not> (bit cause (LENGTH('x) - 1) \<and> cause AND 0xFF = of_nat (RISCV_INT_POS MTI))"
  shows "irq_entry H M st = Some (print_line ''Entered IRQ.'' st)"
proof -
  have "cause AND bit_mask MCAUSE_INTERRUPT \<noteq> 0 \<longleftrightarrow> bit cause (LENGTH('x) - 1)"
    by (simp add: csr_machine_fields and_exp_eq_0_iff_not_bit)
  moreover have "on_hart (csr_read_mcause H) (print_line e st) = Some (cause, print_line e st)" for e
    using assms(1,2) by (simp add: on_hart_def emit_def print_line_def csr_machine_defs csrr_def csr_access_def)
  ultimately show ?thesis
    using assms(3) by (auto simp: irq_entry_def Let_def)
qed

lemma irq_entry_other_cause_witness:
  "irq_entry (demo_hart Machine) demo_mmio (demo_machine 0x80000003 5 []) =
     Some (print_line ''Entered IRQ.'' (demo_machine 0x80000003 5 []))"
proof -
  have "permitted (demo_hart Machine) CSR_MCAUSE False h" for h
    by (rule csr_usable_permitted [OF csr_file_usable [OF demo_csr_file]]) simp
  moreover have "0x80000003 = csr_value (demo_hart Machine) CSR_MCAUSE
      (hart_state (demo_machine 0x80000003 5 []))"
    by (simp add: demo_hart_def demo_machine_def)
  ultimately show ?thesis
    by (rule irq_entry_other_cause) simp
qed

end
