(* ===== verification/Firmware_Interrupts.thy ===== *)
theory Firmware_Interrupts
  imports Firmware
begin

text \<open>
  The example firmware running with interrupts, as a transition system: after the set-up, \<open>main\<close>
  prints, sleeps in \<open>wfi\<close> and exits, clock cycles pass, and at any point before the end a pending and
  enabled timer interrupt may be taken. What the hart does on entering and leaving the handler (an
  \<open>interrupt\<close> function) is that of the privileged architecture, on the bits the program uses:
  \<open>mstatus.MIE\<close> and \<open>MPIE\<close> and \<open>mcause\<close>.
\<close>

subsection \<open>Trap entry and return\<close>

definition enter_interrupt :: "('h, 'x::len word) hart \<Rightarrow> riscv_int \<Rightarrow> 'h \<Rightarrow> 'h" where
  "enter_interrupt H i h =
     (let s = csr_value H CSR_MSTATUS h;
          s = (if bit s 3 then s OR bit_mask MSTATUS_MPIE else s AND NOT (bit_mask MSTATUS_MPIE));
          h = csr_assign H CSR_MSTATUS (s AND NOT (bit_mask MSTATUS_MIE)) h
      in csr_assign H CSR_MCAUSE (bit_mask MCAUSE_INTERRUPT OR of_nat (RISCV_INT_POS i)) h)"

definition return_interrupt :: "('h, 'x::len word) hart \<Rightarrow> 'h \<Rightarrow> 'h" where
  "return_interrupt H h =
     (let s = csr_value H CSR_MSTATUS h;
          s = (if bit s 7 then s OR bit_mask MSTATUS_MIE else s AND NOT (bit_mask MSTATUS_MIE))
      in csr_assign H CSR_MSTATUS (s OR bit_mask MSTATUS_MPIE) h)"

definition interrupt_ready :: "('h, 'x::len word) hart \<Rightarrow> params \<Rightarrow> ('h, soc) machine \<Rightarrow> bool" where
  "interrupt_ready H P st \<longleftrightarrow>
     bit (csr_value H CSR_MSTATUS (hart_state st)) 3 \<and>
     bit (csr_value H CSR_MIE (hart_state st)) (RISCV_INT_POS MTI) \<and>
     mtip_o P False (rtl (dev (driver st))) ! 0"

text \<open>The handler between its entry and its return.\<close>

definition handle_interrupt ::
  "('h, 'x::len word) hart \<Rightarrow> ('x word, 's) mmio \<Rightarrow> ('h, 's) machine \<Rightarrow> ('h, 's) machine option" where
  "handle_interrupt H M st = do {
     st \<leftarrow> irq_entry H M (st\<lparr>hart_state := enter_interrupt H MTI (hart_state st)\<rparr>);
     Some (st\<lparr>hart_state := return_interrupt H (hart_state st)\<rparr>)
   }"

subsection \<open>The transition system\<close>

datatype point = Waiting | Sleeping | Exiting | Finished

definition let_pass :: "cells \<Rightarrow> params \<Rightarrow> nat \<Rightarrow> ('h, soc) machine \<Rightarrow> ('h, soc) machine" where
  "let_pass C P k st =
     st\<lparr>driver := (driver st)\<lparr>dev := soc_idle C P (bus_idle 0 0) k (dev (driver st))\<rparr>\<rparr>"

text \<open>\<open>firmware_reach ... n c p st\<close>: \<open>main\<close>, started in \<open>st0\<close>, can be at \<open>p\<close> in state \<open>st\<close> after at most
  \<open>n\<close> clock cycles and \<open>c\<close> interrupts. A \<open>wfi\<close> may end at any time.\<close>

inductive firmware_reach ::
  "'x::len word config \<Rightarrow> ('h, 'x word) hart \<Rightarrow> ('x word, soc) mmio \<Rightarrow> cells \<Rightarrow> params \<Rightarrow> nat \<Rightarrow>
   ('h, soc) machine \<Rightarrow> nat \<Rightarrow> nat \<Rightarrow> point \<Rightarrow> ('h, soc) machine \<Rightarrow> bool"
  for cfg H M C P D st0 where
  started: "main_setup cfg H M st0 = Some st \<Longrightarrow>
     firmware_reach cfg H M C P D st0 (15 * (D + 1)) 0 Waiting st"
| passing: "firmware_reach cfg H M C P D st0 n c p st \<Longrightarrow>
     firmware_reach cfg H M C P D st0 (n + k) c p (let_pass C P k st)"
| waits: "firmware_reach cfg H M C P D st0 n c Waiting st \<Longrightarrow>
     firmware_reach cfg H M C P D st0 n c Sleeping (emit Wfi (print_line ''Waiting...'' st))"
| wakes: "firmware_reach cfg H M C P D st0 n c Sleeping st \<Longrightarrow>
     firmware_reach cfg H M C P D st0 n c Exiting (print_line ''Exit...'' st)"
| exits: "firmware_reach cfg H M C P D st0 n c Exiting st \<Longrightarrow>
     firmware_reach cfg H M C P D st0 n c Finished (emit Uart_finish st)"
| interrupted: "firmware_reach cfg H M C P D st0 n c p st \<Longrightarrow> p \<noteq> Finished \<Longrightarrow> interrupt_ready H P st \<Longrightarrow>
     handle_interrupt H M st = Some st' \<Longrightarrow>
     firmware_reach cfg H M C P D st0 (n + 15 * (D + 1)) (Suc c) p st'"

text \<open>Without interrupts it ends as \<open>main_finish\<close> says.\<close>

lemma firmware_reach_finish:
  "main_setup cfg H M st0 = Some st \<Longrightarrow>
   firmware_reach cfg H M C P D st0 (15 * (D + 1)) 0 Finished (main_finish st)"
  unfolding main_finish_def
  by (intro firmware_reach.exits firmware_reach.wakes firmware_reach.waits firmware_reach.started)

lemma emit_simps [simp]:
  "hart_state (emit e st) = hart_state st" "driver (emit e st) = driver st"
  "hart_state (print_line s st) = hart_state st" "driver (print_line s st) = driver st"
  by (simp_all add: emit_def print_line_def)

subsection \<open>The hart over one interrupt\<close>

lemma mstatus_masks:
  "(bit_mask MSTATUS_MIE :: 'x::len word) = push_bit 3 1"
  "(bit_mask MSTATUS_MPIE :: 'x::len word) = push_bit 7 1"
  by (simp_all add: csr_machine_fields)

text \<open>The writable bits the program relies on.\<close>

definition firmware_bits :: "(csr \<Rightarrow> 'x::len word) \<Rightarrow> bool" where
  "firmware_bits W \<longleftrightarrow> bit (W CSR_MSTATUS) 3 \<and> bit (W CSR_MSTATUS) 7 \<and>
     bit (W CSR_MIE) (RISCV_INT_POS MTI) \<and> W CSR_MCAUSE = - 1"

definition hart_running :: "('h, 'x::len word) hart \<Rightarrow> (csr \<Rightarrow> 'x word) \<Rightarrow> 'h \<Rightarrow> bool" where
  "hart_running H W h \<longleftrightarrow> csr_file H W firmware_csrs h \<and> bit (csr_value H CSR_MSTATUS h) 3 \<and>
     csr_value H CSR_MIE h AND W CSR_MIE = RISCV_INT_MASK MTI"

lemma enter_interrupt_file:
  assumes "csr_file H W firmware_csrs h"
  shows "csr_file H W firmware_csrs (enter_interrupt H i h)"
  using assms by (simp add: enter_interrupt_def Let_def csr_file_assign)

lemma enter_interrupt_mcause:
  assumes "csr_file H W firmware_csrs h" and "W CSR_MCAUSE = - 1"
  shows "csr_value H CSR_MCAUSE (enter_interrupt H i h) =
    bit_mask MCAUSE_INTERRUPT OR of_nat (RISCV_INT_POS i)"
  using assms
  by (simp add: enter_interrupt_def Let_def csr_file_value [where W = W and cs = firmware_csrs]
      csr_file_assign [where W = W and cs = firmware_csrs])

lemma return_interrupt_running:
  fixes H :: "('h, 'x::len word) hart"
  assumes "hart_running H W h" and "firmware_bits W" and "LENGTH('x) = 32"
  shows "hart_running H W (return_interrupt H (enter_interrupt H i h))"
proof -
  let ?e = "enter_interrupt H i h" and ?r = "return_interrupt H (enter_interrupt H i h)"
  note W = assms(2) [unfolded firmware_bits_def]
  have f: "csr_file H W firmware_csrs h" and mie: "bit (csr_value H CSR_MSTATUS h) 3"
    using assms(1) by (simp_all add: hart_running_def)
  note sets = csr_file_value [where W = W and cs = firmware_csrs]
    csr_file_assign [where W = W and cs = firmware_csrs]
  note e = enter_interrupt_file [OF f]
  have "csr_value H CSR_MSTATUS ?e = (csr_value H CSR_MSTATUS h AND NOT (W CSR_MSTATUS)) OR
      ((csr_value H CSR_MSTATUS h OR bit_mask MSTATUS_MPIE) AND NOT (bit_mask MSTATUS_MIE) AND W CSR_MSTATUS)"
    using mie f by (simp add: enter_interrupt_def Let_def sets and.assoc)
  then have "bit (csr_value H CSR_MSTATUS ?e) 7"
    using W assms(3) by (simp add: mstatus_masks bit_simps del: push_bit_of_1)
  then have "bit (csr_value H CSR_MSTATUS ?r) 3"
    using W assms(3) e
    by (simp add: return_interrupt_def Let_def sets mstatus_masks bit_simps del: push_bit_of_1)
  moreover have "csr_value H CSR_MIE ?r = csr_value H CSR_MIE h" and "csr_file H W firmware_csrs ?r"
    using f e by (simp_all add: return_interrupt_def enter_interrupt_def Let_def sets)
  ultimately show ?thesis using assms(1) by (simp add: hart_running_def)
qed

subsection \<open>The invariant\<close>

text \<open>\<open>T\<close> is \<open>mtime\<close> when \<open>main\<close> starts.\<close>

definition firmware_inv ::
  "('h, 'x::len word) hart \<Rightarrow> (csr \<Rightarrow> 'x word) \<Rightarrow> cells \<Rightarrow> params \<Rightarrow> nat \<Rightarrow> u64 \<Rightarrow> nat \<Rightarrow> nat \<Rightarrow>
   ('h, soc) machine \<Rightarrow> bool" where
  "firmware_inv H W C P D T n c st \<longleftrightarrow>
     hart_running H W (hart_state st) \<and> system_ok C P D (driver st) \<and>
     (\<exists>m\<le>n. mtime (rtl (dev (driver st))) = T + of_nat m) \<and>
     unat T + 100 + c * 100000 \<le> unat (mtimecmp (rtl (dev (driver st))) ! 0) \<and>
     (0 < c \<longrightarrow> unat T + 100 + (c - 1) * 100000 \<le> unat (mtime (rtl (dev (driver st)))))"

lemma firmware_inv_started:
  fixes l64 :: "'x::len word \<Rightarrow> soc \<Rightarrow> (u64 \<times> soc) option"
  assumes "csr_file H W firmware_csrs (hart_state st0)" and "firmware_bits W"
    and "soc_inv C P D (CLINT0_BASE cfg) (dev (driver st0))"
    and "LENGTH('x) = 32" and "15 * (D + 1) < 100000"
    and "T = mtime (rtl (dev (driver st0)))" and "unat T + 200000 < 2 ^ 64"
    and "main_setup cfg H (soc_mmio C P l64 s64) st0 = Some st"
  shows "firmware_inv H W C P D T (15 * (D + 1)) 0 st"
proof -
  have "6 * (D + 1) < 2 ^ 32" using assms(5) by simp
  then obtain k n m where st: "csr_file H W firmware_csrs (hart_state st)"
    "bit (csr_value H CSR_MSTATUS (hart_state st)) 3"
    "csr_value H CSR_MIE (hart_state st) AND W CSR_MIE = RISCV_INT_MASK MTI"
    "n \<le> m" "m \<le> 15 * (D + 1)" "system_ok C P D (driver st)"
    "mtime (rtl (dev (driver st))) = T + of_nat m"
    "mtimecmp (rtl (dev (driver st))) = (mtimecmp (rtl (dev (driver st0))))[0 := T + of_nat n + 100]"
    using main_setup_rtl [OF assms(1) _ _ assms(3,4), of l64 s64] assms(2,6,8)
    by (auto simp: firmware_bits_def)
  have "0 < length (mtimecmp (rtl (dev (driver st0))))"
    using assms(3) by (simp add: soc_inv_def soc_ok_def clint_wf_def params_ok_def)
  moreover have "T + of_nat n + 100 = T + of_nat (n + 100)" by simp
  moreover have "unat (T + of_nat (n + 100)) = unat T + (n + 100)"
    using st(4,5) assms(5,7) by (intro unat_add_small) simp
  ultimately have "unat T + 100 \<le> unat (mtimecmp (rtl (dev (driver st))) ! 0)"
    using st(8) by (simp add: add.assoc)
  then show ?thesis
    using st by (auto simp: firmware_inv_def hart_running_def)
qed

lemma let_pass_inv:
  assumes "firmware_inv H W C P D T n c st"
    and "unat T + n + k < 2 ^ 64"
  shows "firmware_inv H W C P D T (n + k) c (let_pass C P k st)"
proof -
  let ?s = "dev (driver st)" and ?s' = "soc_idle C P (bus_idle 0 0) k (dev (driver st))"
  have ok: "soc_ok C P D ?s" using assms(1) by (simp add: firmware_inv_def system_ok_def soc_inv_def)
  obtain d where d: "d \<le> k" "view ?s' = advance d (view ?s)" "soc_ok C P D ?s'"
    using soc_idle_effect [OF ok, of k 0 0] by blast
  obtain m where m: "m \<le> n" "mtime (rtl ?s) = T + of_nat m"
    using assms(1) by (auto simp: firmware_inv_def)
  have t: "mtime (rtl ?s') = T + of_nat (m + d)" "mtimecmp (rtl ?s') = mtimecmp (rtl ?s)"
    using view_advanceD [OF d(2)] m(2) by (simp_all add: add.assoc)
  have "unat (mtime (rtl ?s)) \<le> unat (mtime (rtl ?s'))"
    unfolding t(1) m(2) using m(1) d(1) assms(2) by (simp add: unat_add_small del: of_nat_add)
  moreover have "m + d \<le> n + k" using m(1) d(1) by simp
  moreover have "system_ok C P D (driver (let_pass C P k st))"
    using assms(1) d(3) by (simp add: let_pass_def firmware_inv_def system_ok_def soc_inv_def)
  ultimately show ?thesis
    using assms(1) t by (fastforce simp: firmware_inv_def let_pass_def)
qed

lemma handle_interrupt_inv:
  fixes l64 :: "'x::len word \<Rightarrow> soc \<Rightarrow> (u64 \<times> soc) option"
  assumes "firmware_inv H W C P D T n c st" and "firmware_bits W" and "interrupt_ready H P st"
    and "LENGTH('x) = 32" and "15 * (D + 1) < 100000" and "unat T + n + 200000 < 2 ^ 64"
  shows "\<exists>st'. handle_interrupt H (soc_mmio C P l64 s64) st = Some st' \<and>
    firmware_inv H W C P D T (n + 15 * (D + 1)) (Suc c) st' \<and> \<not> interrupt_ready H P st'"
proof -
  let ?h = "hart_state st" and ?e = "enter_interrupt H MTI (hart_state st)"
  let ?st = "st\<lparr>hart_state := enter_interrupt H MTI (hart_state st)\<rparr>" and ?d = "driver st"
  have run: "hart_running H W ?h" and sys: "system_ok C P D ?d"
    and cmp: "unat T + 100 + c * 100000 \<le> unat (mtimecmp (rtl (dev ?d)) ! 0)"
    using assms(1) by (simp_all add: firmware_inv_def)
  obtain m where m: "m \<le> n" "mtime (rtl (dev ?d)) = T + of_nat m"
    using assms(1) by (auto simp: firmware_inv_def)
  then have time: "unat (mtime (rtl (dev ?d))) = unat T + m"
    using assms(6) by (simp add: unat_add_small)
  have efile: "csr_file H W firmware_csrs ?e"
    using run by (simp add: hart_running_def enter_interrupt_file)
  have "permitted H CSR_MCAUSE False ?e"
    by (rule csr_usable_permitted [OF csr_file_usable [OF efile]]) simp
  moreover have "csr_value H CSR_MCAUSE ?e = 0x80000007"
    using run assms(2,4)
    by (simp add: hart_running_def firmware_bits_def enter_interrupt_mcause [where W = W]
        csr_machine_fields)
  ultimately obtain j k st' where st': "irq_entry H (soc_mmio C P l64 s64) ?st = Some st'"
    "hart_state st' = ?e" "system_ok C P D (driver st')" "j \<le> k" "k \<le> 15 * (D + 1)"
    "mtime (rtl (dev (driver st'))) = mtime (rtl (dev ?d)) + of_nat k"
    "mtimecmp (rtl (dev (driver st'))) =
      (mtimecmp (rtl (dev ?d)))[0 := mtime (rtl (dev ?d)) + of_nat j + 100000]"
    "\<not> mtip_o P False (rtl (dev (driver st'))) ! 0"
    using irq_entry_rtl [of H ?st C P D l64 s64] sys assms(4-6) m(1) time by auto
  have N: "0 < N_CORES P" "0 < length (mtimecmp (rtl (dev ?d)))"
    using sys system_cmp [OF sys] by (simp_all add: system_ok_def soc_inv_def soc_ok_def params_ok_def)
  then have due: "unat T + 100 + c * 100000 \<le> unat T + m"
    using assms(3) cmp time by (simp add: interrupt_ready_def mtip_o_nth word_le_nat_alt)
  have "unat (mtime (rtl (dev ?d)) + of_nat (j + 100000)) = unat T + m + (j + 100000)"
    using st'(4,5) assms(5,6) m(1) time unat_add_small [of "mtime (rtl (dev ?d))" "j + 100000"] by simp
  then have "unat T + 100 + Suc c * 100000 \<le> unat (mtimecmp (rtl (dev (driver st'))) ! 0)"
    using N due by (simp add: st'(7) add.assoc)
  moreover have t: "mtime (rtl (dev (driver st'))) = T + of_nat (m + k)"
    using st'(6) m(2) by (simp add: add.assoc)
  moreover have "unat (T + of_nat (m + k)) = unat T + (m + k)"
    using m(1) st'(5) assms(5,6) by (intro unat_add_small) simp
  then have "unat T + 100 + c * 100000 \<le> unat (mtime (rtl (dev (driver st'))))"
    using due t by simp
  moreover have "hart_running H W (return_interrupt H ?e)"
    by (rule return_interrupt_running [OF run assms(2,4)])
  moreover have "m + k \<le> n + 15 * (D + 1)" using m(1) st'(5) by simp
  ultimately have "firmware_inv H W C P D T (n + 15 * (D + 1)) (Suc c)
      (st'\<lparr>hart_state := return_interrupt H ?e\<rparr>)"
    using st'(3) by (auto simp: firmware_inv_def)
  moreover have "\<not> interrupt_ready H P (st'\<lparr>hart_state := return_interrupt H ?e\<rparr>)"
    using st'(8) by (simp add: interrupt_ready_def)
  ultimately show ?thesis
    using st'(1,2) by (simp add: handle_interrupt_def)
qed

text \<open>Idle cycles of the platform are cycles of the RTL, and long enough a wait reaches the deadline.\<close>

lemma rtl_soc_idle: "rtl (soc_idle C P i k \<sigma>) = clint_run C P (replicate k i) (rtl \<sigma>)"
  by (induction k arbitrary: \<sigma>) simp_all

lemma free_running_idle: "free_running (bus_idle a v) \<and> \<not> mtimecmp_hit P (bus_idle a v)"
  by (simp add: free_running_def mtime_hit_def mtimecmp_hit_def bus_idle_def)

lemma let_pass_ready:
  fixes H :: "('h, 'x::len word) hart"
  assumes "firmware_inv H W C P D T n c st" and "firmware_bits W" and "ticking P"
    and "LENGTH('x) = 32" and "unat T + n + k < 2 ^ 64"
    and "(unat (mtimecmp (rtl (dev (driver st))) ! 0) - unat (mtime (rtl (dev (driver st)))) + 1)
      * tick_period P \<le> k"
  shows "interrupt_ready H P (let_pass C P k st)"
proof -
  let ?s = "rtl (dev (driver st))" and ?is = "replicate k (bus_idle 0 0)"
  let ?q = "(phase P ?s + k - 1) div tick_period P"
  have sys: "system_ok C P D (driver st)" and run: "hart_running H W (hart_state st)"
    using assms(1) by (simp_all add: firmware_inv_def)
  then have ok: "cells_ok C" "prescaler_ok P ?s" "0 < N_CORES P"
    using assms(3) by (simp_all add: system_ok_def soc_inv_def soc_ok_def params_ok_def)
  obtain m where m: "m \<le> n" "mtime ?s = T + of_nat m"
    using assms(1) by (auto simp: firmware_inv_def)
  have p: "0 < tick_period P" using assms(3) by (simp add: ticking_def)
  note q = ticks_bounds [OF p phase_le [OF ok(2)]]
  have idle: "list_all free_running ?is" "list_all (\<lambda>i. free_running i \<and> \<not> mtimecmp_hit P i) ?is"
    using free_running_idle by (auto simp: list_all_iff)
  have "mtime (clint_run C P ?is ?s) = mtime ?s + of_nat ?q"
    using mtime_run [OF ok(1) assms(3) ok(2) idle(1)] by simp
  moreover have "unat (mtime ?s) = unat T + m"
    using m assms(5) by (simp add: unat_add_small)
  then have "unat (mtime ?s) + ?q < 2 ^ 64"
    using m(1) q(1) [of k] assms(5) by linarith
  ultimately have "unat (mtime (clint_run C P ?is ?s)) = unat (mtime ?s) + ?q"
    by (simp only: unat_add_small)
  then have "mtimecmp ?s ! 0 \<le> mtime (clint_run C P ?is ?s)"
    using q(2) [OF assms(6)] by (simp add: word_le_nat_alt)
  then have "mtip_o P False (clint_run C P ?is ?s) ! 0"
    using ok(3) mtimecmp_run [OF idle(2)] by (simp add: mtip_o_nth)
  moreover have "bit (csr_value H CSR_MIE (hart_state st) AND W CSR_MIE) (RISCV_INT_POS MTI)"
    using run assms(4) by (simp add: hart_running_def bit_RISCV_INT_MASK del: RISCV_INT_POS.simps)
  ultimately show ?thesis
    using run by (simp add: interrupt_ready_def let_pass_def rtl_soc_idle hart_running_def bit_simps)
qed

lemma firmware_reach_inv:
  fixes l64 :: "'x::len word \<Rightarrow> soc \<Rightarrow> (u64 \<times> soc) option"
  assumes "firmware_reach cfg H (soc_mmio C P l64 s64) C P D st0 n c p st"
    and "csr_file H W firmware_csrs (hart_state st0)" and "firmware_bits W"
    and "soc_inv C P D (CLINT0_BASE cfg) (dev (driver st0))"
    and "LENGTH('x) = 32" and "15 * (D + 1) < 100000"
  shows "unat (mtime (rtl (dev (driver st0)))) + n + 200000 < 2 ^ 64 \<Longrightarrow>
    firmware_inv H W C P D (mtime (rtl (dev (driver st0)))) n c st"
  using assms(1)
proof (induction rule: firmware_reach.induct)
  case (started st)
  then show ?case
    using firmware_inv_started [OF assms(2-6) refl] by simp
next
  case (passing n c p st k)
  then show ?case by (intro let_pass_inv) simp_all
next
  case (interrupted n c p st st')
  then show ?case
    using handle_interrupt_inv [of H W C P D _ n c st l64 s64] assms(3,5,6) by fastforce
qed (simp_all add: firmware_inv_def)

subsection \<open>Properties\<close>

text \<open>C10: no interrupt storm. In every state the firmware can reach, however its steps, the passing of
  clock cycles and the interrupts interleave (while \<open>mtime\<close> is far from wrapping), interrupts are
  enabled, the device works, and after \<open>c\<close> interrupts the next deadline is at least
  \<open>100 + 100000 * c\<close> ticks after the start, and the last interrupt was not before its own: at most one
  interrupt per second is taken.\<close>

theorem firmware_interrupt_rate:
  fixes l64 :: "'x::len word \<Rightarrow> soc \<Rightarrow> (u64 \<times> soc) option"
  assumes "firmware_reach cfg H (soc_mmio C P l64 s64) C P D st0 n c p st"
    and "csr_file H W firmware_csrs (hart_state st0)" and "firmware_bits W"
    and "soc_inv C P D (CLINT0_BASE cfg) (dev (driver st0))"
    and "LENGTH('x) = 32" and "15 * (D + 1) < 100000"
    and "unat (mtime (rtl (dev (driver st0)))) + n + 200000 < 2 ^ 64"
  shows "bit (csr_value H CSR_MSTATUS (hart_state st)) 3 \<and> system_ok C P D (driver st) \<and>
    unat (mtime (rtl (dev (driver st0)))) + 100 + c * 100000
      \<le> unat (mtimecmp (rtl (dev (driver st))) ! 0) \<and>
    (0 < c \<longrightarrow> unat (mtime (rtl (dev (driver st0)))) + 100 + (c - 1) * 100000
      \<le> unat (mtime (rtl (dev (driver st)))))"
  using firmware_reach_inv [OF assms] by (simp add: firmware_inv_def hart_running_def)

text \<open>The concrete machine after its set-up.\<close>

lemma demo_firmware:
  shows "\<exists>st. firmware_reach demo_config (demo_hart Machine) demo_mmio std_cells default_params 7
      (demo_machine 0 5 [3, 0, 7]) 120 0 Waiting st \<and> unat (mtimecmp (rtl (dev (driver st))) ! 0) \<le> 225"
  and "soc_inv std_cells default_params 7 (CLINT0_BASE demo_config) (dev (driver (demo_machine 0 5 [3, 0, 7])))"
  and "firmware_bits (\<lambda>_. - 1 :: u32)"
  and "mtime (rtl (dev (driver (demo_machine 0 5 [3, 0, 7])))) = 5"
proof -
  show inv: "soc_inv std_cells default_params 7 (CLINT0_BASE demo_config) (dev (driver (demo_machine 0 5 [3, 0, 7])))"
    by (rule demo_boot(1))
  show "firmware_bits (\<lambda>_. - 1 :: u32)" by (simp add: firmware_bits_def)
  show "mtime (rtl (dev (driver (demo_machine 0 5 [3, 0, 7])))) = 5"
    by (simp add: demo_machine_def demo_drv_def)
  have regs: "mtime (rtl (dev (driver (demo_machine 0 5 [3, 0, 7])))) = 5"
    "mtimecmp (rtl (dev (driver (demo_machine 0 5 [3, 0, 7])))) = [- 1]"
    by (simp_all add: demo_machine_def demo_drv_def)
  from main_setup_rtl [OF demo_csr_file demo_boot(2,3,1) _ demo_boot(4), of "\<lambda>_ _. None" "\<lambda>_ _ _. None"]
  obtain n m st where st: "n \<le> m" "m \<le> 120" "mtimecmp (rtl (dev (driver st))) = [- 1][0 := 5 + of_nat n + 100]"
    "main_setup demo_config (demo_hart Machine) demo_mmio (demo_machine 0 5 [3, 0, 7]) = Some st"
    unfolding demo_mmio_def regs by auto
  have "unat (5 + of_nat (n + 100) :: u64) = 5 + (n + 100)"
    using st(1,2) unat_add_small [of 5 "n + 100"] by simp
  then have "unat (mtimecmp (rtl (dev (driver st))) ! 0) \<le> 225"
    using st(1-3) by (simp add: add.assoc)
  moreover from firmware_reach.started [OF st(4), of std_cells default_params 7]
  have "firmware_reach demo_config (demo_hart Machine) demo_mmio std_cells default_params 7
      (demo_machine 0 5 [3, 0, 7]) 120 0 Waiting st" by simp
  ultimately show "\<exists>st. firmware_reach demo_config (demo_hart Machine) demo_mmio std_cells default_params 7
      (demo_machine 0 5 [3, 0, 7]) 120 0 Waiting st \<and> unat (mtimecmp (rtl (dev (driver st))) ! 0) \<le> 225"
    by blast
qed

lemma firmware_interrupt_rate_witness:
  "\<exists>st. firmware_reach demo_config (demo_hart Machine) demo_mmio std_cells default_params 7
      (demo_machine 0 5 [3, 0, 7]) 120 0 Waiting st \<and> 105 \<le> unat (mtimecmp (rtl (dev (driver st))) ! 0)"
proof -
  obtain st where st: "firmware_reach demo_config (demo_hart Machine) demo_mmio std_cells default_params 7
      (demo_machine 0 5 [3, 0, 7]) 120 0 Waiting st" using demo_firmware(1) by blast
  then show ?thesis
    using firmware_interrupt_rate [OF st [unfolded demo_mmio_def] demo_csr_file demo_firmware(3,2)]
    by (auto simp: demo_firmware(4))
qed

text \<open>C11: the tick goes on. From every reachable state before the end of \<open>main\<close>, once as many clock
  cycles have passed as the ticks to the deadline take, the timer interrupt is pending and
  enabled; the handler entered for it returns, and leaves the interrupt no longer pending and the
  firmware in a reachable state, where it can go on.\<close>

theorem firmware_next_interrupt:
  fixes l64 :: "'x::len word \<Rightarrow> soc \<Rightarrow> (u64 \<times> soc) option"
  assumes "firmware_reach cfg H (soc_mmio C P l64 s64) C P D st0 n c p st" and "p \<noteq> Finished"
    and "csr_file H W firmware_csrs (hart_state st0)" and "firmware_bits W"
    and "soc_inv C P D (CLINT0_BASE cfg) (dev (driver st0))"
    and "LENGTH('x) = 32" and "15 * (D + 1) < 100000" and "ticking P"
    and "unat (mtime (rtl (dev (driver st0)))) + n + k + 200000 < 2 ^ 64"
    and "(unat (mtimecmp (rtl (dev (driver st))) ! 0) - unat (mtime (rtl (dev (driver st)))) + 1)
      * tick_period P \<le> k"
  shows "interrupt_ready H P (let_pass C P k st) \<and>
    (\<exists>st'. handle_interrupt H (soc_mmio C P l64 s64) (let_pass C P k st) = Some st' \<and>
      \<not> interrupt_ready H P st' \<and>
      firmware_reach cfg H (soc_mmio C P l64 s64) C P D st0 (n + k + 15 * (D + 1)) (Suc c) p st')"
proof -
  have bounds: "unat (mtime (rtl (dev (driver st0)))) + n + 200000 < 2 ^ 64"
    "unat (mtime (rtl (dev (driver st0)))) + n + k < 2 ^ 64"
    using assms(9) by linarith+
  have inv: "firmware_inv H W C P D (mtime (rtl (dev (driver st0)))) n c st"
    by (rule firmware_reach_inv [OF assms(1,3-7) bounds(1)])
  then have ready: "interrupt_ready H P (let_pass C P k st)"
    by (rule let_pass_ready [OF _ assms(4,8,6) bounds(2) assms(10)])
  have "firmware_inv H W C P D (mtime (rtl (dev (driver st0)))) (n + k) c (let_pass C P k st)"
    by (rule let_pass_inv [OF inv bounds(2)])
  from handle_interrupt_inv [OF this assms(4) ready assms(6,7), of l64 s64]
  obtain st' where st': "handle_interrupt H (soc_mmio C P l64 s64) (let_pass C P k st) = Some st'"
    "\<not> interrupt_ready H P st'" using assms(9) by auto
  from firmware_reach.interrupted [OF firmware_reach.passing [OF assms(1)] assms(2) ready st'(1)]
  show ?thesis using ready st' by blast
qed

lemma firmware_next_interrupt_witness:
  "\<exists>st k st'. handle_interrupt (demo_hart Machine) demo_mmio (let_pass std_cells default_params k st) = Some st' \<and>
     \<not> interrupt_ready (demo_hart Machine) default_params st' \<and>
     firmware_reach demo_config (demo_hart Machine) demo_mmio std_cells default_params 7
       (demo_machine 0 5 [3, 0, 7]) (120 + k + 120) 1 Waiting st'"
proof -
  obtain st where st: "firmware_reach demo_config (demo_hart Machine) demo_mmio std_cells default_params 7
      (demo_machine 0 5 [3, 0, 7]) 120 0 Waiting st" "unat (mtimecmp (rtl (dev (driver st))) ! 0) \<le> 225"
    using demo_firmware(1) by blast
  have tick: "ticking default_params" "tick_period default_params = 1000"
    by (simp_all add: ticking_def tick_period_def default_params_def)
  have "(unat (mtimecmp (rtl (dev (driver st))) ! 0) - unat (mtime (rtl (dev (driver st)))) + 1)
      * tick_period default_params \<le> 226000" using st(2) tick(2) by simp
  note next_irq = firmware_next_interrupt [OF st(1) [unfolded demo_mmio_def] _ demo_csr_file
      demo_firmware(3,2) _ _ tick(1) _ this]
  show ?thesis
    by (rule exI [of _ st], rule exI [of _ 226000])
      (use next_irq in \<open>auto simp: demo_firmware(4) demo_mmio_def\<close>)
qed

end
