(* ===== verification/Start_Up.thy ===== *)
theory Start_Up
  imports Firmware_Interrupts
begin

text \<open>
  \<open>example_firmware.S\<close>: the start-up code before \<open>main\<close> and the reboot sequence after it, as a list
  of instructions over the five registers it uses, and the transition system of its execution:
  instructions, clock cycles that pass, the call of \<open>main\<close> (a run of \<open>firmware_reach\<close>, with its
  interrupts) and its return, interrupts outside \<open>main\<close>. The memory size, the boot controller's
  addresses and the addresses of the instructions come from headers and tools outside the
  repository (\<open>boot_config\<close>); the store to the boot controller, which is not part of the device,
  is recorded. \<open>main\<close> and the interrupt handler return with the registers of their caller, as the
  calling convention and the handler's \<open>interrupt\<close> attribute have it. What \<open>ebreak\<close> and the
  requested reset lead to is outside the repository: the run ends there.
\<close>

subsection \<open>Instructions\<close>

datatype reg = Ra | Gp | Sp | S5 | S6

datatype instruction =
    La reg int
  | Lui reg "20 word"
  | Addi reg reg "12 word"
  | Jal reg string
  | Li reg int
  | Sw reg reg "12 word"
  | Ebreak

record 'x boot_config =
  FIRM_ADDR_W :: nat
  BOOTCTR_BASE :: int
  EXTRA_BASE :: "int option"
  code_address :: "nat \<Rightarrow> 'x"

text \<open>The relocations \<open>%hi\<close> and \<open>%lo\<close>: \<open>addi\<close> sign-extends its immediate, which \<open>%hi\<close> makes up for.\<close>

definition reloc_hi :: "int \<Rightarrow> 20 word" where
  "reloc_hi n = of_int ((n + 0x800) div 2 ^ 12)"

definition reloc_lo :: "int \<Rightarrow> 12 word" where
  "reloc_lo n = of_int n"

text \<open>The section \<open>.init\<close>. With \<open>RUN_EXTMEM\<close> the address of the boot controller has the bits of
  \<open>EXTRA_BASE\<close> too.\<close>

definition init_section :: "'x boot_config \<Rightarrow> instruction list" where
  "init_section B =
     [La Gp 0x800,
      Lui Sp (reloc_hi (2 ^ FIRM_ADDR_W B)),
      Addi Sp Sp (reloc_lo (2 ^ FIRM_ADDR_W B)),
      Jal Ra ''main'',
      Li S5 3,
      (case EXTRA_BASE B of Some e \<Rightarrow> Li S6 (BOOTCTR_BASE B OR e) | None \<Rightarrow> Li S6 (BOOTCTR_BASE B)),
      Sw S5 S6 0,
      Ebreak]"

subsection \<open>Execution\<close>

datatype place = At nat | In_main point | Stopped

record ('h, 'x) board =
  place :: place
  regfile :: "reg \<Rightarrow> 'x"
  stores :: "('x \<times> u32) list"
  platform :: "('h, soc) machine"

definition lui :: "20 word \<Rightarrow> 'x::len word" where
  "lui imm = scast (push_bit 12 (ucast imm) :: 32 word)"

definition addi :: "'x::len word \<Rightarrow> 12 word \<Rightarrow> 'x word" where
  "addi x imm = x + scast imm"

definition set_reg :: "reg \<Rightarrow> 'x \<Rightarrow> ('h, 'x) board \<Rightarrow> ('h, 'x) board" where
  "set_reg r v b = b\<lparr>regfile := (regfile b)(r := v)\<rparr>"

text \<open>The instruction at index \<open>k\<close>, except a call.\<close>

fun execute :: "nat \<Rightarrow> instruction \<Rightarrow> ('h, 'x::len word) board \<Rightarrow> ('h, 'x word) board option" where
  "execute k (La r n) b = Some (set_reg r (of_int n) b\<lparr>place := At (Suc k)\<rparr>)"
| "execute k (Li r n) b = Some (set_reg r (of_int n) b\<lparr>place := At (Suc k)\<rparr>)"
| "execute k (Lui r imm) b = Some (set_reg r (lui imm) b\<lparr>place := At (Suc k)\<rparr>)"
| "execute k (Addi r s imm) b = Some (set_reg r (addi (regfile b s) imm) b\<lparr>place := At (Suc k)\<rparr>)"
| "execute k (Sw s r imm) b =
     Some (b\<lparr>stores := stores b @ [(addi (regfile b r) imm, ucast (regfile b s))], place := At (Suc k)\<rparr>)"
| "execute k Ebreak b = Some (b\<lparr>place := Stopped\<rparr>)"
| "execute k (Jal r f) b = None"

text \<open>\<open>boot_reach ... n c b\<close>: from \<open>b0\<close>, the firmware image can be in \<open>b\<close> after at most \<open>n\<close> clock cycles
  and \<open>c\<close> interrupts.\<close>

inductive boot_reach ::
  "'x::len word boot_config \<Rightarrow> 'x word config \<Rightarrow> ('h, 'x word) hart \<Rightarrow> ('x word, soc) mmio \<Rightarrow> cells \<Rightarrow>
   params \<Rightarrow> nat \<Rightarrow> ('h, 'x word) board \<Rightarrow> nat \<Rightarrow> nat \<Rightarrow> ('h, 'x word) board \<Rightarrow> bool"
  for B cfg H M C P D b0 where
  begins: "boot_reach B cfg H M C P D b0 0 0 b0"
| executes: "boot_reach B cfg H M C P D b0 n c b \<Longrightarrow> place b = At k \<Longrightarrow> k < length (init_section B) \<Longrightarrow>
     execute k (init_section B ! k) b = Some b' \<Longrightarrow> boot_reach B cfg H M C P D b0 n c b'"
| calls: "boot_reach B cfg H M C P D b0 n c b \<Longrightarrow> place b = At k \<Longrightarrow> k < length (init_section B) \<Longrightarrow>
     init_section B ! k = Jal r ''main'' \<Longrightarrow> firmware_reach cfg H M C P D (platform b) n' c' p st \<Longrightarrow>
     boot_reach B cfg H M C P D b0 (n + n') (c + c')
       (set_reg r (code_address B (Suc k)) b\<lparr>place := In_main p, platform := st\<rparr>)"
| returns: "boot_reach B cfg H M C P D b0 n c b \<Longrightarrow> place b = In_main Finished \<Longrightarrow>
     k < length (init_section B) \<Longrightarrow> regfile b Ra = code_address B k \<Longrightarrow>
     boot_reach B cfg H M C P D b0 n c (b\<lparr>place := At k\<rparr>)"
| elapses: "boot_reach B cfg H M C P D b0 n c b \<Longrightarrow> place b = At k \<Longrightarrow>
     boot_reach B cfg H M C P D b0 (n + i) c (b\<lparr>platform := let_pass C P i (platform b)\<rparr>)"
| interrupts: "boot_reach B cfg H M C P D b0 n c b \<Longrightarrow> place b = At k \<Longrightarrow>
     interrupt_ready H P (platform b) \<Longrightarrow> handle_interrupt H M (platform b) = Some st \<Longrightarrow>
     boot_reach B cfg H M C P D b0 (n + 15 * (D + 1)) (Suc c) (b\<lparr>platform := st\<rparr>)"

subsection \<open>The stack pointer\<close>

lemma sint_power:
  assumes "k < LENGTH('a::len) - 1"
  shows "sint (2 ^ k :: 'a word) = 2 ^ k"
proof -
  have "sint (of_int (2 ^ k) :: 'a word) = signed_take_bit (LENGTH('a) - 1) (2 ^ k)"
    by (simp only: sint_sbintrunc')
  also have "\<dots> = 2 ^ k"
  proof (rule signed_take_bit_int_eq_self)
    show "- (2 ^ (LENGTH('a) - 1)) \<le> (2 ^ k :: int)"
      by (rule order_trans [of _ 0]) simp_all
    show "(2 ^ k :: int) < 2 ^ (LENGTH('a) - 1)" using assms by (simp add: power_strict_increasing)
  qed
  finally show ?thesis by simp
qed

text \<open>The two parts add up: below bit 11 all is in the low part, at bit 11 the low part is negative,
  above it all is in the high part.\<close>

lemma stack_top_parts:
  assumes "W < 31"
  shows "sint (push_bit 12 (ucast (reloc_hi (2 ^ W))) :: 32 word) + sint (reloc_lo (2 ^ W)) = 2 ^ W"
proof -
  consider "W < 11" | "W = 11" | "12 \<le> W" by linarith
  then show ?thesis
  proof cases
    case 1
    have "(2 ^ W :: int) < 2 ^ 11" by (rule power_strict_increasing [OF 1]) simp
    then have "((2 ^ W :: int) + 0x800) div 2 ^ 12 = 0" by simp
    then show ?thesis using 1 sint_power [where 'a = 12, of W] by (simp add: reloc_hi_def reloc_lo_def)
  next
    case 2
    then show ?thesis by (simp add: reloc_hi_def reloc_lo_def)
  next
    case 3
    then obtain m where m: "W = 12 + m" by (rule le_Suc_ex [THEN exE])
    then have "m < 19" using assms by simp
    have "((2 ^ W :: int) + 0x800) div 2 ^ 12 = 2 ^ m" by (simp add: m power_add)
    then have "reloc_hi (2 ^ W) = push_bit m 1" by (simp add: reloc_hi_def)
    moreover have "push_bit 12 (ucast (push_bit m 1 :: 20 word)) = (push_bit W 1 :: 32 word)"
      using m \<open>m < 19\<close> by (intro bit_word_eqI) (auto simp: bit_simps)
    moreover have "reloc_lo (2 ^ W) = 0" 
      by (simp only: reloc_lo_def m power_add word_of_int_eq_0_iff) simp
    ultimately show ?thesis using sint_power [where 'a = 32, of W] assms by simp
  qed
qed

lemma stack_top:
  assumes "W < 31"
  shows "addi (lui (reloc_hi (2 ^ W))) (reloc_lo (2 ^ W)) = (2 ^ W :: 'x::len word)"
proof -
  have "addi (lui (reloc_hi (2 ^ W))) (reloc_lo (2 ^ W)) =
      (of_int (sint (push_bit 12 (ucast (reloc_hi (2 ^ W))) :: 32 word) + sint (reloc_lo (2 ^ W))) :: 'x word)"
    by (simp only: addi_def lui_def of_int_add of_int_sint)
  also have "\<dots> = 2 ^ W"
    by (simp only: stack_top_parts [OF assms]) simp
  finally show ?thesis .
qed

subsection \<open>The invariant\<close>

lemma firmware_reach_events:
  assumes "firmware_reach cfg H M C P D st0 n c p st"
  shows "p = Finished \<Longrightarrow> Uart_finish \<in> set (events st)"
  using assms by (induction rule: firmware_reach.induct) (simp_all add: let_pass_def emit_def)

lemma handle_interrupt_events:
  assumes "handle_interrupt H M st = Some st'"
  shows "set (events st) \<subseteq> set (events st')"
proof -
  have irq: "set (events st) \<subseteq> set (events st')" if "irq_entry H M st = Some st'" for st st'
    using that
    by (auto simp: irq_entry_def on_hart_def on_driver_def call_driver_def emit_def print_line_def Let_def
        split: if_splits sum.splits Option.bind_splits)
  show ?thesis
    using assms by (auto simp: handle_interrupt_def split: Option.bind_splits dest!: irq)
qed

text \<open>The device and the hart before \<open>main\<close>: interrupts are off, as after reset. \<open>T\<close> is \<open>mtime\<close> at
  the start.\<close>

definition booting ::
  "('h, 'x::len word) hart \<Rightarrow> (csr \<Rightarrow> 'x word) \<Rightarrow> cells \<Rightarrow> params \<Rightarrow> nat \<Rightarrow> int \<Rightarrow> u64 \<Rightarrow> nat \<Rightarrow>
   ('h, soc) machine \<Rightarrow> bool" where
  "booting H W C P D base T n st \<longleftrightarrow>
     csr_file H W firmware_csrs (hart_state st) \<and> \<not> bit (csr_value H CSR_MSTATUS (hart_state st)) 3 \<and>
     soc_inv C P D base (dev (driver st)) \<and> unat (mtime (rtl (dev (driver st)))) \<le> unat T + n"

lemma booting_elapses:
  assumes "booting H W C P D base T n st" and "unat T + n + k < 2 ^ 64"
  shows "booting H W C P D base T (n + k) (let_pass C P k st)"
proof -
  let ?s = "dev (driver st)"
  have ok: "soc_ok C P D ?s" using assms(1) by (simp add: booting_def soc_inv_def)
  obtain d where d: "d \<le> k" "view (soc_idle C P (bus_idle 0 0) k ?s) = advance d (view ?s)"
    "soc_ok C P D (soc_idle C P (bus_idle 0 0) k ?s)"
    using soc_idle_effect [OF ok, of k 0 0] by blast
  have "unat (mtime (rtl ?s)) + d < 2 ^ 64" using assms d(1) by (simp add: booting_def)
  then have "unat (mtime (rtl ?s) + of_nat d) = unat (mtime (rtl ?s)) + d" by (rule unat_add_small)
  then show ?thesis
    using assms d view_advanceD [OF d(2)] by (simp add: booting_def soc_inv_def let_pass_def)
qed

text \<open>After it started.\<close>

definition running ::
  "('h, 'x::len word) hart \<Rightarrow> (csr \<Rightarrow> 'x word) \<Rightarrow> cells \<Rightarrow> params \<Rightarrow> nat \<Rightarrow> u64 \<Rightarrow> nat \<Rightarrow>
   ('h, soc) machine \<Rightarrow> bool" where
  "running H W C P D T n st \<longleftrightarrow>
     (\<exists>T' n' c. unat T' + n' \<le> unat T + n \<and> firmware_inv H W C P D T' n' c st)"

lemma running_started:
  fixes l64 :: "'x::len word \<Rightarrow> soc \<Rightarrow> (u64 \<times> soc) option"
  assumes "booting H W C P D (CLINT0_BASE cfg) T n st"
    and "firmware_reach cfg H (soc_mmio C P l64 s64) C P D st n' c p st'"
    and "firmware_bits W" and "LENGTH('x) = 32" and "15 * (D + 1) < 100000"
    and "unat T + (n + n') + 200000 < 2 ^ 64"
  shows "running H W C P D T (n + n') st'"
proof -
  let ?T = "mtime (rtl (dev (driver st)))"
  have le: "unat ?T + n' \<le> unat T + (n + n')" using assms(1) by (simp add: booting_def)
  have "firmware_inv H W C P D ?T n' c st'"
    by (rule firmware_reach_inv [OF assms(2) _ assms(3) _ assms(4,5)])
      (use assms(1,6) le in \<open>auto simp: booting_def\<close>)
  with le show ?thesis unfolding running_def by (intro exI conjI)
qed

lemma running_elapses:
  assumes "running H W C P D T n st" and "unat T + n + k < 2 ^ 64"
  shows "running H W C P D T (n + k) (let_pass C P k st)"
proof -
  obtain T' n' c where inv: "unat T' + n' \<le> unat T + n" "firmware_inv H W C P D T' n' c st"
    using assms(1) by (auto simp: running_def)
  moreover have "unat T' + n' + k < 2 ^ 64" using inv(1) assms(2) by linarith
  ultimately have "firmware_inv H W C P D T' (n' + k) c (let_pass C P k st)" by (simp add: let_pass_inv)
  then show ?thesis using inv(1) unfolding running_def by (intro exI conjI) simp_all
qed

lemma running_interrupts:
  fixes l64 :: "'x::len word \<Rightarrow> soc \<Rightarrow> (u64 \<times> soc) option"
  assumes "running H W C P D T n st" and "firmware_bits W" and "interrupt_ready H P st"
    and "LENGTH('x) = 32" and "15 * (D + 1) < 100000" and "unat T + n + 200000 < 2 ^ 64"
    and "handle_interrupt H (soc_mmio C P l64 s64) st = Some st'"
  shows "running H W C P D T (n + 15 * (D + 1)) st'"
proof -
  obtain T' n' c where inv: "unat T' + n' \<le> unat T + n" "firmware_inv H W C P D T' n' c st"
    using assms(1) by (auto simp: running_def)
  then have "unat T' + n' + 200000 < 2 ^ 64" using assms(6) by linarith
  from handle_interrupt_inv [OF inv(2) assms(2-5) this, of l64 s64] assms(7)
  have "firmware_inv H W C P D T' (n' + 15 * (D + 1)) (Suc c) st'" by simp
  then show ?thesis using inv(1) unfolding running_def by (intro exI conjI) simp_all
qed

text \<open>The registers and the stores at an instruction \<open>k\<close>, up to the call and after it.\<close>

definition boot_address :: "'x::len word boot_config \<Rightarrow> 'x word" where
  "boot_address B =
     of_int (case EXTRA_BASE B of Some e \<Rightarrow> BOOTCTR_BASE B OR e | None \<Rightarrow> BOOTCTR_BASE B)"

definition regs_before :: "'x::len word boot_config \<Rightarrow> nat \<Rightarrow> ('h, 'x word) board \<Rightarrow> bool" where
  "regs_before B k b \<longleftrightarrow> stores b = [] \<and> (1 \<le> k \<longrightarrow> regfile b Gp = 0x800) \<and>
     (k = 2 \<longrightarrow> regfile b Sp = lui (reloc_hi (2 ^ FIRM_ADDR_W B))) \<and>
     (3 \<le> k \<longrightarrow> regfile b Sp = 2 ^ FIRM_ADDR_W B)"

definition regs_after :: "'x::len word boot_config \<Rightarrow> nat \<Rightarrow> ('h, 'x word) board \<Rightarrow> bool" where
  "regs_after B k b \<longleftrightarrow> stores b = (if 7 \<le> k then [(boot_address B, 3)] else []) \<and>
     regfile b Gp = 0x800 \<and> regfile b Sp = 2 ^ FIRM_ADDR_W B \<and> regfile b Ra = code_address B 4 \<and>
     (5 \<le> k \<longrightarrow> regfile b S5 = 3) \<and> (6 \<le> k \<longrightarrow> regfile b S6 = boot_address B)"

definition boot_inv ::
  "'x::len word boot_config \<Rightarrow> ('h, 'x word) hart \<Rightarrow> (csr \<Rightarrow> 'x word) \<Rightarrow> cells \<Rightarrow> params \<Rightarrow> nat \<Rightarrow> int \<Rightarrow>
   u64 \<Rightarrow> nat \<Rightarrow> ('h, 'x word) board \<Rightarrow> bool" where
  "boot_inv B H W C P D base T n b \<longleftrightarrow>
     (case place b of
        At k \<Rightarrow> k < 8 \<and> (if k \<le> 3 then regs_before B k b \<and> booting H W C P D base T n (platform b)
          else regs_after B k b \<and> running H W C P D T n (platform b) \<and> Uart_finish \<in> set (events (platform b)))
      | In_main p \<Rightarrow> regs_after B 4 b \<and> running H W C P D T n (platform b) \<and>
          (p = Finished \<longrightarrow> Uart_finish \<in> set (events (platform b)))
      | Stopped \<Rightarrow> regs_after B 8 b \<and> running H W C P D T n (platform b) \<and>
          Uart_finish \<in> set (events (platform b)))"

lemma let_pass_events [simp]: "events (let_pass C P k st) = events st"
  by (simp add: let_pass_def)

lemma less_8_cases: "(k :: nat) < 8 \<Longrightarrow> k \<in> {0, 1, 2, 3, 4, 5, 6, 7}"
  by auto

lemma init_section_length [simp]: "length (init_section B) = 8"
  by (simp add: init_section_def)

lemma ucast_three: "LENGTH('x::len) = 32 \<Longrightarrow> (ucast (3 :: 'x word) :: u32) = 3"
  by (simp add: unsigned_ucast_eq take_bit_nat_eq_self)

lemma boot_inv_executes:
  assumes "boot_inv B H W C P D base T n b" and "place b = At k" and "k < length (init_section B)"
    and "execute k (init_section B ! k) b = Some b'" and "FIRM_ADDR_W B < 31" and "LENGTH('x::len) = 32"
  shows "boot_inv (B :: 'x word boot_config) H W C P D base T n b'"
  using assms(1-4) less_8_cases [of k] stack_top [OF assms(5), where 'x = 'x] ucast_three [OF assms(6)]
  by (auto simp: boot_inv_def init_section_def regs_before_def regs_after_def set_reg_def boot_address_def
      addi_def split: option.splits)

lemma boot_inv_calls:
  fixes l64 :: "'x::len word \<Rightarrow> soc \<Rightarrow> (u64 \<times> soc) option"
  assumes "boot_inv B H W C P D (CLINT0_BASE cfg) T n b" and "place b = At k" and "k < length (init_section B)"
    and "init_section B ! k = Jal r ''main''"
    and "firmware_reach cfg H (soc_mmio C P l64 s64) C P D (platform b) n' c' p st"
    and "firmware_bits W" and "LENGTH('x) = 32" and "15 * (D + 1) < 100000"
    and "unat T + (n + n') + 200000 < 2 ^ 64"
  shows "boot_inv B H W C P D (CLINT0_BASE cfg) T (n + n')
    (set_reg r (code_address B (Suc k)) b\<lparr>place := In_main p, platform := st\<rparr>)"
proof -
  have k: "k = 3" "r = Ra"
    using less_8_cases [of k] assms(3,4) by (auto simp: init_section_def split: option.splits)
  then have b: "regs_before B 3 b" "booting H W C P D (CLINT0_BASE cfg) T n (platform b)"
    using assms(1,2) by (simp_all add: boot_inv_def)
  have "running H W C P D T (n + n') st"
    by (rule running_started [OF b(2) assms(5-9)])
  then show ?thesis
    using b(1) firmware_reach_events [OF assms(5)] k
    by (simp add: boot_inv_def regs_before_def regs_after_def set_reg_def)
qed

lemma boot_inv_returns:
  assumes "boot_inv B H W C P D base T n b" and "place b = In_main Finished"
    and "k < length (init_section B)" and "regfile b Ra = code_address B k"
    and "inj_on (code_address B) {..<8}"
  shows "boot_inv B H W C P D base T n (b\<lparr>place := At k\<rparr>)"
proof -
  have "code_address B k = code_address B 4"
    using assms(1,2,4) by (simp add: boot_inv_def regs_after_def)
  then have "k = 4" using assms(3) by (simp add: inj_onD [OF assms(5)])
  then show ?thesis using assms(1,2) by (simp add: boot_inv_def regs_after_def)
qed

lemma boot_inv_elapses:
  assumes "boot_inv B H W C P D base T n b" and "place b = At k" and "unat T + n + i < 2 ^ 64"
  shows "boot_inv B H W C P D base T (n + i) (b\<lparr>platform := let_pass C P i (platform b)\<rparr>)"
  using assms booting_elapses [OF _ assms(3)] running_elapses [OF _ assms(3)]
  by (auto simp: boot_inv_def regs_before_def regs_after_def)

lemma boot_inv_interrupts:
  fixes l64 :: "'x::len word \<Rightarrow> soc \<Rightarrow> (u64 \<times> soc) option"
  assumes "boot_inv B H W C P D base T n b" and "place b = At k"
    and "interrupt_ready H P (platform b)"
    and "handle_interrupt H (soc_mmio C P l64 s64) (platform b) = Some st"
    and "firmware_bits W" and "LENGTH('x) = 32" and "15 * (D + 1) < 100000"
    and "unat T + n + 200000 < 2 ^ 64"
  shows "boot_inv B H W C P D base T (n + 15 * (D + 1)) (b\<lparr>platform := st\<rparr>)"
proof -
  have "\<not> k \<le> 3"
    using assms(1-3) by (auto simp: boot_inv_def booting_def interrupt_ready_def split: if_splits)
  then show ?thesis
    using assms(1,2) running_interrupts [OF _ assms(5,3,6-8,4)] handle_interrupt_events [OF assms(4)]
    by (auto simp: boot_inv_def regs_after_def)
qed

lemma boot_reach_inv:
  fixes l64 :: "'x::len word \<Rightarrow> soc \<Rightarrow> (u64 \<times> soc) option"
  assumes "boot_reach B cfg H (soc_mmio C P l64 s64) C P D b0 n c b"
    and "place b0 = At 0" and "stores b0 = []"
    and "booting H W C P D (CLINT0_BASE cfg) T 0 (platform b0)"
    and "firmware_bits W" and "LENGTH('x) = 32" and "15 * (D + 1) < 100000"
    and "FIRM_ADDR_W B < 31" and "inj_on (code_address B) {..<8}"
  shows "unat T + n + 200000 < 2 ^ 64 \<Longrightarrow> boot_inv B H W C P D (CLINT0_BASE cfg) T n b"
  using assms(1)
proof (induction rule: boot_reach.induct)
  case begins
  then show ?case using assms(2-4) by (simp add: boot_inv_def regs_before_def)
next
  case (executes n c b k b')
  then show ?case using boot_inv_executes [OF _ _ _ _ assms(8,6)] by blast
next
  case (calls n c b k r n' c' p st)
  then show ?case using boot_inv_calls [OF _ _ _ _ _ assms(5-7)] by simp
next
  case (returns n c b k)
  then show ?case using boot_inv_returns [OF _ _ _ _ assms(9)] by simp
next
  case (elapses n c b k i)
  then have "unat T + n + i < 2 ^ 64" by linarith
  with elapses show ?case by (intro boot_inv_elapses) simp_all
next
  case (interrupts n c b k st)
  then show ?case using boot_inv_interrupts [OF _ _ _ _ assms(5-7)] by fastforce
qed

subsection \<open>Reaching the end\<close>

lemma boot_ends:
  assumes "main_setup cfg H M (platform b0) = Some st" and "place b0 = At 0"
  shows "\<exists>b. boot_reach B cfg H M C P D b0 (15 * (D + 1)) 0 b \<and> place b = Stopped"
proof -
  let ?R = "boot_reach B cfg H M C P D b0"
  have step: "\<exists>b'. ?R n c b' \<and> place b' = p \<and> platform b' = platform b"
    if R: "?R n c b" "place b = At k" and k: "k < 8" "k \<noteq> 3" "p = (if k = 7 then Stopped else At (Suc k))"
    for n c b k p
  proof -
    obtain b' where "execute k (init_section B ! k) b = Some b'" "place b' = p" "platform b' = platform b"
      using k less_8_cases [of k]
      by (cases "EXTRA_BASE B") (auto simp: init_section_def set_reg_def)
    moreover from this(1) have "?R n c b'" using boot_reach.executes [OF R] k(1) by simp
    ultimately show ?thesis by blast
  qed
  obtain b1 where "?R 0 0 b1" "place b1 = At 1" "platform b1 = platform b0"
    using step [OF boot_reach.begins assms(2), of "At 1"] by auto
  then obtain b2 where "?R 0 0 b2" "place b2 = At 2" "platform b2 = platform b0"
    using step [of 0 0 b1 1 "At 2"] by auto
  then obtain b3 where b3: "?R 0 0 b3" "place b3 = At 3" "platform b3 = platform b0"
    using step [of 0 0 b2 2 "At 3"] by auto
  let ?b4 = "set_reg Ra (code_address B 4) b3\<lparr>place := In_main Finished, platform := main_finish st\<rparr>"
  have main: "firmware_reach cfg H M C P D (platform b3) (15 * (D + 1)) 0 Finished (main_finish st)"
    unfolding b3(3) by (rule firmware_reach_finish [OF assms(1)])
  have "?R (0 + 15 * (D + 1)) (0 + 0)
      (set_reg Ra (code_address B (Suc 3)) b3\<lparr>place := In_main Finished, platform := main_finish st\<rparr>)"
    by (rule boot_reach.calls [OF b3(1,2) _ _ main]) (simp_all add: init_section_def)
  then have "?R (15 * (D + 1)) 0 ?b4" by simp
  then have "?R (15 * (D + 1)) 0 (?b4\<lparr>place := At 4\<rparr>)"
    by (rule boot_reach.returns) (simp_all add: set_reg_def)
  then obtain b5 where "?R (15 * (D + 1)) 0 b5" "place b5 = At 5"
    using step [of _ 0 "?b4\<lparr>place := At 4\<rparr>" 4 "At 5"] by auto
  then obtain b6 where "?R (15 * (D + 1)) 0 b6" "place b6 = At 6"
    using step [of _ 0 b5 5 "At 6"] by auto
  then obtain b7 where "?R (15 * (D + 1)) 0 b7" "place b7 = At 7"
    using step [of _ 0 b6 6 "At 7"] by auto
  then show ?thesis using step [of _ 0 b7 7 Stopped] by auto
qed

subsection \<open>Properties\<close>

lemma boot_inv_facts:
  assumes "boot_inv B H W C P D base T n b"
  shows "place b \<notin> At ` {..3} \<Longrightarrow>
      regfile b Sp = 2 ^ FIRM_ADDR_W B \<and> regfile b Gp = 0x800 \<and> regfile b Ra = code_address B 4 \<and>
      bit (csr_value H CSR_MSTATUS (hart_state (platform b))) 3 \<and> system_ok C P D (driver (platform b))"
    and "stores b = (if place b \<in> {At 7, Stopped} then [(boot_address B, 3)] else [])"
    and "place b \<in> insert Stopped (At ` {4..}) \<Longrightarrow> Uart_finish \<in> set (events (platform b))"
  using assms
  by (auto simp: boot_inv_def regs_before_def regs_after_def running_def firmware_inv_def hart_running_def
      split: place.splits if_splits)

text \<open>C30: the firmware image from its first instruction, on RV32, however instructions, the passing
  of clock cycles and interrupts interleave (while \<open>mtime\<close> is far from wrapping), for every memory
  size below \<open>2 ^ 31\<close> bytes and a hart that starts with interrupts off, as after reset. From the call
  of \<open>main\<close> on, the stack pointer is exactly the end of the memory, also where the lower 12 bits are
  negative as an immediate, \<open>gp\<close> is 0x800, \<open>ra\<close> leads back behind the call, interrupts are enabled and
  the device works. The only store of the code is that of the reset request 3 at \<open>BOOTCTR_BASE\<close> (with
  the bits of \<open>EXTRA_BASE\<close> under \<open>RUN_EXTMEM\<close>): it has happened exactly when the run is at \<open>ebreak\<close> or
  behind it, after \<open>main\<close> closed the UART and returned. And the run can reach its end.\<close>

theorem start_up_correct:
  fixes l64 :: "'x::len word \<Rightarrow> soc \<Rightarrow> (u64 \<times> soc) option" and b0 :: "('h, 'x word) board"
  assumes "place b0 = At 0" and "stores b0 = []"
    and "csr_file H W firmware_csrs (hart_state (platform b0))" and "firmware_bits W"
    and "\<not> bit (csr_value H CSR_MSTATUS (hart_state (platform b0))) 3"
    and "soc_inv C P D (CLINT0_BASE cfg) (dev (driver (platform b0)))"
    and "LENGTH('x) = 32" and "15 * (D + 1) < 100000"
    and "FIRM_ADDR_W B < 31" and "inj_on (code_address B) {..<8}"
  shows "(\<forall>n c b. boot_reach B cfg H (soc_mmio C P l64 s64) C P D b0 n c b \<longrightarrow>
     unat (mtime (rtl (dev (driver (platform b0))))) + n + 200000 < 2 ^ 64 \<longrightarrow>
     (place b \<notin> At ` {..3} \<longrightarrow>
        regfile b Sp = 2 ^ FIRM_ADDR_W B \<and> regfile b Gp = 0x800 \<and> regfile b Ra = code_address B 4 \<and>
        bit (csr_value H CSR_MSTATUS (hart_state (platform b))) 3 \<and> system_ok C P D (driver (platform b))) \<and>
     stores b = (if place b \<in> {At 7, Stopped}
       then [(of_int (case EXTRA_BASE B of Some e \<Rightarrow> BOOTCTR_BASE B OR e | None \<Rightarrow> BOOTCTR_BASE B), 3)]
       else []) \<and>
     (place b \<in> {At 7, Stopped} \<longrightarrow> Uart_finish \<in> set (events (platform b))))
   \<and> (\<exists>b. boot_reach B cfg H (soc_mmio C P l64 s64) C P D b0 (15 * (D + 1)) 0 b \<and> place b = Stopped)"
proof (rule conjI, intro allI impI)
  let ?T = "mtime (rtl (dev (driver (platform b0))))"
  have start: "booting H W C P D (CLINT0_BASE cfg) ?T 0 (platform b0)"
    using assms(3,5,6) by (simp add: booting_def)
  fix n c b
  assume reach: "boot_reach B cfg H (soc_mmio C P l64 s64) C P D b0 n c b"
    and time: "unat ?T + n + 200000 < 2 ^ 64"
  note facts = boot_inv_facts [OF boot_reach_inv [OF reach assms(1,2) start assms(4,7-10) time]]
  show "(place b \<notin> At ` {..3} \<longrightarrow>
        regfile b Sp = 2 ^ FIRM_ADDR_W B \<and> regfile b Gp = 0x800 \<and> regfile b Ra = code_address B 4 \<and>
        bit (csr_value H CSR_MSTATUS (hart_state (platform b))) 3 \<and> system_ok C P D (driver (platform b))) \<and>
     stores b = (if place b \<in> {At 7, Stopped}
       then [(of_int (case EXTRA_BASE B of Some e \<Rightarrow> BOOTCTR_BASE B OR e | None \<Rightarrow> BOOTCTR_BASE B), 3)]
       else []) \<and>
     (place b \<in> {At 7, Stopped} \<longrightarrow> Uart_finish \<in> set (events (platform b)))"
    using facts unfolding boot_address_def by auto
next
  have "6 * (D + 1) < 2 ^ 32" using assms(8) by simp
  then obtain st where "main_setup cfg H (soc_mmio C P l64 s64) (platform b0) = Some st"
    using main_setup_rtl [OF assms(3) _ _ assms(6,7), of l64 s64] assms(4)
    unfolding firmware_bits_def by blast
  from boot_ends [OF this assms(1)]
  show "\<exists>b. boot_reach B cfg H (soc_mmio C P l64 s64) C P D b0 (15 * (D + 1)) 0 b \<and> place b = Stopped"
    by blast
qed

text \<open>Memory sizes of 2 KiB and 64 KiB, without and with \<open>RUN_EXTMEM\<close>.\<close>

definition demo_boot_config :: "nat \<Rightarrow> int option \<Rightarrow> u32 boot_config" where
  "demo_boot_config w e =
     \<lparr>FIRM_ADDR_W = w, BOOTCTR_BASE = 0x40000000, EXTRA_BASE = e, code_address = (\<lambda>k. of_nat (4 * k))\<rparr>"

definition demo_board :: "(csr \<Rightarrow> u32, u32) board" where
  "demo_board = \<lparr>place = At 0, regfile = (\<lambda>_. 0), stores = [], platform = demo_machine 0 5 [3, 0, 7]\<rparr>"

lemma start_up_correct_witness:
  "\<exists>b b'. boot_reach (demo_boot_config 11 None) demo_config (demo_hart Machine) demo_mmio std_cells
      default_params 7 demo_board 120 0 b \<and> regfile b Sp = 0x800 \<and> stores b = [(0x40000000, 3)] \<and>
     boot_reach (demo_boot_config 16 (Some 0x80000000)) demo_config (demo_hart Machine) demo_mmio std_cells
      default_params 7 demo_board 120 0 b' \<and> regfile b' Sp = 0x10000 \<and> stores b' = [(0xC0000000, 3)]"
proof -
  have inj: "inj_on (\<lambda>k. of_nat (4 * k) :: u32) {..<8}"
    by (rule inj_onI) (auto dest!: less_8_cases)
  have mie: "\<not> bit (csr_value (demo_hart Machine) CSR_MSTATUS (hart_state (platform demo_board))) 3"
    by (simp add: demo_hart_def demo_board_def demo_machine_def)
  have time: "mtime (rtl (dev (driver (platform demo_board)))) = 5"
    using demo_firmware(4) by (simp add: demo_board_def)
  have ends: "\<exists>b. boot_reach (demo_boot_config w e) demo_config (demo_hart Machine) demo_mmio std_cells
      default_params 7 demo_board 120 0 b \<and> regfile b Sp = 2 ^ w \<and>
      stores b = [(of_int (case e of Some e \<Rightarrow> 0x40000000 OR e | None \<Rightarrow> 0x40000000), 3)]" if "w < 31" for w e
  proof -
    let ?B = "demo_boot_config w e"
    have B: "FIRM_ADDR_W ?B = w" "BOOTCTR_BASE ?B = 0x40000000" "EXTRA_BASE ?B = e"
        "inj_on (code_address ?B) {..<8}" "FIRM_ADDR_W ?B < 31"
      using inj that by (simp_all add: demo_boot_config_def)
    have start: "place demo_board = At 0" "stores demo_board = []"
        "soc_inv std_cells default_params 7 (CLINT0_BASE demo_config) (dev (driver (platform demo_board)))"
      using demo_firmware(2) by (simp_all add: demo_board_def)
    have bounds: "LENGTH(32) = 32" "15 * (7 + 1) < (100000::nat)" by simp_all
    note correct = start_up_correct [OF start(1,2) demo_csr_file demo_firmware(3) mie start(3) bounds B(5,4),
        of "\<lambda>_ _. None" "\<lambda>_ _ _. None", folded demo_mmio_def]
    obtain b where b: "boot_reach ?B demo_config (demo_hart Machine) demo_mmio std_cells default_params 7
        demo_board (15 * (7 + 1)) 0 b" "place b = Stopped"
      using correct [THEN conjunct2] by blast
    have "unat (mtime (rtl (dev (driver (platform demo_board))))) + 15 * (7 + 1) + 200000 < 2 ^ 64"
      by (simp add: time)
    from correct [THEN conjunct1, rule_format, OF b(1) this] b show ?thesis
      unfolding B(1-3) by (intro exI [of _ b]) (simp add: image_iff)
  qed
  from ends [of 11 None] ends [of 16 "Some 0x80000000"] show ?thesis by auto
qed

end
