(* ===== verification/Spec2Isabelle.thy ===== *)
theory Spec2Isabelle
  imports Clint_Interface Verilog_Tb Verilator_RTL Clint_Generator Clint_RV64 Csr_Access Csr_Fields Riscv_Interrupts Pc_Emulation Firmware_Interrupts Start_Up
begin

text \<open>
  A verification library for IOb-CLINT, a RISC-V core-local interrupt controller: its hardware
  (\<open>iob_clint.py\<close>, whose Verilog is the \<open>snippets\<close> and \<open>comb\<close> text), its C driver
  (\<open>software/src/iob_clint.c\<close>, \<open>iob_clint.h\<close>), the control-register header
  (\<open>software/src/riscv-csr.h\<close>), the interrupt numbers (\<open>riscv-interrupts.h\<close>), the host
  emulation (\<open>iob_clint_csrs_pc_emul.c\<close>), the example firmware (\<open>example_firmware.c\<close>,
  \<open>example_firmware.S\<close>) and the two testbenches (\<open>iob_clint_tb.v\<close>, \<open>iob_clint_tb.cpp\<close>).

  How the parts interact. The firmware calls the driver and the control-register functions; the
  driver accesses the device through volatile 32-bit loads and stores; each of them is one bus
  transaction with the RTL, which keeps \<open>mtime\<close>, the compare registers and the software interrupt
  bits and drives the interrupt lines of the harts. The testbenches drive the same RTL directly:
  the Verilog one cycle by cycle, the C++ one through a Verilated object whose clock it toggles.

  Theories, from the bottom up.

  \<^item> \<open>Prelude\<close>: halves of a 64-bit register, and the arithmetic of reading it in two parts
    (a value with the same high half at two instants is the value at an instant between).
  \<^item> \<open>Clint_RTL\<close>: one definition per \<open>always\<close> block or assignment (\<open>next_rdata\<close>,
    \<open>next_mtimecmp\<close>, \<open>next_mtime\<close>, \<open>next_msip\<close>, \<open>counter_e\<close>, \<open>mtip_o\<close>, ...), composed into a clock
    edge \<open>clint_cycle\<close> on the record \<open>clint\<close> of all registers. A vector indexed by the hart is a
    list. The \<open>iob_counter\<close> core and the flip-flops the generator infers are not in the repository:
    they are the parameter \<open>cells\<close>, with their documented behaviour as \<open>cells_ok\<close>.
  \<^item> \<open>Clint_Timer\<close>: the prescaler; the exact number of ticks after \<open>n\<close> cycles and the range of
    \<open>FREQ\<close> for which there are any.
  \<^item> \<open>Clint_Spec\<close>: the abstract device (\<open>aclint_step\<close>: a write changes one named register, time
    may pass), the simulation of it by the RTL, and what registers hold after any traffic.
  \<^item> \<open>Clint_Bus\<close>: the bus tasks of \<open>iob_clint_tb.v\<close> and the platform: a processor access is one
    transaction after an arbitrary number of idle cycles, at most \<open>D\<close>, so every theorem about the
    driver holds for every interleaving of its accesses with the running timer. The platform
    records the state after each cycle, so that properties of the states in between can be stated.
  \<^item> \<open>Clint_Interface\<close>: what the ports show: the timer interrupt's exact cycle, reset values, bus
    reads, and two deviations of the bus interface.
  \<^item> \<open>Clint_Deadline\<close>: the device as a testbench sets it up: the time after any number of cycles since
    a reset for every \<open>FREQ\<close> (\<open>clocked\<close>), one armed compare register (\<open>armed\<close>), the interrupt lines.
  \<^item> \<open>Verilog_Tb\<close>: the \<open>initial\<close> block of \<open>iob_clint_tb.v\<close> around the RTL, and its outcome and
    complete output for every \<open>FREQ\<close>.
  \<^item> \<open>Verilator_Tb\<close>: \<open>iob_clint_tb.cpp\<close>, function by function, over the \<open>eval\<close> method of the generated
    class; what the program relies on is the locale \<open>verilated_dut\<close> (a rising edge is one step of
    the device), in which its functions and \<open>main\<close> are proved once. Undefined behaviour is a value
    of \<open>tb_error\<close>, not returning is \<open>None\<close>. \<open>Verilator_RTL\<close>: the interpretation by the RTL, the
    outcome of \<open>main\<close>, and the agreement of the transactions of the two testbenches.
  \<^item> \<open>Clint_Generator\<close>: the description \<open>setup\<close> returns (parameters, ports, wires, sub-blocks, software
    modules with the device tree), and that it fits the RTL model: every declared width, against the
    bits the signal carries in the model (\<open>signal_value\<close>), the connections of the counter, the
    interrupt numbers.
  \<^item> \<open>Clint_Driver\<close>: the driver, function by function, over the record \<open>mmio\<close> of volatile accesses.
    C \<open>int\<close> address arithmetic is range-checked; the polling loop is a \<open>partial_function\<close>, so that
    not returning is \<open>None\<close>.
  \<^item> \<open>Clint_Device\<close>: the contract between driver and device as the locale \<open>clint_device\<close> (what a
    load returns, what a store changes, how far time runs meanwhile) and the driver's
    specifications, proved once inside it.
  \<^item> \<open>Clint_System\<close>: the interpretation of that locale by the RTL behind its bus, and the driver's
    properties on the RTL's registers.
  \<^item> \<open>Clint_RV64\<close>: the RV64 branches, on an interconnect that makes two transfers of a 64-bit
    access (\<open>split_ports\<close>), as a 32-bit bus needs: what the single accesses are worth there.
  \<^item> \<open>Riscv_ISA\<close>: the Zicsr instructions of the inline assembly on a hart whose registers are the
    parameter \<open>hart\<close>, with the access rules of the privileged architecture outside virtual machines:
    privilege, read-only and debug registers, the counter enables, \<open>mstatus.FS\<close> and \<open>mstatus.TVM\<close>.
  \<^item> \<open>Csr_Machine\<close>, \<open>Csr_Supervisor_User\<close>, \<open>Csr_Counters_Hypervisor\<close>, \<open>Csr_Platform\<close>: the 367
    inline functions, 51 immediate macros and 69 field groups of \<open>riscv-csr.h\<close>, in its order.
  \<^item> \<open>Csr_Access\<close>: the locale \<open>csr_contract\<close> of the seven register accessors with its consequences
    (critical sections, swaps), interpreted for XLEN-wide and for 32-bit registers; tables of the
    header's functions, when they trap, and what the immediate macros of all 17 registers do. \<open>Csr_Fields\<close>: consistency of the field macros.
  \<^item> \<open>Riscv_Interrupts\<close>, \<open>Pc_Emulation\<close>: the two small files.
  \<^item> \<open>Firmware\<close>: \<open>main\<close> and \<open>irq_entry\<close> on a hart, the driver and a trace of external calls; what the
    set-up leaves, and that the handler lowers the line it was entered for.
  \<^item> \<open>Firmware_Interrupts\<close>: the running firmware as a step relation (\<open>firmware_reach\<close>) in which
    clock cycles pass and a pending interrupt is taken at any point, with trap entry and return of the
    hart; its invariant, the interrupt rate, and that the tick goes on.
  \<^item> \<open>Start_Up\<close>: \<open>example_firmware.S\<close> as a list of instructions (\<open>init_section\<close>) and its execution as a
    step relation (\<open>boot_reach\<close>) that calls \<open>main\<close> (a run of \<open>firmware_reach\<close>) and takes interrupts
    outside it; its invariant: stack pointer, return address, the one store of the reset request.

  Bounds. \<open>D\<close> bounds the idle cycles before an access; a theorem needs it only where a 32-bit half
  must not wrap twice during a call (\<open>6 * (D + 1) < 2 ^ 32\<close> cycles, 43 seconds at 100 MHz) or
  where a deadline must not pass during the handler. \<open>N_CORES\<close> ranges over 1 to 8, the
  range its \<open>confs\<close> entry allows. There is no fuel: the polling loop is shown to return
  after at most two rounds, and the main loops of the testbenches to end, after 250001 rounds
  (Verilog) and at 306695850 ns or in the first interrupt (C++), for every \<open>FREQ\<close>.

  Deviations found are theorems as well: \<open>get_timer_can_be_torn\<close>, \<open>set_timer_can_lose_carry\<close>,
  \<open>mtime_stuck_at_zero\<close>, \<open>seconds_to_clocks_range\<close>, \<open>rvalid_repeats_after_write\<close>, \<open>write_strobes_ignored\<close>,
  \<open>parametric_masks_are_one_bit\<close>, \<open>verilator_testbench_outcome\<close> (a store outside the variable),
  \<open>verilog_testbench_outcome\<close> (the test passes on a device without a working timer),
  \<open>rv64_on_32_bit_bus\<close> (the single accesses of the RV64 branches are two transfers).

  Not modelled: the processor's pipeline and the interconnect (beyond the platform of
  \<open>Clint_Bus\<close>); how a 64-bit access of an RV64 core reaches the 32-bit device, a parameter of
  \<open>soc_mmio\<close>; interrupts before \<open>main\<close> has enabled them (\<open>mstatus.MIE\<close> is 0 after a hart reset, and
  the start-up code is proved from there); what follows the reset request and \<open>ebreak\<close>; control
  registers in virtual machines and the gates of later extensions (\<open>Riscv_ISA\<close>);
  what \<open>uart_init\<close>, \<open>printf\<close> and \<open>uart_finish\<close> do beyond being called; the VCD traces and
  \<open>sc_time_stamp\<close> of the C++ testbench; delays of the Verilog testbench below a clock cycle; the
  generator py2hwsw, and the describing texts and \<open>isvar\<close> flags in \<open>iob_clint.py\<close>; the simulation
  wrapper (port wiring from generated include files) and the build scripts.
\<close>

end
